(* ===== verification/Prelude.thy ===== *)
theory Prelude
  imports Complex_Main "HOL-Library.AList"
begin

text \<open>
  The run-time vocabulary the web client's code shares: JavaScript values as they come out of
  \<open>JSON.parse\<close>, truthiness, property reads, the string operations the sources use, and the
  insertion-ordered \<open>Map\<close> / \<open>Record\<close> as an association list.

  Conventions of the whole development:
  \<^item> a JavaScript \<open>number\<close> that crosses the wire is a \<open>num\<close>, an exact real: the rounding of
    IEEE doubles, NaN and the infinities (none of which JSON can carry) are outside the model;
    counters that the client itself only sets to 0 and increments are \<open>nat\<close>;
  \<^item> a string is a list of code units below 256 (\<open>string\<close>); case mapping is that of ASCII;
  \<^item> \<open>Map\<close> and \<open>Record<string, _>\<close> are association lists in insertion order, updated in place
    (the reordering of integer-like keys of plain objects and the keys an object inherits from
    its prototype are outside the model: the ids are hashes and UUIDs).
\<close>

named_theorems wf_intros "operations keep a component's well-formedness"
named_theorems frame_simps "fields an operation leaves unchanged"

section \<open>JavaScript values\<close>

type_synonym num = real

datatype jsval =
    JUndefined
  | JNull
  | JBool bool
  | JNum num
  | JStr string
  | JArr "jsval list"
  | JObj "(string \<times> jsval) list"

fun truthy :: "jsval \<Rightarrow> bool" where
  "truthy JUndefined = False"
| "truthy JNull = False"
| "truthy (JBool b) = b"
| "truthy (JNum x) = (x \<noteq> 0)"
| "truthy (JStr s) = (s \<noteq> [])"
| "truthy (JArr xs) = True"
| "truthy (JObj kvs) = True"

text \<open>\<open>typeof v === 'object'\<close> holds of null, arrays and objects.\<close>

fun typeof_object :: "jsval \<Rightarrow> bool" where
  "typeof_object JNull = True"
| "typeof_object (JArr xs) = True"
| "typeof_object (JObj kvs) = True"
| "typeof_object _ = False"

fun typeof_string :: "jsval \<Rightarrow> bool" where
  "typeof_string (JStr s) = True"
| "typeof_string _ = False"

fun typeof_number :: "jsval \<Rightarrow> bool" where
  "typeof_number (JNum x) = True"
| "typeof_number _ = False"

text \<open>
  Reading a named property: undefined where there is none. On an array, a string, a number or a
  boolean the names this program reads are undefined; on null and undefined JavaScript raises,
  and every read in the modelled code is guarded against those two.
\<close>

fun js_prop :: "jsval \<Rightarrow> string \<Rightarrow> jsval" where
  "js_prop (JObj kvs) k = (case map_of kvs k of None \<Rightarrow> JUndefined | Some v \<Rightarrow> v)"
| "js_prop _ k = JUndefined"

fun str_or :: "string \<Rightarrow> jsval \<Rightarrow> string" where
  "str_or d (JStr s) = s"
| "str_or d _ = d"

fun num_or :: "num \<Rightarrow> jsval \<Rightarrow> num" where
  "num_or d (JNum x) = x"
| "num_or d _ = d"

fun arr_or_empty :: "jsval \<Rightarrow> jsval list" where
  "arr_or_empty (JArr xs) = xs"
| "arr_or_empty _ = []"

fun is_array :: "jsval \<Rightarrow> bool" where
  "is_array (JArr xs) = True"
| "is_array _ = False"

text \<open>A string-or-null that is used as a condition: null and the empty string are falsy.\<close>

fun str_truthy :: "string option \<Rightarrow> bool" where
  "str_truthy None = False"
| "str_truthy (Some s) = (s \<noteq> [])"

section \<open>Strings\<close>

text \<open>
  The code units below 256 that \<open>String.prototype.trim\<close> and \<open>\s\<close> treat as white space.
\<close>

definition js_space :: "char \<Rightarrow> bool" where
  "js_space c \<longleftrightarrow> (of_char c :: nat) \<in> {9, 10, 11, 12, 13, 32, 160}"

definition js_trim :: "string \<Rightarrow> string" where
  "js_trim s = rev (dropWhile js_space (rev (dropWhile js_space s)))"

definition js_slice :: "string \<Rightarrow> nat \<Rightarrow> nat \<Rightarrow> string" where
  "js_slice s a b = take (b - a) (drop a s)"

definition js_upper_char :: "char \<Rightarrow> char" where
  "js_upper_char c = (let n = (of_char c :: nat) in if 97 \<le> n \<and> n \<le> 122 then char_of (n - 32) else c)"

definition js_upper :: "string \<Rightarrow> string" where
  "js_upper s = map js_upper_char s"

definition js_lower_char :: "char \<Rightarrow> char" where
  "js_lower_char c = (let n = (of_char c :: nat) in if 65 \<le> n \<and> n \<le> 90 then char_of (n + 32) else c)"

definition js_lower :: "string \<Rightarrow> string" where
  "js_lower s = map js_lower_char s"

definition js_starts_with :: "string \<Rightarrow> string \<Rightarrow> bool" where
  "js_starts_with s p \<longleftrightarrow> take (length p) s = p"

fun js_includes :: "string \<Rightarrow> string \<Rightarrow> bool" where
  "js_includes [] p = (p = [])"
| "js_includes (c # cs) p = (js_starts_with (c # cs) p \<or> js_includes cs p)"

text \<open>\<open>s || d\<close> on strings: the empty string is falsy.\<close>

definition text_or :: "string \<Rightarrow> string \<Rightarrow> string" where
  "text_or d s = (if s = [] then d else s)"

text \<open>The decimal digits a template literal prints of a natural number.\<close>

fun decimal :: "nat \<Rightarrow> string" where
  "decimal n =
     (if n < 10 then [char_of (48 + n)] else decimal (n div 10) @ [char_of (48 + n mod 10)])"

lemma dropWhile_idem: "dropWhile P (dropWhile P xs) = dropWhile P xs"
  by (induction xs) auto

lemma js_trim_hd: "js_trim s \<noteq> [] \<Longrightarrow> \<not> js_space (hd (js_trim s))"
proof -
  define t where "t = dropWhile js_space s"
  assume "js_trim s \<noteq> []"
  then have ne: "dropWhile js_space (rev t) \<noteq> []" by (simp add: js_trim_def t_def)
  have "rev t = takeWhile js_space (rev t) @ dropWhile js_space (rev t)" by simp
  then have "t = rev (dropWhile js_space (rev t)) @ rev (takeWhile js_space (rev t))"
    by (metis rev_append rev_rev_ident)
  with ne have "hd t = hd (rev (dropWhile js_space (rev t)))" and "t \<noteq> []"
    by (metis hd_append2 rev_is_Nil_conv, auto)
  moreover from \<open>t \<noteq> []\<close> have "\<not> js_space (hd t)"
    unfolding t_def by (rule hd_dropWhile)
  ultimately show ?thesis by (simp add: js_trim_def t_def)
qed

lemma js_trim_idem [simp]: "js_trim (js_trim s) = js_trim s"
proof (cases "js_trim s = []")
  case True
  show ?thesis by (simp only: True) (simp add: js_trim_def)
next
  case False
  then have "\<not> js_space (hd (js_trim s))" by (rule js_trim_hd)
  with False have "dropWhile js_space (js_trim s) = js_trim s"
    by (cases "js_trim s") auto
  then show ?thesis
    by (metis (no_types, lifting) dropWhile_idem js_trim_def rev_rev_ident)
qed

lemma js_trim_Nil [simp]: "js_trim [] = []"
  by (simp add: js_trim_def)

lemma js_trim_length: "length (js_trim s) \<le> length s"
proof -
  have "length (js_trim s) \<le> length (dropWhile js_space s)"
    unfolding js_trim_def by (metis length_dropWhile_le length_rev)
  also have "\<dots> \<le> length s" by (rule length_dropWhile_le)
  finally show ?thesis .
qed

section \<open>Lists and options\<close>

lemma option_eqI: "(\<And>v. x = Some v \<longleftrightarrow> y = Some v) \<Longrightarrow> x = y"
  by (metis not_None_eq)

lemma distinct_map_insort_key:
  "distinct (map f (insort_key g x xs)) \<longleftrightarrow> f x \<notin> f ` set xs \<and> distinct (map f xs)"
  by (induction xs) (auto simp: set_insort_key)

lemma distinct_map_sort_key [simp]: "distinct (map f (sort_key g xs)) = distinct (map f xs)"
  by (induction xs) (auto simp: distinct_map_insort_key)

section \<open>Insertion-ordered maps\<close>

abbreviation js_get :: "('k \<times> 'v) list \<Rightarrow> 'k \<Rightarrow> 'v option" where
  "js_get \<equiv> map_of"

definition js_set :: "'k \<Rightarrow> 'v \<Rightarrow> ('k \<times> 'v) list \<Rightarrow> ('k \<times> 'v) list" where
  "js_set k v m = AList.update k v m"

definition js_delete :: "'k \<Rightarrow> ('k \<times> 'v) list \<Rightarrow> ('k \<times> 'v) list" where
  "js_delete k m = filter (\<lambda>p. fst p \<noteq> k) m"

definition js_keys :: "('k \<times> 'v) list \<Rightarrow> 'k list" where
  "js_keys m = map fst m"

definition js_values :: "('k \<times> 'v) list \<Rightarrow> 'v list" where
  "js_values m = map snd m"

lemma js_set_Nil [simp]: "js_set k v [] = [(k, v)]"
  by (simp add: js_set_def)

lemma js_set_Cons [simp]:
  "js_set k v ((k', v') # m) = (if k' = k then (k, v) # m else (k', v') # js_set k v m)"
  by (simp add: js_set_def)

lemma js_get_set [simp]: "js_get (js_set k v m) = (js_get m)(k \<mapsto> v)"
  by (simp add: js_set_def update_conv')

lemma js_keys_set: "js_keys (js_set k v m) = (if k \<in> set (js_keys m) then js_keys m else js_keys m @ [k])"
  by (simp add: js_keys_def js_set_def update_keys)

lemma set_js_keys_set [simp]: "set (js_keys (js_set k v m)) = insert k (set (js_keys m))"
  by (auto simp: js_keys_set)

lemma distinct_js_set [simp, intro]: "distinct (js_keys m) \<Longrightarrow> distinct (js_keys (js_set k v m))"
  by (auto simp: js_keys_set)

lemma js_set_other: "(k', v') \<in> set (js_set k v m) \<Longrightarrow> (k', v') = (k, v) \<or> (k', v') \<in> set m"
  by (induction m) (auto split: if_splits)

lemma js_set_mem: "(k, v) \<in> set (js_set k v m)"
  by (induction m) auto

lemma js_set_triv: "js_get m k = Some v \<Longrightarrow> js_set k v m = m"
  by (simp add: js_set_def update_triv)

lemma js_set_twice [simp]: "js_set k v (js_set k v' m) = js_set k v m"
  by (simp add: js_set_def)

lemma js_get_delete [simp]: "js_get (js_delete k m) = (js_get m)(k := None)"
  by (induction m) (auto simp: js_delete_def fun_eq_iff)

lemma set_js_keys_delete [simp]: "set (js_keys (js_delete k m)) = set (js_keys m) - {k}"
  by (auto simp: js_keys_def js_delete_def)

lemma distinct_js_delete [simp, intro]: "distinct (js_keys m) \<Longrightarrow> distinct (js_keys (js_delete k m))"
  by (auto simp: js_keys_def js_delete_def distinct_map inj_on_def)

lemma js_get_keys: "js_get m k = None \<longleftrightarrow> k \<notin> set (js_keys m)"
  by (simp add: js_keys_def map_of_eq_None_iff)

lemma js_get_Some_iff: "distinct (js_keys m) \<Longrightarrow> js_get m k = Some v \<longleftrightarrow> (k, v) \<in> set m"
  by (simp add: js_keys_def)

lemma js_keys_Nil [simp]: "js_keys [] = []"
  by (simp add: js_keys_def)

lemma js_keys_Cons [simp]: "js_keys (p # m) = fst p # js_keys m"
  by (simp add: js_keys_def)

lemma js_values_Nil [simp]: "js_values [] = []"
  by (simp add: js_values_def)

lemma js_values_Cons [simp]: "js_values (p # m) = snd p # js_values m"
  by (simp add: js_values_def)

text \<open>\<open>existing.map((x) => x.id === k ? f(x) : x)\<close>, the update-by-id of the stores.\<close>

definition map_where :: "('a \<Rightarrow> bool) \<Rightarrow> ('a \<Rightarrow> 'a) \<Rightarrow> 'a list \<Rightarrow> 'a list" where
  "map_where p f xs = map (\<lambda>x. if p x then f x else x) xs"

lemma map_where_proj: "(\<And>x. g (f x) = g x) \<Longrightarrow> map g (map_where p f xs) = map g xs"
  by (induction xs) (auto simp: map_where_def)

lemma map_where_mem: "y \<in> set (map_where p f xs) \<Longrightarrow> (\<exists>x\<in>set xs. y = f x) \<or> y \<in> set xs"
  by (auto simp: map_where_def)

lemma map_where_Nil [simp]: "map_where p f [] = []"
  by (simp add: map_where_def)

lemma map_where_Cons [simp]: "map_where p f (x # xs) = (if p x then f x else x) # map_where p f xs"
  by (simp add: map_where_def)

lemma length_map_where [simp]: "length (map_where p f xs) = length xs"
  by (simp add: map_where_def)

end
