(* ===== verification/Types.thy ===== *)
theory Types
  imports Prelude
begin

text \<open>
  The wire types of \<open>web/src/types/index.ts\<close>, one record per interface. Optional properties are
  \<open>option\<close> fields, \<open>None\<close> for an absent (or undefined) property. \<open>Record<string, string[]>\<close> is
  an insertion-ordered association list.
\<close>

type_synonym reaction_map = "(string \<times> string list) list"

record chat_message =
  msg_id :: string
  sender :: string
  sender_name :: string
  timestamp :: num
  content :: string
  reply_to :: "string option"
  edited_at :: "num option"
  deleted :: "bool option"
  reactions :: "reaction_map option"
  pinned :: "bool option"

record room =
  room_id :: string
  room_name :: string
  messages :: "chat_message list"
  members :: num
  unread :: nat
  isDM :: "bool option"
  dmPeerId :: "string option"
  dmPeerName :: "string option"

datatype peer_state = Connected | Degraded

record mesh_peer =
  peer_id :: string
  peer_name :: string
  peer_short_id :: string
  transport :: string
  latency_ms :: num
  peer_state :: peer_state
  connected_at :: num
  connected_via :: "string option"

record voice_member =
  vm_id :: string
  vm_name :: string
  vm_short_id :: string
  speaking :: bool
  muted :: "bool option"

record voice_channel =
  vc_id :: string
  vc_name :: string
  vc_members :: "voice_member list"

text \<open>
  \<open>setCotContacts\<close> also reads a \<open>sender_id\<close> the interface does not declare; it is a field here.
\<close>

record cot_contact =
  contact_sender_id :: "string option"
  uid :: string
  callsign :: string
  contact_short_id :: string
  contact_cot_type :: string
  contact_lat :: num
  contact_lon :: num
  contact_hae :: num
  contact_ce :: num
  contact_time :: num
  contact_stale :: num

definition contactHasPosition :: "cot_contact \<Rightarrow> bool" where
  "contactHasPosition c \<longleftrightarrow> contact_lat c \<noteq> 0 \<or> contact_lon c \<noteq> 0"

record cot_marker =
  marker_id :: string
  creator_id :: string
  creator_name :: string
  marker_lat :: num
  marker_lon :: num
  marker_hae :: num
  marker_ce :: num
  marker_le :: num
  marker_name :: string
  marker_icon :: string
  marker_color :: string
  marker_cot_type :: string
  how :: string
  created_at :: num
  marker_stale :: num
  remarks :: string

record room_info_data =
  info_room_id :: string
  info_name :: string
  info_members :: num
  is_public :: bool

record geo_position =
  lat :: num
  lon :: num
  hae :: num
  ce :: num

end
