(* ===== verification/ChatState.thy ===== *)
theory ChatState
  imports Types
begin

text \<open>
  The state of the zustand store \<open>useChatStore\<close> (\<open>web/src/store/chatStore.ts\<close>): one record
  field per property of \<open>ChatStore\<close>, with the names of the source, and its initial value. The
  operations are in \<open>RoomStore\<close> (rooms and messages), \<open>PeerStore\<close> (mesh peers, CoT contacts and
  markers), \<open>VoiceStore\<close> (voice channels) and \<open>NavStore\<close> (layout and navigation). Every setter
  of the store is a function from the state to the state: zustand's \<open>set\<close> is atomic.
\<close>

datatype menu_route = Home | SettingsRoute | JoinRoomRoute | MeshRoute

datatype context_route = ListRoute | ChatRoute string

text \<open>
  \<open>activeVoice\<close> is the pair of room and channel id. \<open>mapControls\<close> holds four closures over one
  map instance; the model keeps which instance registered them.
\<close>

record chat_state =
  userId :: string
  shortId :: string
  displayName :: string
  rooms :: "(string \<times> room) list"
  activeRoomId :: "string option"
  availableRooms :: "room_info_data list"
  connected :: bool
  meshPeers :: "(string \<times> mesh_peer list) list"
  voiceState :: "(string \<times> voice_channel list) list"
  activeVoice :: "(string \<times> string) option"
  localSpeaking :: bool
  voiceMuted :: bool
  selfPosition :: "geo_position option"
  cotContacts :: "(string \<times> cot_contact list) list"
  cotMarkers :: "(string \<times> cot_marker list) list"
  mapViewerOpen :: bool
  voiceError :: "string option"
  mapControls :: "nat option"
  menuOpen :: bool
  menuRoute :: menu_route
  drawerSnap :: num
  contextSurfaceHidden :: bool
  contextStack :: "context_route list"

definition init_chat :: chat_state where
  "init_chat =
     \<lparr> userId = [], shortId = [], displayName = [],
       rooms = [], activeRoomId = None, availableRooms = [], connected = False,
       meshPeers = [], voiceState = [], activeVoice = None, localSpeaking = False,
       voiceMuted = False, selfPosition = None, cotContacts = [], cotMarkers = [],
       mapViewerOpen = False, voiceError = None, mapControls = None, menuOpen = False,
       menuRoute = Home, drawerSnap = 1/4, contextSurfaceHidden = False,
       contextStack = [ListRoute] \<rparr>"

end
