(* ===== verification/Keyed.thy ===== *)
theory Keyed
  imports Prelude
begin

text \<open>
  The idiom \<open>const byId = new Map(); for (x of xs) byId.set(key(x), ...); Array.from(byId.values())\<close>
  that the store uses four times (messages, voice members, voice channels, CoT contacts).
  One locale states what the idiom needs of the key function and of the way a stored value and
  an incoming one are combined; the facts about the resulting list are proved once, inside it.
\<close>

definition keyed_step :: "('a \<Rightarrow> 'k) \<Rightarrow> ('a \<Rightarrow> 'a \<Rightarrow> 'a) \<Rightarrow> 'a \<Rightarrow> ('k \<times> 'a) list \<Rightarrow> ('k \<times> 'a) list" where
  "keyed_step key comb x m =
     js_set (key x) (case js_get m (key x) of None \<Rightarrow> x | Some prev \<Rightarrow> comb prev x) m"

definition keyed_merge :: "('a \<Rightarrow> 'k) \<Rightarrow> ('a \<Rightarrow> 'a \<Rightarrow> 'a) \<Rightarrow> 'a list \<Rightarrow> ('k \<times> 'a) list \<Rightarrow> ('k \<times> 'a) list" where
  "keyed_merge key comb xs m = fold (keyed_step key comb) xs m"

text \<open>\<open>new Map(xs.map((x) => [key(x), x]))\<close>: a later entry replaces the value of an earlier one.\<close>

definition map_from :: "('a \<Rightarrow> 'k) \<Rightarrow> 'a list \<Rightarrow> ('k \<times> 'a) list" where
  "map_from key xs = fold (\<lambda>x m. js_set (key x) x m) xs []"

definition well_keyed :: "('a \<Rightarrow> 'k) \<Rightarrow> ('k \<times> 'a) list \<Rightarrow> bool" where
  "well_keyed key m \<longleftrightarrow> distinct (js_keys m) \<and> list_all (\<lambda>(k, v). key v = k) m"

lemma well_keyed_Nil [simp]: "well_keyed key []"
  by (simp add: well_keyed_def)

lemma well_keyed_distinct: "well_keyed key m \<Longrightarrow> distinct (js_keys m)"
  by (simp add: well_keyed_def)

lemma well_keyed_values: "well_keyed key m \<Longrightarrow> map key (js_values m) = js_keys m"
  by (auto simp: well_keyed_def js_values_def js_keys_def list_all_iff)

lemma well_keyed_set:
  "well_keyed key m \<Longrightarrow> key v = k \<Longrightarrow> well_keyed key (js_set k v m)"
  by (auto simp: well_keyed_def list_all_iff dest!: js_set_other)

lemma well_keyed_get: "well_keyed key m \<Longrightarrow> js_get m k = Some v \<Longrightarrow> key v = k"
  by (auto simp: well_keyed_def list_all_iff dest!: map_of_SomeD)

lemma well_keyed_pairs: "well_keyed key m \<Longrightarrow> m = map (\<lambda>v. (key v, v)) (js_values m)"
  by (induction m) (auto simp: well_keyed_def)

lemma well_keyed_of_list: "distinct (map key xs) \<Longrightarrow> well_keyed key (map (\<lambda>v. (key v, v)) xs)"
  by (simp add: well_keyed_def js_keys_def list_all_iff comp_def)

lemma js_values_of_list [simp]: "js_values (map (\<lambda>v. (key v, v)) xs) = xs"
  by (simp add: js_values_def comp_def)

lemma js_keys_of_list [simp]: "js_keys (map (\<lambda>v. (key v, v)) xs) = map key xs"
  by (simp add: js_keys_def comp_def)

lemma js_get_of_list:
  "distinct (map key xs) \<Longrightarrow> x \<in> set xs \<Longrightarrow> js_get (map (\<lambda>v. (key v, v)) xs) (key x) = Some x"
  by (simp add: js_get_Some_iff)

lemma js_set_append_new: "k \<notin> set (js_keys m) \<Longrightarrow> js_set k v m = m @ [(k, v)]"
  by (induction m) auto

lemma map_from_fold:
  "distinct (js_keys m @ map key xs) \<Longrightarrow>
   fold (\<lambda>x m. js_set (key x) x m) xs m = m @ map (\<lambda>v. (key v, v)) xs"
  by (induction xs arbitrary: m) (auto simp: js_set_append_new js_keys_def)

lemma map_from_distinct: "distinct (map key xs) \<Longrightarrow> map_from key xs = map (\<lambda>v. (key v, v)) xs"
  by (simp add: map_from_def map_from_fold)

lemma well_keyed_map_from: "well_keyed key (map_from key xs)"
proof -
  have "well_keyed key m \<Longrightarrow> well_keyed key (fold (\<lambda>x m. js_set (key x) x m) xs m)" for m
    by (induction xs arbitrary: m) (auto intro: well_keyed_set)
  then show ?thesis by (simp add: map_from_def)
qed

lemma keys_map_from: "set (js_keys (map_from key xs)) = key ` set xs"
proof -
  have "set (js_keys (fold (\<lambda>x m. js_set (key x) x m) xs m)) = set (js_keys m) \<union> key ` set xs" for m
    by (induction xs arbitrary: m) auto
  then show ?thesis by (simp add: map_from_def)
qed

text \<open>Items that are all new and have keys of their own are appended as they are.\<close>

lemma merge_all_new:
  "distinct (js_keys m @ map key xs) \<Longrightarrow> keyed_merge key comb xs m = m @ map (\<lambda>v. (key v, v)) xs"
proof (induction xs arbitrary: m)
  case (Cons x xs)
  have new: "key x \<notin> set (js_keys m)" using Cons.prems by auto
  then have "js_get m (key x) = None" by (simp add: js_get_keys)
  then have "keyed_step key comb x m = m @ [(key x, x)]" using new by (simp add: keyed_step_def js_set_append_new)
  moreover have "distinct (js_keys (m @ [(key x, x)]) @ map key xs)" using Cons.prems by (auto simp: js_keys_def)
  ultimately show ?case using Cons.IH by (simp add: keyed_merge_def)
qed (simp add: keyed_merge_def)

section \<open>The interface: a key that combining keeps\<close>

locale keyed_collection =
  fixes key :: "'a \<Rightarrow> 'k"
    and comb :: "'a \<Rightarrow> 'a \<Rightarrow> 'a"
  assumes key_comb: "key p = key n \<Longrightarrow> key (comb p n) = key n"
begin

lemma step_well_keyed: "well_keyed key m \<Longrightarrow> well_keyed key (keyed_step key comb x m)"
  unfolding keyed_step_def
  by (rule well_keyed_set) (auto split: option.splits dest: well_keyed_get intro: key_comb)

lemma merge_well_keyed: "well_keyed key m \<Longrightarrow> well_keyed key (keyed_merge key comb xs m)"
  unfolding keyed_merge_def
  by (induction xs arbitrary: m) (auto intro: step_well_keyed)

lemma merge_distinct: "well_keyed key m \<Longrightarrow> distinct (map key (js_values (keyed_merge key comb xs m)))"
  by (metis merge_well_keyed well_keyed_distinct well_keyed_values)

lemma merge_keys: "set (js_keys (keyed_merge key comb xs m)) = set (js_keys m) \<union> key ` set xs"
  unfolding keyed_merge_def
  by (induction xs arbitrary: m) (auto simp: keyed_step_def)

lemma merge_value_keys:
  "well_keyed key m \<Longrightarrow>
   key ` set (js_values (keyed_merge key comb xs m)) = set (js_keys m) \<union> key ` set xs"
  by (metis image_set merge_keys merge_well_keyed well_keyed_values)

lemma step_other: "key x \<noteq> k \<Longrightarrow> js_get (keyed_step key comb x m) k = js_get m k"
  by (simp add: keyed_step_def)

lemma merge_other: "k \<notin> key ` set xs \<Longrightarrow> js_get (keyed_merge key comb xs m) k = js_get m k"
  unfolding keyed_merge_def
  by (induction xs arbitrary: m) (auto simp: step_other)

lemma merge_single_get:
  "js_get (keyed_merge key comb [x] m) (key x)
     = Some (case js_get m (key x) of None \<Rightarrow> x | Some prev \<Rightarrow> comb prev x)"
  by (simp add: keyed_merge_def keyed_step_def)

lemma step_get:
  "js_get (keyed_step key comb x m)
     = (js_get m)(key x \<mapsto> (case js_get m (key x) of None \<Rightarrow> x | Some prev \<Rightarrow> comb prev x))"
  by (simp add: keyed_step_def)

text \<open>Incoming items with different keys may arrive in either order.\<close>

lemma step_commute_get:
  "key x \<noteq> key y \<Longrightarrow>
   js_get (keyed_step key comb x (keyed_step key comb y m))
     = js_get (keyed_step key comb y (keyed_step key comb x m))"
  by (auto simp: step_get fun_eq_iff)

lemma merge_get:
  "distinct (map key xs) \<Longrightarrow> x \<in> set xs \<Longrightarrow>
   js_get (keyed_merge key comb xs m) (key x)
     = Some (case js_get m (key x) of None \<Rightarrow> x | Some prev \<Rightarrow> comb prev x)"
proof (induction xs arbitrary: m)
  case (Cons y ys)
  show ?case
  proof (cases "x = y")
    case True
    with Cons.prems have "key x \<notin> key ` set ys" by auto
    then show ?thesis
      using True by (auto simp: keyed_merge_def merge_other [unfolded keyed_merge_def] step_get)
  next
    case False
    with Cons.prems have "x \<in> set ys" and "key y \<noteq> key x" by auto
    then show ?thesis using Cons by (simp add: keyed_merge_def step_get)
  qed
qed simp

end

text \<open>Combining a value with itself, or twice with the same value, adds nothing.\<close>

locale idempotent_collection = keyed_collection +
  assumes comb_same: "comb n n = n"
    and comb_again: "comb (comb p n) n = comb p n"
begin

lemma step_again:
  "js_get m (key x) = Some (case q of None \<Rightarrow> x | Some prev \<Rightarrow> comb prev x) \<Longrightarrow>
   keyed_step key comb x m = m"
  by (cases q) (auto simp: keyed_step_def comb_same comb_again intro: js_set_triv)

lemma merge_absorbed:
  "(\<And>x. x \<in> set xs \<Longrightarrow> \<exists>q. js_get m (key x) = Some (case q of None \<Rightarrow> x | Some prev \<Rightarrow> comb prev x)) \<Longrightarrow>
   keyed_merge key comb xs m = m"
proof (induction xs)
  case (Cons x xs)
  from Cons.prems obtain q where "js_get m (key x) = Some (case q of None \<Rightarrow> x | Some prev \<Rightarrow> comb prev x)"
    by auto
  then have "keyed_step key comb x m = m" by (rule step_again)
  moreover have "keyed_merge key comb xs m = m"
    by (rule Cons.IH) (use Cons.prems in auto)
  ultimately show ?case by (simp add: keyed_merge_def)
qed (simp add: keyed_merge_def)

lemma merge_idem:
  assumes "distinct (map key xs)"
  shows "keyed_merge key comb xs (keyed_merge key comb xs m) = keyed_merge key comb xs m"
proof (rule merge_absorbed)
  fix x assume "x \<in> set xs"
  with assms show "\<exists>q. js_get (keyed_merge key comb xs m) (key x)
      = Some (case q of None \<Rightarrow> x | Some prev \<Rightarrow> comb prev x)"
    by (intro exI [of _ "js_get m (key x)"]) (rule merge_get)
qed

end

text \<open>Replacing the stored value by the incoming one, whatever the key, is such a combination.\<close>

definition replace_with :: "'a \<Rightarrow> 'a \<Rightarrow> 'a" where
  "replace_with p n = n"

lemma replacing: "idempotent_collection key replace_with"
  by unfold_locales (simp_all add: replace_with_def)

lemma replacing_keyed: "keyed_collection key replace_with"
  by unfold_locales (simp add: replace_with_def)

text \<open>Replacing merges only hold values that came in.\<close>

lemma replace_step_values:
  "set (js_values (keyed_step key replace_with x m)) \<subseteq> set (js_values m) \<union> {x}"
  by (auto simp: keyed_step_def replace_with_def js_values_def dest!: js_set_other split: option.splits)

lemma replace_merge_values:
  "set (js_values (keyed_merge key replace_with xs m)) \<subseteq> set (js_values m) \<union> set xs"
proof (induction xs arbitrary: m)
  case (Cons x xs)
  from Cons.IH [of "keyed_step key replace_with x m"] replace_step_values [of key x m]
  show ?case by (auto simp: keyed_merge_def)
qed (simp add: keyed_merge_def)

end
