(* ===== verification/RoomStore.thy ===== *)
theory RoomStore
  imports ChatState Keyed
begin

text \<open>
  Rooms and messages of \<open>web/src/store/chatStore.ts\<close>: \<open>mergeMessages\<close> and the operations
  \<open>setActiveRoom\<close> to \<open>addDMRoom\<close>. The well-formedness of a room (message ids distinct,
  messages in time order) and of the room table is kept by every operation; two locales state
  what an operation on one room, and a patch of one message, have to satisfy for that, and every
  operation interprets one of them. A room's messages abstract to a map from ids to messages,
  on which the operations are point updates.
\<close>

section \<open>Merging messages\<close>

definition or_else :: "'a option \<Rightarrow> 'a option \<Rightarrow> 'a option" where
  "or_else new old = (case new of None \<Rightarrow> old | Some v \<Rightarrow> Some v)"

text \<open>
  \<open>{ ...prev, ...msg }\<close>: a required property comes from \<open>msg\<close>, an optional one from \<open>msg\<close> where
  it is present and from \<open>prev\<close> otherwise.
\<close>

definition spread_message :: "chat_message \<Rightarrow> chat_message \<Rightarrow> chat_message" where
  "spread_message prev msg =
     \<lparr> msg_id = msg_id msg, sender = sender msg, sender_name = sender_name msg,
       timestamp = timestamp msg, content = content msg,
       reply_to = or_else (reply_to msg) (reply_to prev),
       edited_at = or_else (edited_at msg) (edited_at prev),
       deleted = or_else (deleted msg) (deleted prev),
       reactions = or_else (reactions msg) (reactions prev),
       pinned = or_else (pinned msg) (pinned prev) \<rparr>"

text \<open>The sort is stable (ECMAScript 2019), as \<open>sort_key\<close> is.\<close>

definition mergeMessages :: "chat_message list \<Rightarrow> chat_message list \<Rightarrow> chat_message list" where
  "mergeMessages existing incoming =
     sort_key timestamp
       (js_values (keyed_merge msg_id spread_message incoming (map_from msg_id existing)))"

lemma or_else_simps [simp]:
  "or_else (Some v) old = Some v" "or_else None old = old"
  "or_else new new = new" "or_else new (or_else new old) = or_else new old"
  by (auto simp: or_else_def split: option.splits)

interpretation msgs: idempotent_collection msg_id spread_message
  by unfold_locales (auto simp: spread_message_def)

definition message_map :: "chat_message list \<Rightarrow> string \<Rightarrow> chat_message option" where
  "message_map ms = js_get (map_from msg_id ms)"

definition messages_wf :: "chat_message list \<Rightarrow> bool" where
  "messages_wf ms \<longleftrightarrow> distinct (map msg_id ms) \<and> sorted (map timestamp ms)"

lemma messages_wf_merge: "messages_wf (mergeMessages existing incoming)"
  by (simp add: messages_wf_def mergeMessages_def msgs.merge_distinct
      well_keyed_map_from)

lemma message_map_wf:
  "distinct (map msg_id ms) \<Longrightarrow> message_map ms i = Some m \<longleftrightarrow> m \<in> set ms \<and> msg_id m = i"
  by (auto simp: message_map_def map_from_distinct js_get_Some_iff comp_def)

lemma message_map_same_set:
  assumes "distinct (map msg_id ms)" and "distinct (map msg_id ns)" and "set ms = set ns"
  shows "message_map ms = message_map ns"
  by (rule ext, rule option_eqI) (simp add: message_map_wf assms)

text \<open>On the id map, merging is the point-wise spread of the incoming messages.\<close>

lemma message_map_merge:
  "message_map (mergeMessages existing incoming)
     = js_get (keyed_merge msg_id spread_message incoming (map_from msg_id existing))"
proof -
  let ?m = "keyed_merge msg_id spread_message incoming (map_from msg_id existing)"
  have wk: "well_keyed msg_id ?m"
    by (intro msgs.merge_well_keyed well_keyed_map_from)
  have "message_map (mergeMessages existing incoming) = message_map (js_values ?m)"
    by (rule message_map_same_set)
      (simp_all add: mergeMessages_def msgs.merge_distinct well_keyed_map_from)
  also have "\<dots> = js_get ?m"
    unfolding message_map_def using well_keyed_pairs [OF wk]
    by (simp add: map_from_distinct msgs.merge_distinct well_keyed_map_from)
  finally show ?thesis .
qed

lemma message_map_merge_one:
  "message_map (mergeMessages existing [m])
     = (message_map existing)(msg_id m \<mapsto>
          (case message_map existing (msg_id m) of None \<Rightarrow> m | Some prev \<Rightarrow> spread_message prev m))"
  unfolding message_map_merge keyed_merge_def by (simp add: msgs.step_get message_map_def)

lemma merge_ids: "msg_id ` set (mergeMessages existing incoming) = msg_id ` set existing \<union> msg_id ` set incoming"
  by (simp add: mergeMessages_def msgs.merge_value_keys well_keyed_map_from keys_map_from)

text \<open>Two well-formed lists with the same id map and distinct timestamps are equal.\<close>

lemma messages_wf_unique:
  assumes "messages_wf ms" and "messages_wf ns" and "message_map ms = message_map ns"
    and "distinct (map timestamp ms)"
  shows "ms = ns"
proof -
  from assms(1,2) have d: "distinct (map msg_id ms)" "distinct (map msg_id ns)"
    and s: "sorted (map timestamp ms)" "sorted (map timestamp ns)"
    by (simp_all add: messages_wf_def)
  have "m \<in> set ms \<longleftrightarrow> m \<in> set ns" for m
    using assms(3) message_map_wf [OF d(1), of "msg_id m" m] message_map_wf [OF d(2), of "msg_id m" m]
    by simp
  then have eq: "set ms = set ns" by blast
  from assms(4) have inj: "inj_on timestamp (set ms)" by (simp add: distinct_map)
  have "distinct ns" and "distinct ms" using d by (auto simp: distinct_map)
  with inj eq have "distinct (map timestamp ns)" by (simp add: distinct_map)
  then show ?thesis
    using s assms(4) inj eq by (intro map_sorted_distinct_set_unique) auto
qed

section \<open>Operations\<close>

text \<open>
  The idiom \<open>const rooms = {...get().rooms}; if (rooms[id]) { rooms[id] = f(rooms[id]) }; set({rooms})\<close>.
\<close>

definition update_room :: "string \<Rightarrow> (room \<Rightarrow> room) \<Rightarrow> chat_state \<Rightarrow> chat_state" where
  "update_room rid f s =
     (case js_get (rooms s) rid of
        None \<Rightarrow> s
      | Some r \<Rightarrow> s\<lparr>rooms := js_set rid (f r) (rooms s)\<rparr>)"

definition patch_messages :: "string \<Rightarrow> (chat_message \<Rightarrow> chat_message) \<Rightarrow> room \<Rightarrow> room" where
  "patch_messages mid patch r =
     r\<lparr>messages := map_where (\<lambda>m. msg_id m = mid) patch (messages r)\<rparr>"

definition setDisplayName :: "string \<Rightarrow> chat_state \<Rightarrow> chat_state" where
  "setDisplayName name s = s\<lparr>displayName := name\<rparr>"

definition clear_unread :: "room \<Rightarrow> room" where
  "clear_unread r = r\<lparr>unread := 0\<rparr>"

definition setActiveRoom :: "string \<Rightarrow> chat_state \<Rightarrow> chat_state" where
  "setActiveRoom rid s = (update_room rid clear_unread s)\<lparr>activeRoomId := Some rid\<rparr>"

definition setIdentity :: "string \<Rightarrow> string \<Rightarrow> chat_state \<Rightarrow> chat_state" where
  "setIdentity i short s = s\<lparr>userId := i, shortId := short\<rparr>"

definition new_room :: "string \<Rightarrow> string \<Rightarrow> num \<Rightarrow> bool \<Rightarrow> room" where
  "new_room rid name n dm =
     \<lparr> room_id = rid, room_name = name, messages = [], members = n, unread = 0,
       isDM = Some dm, dmPeerId = None, dmPeerName = None \<rparr>"

definition set_members :: "num \<Rightarrow> room \<Rightarrow> room" where
  "set_members n r = r\<lparr>members := n\<rparr>"

definition addRoom :: "string \<Rightarrow> string \<Rightarrow> num \<Rightarrow> bool \<Rightarrow> chat_state \<Rightarrow> chat_state" where
  "addRoom rid name n dm s =
     (case js_get (rooms s) rid of
        None \<Rightarrow> s\<lparr>rooms := js_set rid (new_room rid name n dm) (rooms s)\<rparr>
      | Some r \<Rightarrow> s\<lparr>rooms := js_set rid (set_members n r) (rooms s)\<rparr>)"

definition merge_history :: "chat_message list \<Rightarrow> room \<Rightarrow> room" where
  "merge_history ms r = r\<lparr>messages := mergeMessages (messages r) ms\<rparr>"

definition setRoomHistory :: "string \<Rightarrow> chat_message list \<Rightarrow> chat_state \<Rightarrow> chat_state" where
  "setRoomHistory rid ms s = update_room rid (merge_history ms) s"

definition receive_message :: "bool \<Rightarrow> bool \<Rightarrow> chat_message \<Rightarrow> room \<Rightarrow> room" where
  "receive_message isActive isSelf m r =
     (let alreadyExists = list_ex (\<lambda>x. msg_id x = msg_id m) (messages r)
      in r\<lparr>messages := mergeMessages (messages r) [m],
           unread := (if alreadyExists \<or> isActive \<or> isSelf then unread r else unread r + 1)\<rparr>)"

definition addMessage :: "string \<Rightarrow> chat_message \<Rightarrow> chat_state \<Rightarrow> chat_state" where
  "addMessage rid m s =
     update_room rid (receive_message (activeRoomId s = Some rid) (sender m = userId s) m) s"

definition updateRoomMembers :: "string \<Rightarrow> num \<Rightarrow> chat_state \<Rightarrow> chat_state" where
  "updateRoomMembers rid n s = update_room rid (set_members n) s"

definition edit_patch :: "string \<Rightarrow> num \<Rightarrow> chat_message \<Rightarrow> chat_message" where
  "edit_patch text editedAt m = m\<lparr>content := text, edited_at := Some editedAt\<rparr>"

definition editMessage :: "string \<Rightarrow> string \<Rightarrow> string \<Rightarrow> num \<Rightarrow> chat_state \<Rightarrow> chat_state" where
  "editMessage rid mid text editedAt s = update_room rid (patch_messages mid (edit_patch text editedAt)) s"

definition delete_patch :: "chat_message \<Rightarrow> chat_message" where
  "delete_patch m = m\<lparr>deleted := Some True, content := [], pinned := Some False\<rparr>"

definition deleteMessage :: "string \<Rightarrow> string \<Rightarrow> chat_state \<Rightarrow> chat_state" where
  "deleteMessage rid mid s = update_room rid (patch_messages mid delete_patch) s"

definition reactions_patch :: "reaction_map \<Rightarrow> chat_message \<Rightarrow> chat_message" where
  "reactions_patch rs m = m\<lparr>reactions := Some rs\<rparr>"

definition updateReactions :: "string \<Rightarrow> string \<Rightarrow> reaction_map \<Rightarrow> chat_state \<Rightarrow> chat_state" where
  "updateReactions rid mid rs s = update_room rid (patch_messages mid (reactions_patch rs)) s"

definition pin_patch :: "bool \<Rightarrow> chat_message \<Rightarrow> chat_message" where
  "pin_patch b m = m\<lparr>pinned := Some b\<rparr>"

definition pinMessage :: "string \<Rightarrow> string \<Rightarrow> chat_state \<Rightarrow> chat_state" where
  "pinMessage rid mid s = update_room rid (patch_messages mid (pin_patch True)) s"

definition unpinMessage :: "string \<Rightarrow> string \<Rightarrow> chat_state \<Rightarrow> chat_state" where
  "unpinMessage rid mid s = update_room rid (patch_messages mid (pin_patch False)) s"

definition new_dm_room :: "string \<Rightarrow> string \<Rightarrow> string \<Rightarrow> string \<Rightarrow> room" where
  "new_dm_room rid name peer peerName =
     \<lparr> room_id = rid, room_name = name, messages = [], members = 2, unread = 0,
       isDM = Some True, dmPeerId = Some peer, dmPeerName = Some peerName \<rparr>"

definition addDMRoom :: "string \<Rightarrow> string \<Rightarrow> string \<Rightarrow> string \<Rightarrow> chat_state \<Rightarrow> chat_state" where
  "addDMRoom rid name peer peerName s =
     (case js_get (rooms s) rid of
        None \<Rightarrow> s\<lparr>rooms := js_set rid (new_dm_room rid name peer peerName) (rooms s)\<rparr>
      | Some r \<Rightarrow> s)"

definition setAvailableRooms :: "room_info_data list \<Rightarrow> chat_state \<Rightarrow> chat_state" where
  "setAvailableRooms rs s = s\<lparr>availableRooms := rs\<rparr>"

definition setConnected :: "bool \<Rightarrow> chat_state \<Rightarrow> chat_state" where
  "setConnected c s = s\<lparr>connected := c\<rparr>"

section \<open>Well-formed rooms\<close>

definition room_wf :: "room \<Rightarrow> bool" where
  "room_wf r \<longleftrightarrow> messages_wf (messages r)"

definition rooms_wf :: "(string \<times> room) list \<Rightarrow> bool" where
  "rooms_wf rs \<longleftrightarrow> distinct (js_keys rs) \<and> list_all (\<lambda>(k, r). room_id r = k \<and> room_wf r) rs"

lemma rooms_wf_set:
  "rooms_wf rs \<Longrightarrow> room_id r = k \<Longrightarrow> room_wf r \<Longrightarrow> rooms_wf (js_set k r rs)"
  by (auto simp: rooms_wf_def list_all_iff dest!: js_set_other)

lemma rooms_wf_get: "rooms_wf rs \<Longrightarrow> js_get rs k = Some r \<Longrightarrow> room_id r = k \<and> room_wf r"
  by (auto simp: rooms_wf_def list_all_iff dest!: map_of_SomeD)

lemma rooms_update_room:
  "rooms (update_room k f s)
     = (case js_get (rooms s) k of None \<Rightarrow> rooms s | Some r \<Rightarrow> js_set k (f r) (rooms s))"
  by (simp add: update_room_def split: option.splits)

lemma get_update_room:
  "js_get (rooms (update_room k f s)) k' =
     (if k' = k then map_option f (js_get (rooms s) k) else js_get (rooms s) k')"
  by (simp add: rooms_update_room split: option.splits)

lemma update_room_fields [frame_simps]:
  "userId (update_room k f s) = userId s"
  "activeRoomId (update_room k f s) = activeRoomId s"
  "displayName (update_room k f s) = displayName s"
  "voiceState (update_room k f s) = voiceState s"
  "activeVoice (update_room k f s) = activeVoice s"
  "meshPeers (update_room k f s) = meshPeers s"
  "contextStack (update_room k f s) = contextStack s"
  "cotContacts (update_room k f s) = cotContacts s"
  "cotMarkers (update_room k f s) = cotMarkers s"
  by (simp_all add: update_room_def split: option.splits)

text \<open>The contract of an operation on one room, and what follows for the room table.\<close>

locale room_operation =
  fixes f :: "room \<Rightarrow> room"
  assumes keeps_id: "room_id (f r) = room_id r"
    and keeps_wf: "room_wf r \<Longrightarrow> room_wf (f r)"
begin

lemma table_wf: "rooms_wf (rooms s) \<Longrightarrow> rooms_wf (rooms (update_room k f s))"
  by (auto simp: rooms_update_room keeps_id keeps_wf split: option.splits
      dest: rooms_wf_get intro!: rooms_wf_set)

lemma table_keys: "js_keys (rooms (update_room k f s)) = js_keys (rooms s)"
  by (auto simp: rooms_update_room js_keys_set js_get_keys split: option.splits)

end

text \<open>The contract of a patch of one message: id and time stay. It gives a room operation.\<close>

locale message_patch =
  fixes patch :: "chat_message \<Rightarrow> chat_message"
  assumes patch_id: "msg_id (patch m) = msg_id m"
    and patch_time: "timestamp (patch m) = timestamp m"
begin

lemma patched_ids: "map msg_id (messages (patch_messages mid patch r)) = map msg_id (messages r)"
  by (simp add: patch_messages_def map_where_proj patch_id)

lemma patched_times: "map timestamp (messages (patch_messages mid patch r)) = map timestamp (messages r)"
  by (simp add: patch_messages_def map_where_proj patch_time)

lemma patched_wf: "room_wf r \<Longrightarrow> room_wf (patch_messages mid patch r)"
  by (simp add: room_wf_def messages_wf_def patched_ids patched_times)

text \<open>On the id map a patch is the update of one point.\<close>

lemma patched_map:
  assumes "room_wf r"
  shows "message_map (messages (patch_messages mid patch r))
           = (message_map (messages r))(mid := map_option patch (message_map (messages r) mid))"
proof (rule ext, rule option_eqI)
  fix i v
  let ?ms = "messages r" and ?ns = "messages (patch_messages mid patch r)"
  from assms have d: "distinct (map msg_id ?ms)" by (simp add: room_wf_def messages_wf_def)
  then have d': "distinct (map msg_id ?ns)" by (simp add: patched_ids)
  have "v \<in> set ?ns \<and> msg_id v = i \<longleftrightarrow>
        (if i = mid then \<exists>m. m \<in> set ?ms \<and> msg_id m = mid \<and> v = patch m
         else v \<in> set ?ms \<and> msg_id v = i)"
    by (auto simp: patch_messages_def map_where_def patch_id)
  then show "message_map ?ns i = Some v \<longleftrightarrow>
      ((message_map ?ms)(mid := map_option patch (message_map ?ms mid))) i = Some v"
    by (auto simp: message_map_wf [OF d] message_map_wf [OF d'])
qed

end

sublocale message_patch < patched: room_operation "patch_messages mid patch" for mid
  by unfold_locales (simp_all add: patched_wf, simp add: patch_messages_def)

interpretation clear: room_operation clear_unread
  by unfold_locales (simp_all add: clear_unread_def room_wf_def)

interpretation mem: room_operation "set_members n" for n
  by unfold_locales (simp_all add: set_members_def room_wf_def)

interpretation hist: room_operation "merge_history ms" for ms
  by unfold_locales (simp_all add: merge_history_def room_wf_def messages_wf_merge)

interpretation recv: room_operation "receive_message isActive isSelf m" for isActive isSelf m
  by unfold_locales (simp_all add: receive_message_def Let_def room_wf_def messages_wf_merge)

interpretation edit: message_patch "edit_patch body editedAt" for body editedAt
  by unfold_locales (simp_all add: edit_patch_def)

interpretation del: message_patch delete_patch
  by unfold_locales (simp_all add: delete_patch_def)

interpretation react: message_patch "reactions_patch rs" for rs
  by unfold_locales (simp_all add: reactions_patch_def)

interpretation pin: message_patch "pin_patch b" for b
  by unfold_locales (simp_all add: pin_patch_def)

lemma new_room_wf [simp]: "room_wf (new_room rid name n dm)" "room_wf (new_dm_room rid name peer pn)"
  by (simp_all add: new_room_def new_dm_room_def room_wf_def messages_wf_def)

lemma new_room_id [simp]: "room_id (new_room rid name n dm) = rid" "room_id (new_dm_room rid name peer pn) = rid"
  by (simp_all add: new_room_def new_dm_room_def)

text \<open>Every operation of the store keeps the room table well formed.\<close>

lemma room_ops_wf [wf_intros]:
  assumes "rooms_wf (rooms s)"
  shows "rooms_wf (rooms (setActiveRoom k s))"
    and "rooms_wf (rooms (addRoom k name n dm s))"
    and "rooms_wf (rooms (setRoomHistory k ms s))"
    and "rooms_wf (rooms (addMessage k m s))"
    and "rooms_wf (rooms (updateRoomMembers k n s))"
    and "rooms_wf (rooms (editMessage k mid text editedAt s))"
    and "rooms_wf (rooms (deleteMessage k mid s))"
    and "rooms_wf (rooms (updateReactions k mid rs s))"
    and "rooms_wf (rooms (pinMessage k mid s))"
    and "rooms_wf (rooms (unpinMessage k mid s))"
    and "rooms_wf (rooms (addDMRoom k name peer pn s))"
  using assms
  by (auto simp: setActiveRoom_def addRoom_def setRoomHistory_def addMessage_def updateRoomMembers_def
      editMessage_def deleteMessage_def updateReactions_def pinMessage_def unpinMessage_def addDMRoom_def
      mem.keeps_id mem.keeps_wf
      intro!: clear.table_wf hist.table_wf recv.table_wf mem.table_wf edit.patched.table_wf
        del.patched.table_wf react.patched.table_wf pin.patched.table_wf rooms_wf_set
      split: option.splits dest: rooms_wf_get)

end
