(* ===== verification/PeerStore.thy ===== *)
theory PeerStore
  imports ChatState Keyed
begin

text \<open>
  Mesh peers, CoT contacts, CoT markers and the own position of \<open>web/src/store/chatStore.ts\<close>.
  The mesh table has two writers: \<open>setMeshPeers\<close> (the server's \<open>mesh_state\<close>) and
  \<open>mergeMeshPeers\<close> (the Bluetooth bridge's \<open>ble_mesh_state\<close>); each has to keep what the other
  one wrote.
\<close>

section \<open>Mesh peers\<close>

definition room_entries :: "(string \<times> 'a list) list \<Rightarrow> string \<Rightarrow> 'a list" where
  "room_entries m rid = (case js_get m rid of None \<Rightarrow> [] | Some xs \<Rightarrow> xs)"

definition is_bridge_peer :: "mesh_peer \<Rightarrow> bool" where
  "is_bridge_peer p \<longleftrightarrow> transport p = ''btle'' \<or> transport p = ''wifi-direct''"

definition shown_peer :: "mesh_peer \<Rightarrow> bool" where
  "shown_peer p \<longleftrightarrow>
     peer_name p \<noteq> [] \<and> peer_id p \<noteq> [] \<and> \<not> js_includes (js_lower (peer_name p)) ''scanner''"

definition server_and_bridge_peers :: "mesh_peer list \<Rightarrow> mesh_peer list \<Rightarrow> mesh_peer list" where
  "server_and_bridge_peers existing ps =
     (let bridgePeers = filter is_bridge_peer existing;
          serverIds = set (map peer_id ps);
          uniqueBridgePeers = filter (\<lambda>p. peer_id p \<notin> serverIds) bridgePeers
      in filter shown_peer (ps @ uniqueBridgePeers))"

definition setMeshPeers :: "string \<Rightarrow> mesh_peer list \<Rightarrow> chat_state \<Rightarrow> chat_state" where
  "setMeshPeers rid ps s =
     s\<lparr>meshPeers := js_set rid (server_and_bridge_peers (room_entries (meshPeers s) rid) ps) (meshPeers s)\<rparr>"

definition mergeMeshPeers :: "string \<Rightarrow> mesh_peer list \<Rightarrow> chat_state \<Rightarrow> chat_state" where
  "mergeMeshPeers rid blePeers s =
     (let preserved = filter (\<lambda>p. transport p \<noteq> ''btle'') (room_entries (meshPeers s) rid)
      in s\<lparr>meshPeers := js_set rid (preserved @ blePeers) (meshPeers s)\<rparr>)"

lemma room_entries_set [simp]:
  "room_entries (js_set k xs m) k' = (if k' = k then xs else room_entries m k')"
  by (simp add: room_entries_def)

lemma setMeshPeers_entries:
  "room_entries (meshPeers (setMeshPeers rid ps s)) rid
     = server_and_bridge_peers (room_entries (meshPeers s) rid) ps"
  by (simp add: setMeshPeers_def)

lemma mergeMeshPeers_entries:
  "room_entries (meshPeers (mergeMeshPeers rid ble s)) rid
     = filter (\<lambda>p. transport p \<noteq> ''btle'') (room_entries (meshPeers s) rid) @ ble"
  by (simp add: mergeMeshPeers_def Let_def)

lemma server_and_bridge_set:
  "set (server_and_bridge_peers existing ps) =
     {p. shown_peer p \<and> (p \<in> set ps \<or>
         p \<in> set existing \<and> is_bridge_peer p \<and> peer_id p \<notin> peer_id ` set ps)}"
  by (auto simp: server_and_bridge_peers_def)

lemma server_and_bridge_distinct:
  assumes "distinct (map peer_id existing)" and "distinct (map peer_id ps)"
  shows "distinct (map peer_id (server_and_bridge_peers existing ps))"
proof -
  have d: "distinct (map peer_id (filter P xs))" if "distinct (map peer_id xs)" for P and xs :: "mesh_peer list"
    using that by (simp add: distinct_map inj_on_def)
  show ?thesis
    unfolding server_and_bridge_peers_def Let_def
    by (rule d) (auto simp: assms d, metis image_eqI)
qed

section \<open>CoT contacts and markers\<close>

text \<open>\<open>(c as any).sender_id || (c as any).uid || ''\<close>.\<close>

definition contact_key :: "cot_contact \<Rightarrow> string" where
  "contact_key c =
     (case contact_sender_id c of Some i \<Rightarrow> (if i \<noteq> [] then i else uid c) | None \<Rightarrow> uid c)"

definition merge_contacts :: "cot_contact list \<Rightarrow> cot_contact list \<Rightarrow> cot_contact list" where
  "merge_contacts existing incoming =
     (let usable = filter (\<lambda>c. contact_key c \<noteq> []);
          byId = keyed_merge contact_key replace_with (usable existing) []
      in js_values (keyed_merge contact_key replace_with (usable incoming) byId))"

definition setCotContacts :: "string \<Rightarrow> cot_contact list \<Rightarrow> chat_state \<Rightarrow> chat_state" where
  "setCotContacts rid cs s =
     s\<lparr>cotContacts := js_set rid (merge_contacts (room_entries (cotContacts s) rid) cs) (cotContacts s)\<rparr>"

definition setCotMarkers :: "string \<Rightarrow> cot_marker list \<Rightarrow> chat_state \<Rightarrow> chat_state" where
  "setCotMarkers rid ms s = s\<lparr>cotMarkers := js_set rid ms (cotMarkers s)\<rparr>"

definition addCotMarker :: "string \<Rightarrow> cot_marker \<Rightarrow> chat_state \<Rightarrow> chat_state" where
  "addCotMarker rid m s =
     (let existing = room_entries (cotMarkers s) rid
      in if list_ex (\<lambda>x. marker_id x = marker_id m) existing then s
         else s\<lparr>cotMarkers := js_set rid (existing @ [m]) (cotMarkers s)\<rparr>)"

definition removeCotMarker :: "string \<Rightarrow> string \<Rightarrow> chat_state \<Rightarrow> chat_state" where
  "removeCotMarker rid mid s =
     (case js_get (cotMarkers s) rid of
        None \<Rightarrow> s
      | Some existing \<Rightarrow>
          s\<lparr>cotMarkers := js_set rid (filter (\<lambda>m. marker_id m \<noteq> mid) existing) (cotMarkers s)\<rparr>)"

definition setSelfPosition :: "geo_position option \<Rightarrow> chat_state \<Rightarrow> chat_state" where
  "setSelfPosition pos s = s\<lparr>selfPosition := pos\<rparr>"

interpretation contacts: idempotent_collection contact_key replace_with
  by (rule replacing)

lemma merge_contacts_distinct: "distinct (map contact_key (merge_contacts existing incoming))"
  by (simp add: merge_contacts_def Let_def contacts.merge_distinct contacts.merge_well_keyed)

lemma merge_contacts_keys:
  "contact_key ` set (merge_contacts existing incoming)
     = (contact_key ` set existing \<union> contact_key ` set incoming) - {[]}"
  by (auto simp: merge_contacts_def Let_def contacts.merge_value_keys contacts.merge_well_keyed
      contacts.merge_keys)

definition markers_wf :: "cot_marker list \<Rightarrow> bool" where
  "markers_wf ms \<longleftrightarrow> distinct (map marker_id ms)"

lemma addCotMarker_wf [wf_intros]:
  "markers_wf (room_entries (cotMarkers s) k) \<Longrightarrow>
   markers_wf (room_entries (cotMarkers (addCotMarker rid m s)) k)"
  by (auto simp: addCotMarker_def Let_def markers_wf_def list_ex_iff)

lemma removeCotMarker_wf [wf_intros]:
  "markers_wf (room_entries (cotMarkers s) k) \<Longrightarrow>
   markers_wf (room_entries (cotMarkers (removeCotMarker rid mid s)) k)"
  by (auto simp: removeCotMarker_def markers_wf_def room_entries_def distinct_map inj_on_def
      split: option.splits)

end
