(* ===== verification/VoiceStore.thy ===== *)
theory VoiceStore
  imports ChatState Keyed
begin

text \<open>
  The voice part of \<open>web/src/store/chatStore.ts\<close>: the three normalisers of unvalidated server
  data, and the operations on the channel lists. A locale states what an operation on one channel
  has to satisfy to keep the channel lists well formed.
\<close>

section \<open>Normalising server data\<close>

text \<open>\<open>typeof raw.k === 'string' ? raw.k.trim() : ''\<close>.\<close>

definition trimmed_prop :: "jsval \<Rightarrow> string \<Rightarrow> string" where
  "trimmed_prop v k = js_trim (str_or [] (js_prop v k))"

definition normalizeVoiceMember :: "jsval \<Rightarrow> voice_member option" where
  "normalizeVoiceMember member =
     (if \<not> truthy member \<or> \<not> typeof_object member then None
      else
        let i = trimmed_prop member ''id''
        in if i = [] then None
           else
             let shortIdRaw = trimmed_prop member ''short_id'';
                 short = (if shortIdRaw \<noteq> [] then shortIdRaw else js_slice i 0 12);
                 nameRaw = trimmed_prop member ''name''
             in Some \<lparr> vm_id = i,
                       vm_name = (if nameRaw \<noteq> [] then nameRaw
                                  else if short \<noteq> [] then short else ''Unknown''),
                       vm_short_id = short,
                       speaking = truthy (js_prop member ''speaking''),
                       muted = (case js_prop member ''muted'' of JBool b \<Rightarrow> Some b | _ \<Rightarrow> None) \<rparr>)"

definition normalize_members :: "jsval list \<Rightarrow> voice_member list" where
  "normalize_members raws =
     js_values (keyed_merge vm_id replace_with (List.map_filter normalizeVoiceMember raws) [])"

definition normalizeVoiceChannel :: "jsval \<Rightarrow> voice_channel option" where
  "normalizeVoiceChannel channel =
     (if \<not> truthy channel \<or> \<not> typeof_object channel then None
      else
        let i = trimmed_prop channel ''id''
        in if i = [] then None
           else
             let nameRaw = trimmed_prop channel ''name'';
                 raws = arr_or_empty (js_prop channel ''members'')
             in Some \<lparr> vc_id = i,
                       vc_name = (if nameRaw \<noteq> [] then nameRaw else ''Voice''),
                       vc_members = normalize_members raws \<rparr>)"

definition normalizeVoiceChannels :: "jsval \<Rightarrow> voice_channel list" where
  "normalizeVoiceChannels channels =
     js_values (keyed_merge vc_id replace_with
       (List.map_filter normalizeVoiceChannel (arr_or_empty channels)) [])"

text \<open>The objects the store itself passes to the normalisers.\<close>

definition member_object :: "voice_member \<Rightarrow> jsval" where
  "member_object m =
     JObj [(''id'', JStr (vm_id m)), (''name'', JStr (vm_name m)),
           (''short_id'', JStr (vm_short_id m)), (''speaking'', JBool (speaking m)),
           (''muted'', case muted m of None \<Rightarrow> JUndefined | Some b \<Rightarrow> JBool b)]"

definition channel_object :: "string \<Rightarrow> string \<Rightarrow> jsval" where
  "channel_object i name = JObj [(''id'', JStr i), (''name'', JStr name), (''members'', JArr [])]"

section \<open>Operations\<close>

definition setVoiceMuted :: "bool \<Rightarrow> chat_state \<Rightarrow> chat_state" where
  "setVoiceMuted m s = s\<lparr>voiceMuted := m\<rparr>"

definition setVoiceState :: "string \<Rightarrow> jsval \<Rightarrow> chat_state \<Rightarrow> chat_state" where
  "setVoiceState rid channels s =
     s\<lparr>voiceState := js_set rid (normalizeVoiceChannels channels) (voiceState s)\<rparr>"

definition setActiveVoice :: "string \<Rightarrow> string \<Rightarrow> chat_state \<Rightarrow> chat_state" where
  "setActiveVoice rid cid s = s\<lparr>activeVoice := Some (rid, cid)\<rparr>"

definition clearActiveVoice :: "chat_state \<Rightarrow> chat_state" where
  "clearActiveVoice s = s\<lparr>activeVoice := None\<rparr>"

definition setLocalSpeaking :: "bool \<Rightarrow> chat_state \<Rightarrow> chat_state" where
  "setLocalSpeaking b s = s\<lparr>localSpeaking := b\<rparr>"

text \<open>
  \<open>const channels = voiceState[roomId]; if (!channels) return;
   voiceState[roomId] = channels.map((ch) => ch.id !== channelId ? ch : f(ch))\<close>.
\<close>

definition update_channel ::
  "string \<Rightarrow> string \<Rightarrow> (voice_channel \<Rightarrow> voice_channel) \<Rightarrow> chat_state \<Rightarrow> chat_state" where
  "update_channel rid cid f s =
     (case js_get (voiceState s) rid of
        None \<Rightarrow> s
      | Some chs \<Rightarrow>
          s\<lparr>voiceState := js_set rid (map_where (\<lambda>ch. vc_id ch = cid) f chs) (voiceState s)\<rparr>)"

definition set_speaking :: "string \<Rightarrow> bool \<Rightarrow> voice_channel \<Rightarrow> voice_channel" where
  "set_speaking peer b ch =
     ch\<lparr>vc_members := map_where (\<lambda>m. vm_id m = peer) (\<lambda>m. m\<lparr>speaking := b\<rparr>) (vc_members ch)\<rparr>"

definition updateSpeaking :: "string \<Rightarrow> string \<Rightarrow> string \<Rightarrow> bool \<Rightarrow> chat_state \<Rightarrow> chat_state" where
  "updateSpeaking rid cid peer b s = update_channel rid cid (set_speaking peer b) s"

definition addVoiceChannel :: "string \<Rightarrow> string \<Rightarrow> string \<Rightarrow> chat_state \<Rightarrow> chat_state" where
  "addVoiceChannel rid i name s =
     (let channels = (case js_get (voiceState s) rid of None \<Rightarrow> [] | Some chs \<Rightarrow> chs)
      in case normalizeVoiceChannel (channel_object i name) of
           None \<Rightarrow> s
         | Some ch \<Rightarrow>
             if list_ex (\<lambda>c. vc_id c = vc_id ch) channels then s
             else s\<lparr>voiceState := js_set rid (channels @ [ch]) (voiceState s)\<rparr>)"

definition join_member :: "voice_member \<Rightarrow> voice_channel \<Rightarrow> voice_channel" where
  "join_member peer ch =
     (if list_ex (\<lambda>m. vm_id m = vm_id peer) (vc_members ch) then ch
      else ch\<lparr>vc_members := vc_members ch @ [peer]\<rparr>)"

definition addVoicePeer :: "string \<Rightarrow> string \<Rightarrow> voice_member \<Rightarrow> chat_state \<Rightarrow> chat_state" where
  "addVoicePeer rid cid peer s =
     (case js_get (voiceState s) rid of
        None \<Rightarrow> s
      | Some chs \<Rightarrow>
          (case normalizeVoiceMember (member_object peer) of
             None \<Rightarrow> s
           | Some p \<Rightarrow> update_channel rid cid (join_member p) s))"

definition leave_member :: "string \<Rightarrow> voice_channel \<Rightarrow> voice_channel" where
  "leave_member peer ch = ch\<lparr>vc_members := filter (\<lambda>m. vm_id m \<noteq> peer) (vc_members ch)\<rparr>"

definition removeVoicePeer :: "string \<Rightarrow> string \<Rightarrow> string \<Rightarrow> chat_state \<Rightarrow> chat_state" where
  "removeVoicePeer rid cid peer s = update_channel rid cid (leave_member peer) s"

section \<open>Well-formed channel lists\<close>

definition member_wf :: "voice_member \<Rightarrow> bool" where
  "member_wf m \<longleftrightarrow> vm_id m \<noteq> [] \<and> vm_name m \<noteq> [] \<and> vm_short_id m \<noteq> [] \<and> js_trim (vm_id m) = vm_id m"

definition channel_wf :: "voice_channel \<Rightarrow> bool" where
  "channel_wf ch \<longleftrightarrow>
     vc_id ch \<noteq> [] \<and> vc_name ch \<noteq> [] \<and> distinct (map vm_id (vc_members ch)) \<and>
     list_all member_wf (vc_members ch)"

definition channels_wf :: "voice_channel list \<Rightarrow> bool" where
  "channels_wf chs \<longleftrightarrow> distinct (map vc_id chs) \<and> list_all channel_wf chs"

definition voice_wf :: "(string \<times> voice_channel list) list \<Rightarrow> bool" where
  "voice_wf vs \<longleftrightarrow> list_all (\<lambda>(k, chs). channels_wf chs) vs"

interpretation voice_members: keyed_collection vm_id replace_with
  by (rule replacing_keyed)

interpretation voice_channels: keyed_collection vc_id replace_with
  by (rule replacing_keyed)

lemma trim_trimmed_prop [simp]: "js_trim (trimmed_prop v k) = trimmed_prop v k"
  by (simp add: trimmed_prop_def)

lemma js_slice_nonempty: "s \<noteq> [] \<Longrightarrow> 0 < n \<Longrightarrow> js_slice s 0 n \<noteq> []"
  by (simp add: js_slice_def)

lemma normalizeVoiceMember_wf: "normalizeVoiceMember v = Some m \<Longrightarrow> member_wf m"
  unfolding normalizeVoiceMember_def Let_def
  by (clarsimp simp: member_wf_def js_slice_nonempty split: if_split_asm)

lemma map_filter_set: "y \<in> set (List.map_filter f xs) \<Longrightarrow> \<exists>x\<in>set xs. f x = Some y"
  by (auto simp: List.map_filter_def)

lemma normalize_members_wf:
  "distinct (map vm_id (normalize_members raws)) \<and> list_all member_wf (normalize_members raws)"
  using replace_merge_values [of vm_id "List.map_filter normalizeVoiceMember raws" "[]"]
  by (auto simp: normalize_members_def voice_members.merge_distinct list_all_iff
      dest!: subsetD map_filter_set intro: normalizeVoiceMember_wf)

lemma normalizeVoiceChannel_wf: "normalizeVoiceChannel v = Some ch \<Longrightarrow> channel_wf ch"
  using normalize_members_wf
  by (auto simp: normalizeVoiceChannel_def channel_wf_def Let_def split: if_split_asm)

lemma normalizeVoiceChannels_wf: "channels_wf (normalizeVoiceChannels v)"
  using replace_merge_values [of vc_id "List.map_filter normalizeVoiceChannel (arr_or_empty v)" "[]"]
  by (auto simp: normalizeVoiceChannels_def channels_wf_def voice_channels.merge_distinct list_all_iff
      dest!: subsetD map_filter_set intro: normalizeVoiceChannel_wf)

lemma voice_wf_set: "voice_wf vs \<Longrightarrow> channels_wf chs \<Longrightarrow> voice_wf (js_set k chs vs)"
  by (auto simp: voice_wf_def list_all_iff dest!: js_set_other)

lemma voice_wf_get: "voice_wf vs \<Longrightarrow> js_get vs k = Some chs \<Longrightarrow> channels_wf chs"
  by (auto simp: voice_wf_def list_all_iff dest!: map_of_SomeD)

lemma channels_wf_snoc:
  "channels_wf chs \<Longrightarrow> channel_wf ch \<Longrightarrow> \<not> list_ex (\<lambda>c. vc_id c = vc_id ch) chs \<Longrightarrow>
   channels_wf (chs @ [ch])"
  by (auto simp: channels_wf_def list_ex_iff)

lemma channels_wf_entries:
  "voice_wf vs \<Longrightarrow> channels_wf (case js_get vs k of None \<Rightarrow> [] | Some chs \<Rightarrow> chs)"
  by (auto split: option.splits intro: voice_wf_get) (simp add: channels_wf_def)

text \<open>The contract of an operation on one channel.\<close>

locale channel_operation =
  fixes f :: "voice_channel \<Rightarrow> voice_channel"
  assumes keeps_id: "vc_id (f ch) = vc_id ch"
    and keeps_wf: "channel_wf ch \<Longrightarrow> channel_wf (f ch)"
begin

lemma list_wf: "channels_wf chs \<Longrightarrow> channels_wf (map_where (\<lambda>ch. vc_id ch = cid) f chs)"
  by (auto simp: channels_wf_def map_where_proj keeps_id list_all_iff dest!: map_where_mem intro: keeps_wf)

lemma state_wf: "voice_wf (voiceState s) \<Longrightarrow> voice_wf (voiceState (update_channel rid cid f s))"
  by (auto simp: update_channel_def split: option.splits intro: voice_wf_set list_wf voice_wf_get)

lemma other_room: "k \<noteq> rid \<Longrightarrow> js_get (voiceState (update_channel rid cid f s)) k = js_get (voiceState s) k"
  by (simp add: update_channel_def split: option.splits)

end

interpretation speak: channel_operation "set_speaking peer b" for peer b
proof
  show "vc_id (set_speaking peer b ch) = vc_id ch" for ch by (simp add: set_speaking_def)
  show "channel_wf (set_speaking peer b ch)" if "channel_wf ch" for ch
    using that by (auto simp: channel_wf_def set_speaking_def map_where_proj list_all_iff member_wf_def dest!: map_where_mem)
qed

interpretation leave: channel_operation "leave_member peer" for peer
  by unfold_locales
    (auto simp: leave_member_def channel_wf_def list_all_iff distinct_map inj_on_def)

definition checked_join :: "voice_member \<Rightarrow> voice_channel \<Rightarrow> voice_channel" where
  "checked_join p ch = (if member_wf p then join_member p ch else ch)"

interpretation join: channel_operation "checked_join p" for p
  by unfold_locales
    (auto simp: checked_join_def join_member_def channel_wf_def list_ex_iff list_all_iff)

lemma voice_ops_wf [wf_intros]:
  assumes "voice_wf (voiceState s)"
  shows "voice_wf (voiceState (setVoiceState rid v s))"
    and "voice_wf (voiceState (updateSpeaking rid cid peer b s))"
    and "voice_wf (voiceState (addVoiceChannel rid i name s))"
    and "voice_wf (voiceState (addVoicePeer rid cid p s))"
    and "voice_wf (voiceState (removeVoicePeer rid cid peer s))"
proof -
  show "voice_wf (voiceState (setVoiceState rid v s))"
    using assms by (simp add: setVoiceState_def voice_wf_set normalizeVoiceChannels_wf)
  show "voice_wf (voiceState (updateSpeaking rid cid peer b s))"
    using assms by (simp add: updateSpeaking_def speak.state_wf)
  show "voice_wf (voiceState (removeVoicePeer rid cid peer s))"
    using assms by (simp add: removeVoicePeer_def leave.state_wf)
  show "voice_wf (voiceState (addVoiceChannel rid i name s))"
  proof (cases "normalizeVoiceChannel (channel_object i name)")
    case (Some ch)
    let ?chs = "case js_get (voiceState s) rid of None \<Rightarrow> [] | Some chs \<Rightarrow> chs"
    have "channels_wf (?chs @ [ch])" if "\<not> list_ex (\<lambda>c. vc_id c = vc_id ch) ?chs"
      using channels_wf_entries [OF assms] normalizeVoiceChannel_wf [OF Some] that
      by (rule channels_wf_snoc)
    then have "voice_wf (js_set rid (?chs @ [ch]) (voiceState s))"
      if "\<not> list_ex (\<lambda>c. vc_id c = vc_id ch) ?chs"
      using that assms by (blast intro: voice_wf_set)
    then show ?thesis using assms Some by (simp add: addVoiceChannel_def Let_def)
  qed (use assms in \<open>simp add: addVoiceChannel_def Let_def\<close>)
  show "voice_wf (voiceState (addVoicePeer rid cid p s))"
  proof (cases "normalizeVoiceMember (member_object p)")
    case (Some q)
    then have "member_wf q" by (rule normalizeVoiceMember_wf)
    then have "join_member q = checked_join q" by (simp add: checked_join_def fun_eq_iff)
    then show ?thesis
      using assms join.state_wf [of s rid cid q] Some
      by (simp add: addVoicePeer_def split: option.splits)
  qed (use assms in \<open>simp add: addVoicePeer_def split: option.splits\<close>)
qed

end
