(* ===== verification/NavStore.thy ===== *)
theory NavStore
  imports ChatState
begin

text \<open>
  The layout and navigation part of \<open>web/src/store/chatStore.ts\<close>: the map viewer flag, the voice
  error, the map controls, the menu and its route, the drawer snap point, and the context stack.
\<close>

definition toggleMapViewer :: "chat_state \<Rightarrow> chat_state" where
  "toggleMapViewer s = s\<lparr>mapViewerOpen := \<not> mapViewerOpen s\<rparr>"

definition setVoiceError :: "string option \<Rightarrow> chat_state \<Rightarrow> chat_state" where
  "setVoiceError err s = s\<lparr>voiceError := err\<rparr>"

definition setMapControls :: "nat option \<Rightarrow> chat_state \<Rightarrow> chat_state" where
  "setMapControls controls s = s\<lparr>mapControls := controls\<rparr>"

definition toggleMenu :: "chat_state \<Rightarrow> chat_state" where
  "toggleMenu s =
     (let opened = \<not> menuOpen s
      in s\<lparr>menuOpen := opened, menuRoute := (if opened then menuRoute s else Home)\<rparr>)"

definition setMenuRoute :: "menu_route \<Rightarrow> chat_state \<Rightarrow> chat_state" where
  "setMenuRoute route s = s\<lparr>menuRoute := route\<rparr>"

definition setDrawerSnap :: "num \<Rightarrow> chat_state \<Rightarrow> chat_state" where
  "setDrawerSnap snap s = s\<lparr>drawerSnap := snap\<rparr>"

definition setContextSurfaceHidden :: "bool \<Rightarrow> chat_state \<Rightarrow> chat_state" where
  "setContextSurfaceHidden hidden s = s\<lparr>contextSurfaceHidden := hidden\<rparr>"

definition pushContextRoute :: "string \<Rightarrow> chat_state \<Rightarrow> chat_state" where
  "pushContextRoute rid s = s\<lparr>contextStack := contextStack s @ [ChatRoute rid]\<rparr>"

definition popContextRoute :: "chat_state \<Rightarrow> chat_state" where
  "popContextRoute s =
     (if length (contextStack s) \<le> 1 then s
      else s\<lparr>contextStack := butlast (contextStack s)\<rparr>)"

definition resetContextStack :: "chat_state \<Rightarrow> chat_state" where
  "resetContextStack s = s\<lparr>contextStack := [ListRoute]\<rparr>"

text \<open>The stack is the channel list with chat rooms on top of it; it is never empty.\<close>

fun is_chat_route :: "context_route \<Rightarrow> bool" where
  "is_chat_route (ChatRoute rid) = True"
| "is_chat_route ListRoute = False"

fun stack_wf :: "context_route list \<Rightarrow> bool" where
  "stack_wf (ListRoute # rs) = list_all is_chat_route rs"
| "stack_wf _ = False"

lemma stack_wf_iff: "stack_wf st \<longleftrightarrow> (\<exists>rs. st = ListRoute # rs \<and> list_all is_chat_route rs)"
  by (cases st rule: stack_wf.cases) auto

lemma stack_ops_wf [wf_intros]:
  assumes "stack_wf (contextStack s)"
  shows "stack_wf (contextStack (pushContextRoute rid s))"
    and "stack_wf (contextStack (popContextRoute s))"
    and "stack_wf (contextStack (resetContextStack s))"
  using assms
  by (auto simp: stack_wf_iff pushContextRoute_def popContextRoute_def resetContextStack_def
      list_all_iff dest!: in_set_butlastD)

lemma pop_push: "stack_wf (contextStack s) \<Longrightarrow> popContextRoute (pushContextRoute rid s) = s"
  by (auto simp: stack_wf_iff pushContextRoute_def popContextRoute_def)

end
