(* ===== verification/Dispatch.thy ===== *)
theory Dispatch
  imports RoomStore PeerStore VoiceStore NavStore
begin

text \<open>
  The handlers a WebSocket of \<open>web/src/hooks/useWebSocket.ts\<close> is given: \<open>onopen\<close>, \<open>onclose\<close> and
  \<open>onmessage\<close>, the last one a definition per case of its switch and a table of the cases.

  A frame arrives as the result of \<open>JSON.parse\<close> (\<open>None\<close> when it threw). Where the code checks the
  type of a property the model checks the \<open>jsval\<close>; where it casts an unchecked payload to an
  interface (\<open>as any\<close>: messages, peers, contacts, markers, room infos, reactions) the cast is a
  field of the record \<open>views\<close>, a parameter of the handlers: at run time it is the identity, and
  what it yields for an object that does not have the interface's shape is left open.
\<close>

record views =
  as_message :: "jsval \<Rightarrow> chat_message"
  as_room_info :: "jsval \<Rightarrow> room_info_data"
  as_reactions :: "jsval \<Rightarrow> reaction_map"
  as_mesh_peer :: "jsval \<Rightarrow> mesh_peer"
  as_contact :: "jsval \<Rightarrow> cot_contact"
  as_marker :: "jsval \<Rightarrow> cot_marker"

datatype out_msg = Out string jsval

datatype vm_call =
    CallPeerJoined string "string option"
  | CallPeerLeft string
  | CallOffer string string
  | CallAnswer string string
  | CallIce string string

text \<open>A handler yields the new store, the frames sent, and the calls to the voice manager.\<close>

type_synonym outcome = "chat_state \<times> out_msg list \<times> vm_call list"

definition stored :: "chat_state \<Rightarrow> outcome" where
  "stored s = (s, [], [])"

fun str_prop :: "jsval \<Rightarrow> string \<Rightarrow> string option" where
  "str_prop v k = (case js_prop v k of JStr t \<Rightarrow> Some t | _ \<Rightarrow> None)"

text \<open>\<open>if (typeof data.k !== 'string') break\<close>.\<close>

definition need_str :: "jsval \<Rightarrow> string \<Rightarrow> (string \<Rightarrow> outcome) \<Rightarrow> chat_state \<Rightarrow> outcome" where
  "need_str d k f s = (case str_prop d k of None \<Rightarrow> stored s | Some t \<Rightarrow> f t)"

section \<open>The cases of the switch\<close>

definition on_identity :: "views \<Rightarrow> jsval \<Rightarrow> chat_state \<Rightarrow> outcome" where
  "on_identity V d s =
     stored (setIdentity (str_or [] (js_prop d ''id'')) (str_or [] (js_prop d ''short_id'')) s)"

definition on_name_assigned :: "views \<Rightarrow> jsval \<Rightarrow> chat_state \<Rightarrow> outcome" where
  "on_name_assigned V d s =
     need_str d ''name'' (\<lambda>name.
       if name \<noteq> [] then
         (setDisplayName name s, [Out ''set_name'' (JObj [(''name'', JStr name)])], [])
       else stored s) s"

definition on_room_list :: "views \<Rightarrow> jsval \<Rightarrow> chat_state \<Rightarrow> outcome" where
  "on_room_list V d s =
     (case js_prop d ''rooms'' of
        JArr rs \<Rightarrow> stored (setAvailableRooms (map (as_room_info V) rs) s)
      | _ \<Rightarrow> stored s)"

definition on_room_joined :: "views \<Rightarrow> jsval \<Rightarrow> chat_state \<Rightarrow> outcome" where
  "on_room_joined V d s =
     need_str d ''room_id'' (\<lambda>rid. need_str d ''name'' (\<lambda>name.
       let s' = addRoom rid name (num_or 0 (js_prop d ''members'')) (truthy (js_prop d ''is_dm'')) s
       in stored (if \<not> str_truthy (activeRoomId s) then setActiveRoom rid s' else s')) s) s"

definition on_room_history :: "views \<Rightarrow> jsval \<Rightarrow> chat_state \<Rightarrow> outcome" where
  "on_room_history V d s =
     need_str d ''room_id'' (\<lambda>rid.
       stored (setRoomHistory rid (map (as_message V) (arr_or_empty (js_prop d ''messages''))) s)) s"

definition on_message :: "views \<Rightarrow> jsval \<Rightarrow> chat_state \<Rightarrow> outcome" where
  "on_message V d s =
     need_str d ''room_id'' (\<lambda>rid.
       let m = js_prop d ''message''
       in if \<not> truthy m \<or> \<not> typeof_object m then stored s
          else stored (addMessage rid (as_message V m) s)) s"

definition on_peer_update :: "views \<Rightarrow> jsval \<Rightarrow> chat_state \<Rightarrow> outcome" where
  "on_peer_update V d s =
     need_str d ''room_id'' (\<lambda>rid.
       case js_prop d ''members'' of
         JNum n \<Rightarrow> stored (updateRoomMembers rid n s)
       | _ \<Rightarrow> stored s) s"

definition on_message_edited :: "views \<Rightarrow> jsval \<Rightarrow> chat_state \<Rightarrow> outcome" where
  "on_message_edited V d s =
     need_str d ''room_id'' (\<lambda>rid. need_str d ''message_id'' (\<lambda>mid.
       stored (editMessage rid mid (str_or [] (js_prop d ''content''))
                 (num_or 0 (js_prop d ''edited_at'')) s)) s) s"

definition on_message_deleted :: "views \<Rightarrow> jsval \<Rightarrow> chat_state \<Rightarrow> outcome" where
  "on_message_deleted V d s =
     need_str d ''room_id'' (\<lambda>rid. need_str d ''message_id'' (\<lambda>mid.
       stored (deleteMessage rid mid s)) s) s"

definition on_reaction_updated :: "views \<Rightarrow> jsval \<Rightarrow> chat_state \<Rightarrow> outcome" where
  "on_reaction_updated V d s =
     need_str d ''room_id'' (\<lambda>rid. need_str d ''message_id'' (\<lambda>mid.
       let r = js_prop d ''reactions''
       in stored (updateReactions rid mid
            (if truthy r \<and> typeof_object r then as_reactions V r else []) s)) s) s"

definition on_message_pinned :: "views \<Rightarrow> jsval \<Rightarrow> chat_state \<Rightarrow> outcome" where
  "on_message_pinned V d s =
     need_str d ''room_id'' (\<lambda>rid. need_str d ''message_id'' (\<lambda>mid.
       stored (pinMessage rid mid s)) s) s"

definition on_message_unpinned :: "views \<Rightarrow> jsval \<Rightarrow> chat_state \<Rightarrow> outcome" where
  "on_message_unpinned V d s =
     need_str d ''room_id'' (\<lambda>rid. need_str d ''message_id'' (\<lambda>mid.
       stored (unpinMessage rid mid s)) s) s"

definition on_dm_opened :: "views \<Rightarrow> jsval \<Rightarrow> chat_state \<Rightarrow> outcome" where
  "on_dm_opened V d s =
     need_str d ''room_id'' (\<lambda>rid. need_str d ''name'' (\<lambda>name.
       need_str d ''peer_id'' (\<lambda>peer. need_str d ''peer_name'' (\<lambda>peerName.
         stored (setActiveRoom rid (addDMRoom rid name peer peerName s))) s) s) s) s"

definition on_mesh_state :: "views \<Rightarrow> jsval \<Rightarrow> chat_state \<Rightarrow> outcome" where
  "on_mesh_state V d s =
     need_str d ''room_id'' (\<lambda>rid.
       stored (setMeshPeers rid (map (as_mesh_peer V) (arr_or_empty (js_prop d ''peers''))) s)) s"

definition on_ble_mesh_state :: "views \<Rightarrow> jsval \<Rightarrow> chat_state \<Rightarrow> outcome" where
  "on_ble_mesh_state V d s =
     need_str d ''room_id'' (\<lambda>rid.
       stored (mergeMeshPeers rid (map (as_mesh_peer V) (arr_or_empty (js_prop d ''peers''))) s)) s"

definition on_voice_state :: "views \<Rightarrow> jsval \<Rightarrow> chat_state \<Rightarrow> outcome" where
  "on_voice_state V d s =
     need_str d ''room_id'' (\<lambda>rid.
       stored (setVoiceState rid (JArr (arr_or_empty (js_prop d ''channels''))) s)) s"

definition on_voice_channel_created :: "views \<Rightarrow> jsval \<Rightarrow> chat_state \<Rightarrow> outcome" where
  "on_voice_channel_created V d s =
     need_str d ''room_id'' (\<lambda>rid. need_str d ''channel_id'' (\<lambda>cid.
       stored (addVoiceChannel rid cid (str_or ''Voice'' (js_prop d ''name'')) s)) s) s"

definition on_voice_peer_joined :: "views \<Rightarrow> jsval \<Rightarrow> chat_state \<Rightarrow> outcome" where
  "on_voice_peer_joined V d s =
     need_str d ''room_id'' (\<lambda>rid. need_str d ''channel_id'' (\<lambda>cid. need_str d ''peer_id'' (\<lambda>peer.
       (addVoicePeer rid cid
          \<lparr> vm_id = peer, vm_name = str_or [] (js_prop d ''name''),
            vm_short_id = str_or [] (js_prop d ''short_id''), speaking = False, muted = None \<rparr> s,
        [], [CallPeerJoined peer (str_prop d ''name'')])) s) s) s"

definition on_voice_peer_left :: "views \<Rightarrow> jsval \<Rightarrow> chat_state \<Rightarrow> outcome" where
  "on_voice_peer_left V d s =
     need_str d ''room_id'' (\<lambda>rid. need_str d ''channel_id'' (\<lambda>cid. need_str d ''peer_id'' (\<lambda>peer.
       (removeVoicePeer rid cid peer s, [], [CallPeerLeft peer])) s) s) s"

definition on_voice_offer_relay :: "views \<Rightarrow> jsval \<Rightarrow> chat_state \<Rightarrow> outcome" where
  "on_voice_offer_relay V d s =
     need_str d ''from_id'' (\<lambda>peer. need_str d ''sdp'' (\<lambda>sdp. (s, [], [CallOffer peer sdp])) s) s"

definition on_voice_answer_relay :: "views \<Rightarrow> jsval \<Rightarrow> chat_state \<Rightarrow> outcome" where
  "on_voice_answer_relay V d s =
     need_str d ''from_id'' (\<lambda>peer. need_str d ''sdp'' (\<lambda>sdp. (s, [], [CallAnswer peer sdp])) s) s"

definition on_voice_ice_relay :: "views \<Rightarrow> jsval \<Rightarrow> chat_state \<Rightarrow> outcome" where
  "on_voice_ice_relay V d s =
     need_str d ''from_id'' (\<lambda>peer. need_str d ''candidate'' (\<lambda>c. (s, [], [CallIce peer c])) s) s"

definition on_voice_speaking :: "views \<Rightarrow> jsval \<Rightarrow> chat_state \<Rightarrow> outcome" where
  "on_voice_speaking V d s =
     need_str d ''room_id'' (\<lambda>rid. need_str d ''channel_id'' (\<lambda>cid. need_str d ''peer_id'' (\<lambda>peer.
       stored (updateSpeaking rid cid peer (truthy (js_prop d ''speaking'')) s)) s) s) s"

definition on_cot_state :: "views \<Rightarrow> jsval \<Rightarrow> chat_state \<Rightarrow> outcome" where
  "on_cot_state V d s =
     need_str d ''room_id'' (\<lambda>rid.
       stored (setCotMarkers rid (map (as_marker V) (arr_or_empty (js_prop d ''markers'')))
         (setCotContacts rid (map (as_contact V) (arr_or_empty (js_prop d ''contacts''))) s))) s"

definition on_marker_created :: "views \<Rightarrow> jsval \<Rightarrow> chat_state \<Rightarrow> outcome" where
  "on_marker_created V d s =
     need_str d ''room_id'' (\<lambda>rid.
       let m = js_prop d ''marker''
       in if \<not> truthy m \<or> \<not> typeof_object m then stored s
          else stored (addCotMarker rid (as_marker V m) s)) s"

definition on_marker_deleted :: "views \<Rightarrow> jsval \<Rightarrow> chat_state \<Rightarrow> outcome" where
  "on_marker_deleted V d s =
     need_str d ''room_id'' (\<lambda>rid. need_str d ''marker_id'' (\<lambda>mid.
       stored (removeCotMarker rid mid s)) s) s"

definition ws_switch :: "(string \<times> (views \<Rightarrow> jsval \<Rightarrow> chat_state \<Rightarrow> outcome)) list" where
  "ws_switch =
     [(''identity'', on_identity), (''name_assigned'', on_name_assigned),
      (''room_list'', on_room_list), (''room_joined'', on_room_joined),
      (''room_history'', on_room_history), (''message'', on_message),
      (''peer_update'', on_peer_update), (''message_edited'', on_message_edited),
      (''message_deleted'', on_message_deleted), (''reaction_updated'', on_reaction_updated),
      (''message_pinned'', on_message_pinned), (''message_unpinned'', on_message_unpinned),
      (''dm_opened'', on_dm_opened), (''mesh_state'', on_mesh_state),
      (''ble_mesh_state'', on_ble_mesh_state), (''voice_state'', on_voice_state),
      (''voice_channel_created'', on_voice_channel_created),
      (''voice_peer_joined'', on_voice_peer_joined), (''voice_peer_left'', on_voice_peer_left),
      (''voice_offer_relay'', on_voice_offer_relay), (''voice_answer_relay'', on_voice_answer_relay),
      (''voice_ice_relay'', on_voice_ice_relay), (''voice_speaking_broadcast'', on_voice_speaking),
      (''cot_state'', on_cot_state), (''marker_created'', on_marker_created),
      (''marker_deleted'', on_marker_deleted)]"

definition ws_onmessage :: "views \<Rightarrow> jsval option \<Rightarrow> chat_state \<Rightarrow> outcome" where
  "ws_onmessage V frame s =
     (case frame of
        None \<Rightarrow> stored s
      | Some msg \<Rightarrow>
          if \<not> truthy msg then stored s
          else (case js_prop msg ''type'' of
                  JStr t \<Rightarrow>
                    let raw = js_prop msg ''data'';
                        d = (if truthy raw \<and> typeof_object raw then raw else JObj [])
                    in (case map_of ws_switch t of None \<Rightarrow> stored s | Some h \<Rightarrow> h V d s)
                | _ \<Rightarrow> stored s))"

section \<open>Opening and closing\<close>

definition join_frame :: "room \<Rightarrow> out_msg" where
  "join_frame r =
     (if isDM r = Some True then Out ''join_dm'' (JObj [(''room_id'', JStr (room_id r))])
      else Out ''join_room'' (JObj [(''name'', JStr (room_name r))]))"

definition ws_onopen :: "string \<Rightarrow> chat_state \<Rightarrow> chat_state \<times> out_msg list" where
  "ws_onopen preferredTransport s =
     (setConnected True s,
      (if displayName s \<noteq> [] then [Out ''set_name'' (JObj [(''name'', JStr (displayName s))])] else []) @
      (if preferredTransport \<noteq> [] \<and> preferredTransport \<noteq> ''tcp''
       then [Out ''set_preferred_transport'' (JObj [(''transport'', JStr preferredTransport)])] else []) @
      (let roomList = js_values (rooms s)
       in if roomList \<noteq> [] then map join_frame roomList
          else [Out ''join_room'' (JObj [(''name'', JStr ''general'')])]) @
      [Out ''list_rooms'' (JObj [])])"

definition ws_onclose :: "chat_state \<Rightarrow> chat_state" where
  "ws_onclose s =
     (setConnected False s)
       \<lparr>meshPeers := [], cotContacts := [], cotMarkers := [], voiceState := [],
        activeVoice := None, localSpeaking := False, selfPosition := None\<rparr>"

text \<open>The frames that ask for the rooms are told apart from the other frames by their type.\<close>

lemma join_frame_other: "t \<noteq> ''join_dm'' \<Longrightarrow> t \<noteq> ''join_room'' \<Longrightarrow> Out t x \<notin> join_frame ` rs"
  by (auto simp: join_frame_def split: if_splits)

lemma ws_onopen_rejoins:
  "filter (\<lambda>m. m \<in> join_frame ` set (js_values (rooms s))) (snd (ws_onopen pref s))
     = map join_frame (js_values (rooms s))"
  by (simp add: ws_onopen_def Let_def join_frame_other)

end
