(* ===== verification/ChatInv.thy ===== *)
theory ChatInv
  imports Dispatch
begin

text \<open>
  The invariant of the chat store under server traffic: rooms, voice channels and contacts well
  formed, the context stack rooted in the channel list, the active room read. Each store operation
  keeps it; so does every case of the WebSocket switch, hence every frame, opening and closing.
\<close>

section \<open>The invariant\<close>

definition contacts_wf :: "(string \<times> cot_contact list) list \<Rightarrow> bool" where
  "contacts_wf m \<longleftrightarrow>
     list_all (\<lambda>(k, cs). distinct (map contact_key cs) \<and> list_all (\<lambda>c. contact_key c \<noteq> []) cs) m"

definition active_read :: "chat_state \<Rightarrow> bool" where
  "active_read s \<longleftrightarrow>
     (case activeRoomId s of
        None \<Rightarrow> True
      | Some k \<Rightarrow> (case js_get (rooms s) k of None \<Rightarrow> True | Some r \<Rightarrow> unread r = 0))"

definition chat_wf :: "chat_state \<Rightarrow> bool" where
  "chat_wf s \<longleftrightarrow>
     rooms_wf (rooms s) \<and> voice_wf (voiceState s) \<and> contacts_wf (cotContacts s) \<and>
     stack_wf (contextStack s) \<and> active_read s"

lemma chat_wf_init: "chat_wf init_chat"
  by (simp add: chat_wf_def init_chat_def rooms_wf_def voice_wf_def contacts_wf_def active_read_def)

text \<open>The parts of the state the invariant reads.\<close>

lemma active_read_cong:
  "rooms t = rooms s \<Longrightarrow> activeRoomId t = activeRoomId s \<Longrightarrow> active_read t = active_read s"
  by (simp add: active_read_def split: option.split)

lemma chat_wf_cong:
  "rooms t = rooms s \<Longrightarrow> voiceState t = voiceState s \<Longrightarrow> cotContacts t = cotContacts s \<Longrightarrow>
   contextStack t = contextStack s \<Longrightarrow> activeRoomId t = activeRoomId s \<Longrightarrow>
   chat_wf t = chat_wf s"
  by (simp add: chat_wf_def active_read_cong [of t s])

lemma active_read_rooms:
  "active_read s \<Longrightarrow> activeRoomId t = activeRoomId s \<Longrightarrow>
   (\<And>k r. activeRoomId s = Some k \<Longrightarrow> js_get (rooms t) k = Some r \<Longrightarrow>
      unread r = 0 \<or> (\<exists>q. js_get (rooms s) k = Some q \<and> unread r = unread q)) \<Longrightarrow>
   active_read t"
  by (force simp: active_read_def split: option.splits)

lemma active_read_update:
  "active_read s \<Longrightarrow> (\<And>r. activeRoomId s = Some k \<Longrightarrow> unread (f r) = unread r \<or> unread (f r) = 0) \<Longrightarrow>
   active_read (update_room k f s)"
  by (rule active_read_rooms) (auto simp: frame_simps get_update_room split: if_splits)

lemma unread_simps [simp]:
  "unread (set_members n r) = unread r"
  "unread (clear_unread r) = 0"
  "unread (merge_history ms r) = unread r"
  "unread (patch_messages mid p r) = unread r"
  "unread (new_room rid name n dm) = 0"
  "unread (new_dm_room rid name peer pn) = 0"
  "unread (receive_message True self m r) = unread r"
  by (simp_all add: set_members_def clear_unread_def merge_history_def patch_messages_def
      new_room_def new_dm_room_def receive_message_def Let_def)

lemma room_ops_active_read [wf_intros]:
  assumes "active_read s"
  shows "active_read (setActiveRoom k s)"
    and "active_read (addRoom k name n dm s)"
    and "active_read (setRoomHistory k ms s)"
    and "active_read (addMessage k m s)"
    and "active_read (updateRoomMembers k n s)"
    and "active_read (editMessage k mid body editedAt s)"
    and "active_read (deleteMessage k mid s)"
    and "active_read (updateReactions k mid rs s)"
    and "active_read (pinMessage k mid s)"
    and "active_read (unpinMessage k mid s)"
    and "active_read (addDMRoom k name peer pn s)"
proof -
  show "active_read (setActiveRoom k s)"
    by (simp add: active_read_def setActiveRoom_def get_update_room split: option.splits)
  show "active_read (addRoom k name n dm s)" "active_read (addDMRoom k name peer pn s)"
    by (rule active_read_rooms [OF assms];
        auto simp: addRoom_def addDMRoom_def split: option.splits if_splits)+
qed (auto simp: setRoomHistory_def addMessage_def updateRoomMembers_def editMessage_def deleteMessage_def
    updateReactions_def pinMessage_def unpinMessage_def intro: active_read_update [OF assms])

text \<open>Store operations outside the rooms leave what the invariant reads of the other parts.\<close>

lemma contacts_wf_set:
  "contacts_wf m \<Longrightarrow> contacts_wf (js_set rid (merge_contacts xs ys) m)"
proof -
  have "list_all (\<lambda>c. contact_key c \<noteq> []) (merge_contacts xs ys)"
    using merge_contacts_keys [of xs ys] by (auto simp: list_all_iff)
  then show "contacts_wf m \<Longrightarrow> ?thesis"
    by (auto simp: contacts_wf_def list_all_iff merge_contacts_distinct dest!: js_set_other)
qed

lemmas room_op_defs =
  setActiveRoom_def addRoom_def setRoomHistory_def addMessage_def updateRoomMembers_def
  editMessage_def deleteMessage_def updateReactions_def pinMessage_def unpinMessage_def addDMRoom_def

lemma room_ops_frame [frame_simps]:
  "voiceState (setActiveRoom k s) = voiceState s" "cotContacts (setActiveRoom k s) = cotContacts s"
  "contextStack (setActiveRoom k s) = contextStack s"
  "voiceState (addRoom k name n dm s) = voiceState s" "cotContacts (addRoom k name n dm s) = cotContacts s"
  "contextStack (addRoom k name n dm s) = contextStack s"
  "voiceState (setRoomHistory k ms s) = voiceState s" "cotContacts (setRoomHistory k ms s) = cotContacts s"
  "contextStack (setRoomHistory k ms s) = contextStack s"
  "voiceState (addMessage k m s) = voiceState s" "cotContacts (addMessage k m s) = cotContacts s"
  "contextStack (addMessage k m s) = contextStack s"
  "voiceState (updateRoomMembers k n s) = voiceState s" "cotContacts (updateRoomMembers k n s) = cotContacts s"
  "contextStack (updateRoomMembers k n s) = contextStack s"
  "voiceState (editMessage k mid b e s) = voiceState s" "cotContacts (editMessage k mid b e s) = cotContacts s"
  "contextStack (editMessage k mid b e s) = contextStack s"
  "voiceState (deleteMessage k mid s) = voiceState s" "cotContacts (deleteMessage k mid s) = cotContacts s"
  "contextStack (deleteMessage k mid s) = contextStack s"
  "voiceState (updateReactions k mid rs s) = voiceState s" "cotContacts (updateReactions k mid rs s) = cotContacts s"
  "contextStack (updateReactions k mid rs s) = contextStack s"
  "voiceState (pinMessage k mid s) = voiceState s" "cotContacts (pinMessage k mid s) = cotContacts s"
  "contextStack (pinMessage k mid s) = contextStack s"
  "voiceState (unpinMessage k mid s) = voiceState s" "cotContacts (unpinMessage k mid s) = cotContacts s"
  "contextStack (unpinMessage k mid s) = contextStack s"
  "voiceState (addDMRoom k name p pn s) = voiceState s" "cotContacts (addDMRoom k name p pn s) = cotContacts s"
  "contextStack (addDMRoom k name p pn s) = contextStack s"
  by (simp_all add: room_op_defs frame_simps split: option.splits)

lemma chat_wf_room_ops [wf_intros]:
  assumes "chat_wf s"
  shows "chat_wf (setActiveRoom k s)"
    and "chat_wf (addRoom k name n dm s)"
    and "chat_wf (setRoomHistory k ms s)"
    and "chat_wf (addMessage k m s)"
    and "chat_wf (updateRoomMembers k n s)"
    and "chat_wf (editMessage k mid body editedAt s)"
    and "chat_wf (deleteMessage k mid s)"
    and "chat_wf (updateReactions k mid rs s)"
    and "chat_wf (pinMessage k mid s)"
    and "chat_wf (unpinMessage k mid s)"
    and "chat_wf (addDMRoom k name peer pn s)"
  using assms by (simp_all add: chat_wf_def room_ops_wf room_ops_active_read frame_simps)

lemma voice_ops_only:
  "setVoiceState rid v s = s\<lparr>voiceState := voiceState (setVoiceState rid v s)\<rparr>"
  "updateSpeaking rid cid peer b s = s\<lparr>voiceState := voiceState (updateSpeaking rid cid peer b s)\<rparr>"
  "addVoicePeer rid cid p s = s\<lparr>voiceState := voiceState (addVoicePeer rid cid p s)\<rparr>"
  "removeVoicePeer rid cid peer s = s\<lparr>voiceState := voiceState (removeVoicePeer rid cid peer s)\<rparr>"
  "addVoiceChannel rid cid name s = s\<lparr>voiceState := voiceState (addVoiceChannel rid cid name s)\<rparr>"
  by (simp_all add: setVoiceState_def updateSpeaking_def addVoicePeer_def removeVoicePeer_def
      update_channel_def addVoiceChannel_def Let_def split: option.splits)

lemma chat_wf_voice: "chat_wf s \<Longrightarrow> voice_wf vs \<Longrightarrow> chat_wf (s\<lparr>voiceState := vs\<rparr>)"
  by (simp add: chat_wf_def active_read_cong [of "s\<lparr>voiceState := vs\<rparr>" s])

lemma chat_wf_contacts: "chat_wf s \<Longrightarrow> contacts_wf m \<Longrightarrow> chat_wf (s\<lparr>cotContacts := m\<rparr>)"
  by (simp add: chat_wf_def active_read_cong [of "s\<lparr>cotContacts := m\<rparr>" s])

lemma chat_wf_voice_ops [wf_intros]:
  assumes "chat_wf s"
  shows "chat_wf (setVoiceState rid v s)"
    and "chat_wf (updateSpeaking rid cid peer b s)"
    and "chat_wf (addVoiceChannel rid cid name s)"
    and "chat_wf (addVoicePeer rid cid p s)"
    and "chat_wf (removeVoicePeer rid cid peer s)"
proof -
  from assms have v: "voice_wf (voiceState s)" by (simp add: chat_wf_def)
  show "chat_wf (setVoiceState rid v s)"
    by (subst voice_ops_only) (rule chat_wf_voice [OF assms voice_ops_wf(1) [OF v]])
  show "chat_wf (updateSpeaking rid cid peer b s)"
    by (subst voice_ops_only) (rule chat_wf_voice [OF assms voice_ops_wf(2) [OF v]])
  show "chat_wf (addVoiceChannel rid cid name s)"
    by (subst voice_ops_only) (rule chat_wf_voice [OF assms voice_ops_wf(3) [OF v]])
  show "chat_wf (addVoicePeer rid cid p s)"
    by (subst voice_ops_only) (rule chat_wf_voice [OF assms voice_ops_wf(4) [OF v]])
  show "chat_wf (removeVoicePeer rid cid peer s)"
    by (subst voice_ops_only) (rule chat_wf_voice [OF assms voice_ops_wf(5) [OF v]])
qed

lemma chat_wf_other_ops [wf_intros]:
  assumes "chat_wf s"
  shows "chat_wf (setMeshPeers rid ps s)"
    and "chat_wf (mergeMeshPeers rid ps s)"
    and "chat_wf (setCotContacts rid cs s)"
    and "chat_wf (setCotMarkers rid ms s)"
    and "chat_wf (addCotMarker rid m s)"
    and "chat_wf (removeCotMarker rid mid s)"
    and "chat_wf (setIdentity i short s)"
    and "chat_wf (setDisplayName name s)"
    and "chat_wf (setAvailableRooms ris s)"
    and "chat_wf (setConnected c s)"
proof -
  show "chat_wf (setCotContacts rid cs s)"
    unfolding setCotContacts_def
    by (rule chat_wf_contacts [OF assms], rule contacts_wf_set) (use assms in \<open>simp add: chat_wf_def\<close>)
qed (use assms in \<open>auto simp: setMeshPeers_def mergeMeshPeers_def setCotMarkers_def addCotMarker_def
    removeCotMarker_def setIdentity_def setDisplayName_def setAvailableRooms_def setConnected_def Let_def
    chat_wf_cong [of "s\<lparr>meshPeers := m\<rparr>" s for m] chat_wf_cong [of "s\<lparr>cotMarkers := m\<rparr>" s for m]
    chat_wf_cong [of "s\<lparr>userId := i, shortId := j\<rparr>" s for i j]
    chat_wf_cong [of "s\<lparr>displayName := i\<rparr>" s for i]
    chat_wf_cong [of "s\<lparr>availableRooms := i\<rparr>" s for i]
    chat_wf_cong [of "s\<lparr>connected := i\<rparr>" s for i] split: option.splits\<close>)

section \<open>The WebSocket handlers keep it\<close>

definition handler_ok :: "(views \<Rightarrow> jsval \<Rightarrow> chat_state \<Rightarrow> outcome) \<Rightarrow> bool" where
  "handler_ok h \<longleftrightarrow> (\<forall>V d s. chat_wf s \<longrightarrow> chat_wf (fst (h V d s)))"

lemma fst_stored [simp]: "fst (stored s) = s"
  by (simp add: stored_def)

lemma need_str_wf [intro]:
  "chat_wf s \<Longrightarrow> (\<And>t. str_prop d k = Some t \<Longrightarrow> chat_wf (fst (f t))) \<Longrightarrow> chat_wf (fst (need_str d k f s))"
  by (simp add: need_str_def split: option.splits)

lemmas handler_defs =
  on_identity_def on_name_assigned_def on_room_list_def on_room_joined_def on_room_history_def
  on_message_def on_peer_update_def on_message_edited_def on_message_deleted_def
  on_reaction_updated_def on_message_pinned_def on_message_unpinned_def on_dm_opened_def
  on_mesh_state_def on_ble_mesh_state_def on_voice_state_def on_voice_channel_created_def
  on_voice_peer_joined_def on_voice_peer_left_def on_voice_offer_relay_def on_voice_answer_relay_def
  on_voice_ice_relay_def on_voice_speaking_def on_cot_state_def on_marker_created_def on_marker_deleted_def

lemma handlers_ok: "list_all (\<lambda>(t, h). handler_ok h) ws_switch"
  unfolding ws_switch_def handler_ok_def handler_defs Let_def
  by (auto intro!: need_str_wf simp: chat_wf_room_ops chat_wf_voice_ops chat_wf_other_ops
      simp del: str_prop.simps split: jsval.splits)

lemma ws_onmessage_wf: "chat_wf s \<Longrightarrow> chat_wf (fst (ws_onmessage V frame s))"
  using handlers_ok
  by (fastforce simp: ws_onmessage_def list_all_iff handler_ok_def Let_def
      split: option.splits jsval.splits dest: map_of_SomeD)

lemma ws_onopen_wf: "chat_wf s \<Longrightarrow> chat_wf (fst (ws_onopen t s))"
  by (simp add: ws_onopen_def chat_wf_other_ops)

lemma ws_onclose_wf: "chat_wf s \<Longrightarrow> chat_wf (ws_onclose s)"
  using active_read_cong [of "ws_onclose s" s]
  by (simp add: ws_onclose_def chat_wf_def setConnected_def voice_wf_def contacts_wf_def)

end
