(* ===== verification/WsConn.thy ===== *)
theory WsConn
  imports ChatInv
begin

text \<open>
  The connection of \<open>web/src/hooks/useWebSocket.ts\<close>: the sockets the hook opens, the reference to
  the current one, the reconnect timer, and the effect that mounts and unmounts it. The browser's
  part (opening, delivering, failing and closing a socket) is the choice of a step relation; a
  socket follows the life cycle of the WebSocket standard: connecting, open, closing, closed, with
  messages delivered only while open.
\<close>

datatype sock_status = Fresh | Connecting | Open | Closing | Closed

record socket =
  status :: sock_status
  has_onclose :: bool

record ws_sys =
  ws_ref :: "nat option"
  socket_of :: "nat \<Rightarrow> socket"
  next_socket :: nat
  reconnect :: bool
  mounted :: bool
  chat :: chat_state
  sent :: "(nat \<times> out_msg) list"
  called :: "vm_call list"

definition init_ws :: ws_sys where
  "init_ws = \<lparr> ws_ref = None, socket_of = (\<lambda>_. \<lparr>status = Fresh, has_onclose = False\<rparr>), next_socket = 0,
     reconnect = False, mounted = False, chat = init_chat, sent = [], called = [] \<rparr>"

section \<open>What the hook does\<close>

text \<open>\<open>ws.close()\<close>: no effect on a socket that is closing or closed.\<close>

definition close_socket :: "socket \<Rightarrow> socket" where
  "close_socket k =
     (if status k = Connecting \<or> status k = Open then k\<lparr>status := Closing\<rparr> else k)"

text \<open>\<open>wsRef.current.onclose = null; wsRef.current.close(); wsRef.current = null\<close>.\<close>

definition detach_current :: "ws_sys \<Rightarrow> ws_sys" where
  "detach_current c =
     (case ws_ref c of
        None \<Rightarrow> c
      | Some k \<Rightarrow>
          c\<lparr>socket_of := (socket_of c)(k := close_socket ((socket_of c k)\<lparr>has_onclose := False\<rparr>)),
            ws_ref := None\<rparr>)"

definition ws_connect :: "ws_sys \<Rightarrow> ws_sys" where
  "ws_connect c =
     (let c' = detach_current c; k = next_socket c'
      in c'\<lparr>socket_of := (socket_of c')(k := \<lparr>status = Connecting, has_onclose = True\<rparr>),
            next_socket := Suc k, ws_ref := Some k\<rparr>)"

definition ws_mount :: "ws_sys \<Rightarrow> ws_sys" where
  "ws_mount c = ws_connect (c\<lparr>mounted := True\<rparr>)"

definition ws_unmount :: "ws_sys \<Rightarrow> ws_sys" where
  "ws_unmount c = detach_current (c\<lparr>reconnect := False, mounted := False\<rparr>)"

definition ws_timer :: "ws_sys \<Rightarrow> ws_sys" where
  "ws_timer c = ws_connect (c\<lparr>reconnect := False\<rparr>)"

definition ws_opened :: "string \<Rightarrow> nat \<Rightarrow> ws_sys \<Rightarrow> ws_sys" where
  "ws_opened pref k c =
     (let (s, outs) = ws_onopen pref (chat c)
      in c\<lparr>socket_of := (socket_of c)(k := (socket_of c k)\<lparr>status := Open\<rparr>),
           chat := s, sent := sent c @ map (Pair k) outs\<rparr>)"

definition ws_frame :: "views \<Rightarrow> nat \<Rightarrow> jsval option \<Rightarrow> ws_sys \<Rightarrow> ws_sys" where
  "ws_frame V k frame c =
     (let (s, outs, calls) = ws_onmessage V frame (chat c)
      in c\<lparr>chat := s, sent := sent c @ map (Pair k) outs, called := called c @ calls\<rparr>)"

definition ws_error :: "nat \<Rightarrow> ws_sys \<Rightarrow> ws_sys" where
  "ws_error k c = c\<lparr>socket_of := (socket_of c)(k := close_socket (socket_of c k))\<rparr>"

definition ws_closed :: "nat \<Rightarrow> ws_sys \<Rightarrow> ws_sys" where
  "ws_closed k c =
     (let c' = c\<lparr>socket_of := (socket_of c)(k := (socket_of c k)\<lparr>status := Closed\<rparr>)\<rparr>
      in if has_onclose (socket_of c k)
         then c'\<lparr>chat := ws_onclose (chat c'), ws_ref := None, reconnect := True\<rparr>
         else c')"

definition ws_send :: "string \<Rightarrow> jsval \<Rightarrow> ws_sys \<Rightarrow> ws_sys" where
  "ws_send t d c =
     (case ws_ref c of
        None \<Rightarrow> c
      | Some k \<Rightarrow> if status (socket_of c k) = Open then c\<lparr>sent := sent c @ [(k, Out t d)]\<rparr> else c)"

section \<open>The step relation\<close>

text \<open>
  What the user interface does to the store of its own: choosing a room, going back; and the four
  fields the voice actions of \<open>App.tsx\<close> write (see \<open>Page\<close>).
\<close>

datatype ui_action =
    SelectRoom string | Back | ResetStack | Rename string | ToggleMenu
  | VoiceFields "(string \<times> string) option" bool bool "string option"

fun ui_step :: "ui_action \<Rightarrow> chat_state \<Rightarrow> chat_state" where
  "ui_step (SelectRoom rid) s = pushContextRoute rid (setActiveRoom rid s)"
| "ui_step Back s = popContextRoute s"
| "ui_step ResetStack s = resetContextStack s"
| "ui_step (Rename name) s = setDisplayName name s"
| "ui_step ToggleMenu s = toggleMenu s"
| "ui_step (VoiceFields v sp m e) s =
     s\<lparr>activeVoice := v, localSpeaking := sp, voiceMuted := m, voiceError := e\<rparr>"

inductive ws_step :: "views \<Rightarrow> ws_sys \<Rightarrow> ws_sys \<Rightarrow> bool" for V :: views where
  mount: "\<not> mounted c \<Longrightarrow> ws_step V c (ws_mount c)"
| unmount: "mounted c \<Longrightarrow> ws_step V c (ws_unmount c)"
| timer: "reconnect c \<Longrightarrow> ws_step V c (ws_timer c)"
| opened: "status (socket_of c k) = Connecting \<Longrightarrow> ws_step V c (ws_opened pref k c)"
| frame: "status (socket_of c k) = Open \<Longrightarrow> ws_step V c (ws_frame V k f c)"
| error: "status (socket_of c k) \<noteq> Fresh \<Longrightarrow> ws_step V c (ws_error k c)"
| closed: "status (socket_of c k) \<in> {Connecting, Open, Closing} \<Longrightarrow> ws_step V c (ws_closed k c)"
| send: "ws_step V c (ws_send t d c)"
| ui: "ws_step V c (c\<lparr>chat := ui_step a (chat c)\<rparr>)"

inductive ws_reachable :: "views \<Rightarrow> ws_sys \<Rightarrow> bool" for V :: views where
  start: "ws_reachable V init_ws"
| step: "ws_reachable V c \<Longrightarrow> ws_step V c d \<Longrightarrow> ws_reachable V d"

inductive_cases ws_step_cases: "ws_step V c d"

section \<open>The invariant\<close>

definition live :: "socket \<Rightarrow> bool" where
  "live k \<longleftrightarrow> has_onclose k \<and> (status k = Connecting \<or> status k = Open \<or> status k = Closing)"

definition ws_inv :: "ws_sys \<Rightarrow> bool" where
  "ws_inv c \<longleftrightarrow>
     (\<forall>k. live (socket_of c k) \<longleftrightarrow> ws_ref c = Some k) \<and>
     (\<forall>k. status (socket_of c k) = Connecting \<or> status (socket_of c k) = Open \<longrightarrow> has_onclose (socket_of c k)) \<and>
     (\<forall>k. has_onclose (socket_of c k) \<longrightarrow> status (socket_of c k) \<noteq> Fresh) \<and>
     (\<forall>k \<ge> next_socket c. status (socket_of c k) = Fresh) \<and>
     (mounted c \<longrightarrow> (ws_ref c = None) = reconnect c) \<and>
     (\<not> mounted c \<longrightarrow> ws_ref c = None \<and> \<not> reconnect c) \<and>
     chat_wf (chat c)"

lemma close_socket_simps:
  "live (close_socket s) = live s" "has_onclose (close_socket s) = has_onclose s"
  "status (close_socket s) = Fresh \<longleftrightarrow> status s = Fresh"
  "status (close_socket s) \<noteq> Open" "status (close_socket s) \<noteq> Connecting"
  by (auto simp: close_socket_def live_def)

lemma ws_inv_init: "ws_inv init_ws"
  by (simp add: ws_inv_def init_ws_def live_def chat_wf_init)

lemma ws_invD:
  assumes "ws_inv c"
  shows "live (socket_of c k) \<longleftrightarrow> ws_ref c = Some k"
    and "status (socket_of c k) = Connecting \<or> status (socket_of c k) = Open \<Longrightarrow> ws_ref c = Some k"
    and "ws_ref c = Some k \<Longrightarrow> status (socket_of c k) \<noteq> Fresh"
    and "reconnect c \<Longrightarrow> ws_ref c = None \<and> mounted c"
    and "\<not> mounted c \<Longrightarrow> ws_ref c = None"
    and "mounted c \<Longrightarrow> (ws_ref c = None) = reconnect c"
    and "chat_wf (chat c)"
  using assms by (auto simp: ws_inv_def live_def)

lemma ws_inv_next: "ws_inv c \<Longrightarrow> status (socket_of c k) \<noteq> Fresh \<Longrightarrow> k < next_socket c"
  by (rule ccontr) (simp add: ws_inv_def)

text \<open>Connecting from a state with no current socket, which is the only one it happens in.\<close>

lemma ws_inv_connect:
  assumes inv: "ws_inv c" and none: "ws_ref c = None"
  shows "ws_inv (ws_connect (c\<lparr>reconnect := False, mounted := True\<rparr>))"
proof -
  let ?n = "next_socket c" and ?d = "ws_connect (c\<lparr>reconnect := False, mounted := True\<rparr>)"
  have d: "?d = c\<lparr>reconnect := False, mounted := True,
      socket_of := (socket_of c)(?n := \<lparr>status = Connecting, has_onclose = True\<rparr>),
      next_socket := Suc ?n, ws_ref := Some ?n\<rparr>"
    by (simp add: ws_connect_def detach_current_def none Let_def)
  have "\<not> live (socket_of c k)" for k using inv none by (simp add: ws_inv_def)
  then have "live (socket_of ?d k) \<longleftrightarrow> ws_ref ?d = Some k" for k
    by (auto simp: d live_def)
  moreover have "status (socket_of ?d k) = Connecting \<or> status (socket_of ?d k) = Open
      \<longrightarrow> has_onclose (socket_of ?d k)" for k
    using inv by (simp add: d ws_inv_def)
  moreover have "has_onclose (socket_of ?d k) \<longrightarrow> status (socket_of ?d k) \<noteq> Fresh" for k
    using inv by (simp add: d ws_inv_def)
  moreover have "status (socket_of ?d k) = Fresh" if "next_socket ?d \<le> k" for k
    using inv that by (simp add: d ws_inv_def)
  moreover have "chat_wf (chat ?d)" using inv by (simp add: d ws_inv_def)
  ultimately show ?thesis by (simp add: ws_inv_def d)
qed

lemma ws_inv_socket:
  assumes "ws_inv c" and "status (socket_of c k) \<noteq> Fresh"
    and "live s = live (socket_of c k)" and "has_onclose s = has_onclose (socket_of c k)"
    and "status s = Open \<or> status s = Connecting \<Longrightarrow> has_onclose s" and "status s \<noteq> Fresh"
  shows "ws_inv (c\<lparr>socket_of := (socket_of c)(k := s)\<rparr>)"
  using assms ws_inv_next [OF assms(1,2)] by (auto simp: ws_inv_def)

text \<open>The current socket goes: by unmounting, or because it closed.\<close>

lemma ws_inv_drop:
  assumes inv: "ws_inv c" and cur: "ws_ref c = Some k" and s: "status s = Closing \<or> status s = Closed"
    and dead: "\<not> live s" and ch: "chat_wf ch"
  shows "ws_inv (c\<lparr>socket_of := (socket_of c)(k := s), ws_ref := None, reconnect := m, mounted := m, chat := ch\<rparr>)"
    (is "ws_inv ?d")
proof -
  have k: "k < next_socket c" using inv cur by (blast intro: ws_inv_next dest: ws_invD(3))
  have "\<not> live (socket_of ?d j)" for j
    using inv cur dead by (simp add: ws_inv_def)
  moreover have "status (socket_of ?d j) = Connecting \<or> status (socket_of ?d j) = Open
      \<longrightarrow> has_onclose (socket_of ?d j)" for j
    using inv s by (auto simp: ws_inv_def)
  moreover have "has_onclose (socket_of ?d j) \<longrightarrow> status (socket_of ?d j) \<noteq> Fresh" for j
    using inv s by (auto simp: ws_inv_def)
  moreover have "status (socket_of ?d j) = Fresh" if "next_socket ?d \<le> j" for j
    using inv that k by (simp add: ws_inv_def)
  ultimately show ?thesis using ch by (simp add: ws_inv_def)
qed

lemma ws_inv_unmount:
  assumes inv: "ws_inv c"
  shows "ws_inv (ws_unmount c)"
proof (cases "ws_ref c")
  case None
  with assms show ?thesis by (simp add: ws_inv_def ws_unmount_def detach_current_def)
next
  case (Some k)
  let ?s = "close_socket ((socket_of c k)\<lparr>has_onclose := False\<rparr>)"
  from inv Some have "live (socket_of c k)" by (simp add: ws_invD(1))
  then have "status ?s = Closing \<or> status ?s = Closed" and "\<not> live ?s"
    by (auto simp: close_socket_def live_def)
  from ws_inv_drop [OF inv Some this ws_invD(7) [OF inv], of False] Some show ?thesis
    by (simp add: ws_unmount_def detach_current_def ws_inv_def)
qed

lemma ws_inv_closed:
  assumes inv: "ws_inv c" and st: "status (socket_of c k) \<in> {Connecting, Open, Closing}"
  shows "ws_inv (ws_closed k c)"
proof (cases "has_onclose (socket_of c k)")
  case True
  with st inv have cur: "ws_ref c = Some k" by (auto simp: live_def simp flip: ws_invD(1))
  with inv have m: "mounted c" by (metis option.distinct(1) ws_invD(5))
  let ?s = "(socket_of c k)\<lparr>status := Closed\<rparr>"
  have "ws_inv (c\<lparr>socket_of := (socket_of c)(k := ?s), ws_ref := None, reconnect := True,
      mounted := True, chat := ws_onclose (chat c)\<rparr>)"
    by (rule ws_inv_drop [OF inv cur]) (simp_all add: live_def ws_onclose_wf ws_invD(7) [OF inv])
  with True m show ?thesis by (simp add: ws_closed_def ws_inv_def)
next
  case False
  have "ws_inv (c\<lparr>socket_of := (socket_of c)(k := (socket_of c k)\<lparr>status := Closed\<rparr>)\<rparr>)"
    using inv st False by (auto simp: live_def intro!: ws_inv_socket)
  with False show ?thesis by (simp add: ws_closed_def)
qed

lemma ws_inv_chat: "ws_inv c \<Longrightarrow> chat_wf s \<Longrightarrow> ws_inv (c\<lparr>chat := s, sent := x, called := y\<rparr>)"
  by (simp add: ws_inv_def)

lemma chat_wf_stack: "chat_wf s \<Longrightarrow> stack_wf st \<Longrightarrow> chat_wf (s\<lparr>contextStack := st\<rparr>)"
  by (simp add: chat_wf_def active_read_cong [of "s\<lparr>contextStack := st\<rparr>" s])

lemma ui_step_wf:
  assumes "chat_wf s"
  shows "chat_wf (ui_step a s)"
proof (cases a)
  case (SelectRoom rid)
  let ?t = "setActiveRoom rid s"
  from assms have t: "chat_wf ?t" by (rule chat_wf_room_ops)
  then have "stack_wf (contextStack (pushContextRoute rid ?t))"
    by (simp add: chat_wf_def stack_ops_wf)
  then have "chat_wf (?t\<lparr>contextStack := contextStack (pushContextRoute rid ?t)\<rparr>)"
    by (rule chat_wf_stack [OF t])
  with SelectRoom show ?thesis by (simp add: pushContextRoute_def)
next
  case Back
  from assms have "stack_wf (contextStack (popContextRoute s))" by (simp add: chat_wf_def stack_ops_wf)
  with Back assms show ?thesis
    by (simp add: popContextRoute_def chat_wf_stack split: if_splits)
next
  case ToggleMenu
  with assms show ?thesis
    by (simp add: toggleMenu_def Let_def chat_wf_cong [of "s\<lparr>menuOpen := x, menuRoute := y\<rparr>" s for x y])
next
  case (VoiceFields v sp m e)
  with assms show ?thesis
    by (simp add: chat_wf_cong [of "s\<lparr>activeVoice := v, localSpeaking := sp, voiceMuted := m, voiceError := e\<rparr>" s])
qed (use assms in \<open>simp_all add: resetContextStack_def chat_wf_stack chat_wf_other_ops\<close>)

lemma ws_step_inv: "ws_step V c d \<Longrightarrow> ws_inv c \<Longrightarrow> ws_inv d"
proof (induction rule: ws_step.induct)
  case (mount c)
  then have "ws_ref c = None" and "c\<lparr>reconnect := False\<rparr> = c" by (simp_all add: ws_inv_def)
  with mount ws_inv_connect [of c] show ?case by (simp add: ws_mount_def)
next
  case (unmount c)
  then show ?case by (blast intro: ws_inv_unmount)
next
  case (timer c)
  then have "ws_ref c = None" and "mounted c" by (auto dest: ws_invD(4))
  from \<open>mounted c\<close> have eq: "c\<lparr>reconnect := False, mounted := True\<rparr> = c\<lparr>reconnect := False\<rparr>" by simp
  from ws_inv_connect [OF timer.prems \<open>ws_ref c = None\<close>] show ?case unfolding ws_timer_def eq .
next
  case (opened c k pref)
  let ?s = "(socket_of c k)\<lparr>status := Open\<rparr>"
  have "has_onclose (socket_of c k)" using opened by (simp add: ws_inv_def)
  then have "ws_inv (c\<lparr>socket_of := (socket_of c)(k := ?s)\<rparr>)"
    using opened by (intro ws_inv_socket) (simp_all add: live_def)
  moreover obtain t outs where o: "ws_onopen pref (chat c) = (t, outs)" by fastforce
  moreover have "chat_wf t" using ws_onopen_wf [of "chat c" pref] opened o by (simp add: ws_invD(7))
  ultimately show ?case by (simp add: ws_opened_def ws_inv_def)
next
  case (frame c k f)
  moreover obtain t outs calls where o: "ws_onmessage V f (chat c) = (t, outs, calls)"
    by (metis prod_cases3)
  moreover have "chat_wf t" using ws_onmessage_wf [of "chat c" V f] frame o by (simp add: ws_invD(7))
  ultimately show ?case by (simp add: ws_frame_def ws_inv_chat)
next
  case (error c k)
  then have "ws_inv (c\<lparr>socket_of := (socket_of c)(k := close_socket (socket_of c k))\<rparr>)"
    by (intro ws_inv_socket) (auto simp: close_socket_simps)
  then show ?case by (simp add: ws_error_def)
next
  case (closed c k)
  then show ?case by (blast intro: ws_inv_closed)
next
  case (send c t d)
  moreover from send have "ws_inv (c\<lparr>sent := x\<rparr>)" for x by (simp add: ws_inv_def)
  ultimately show ?case by (simp add: ws_send_def split: option.split)
next
  case (ui c a)
  then show ?case by (simp add: ws_inv_def ui_step_wf)
qed

lemma ws_reachable_inv: "ws_reachable V c \<Longrightarrow> ws_inv c"
  by (induction rule: ws_reachable.induct) (auto intro: ws_inv_init ws_step_inv)

end
