(* ===== verification/StoreProps.thy ===== *)
theory StoreProps
  imports ChatInv
begin

text \<open>
  What the chat store promises: the message list of a room refines a map from ids to messages on
  which every operation is an update of one point, redelivery changes nothing, arrival order does
  not matter, unread counters count, the two writers of the mesh table respect each other, and
  whatever the server sends as voice state is brought into shape.
\<close>

section \<open>Messages as a map\<close>

text \<open>The specification of the arrival of a message, on the id map.\<close>

definition spec_receive ::
  "chat_message \<Rightarrow> (string \<Rightarrow> chat_message option) \<Rightarrow> string \<Rightarrow> chat_message option" where
  "spec_receive m f =
     f(msg_id m \<mapsto> (case f (msg_id m) of None \<Rightarrow> m | Some prev \<Rightarrow> spread_message prev m))"

lemma keyed_merge_spec:
  "js_get (keyed_merge msg_id spread_message ms tbl) = fold spec_receive ms (js_get tbl)"
proof (induction ms arbitrary: tbl)
  case (Cons m ms)
  have "js_get (keyed_step msg_id spread_message m tbl) = spec_receive m (js_get tbl)"
    by (simp add: msgs.step_get spec_receive_def)
  with Cons [of "keyed_step msg_id spread_message m tbl"] show ?case by (simp add: keyed_merge_def)
qed (simp add: keyed_merge_def)

lemma merge_again:
  assumes "distinct (map msg_id inc)"
  shows "mergeMessages (mergeMessages ex inc) inc = mergeMessages ex inc"
proof -
  let ?L = "mergeMessages ex inc"
  have wf: "distinct (map msg_id ?L)" "sorted (map timestamp ?L)"
    using messages_wf_merge [of ex inc] by (simp_all add: messages_wf_def)
  have get: "js_get (map_from msg_id ?L) = js_get (keyed_merge msg_id spread_message inc (map_from msg_id ex))"
    using message_map_merge [of ex inc] by (simp add: message_map_def)
  have "keyed_merge msg_id spread_message inc (map_from msg_id ?L) = map_from msg_id ?L"
  proof (rule msgs.merge_absorbed)
    fix x assume "x \<in> set inc"
    from msgs.merge_get [OF assms this, of "map_from msg_id ex"]
    show "\<exists>q. js_get (map_from msg_id ?L) (msg_id x)
        = Some (case q of None \<Rightarrow> x | Some prev \<Rightarrow> spread_message prev x)"
      unfolding get by blast
  qed
  then have "mergeMessages ?L inc = sort_key timestamp (js_values (map_from msg_id ?L))"
    by (simp add: mergeMessages_def [of ?L])
  also have "\<dots> = ?L"
    using wf by (simp add: map_from_distinct sort_key_id_if_sorted)
  finally show ?thesis .
qed

lemma merge_swap_map:
  assumes "msg_id a \<noteq> msg_id b"
  shows "message_map (mergeMessages (mergeMessages ms [a]) [b])
           = message_map (mergeMessages (mergeMessages ms [b]) [a])"
  using assms by (auto simp: message_map_merge_one fun_eq_iff)

text \<open>The id map of a room of the store, empty for a room that is not there.\<close>

definition room_msgs :: "chat_state \<Rightarrow> string \<Rightarrow> string \<Rightarrow> chat_message option" where
  "room_msgs s rid =
     (case js_get (rooms s) rid of None \<Rightarrow> Map.empty | Some r \<Rightarrow> message_map (messages r))"

definition patch_at ::
  "string \<Rightarrow> string \<Rightarrow> (chat_message \<Rightarrow> chat_message) \<Rightarrow>
   (string \<Rightarrow> string \<Rightarrow> chat_message option) \<Rightarrow> string \<Rightarrow> string \<Rightarrow> chat_message option" where
  "patch_at rid mid patch f = f(rid := (f rid)(mid := map_option patch (f rid mid)))"

lemma room_msgs_update:
  "room_msgs (update_room rid f s) k =
     (if k = rid then (case js_get (rooms s) rid of None \<Rightarrow> Map.empty | Some r \<Rightarrow> message_map (messages (f r)))
      else room_msgs s k)"
  by (auto simp: room_msgs_def get_update_room split: option.splits)

lemma room_msgs_patch:
  assumes "message_patch patch" and "rooms_wf (rooms s)"
  shows "room_msgs (update_room rid (patch_messages mid patch) s) = patch_at rid mid patch (room_msgs s)"
proof
  fix k
  show "room_msgs (update_room rid (patch_messages mid patch) s) k = patch_at rid mid patch (room_msgs s) k"
  proof (cases "js_get (rooms s) rid")
    case None
    then show ?thesis
      by (auto simp: patch_at_def room_msgs_def get_update_room fun_eq_iff)
  next
    case (Some r)
    with assms(2) have "room_wf r" using rooms_wf_get by blast
    from message_patch.patched_map [OF assms(1) this, of mid] Some show ?thesis
      by (simp add: room_msgs_update patch_at_def) (simp add: room_msgs_def)
  qed
qed

lemma patches: "message_patch (edit_patch t e)" "message_patch delete_patch"
  "message_patch (reactions_patch rs)" "message_patch (pin_patch b)"
  by (rule edit.message_patch_axioms del.message_patch_axioms react.message_patch_axioms
      pin.message_patch_axioms)+

section \<open>Unread counters\<close>

definition room_unread :: "chat_state \<Rightarrow> string \<Rightarrow> nat" where
  "room_unread s rid = (case js_get (rooms s) rid of None \<Rightarrow> 0 | Some r \<Rightarrow> unread r)"

text \<open>How many messages of a batch are new to a room and of another sender.\<close>

fun fresh_count :: "string \<Rightarrow> string set \<Rightarrow> chat_message list \<Rightarrow> nat" where
  "fresh_count me seen [] = 0"
| "fresh_count me seen (m # ms) =
     (if msg_id m \<notin> seen \<and> sender m \<noteq> me then 1 else 0) + fresh_count me (insert (msg_id m) seen) ms"

definition add_all :: "string \<Rightarrow> chat_message list \<Rightarrow> chat_state \<Rightarrow> chat_state" where
  "add_all rid ms s = fold (addMessage rid) ms s"

lemma addMessage_get:
  "js_get (rooms s) rid = Some r \<Longrightarrow>
   js_get (rooms (addMessage rid m s)) rid
     = Some (receive_message (activeRoomId s = Some rid) (sender m = userId s) m r)"
  by (simp add: addMessage_def get_update_room)

lemma addMessage_fields [simp]:
  "activeRoomId (addMessage rid m s) = activeRoomId s" "userId (addMessage rid m s) = userId s"
  by (simp_all add: addMessage_def frame_simps)

lemma fresh_count_all:
  assumes "js_get (rooms s) rid = Some r" and "activeRoomId s \<noteq> Some rid"
  shows "room_unread (add_all rid ms s) rid
           = unread r + fresh_count (userId s) (msg_id ` set (messages r)) ms"
  using assms
proof (induction ms arbitrary: s r)
  case Nil
  then show ?case by (simp add: add_all_def room_unread_def)
next
  case (Cons m ms)
  let ?r = "receive_message (activeRoomId s = Some rid) (sender m = userId s) m r"
  have get: "js_get (rooms (addMessage rid m s)) rid = Some ?r"
    using Cons.prems(1) by (rule addMessage_get)
  have ids: "msg_id ` set (messages (receive_message b c m r)) = insert (msg_id m) (msg_id ` set (messages r))" for b c
    by (simp add: receive_message_def Let_def merge_ids)
  have "room_unread (add_all rid (m # ms) s) rid
      = unread ?r + fresh_count (userId s) (insert (msg_id m) (msg_id ` set (messages r))) ms"
    using Cons.IH [OF get] Cons.prems(2) by (simp add: add_all_def ids)
  moreover have "unread ?r = unread r +
      (if msg_id m \<notin> msg_id ` set (messages r) \<and> sender m \<noteq> userId s then 1 else 0)"
    using Cons.prems(2)
    by (auto simp: receive_message_def Let_def list_ex_iff) (metis image_eqI)
  ultimately show ?case by simp
qed

section \<open>The members of a voice channel\<close>

definition channel_members :: "chat_state \<Rightarrow> string \<Rightarrow> string \<Rightarrow> voice_member list" where
  "channel_members s rid cid =
     (case js_get (voiceState s) rid of
        None \<Rightarrow> []
      | Some chs \<Rightarrow> (case find (\<lambda>ch. vc_id ch = cid) chs of None \<Rightarrow> [] | Some ch \<Rightarrow> vc_members ch))"

lemma find_map_where:
  assumes "\<And>ch. vc_id (f ch) = vc_id ch"
  shows "find (\<lambda>ch. vc_id ch = c) (map_where (\<lambda>ch. vc_id ch = cid) f chs)
           = map_option (if c = cid then f else id) (find (\<lambda>ch. vc_id ch = c) chs)"
  by (induction chs) (auto simp: assms)

lemma members_update:
  assumes "\<And>ch. vc_id (f ch) = vc_id ch"
  shows "channel_members (update_channel rid cid f s) r c =
     (if r = rid \<and> c = cid then
        (case js_get (voiceState s) rid of
           None \<Rightarrow> []
         | Some chs \<Rightarrow> (case find (\<lambda>ch. vc_id ch = cid) chs of None \<Rightarrow> [] | Some ch \<Rightarrow> vc_members (f ch)))
      else channel_members s r c)"
  by (auto simp: channel_members_def update_channel_def find_map_where [OF assms] split: option.splits)

section \<open>Concrete data of the witnesses\<close>

definition plain_message :: "string \<Rightarrow> string \<Rightarrow> num \<Rightarrow> chat_message" where
  "plain_message i who t =
     \<lparr> msg_id = i, sender = who, sender_name = who, timestamp = t, content = ''hi'',
       reply_to = None, edited_at = None, deleted = None, reactions = None, pinned = None \<rparr>"

definition two_rooms :: chat_state where
  "two_rooms = addRoom ''r'' ''general'' 1 False (init_chat\<lparr>userId := ''me''\<rparr>)"

section \<open>Properties of messages\<close>

text \<open>
  C8. The message list of a room refines the id map: merging incoming messages into a list is, on
  the map, one update per message (\<open>{ ...prev, ...msg }\<close> where the id is known); the list that
  comes out has distinct ids and is in time order, whatever went in.
\<close>

theorem merge_refines_map:
  "message_map (mergeMessages existing incoming) = fold spec_receive incoming (message_map existing) \<and>
   messages_wf (mergeMessages existing incoming)"
  by (simp add: message_map_merge keyed_merge_spec messages_wf_merge) (simp add: message_map_def)

text \<open>
  C30. Redelivery changes nothing: a message the server sends again leaves the whole store as it
  was after the first delivery, the unread counter included.
\<close>

theorem addMessage_redelivery:
  "addMessage rid m (addMessage rid m s) = addMessage rid m s"
proof (cases "js_get (rooms s) rid")
  case None
  then show ?thesis by (simp add: addMessage_def update_room_def)
next
  case (Some r)
  let ?r = "receive_message (activeRoomId s = Some rid) (sender m = userId s) m r"
  have "msg_id m \<in> msg_id ` set (mergeMessages (messages r) [m])" by (simp add: merge_ids)
  then have "list_ex (\<lambda>x. msg_id x = msg_id m) (mergeMessages (messages r) [m])"
    by (auto simp: list_ex_iff)
  then have "receive_message b c m ?r = ?r" for b c
    using merge_again [of "[m]" "messages r"] by (simp add: receive_message_def Let_def)
  with Some show ?thesis by (simp add: addMessage_def update_room_def)
qed

text \<open>
  Two messages that reach a room in either order give the same list, when their ids differ and
  no two messages of the result have the same time.
\<close>

lemma arrival_order:
  assumes "msg_id a \<noteq> msg_id b"
    and "distinct (map timestamp (mergeMessages (mergeMessages ms [a]) [b]))"
  shows "mergeMessages (mergeMessages ms [a]) [b] = mergeMessages (mergeMessages ms [b]) [a]"
  using messages_wf_unique [OF messages_wf_merge messages_wf_merge merge_swap_map [OF assms(1)] assms(2)] .



text \<open>
  The unread counter of a room that is not open grows by the number of messages received that
  were new to the room and came from somebody else, each counted once however often it came.
\<close>

lemma unread_counts_fresh:
  assumes "js_get (rooms s) rid = Some r" and "activeRoomId s \<noteq> Some rid"
  shows "room_unread (fold (addMessage rid) ms s) rid
           = unread r + fresh_count (userId s) (msg_id ` set (messages r)) ms"
  using fresh_count_all [OF assms, of ms] by (simp add: add_all_def)

text \<open>
  A snapshot of the history cannot take a pin away: the server leaves \<open>pinned\<close> out of a message
  that is not pinned, and a property that is absent keeps the stored value. A message that was
  pinned before the connection was lost and unpinned meanwhile stays pinned in the client.
\<close>

lemma history_keeps_stale_pin:
  assumes "room_msgs s rid (msg_id m) = Some old" and "pinned old = Some True" and "pinned m = None"
  shows "\<exists>new. room_msgs (setRoomHistory rid [m] s) rid (msg_id m) = Some new \<and> pinned new = Some True"
proof -
  from assms(1) obtain r where r: "js_get (rooms s) rid = Some r" "message_map (messages r) (msg_id m) = Some old"
    by (auto simp: room_msgs_def split: option.splits)
  then have "room_msgs (setRoomHistory rid [m] s) rid (msg_id m) = Some (spread_message old m)"
    by (simp add: setRoomHistory_def room_msgs_update merge_history_def message_map_merge_one)
  with assms(2,3) show ?thesis by (simp add: spread_message_def)
qed

section \<open>Mesh peers and contacts\<close>

text \<open>
  A \<open>mesh_state\<close> of the server keeps every bridge peer the server does not list, shows every
  peer it does, and lets no nameless peer or scanner through; other rooms are not touched.
\<close>

lemma mesh_state_keeps_bridge_peers:
  "set (room_entries (meshPeers (setMeshPeers rid ps s)) rid) =
     {p. shown_peer p \<and> (p \<in> set ps \<or>
         p \<in> set (room_entries (meshPeers s) rid) \<and> is_bridge_peer p \<and> peer_id p \<notin> peer_id ` set ps)} \<and>
   room_entries (meshPeers (setMeshPeers rid ps s)) =
     (room_entries (meshPeers s))(rid := room_entries (meshPeers (setMeshPeers rid ps s)) rid)"
  by (simp add: setMeshPeers_entries server_and_bridge_set)
    (auto simp: setMeshPeers_def fun_eq_iff)

text \<open>
  A snapshot of the Bluetooth bridge replaces the Bluetooth peers and nothing else: what the
  server and Wi-Fi Direct contributed stays, and taking the same snapshot twice is taking it once,
  when all of its peers are Bluetooth peers.
\<close>

lemma ble_snapshot:
  assumes "list_all (\<lambda>p. transport p = ''btle'') ble"
  shows "filter (\<lambda>p. transport p \<noteq> ''btle'') (room_entries (meshPeers (mergeMeshPeers rid ble s)) rid)
           = filter (\<lambda>p. transport p \<noteq> ''btle'') (room_entries (meshPeers s) rid) \<and>
         filter (\<lambda>p. transport p = ''btle'') (room_entries (meshPeers (mergeMeshPeers rid ble s)) rid) = ble \<and>
         mergeMeshPeers rid ble (mergeMeshPeers rid ble s) = mergeMeshPeers rid ble s"
proof -
  have "filter (\<lambda>p. transport p \<noteq> ''btle'') ble = []" "filter (\<lambda>p. transport p = ''btle'') ble = ble"
    using assms by (auto simp: list_all_iff filter_empty_conv)
  then show ?thesis by (simp add: mergeMeshPeers_entries) (simp add: mergeMeshPeers_def)
qed

text \<open>
  A CoT snapshot merges by identity: afterwards the room has one contact per id, the ids are
  those of the stored and the received contacts that have one, and a received contact that names
  its sender is there as it was received, the only one of that sender.
\<close>

lemma contacts_merge:
  assumes "distinct (map contact_key cs)" and "c \<in> set cs" and "contact_sender_id c = Some i" and "i \<noteq> []"
  shows "distinct (map contact_key (room_entries (cotContacts (setCotContacts rid cs s)) rid)) \<and>
         contact_key ` set (room_entries (cotContacts (setCotContacts rid cs s)) rid)
           = (contact_key ` set (room_entries (cotContacts s) rid) \<union> contact_key ` set cs) - {[]} \<and>
         {d \<in> set (room_entries (cotContacts (setCotContacts rid cs s)) rid). contact_sender_id d = Some i} = {c}"
proof -
  let ?old = "room_entries (cotContacts s) rid" and ?use = "filter (\<lambda>c. contact_key c \<noteq> [])"
  let ?t = "keyed_merge contact_key replace_with (?use ?old) []"
  let ?u = "keyed_merge contact_key replace_with (?use cs) ?t"
  have key: "contact_key d = i" if "contact_sender_id d = Some i" for d
    using that assms(4) by (simp add: contact_key_def)
  have "distinct (map contact_key (?use cs))" using assms(1) by (simp add: distinct_map_filter)
  moreover have "c \<in> set (?use cs)" using assms(2-4) key by simp
  ultimately have "js_get ?u (contact_key c) = Some c"
    by (simp add: contacts.merge_get replace_with_def split: option.split)
  then have mem: "c \<in> set (merge_contacts ?old cs)"
    by (force simp: js_values_def merge_contacts_def Let_def dest: map_of_SomeD)
  moreover have "d = c" if "d \<in> set (merge_contacts ?old cs)" "contact_sender_id d = Some i" for d
    using merge_contacts_distinct [of ?old cs] that mem key [of d] key [OF assms(3)]
    by (simp add: distinct_map inj_on_def)
  ultimately have "{d \<in> set (merge_contacts ?old cs). contact_sender_id d = Some i} = {c}"
    using assms(3) by blast
  moreover have "room_entries (cotContacts (setCotContacts rid cs s)) rid = merge_contacts ?old cs"
    by (simp add: setCotContacts_def)
  ultimately show ?thesis by (simp add: merge_contacts_distinct merge_contacts_keys)
qed

section \<open>Voice channels\<close>

text \<open>
  C31. Whatever value the server sends as voice state, the store holds channels with distinct
  non-empty ids and names, whose members have distinct, trimmed, non-empty ids and non-empty names.
\<close>

theorem voice_state_normalised:
  "\<exists>chs. js_get (voiceState (setVoiceState rid v s)) rid = Some chs \<and> channels_wf chs"
  by (simp add: setVoiceState_def normalizeVoiceChannels_wf)

text \<open>
  A peer that leaves a channel goes from the members of that channel of that room and from
  nowhere else, the others keep their order; a speaking notice sets the flag of that peer there
  and changes nothing else.
\<close>

lemma voice_peer_updates:
  "(channel_members (removeVoicePeer rid cid peer s) r c =
      (if r = rid \<and> c = cid then filter (\<lambda>m. vm_id m \<noteq> peer) (channel_members s r c)
       else channel_members s r c)) \<and>
   (channel_members (updateSpeaking rid cid peer b s) r c =
      (if r = rid \<and> c = cid
       then map (\<lambda>m. if vm_id m = peer then m\<lparr>speaking := b\<rparr> else m) (channel_members s r c)
       else channel_members s r c))"
  unfolding removeVoicePeer_def updateSpeaking_def
  by (rule conjI; subst members_update; auto simp: leave_member_def set_speaking_def map_where_def
      channel_members_def split: option.splits)

end
