(* ===== verification/Pcm.thy ===== *)
theory Pcm
  imports Prelude "HOL-Library.Word"
begin

unbundle bit_operations_syntax

text \<open>
  The audio code at the end of \<open>web/src/voice/VoiceManager.ts\<close>: sample conversion, the byte order
  of PCM frames, base64, the resampler and the framing of the Bluetooth relay. Samples are exact
  reals (a \<open>Float32Array\<close> holds rounded ones); 16-bit samples are \<open>int\<close>, bytes are 8-bit words.
\<close>

section \<open>Constants\<close>

definition BLE_SAMPLE_RATE :: nat where "BLE_SAMPLE_RATE = 8000"

definition BLE_FRAME_SAMPLES :: nat where "BLE_FRAME_SAMPLES = 320"

definition BLE_POLL_MS :: nat where "BLE_POLL_MS = 20"

section \<open>Samples and bytes\<close>

text \<open>\<open>Math.round\<close> rounds a half upwards.\<close>

definition js_round :: "real \<Rightarrow> int" where
  "js_round x = \<lfloor>x + 1/2\<rfloor>"

definition floatToInt16 :: "real \<Rightarrow> int" where
  "floatToInt16 sample =
     (let clamped = max (-1) (min 1 sample)
      in if clamped < 0 then js_round (clamped * 32768) else js_round (clamped * 32767))"

definition int16_bytes :: "int \<Rightarrow> 8 word list" where
  "int16_bytes s =
     (let v = (if s < 0 then s + 0x10000 else s)
      in [word_of_int (v AND 0xFF), word_of_int (drop_bit 8 v AND 0xFF)])"

definition int16SamplesToBytes :: "int list \<Rightarrow> 8 word list" where
  "int16SamplesToBytes samples = concat (map int16_bytes samples)"

text \<open>One sample of \<open>scheduleIncomingBleFrame\<close>: the two bytes as a signed 16-bit number.\<close>

definition sample_of_bytes :: "8 word \<Rightarrow> 8 word \<Rightarrow> int" where
  "sample_of_bytes lo hi =
     (let s = push_bit 8 (uint hi) OR uint lo
      in if s \<ge> 0x8000 then s - 0x10000 else s)"

fun samples_of_bytes :: "8 word list \<Rightarrow> int list" where
  "samples_of_bytes (lo # hi # bs) = sample_of_bytes lo hi # samples_of_bytes bs"
| "samples_of_bytes _ = []"

definition is_int16 :: "int \<Rightarrow> bool" where
  "is_int16 s \<longleftrightarrow> - 32768 \<le> s \<and> s \<le> 32767"

lemma floatToInt16_range: "is_int16 (floatToInt16 x)"
proof -
  define c where "c = max (-1) (min 1 x)"
  have c: "- 1 \<le> c" "c \<le> 1" by (simp_all add: c_def)
  show ?thesis
  proof (cases "c < 0")
    case True
    with c have "- 32768 \<le> c * 32768" and "c * 32768 \<le> 0" by simp_all
    then have "- 32768 \<le> \<lfloor>c * 32768 + 1/2\<rfloor>" and "\<lfloor>c * 32768 + 1/2\<rfloor> \<le> 0" by linarith+
    with True show ?thesis by (simp add: floatToInt16_def js_round_def is_int16_def flip: c_def)
  next
    case False
    with c have "0 \<le> c * 32767" and "c * 32767 \<le> 32767" by simp_all
    then have "0 \<le> \<lfloor>c * 32767 + 1/2\<rfloor>" and "\<lfloor>c * 32767 + 1/2\<rfloor> \<le> 32767" by linarith+
    with False show ?thesis by (simp add: floatToInt16_def js_round_def is_int16_def flip: c_def)
  qed
qed

lemma js_round_mono: "x \<le> y \<Longrightarrow> js_round x \<le> js_round y"
  by (simp add: js_round_def floor_mono)

lemma floatToInt16_mono:
  assumes "x \<le> y"
  shows "floatToInt16 x \<le> floatToInt16 y"
proof -
  define c d where "c = max (-1) (min 1 x)" and "d = max (-1) (min 1 y)"
  have cd: "c \<le> d" using assms by (auto simp: c_def d_def)
  consider "d < 0" | "c < 0" "0 \<le> d" | "0 \<le> c" by linarith
  then show ?thesis
  proof cases
    case 2
    then have "js_round (c * 32768) \<le> js_round 0" and "js_round 0 \<le> js_round (d * 32767)"
      by (auto intro!: js_round_mono mult_nonpos_nonneg)
    with 2 show ?thesis by (simp add: floatToInt16_def flip: c_def d_def)
  qed (use cd in \<open>auto simp: floatToInt16_def simp flip: c_def d_def intro!: js_round_mono\<close>)
qed

lemma and_255: "(v::int) AND 255 = v mod 256"
  using take_bit_eq_mask [of 8 v] by (simp add: take_bit_eq_mod mask_eq_exp_minus_1)

lemma byte_pair: "push_bit 8 (uint (hi :: 8 word)) OR uint (lo :: 8 word) = uint hi * 256 + uint lo"
proof -
  have "take_bit 8 (uint lo) = uint lo"
    using uint_lt2p [of lo] by (simp add: take_bit_int_eq_self_iff)
  then have "push_bit 8 (uint hi) OR uint lo = concat_bit 8 (uint lo) (uint hi)"
    by (simp add: concat_bit_def or.commute)
  then show ?thesis
    using \<open>take_bit 8 (uint lo) = uint lo\<close> by (simp add: concat_bit_eq push_bit_eq_mult)
qed

lemma sample_of_int16_bytes:
  assumes "is_int16 s"
  shows "\<exists>lo hi. int16_bytes s = [lo, hi] \<and> sample_of_bytes lo hi = s"
proof -
  define v where "v = (if s < 0 then s + 0x10000 else s)"
  from assms have v: "0 \<le> v" "v < 65536" by (auto simp: v_def is_int16_def)
  let ?lo = "word_of_int (v AND 0xFF) :: 8 word"
    and ?hi = "word_of_int (drop_bit 8 v AND 0xFF) :: 8 word"
  have lo: "uint ?lo = v mod 256"
    by (simp add: uint_word_of_int and_255)
  have "drop_bit 8 v AND 255 = v div 256"
    using v by (simp add: and_255 drop_bit_eq_div)
  then have hi: "uint ?hi = v div 256"
    using v by (simp add: uint_word_of_int)
  have "push_bit 8 (uint ?hi) OR uint ?lo = uint ?hi * 256 + uint ?lo" by (rule byte_pair)
  also have "\<dots> = v" by (simp only: lo hi div_mult_mod_eq)
  finally have "push_bit 8 (uint ?hi) OR uint ?lo = v" .
  then have "sample_of_bytes ?lo ?hi = s"
    using assms by (auto simp: sample_of_bytes_def Let_def v_def is_int16_def split: if_splits)
  then show ?thesis by (simp add: int16_bytes_def Let_def flip: v_def)
qed

lemma samples_codec:
  "list_all is_int16 ss \<Longrightarrow> samples_of_bytes (int16SamplesToBytes ss) = ss"
proof (induction ss)
  case (Cons s ss)
  from Cons.prems obtain lo hi where "int16_bytes s = [lo, hi]" "sample_of_bytes lo hi = s"
    using sample_of_int16_bytes [of s] by auto
  with Cons show ?case by (simp add: int16SamplesToBytes_def)
qed (simp add: int16SamplesToBytes_def)

lemma length_int16SamplesToBytes: "length (int16SamplesToBytes ss) = 2 * length ss"
  by (induction ss) (auto simp: int16SamplesToBytes_def int16_bytes_def Let_def)

section \<open>Base64\<close>

text \<open>
  The browser's \<open>btoa\<close> and \<open>atob\<close> (the forgiving-base64 algorithms of the WHATWG Infra standard)
  on strings of code units below 256, and the two wrappers of the source. \<open>atob\<close> throws on bad
  input, here \<open>None\<close>.
\<close>

definition b64_alphabet :: string where
  "b64_alphabet = ''ABCDEFGHIJKLMNOPQRSTUVWXYZabcdefghijklmnopqrstuvwxyz0123456789+/''"

definition b64_char :: "nat \<Rightarrow> char" where
  "b64_char n = b64_alphabet ! n"

definition b64_value :: "char \<Rightarrow> nat" where
  "b64_value c = length (takeWhile (\<lambda>x. x \<noteq> c) b64_alphabet)"

fun sextets :: "nat list \<Rightarrow> nat list" where
  "sextets (a # b # c # rest) =
     [a div 4, (a mod 4) * 16 + b div 16, (b mod 16) * 4 + c div 64, c mod 64] @ sextets rest"
| "sextets [a, b] = [a div 4, (a mod 4) * 16 + b div 16, (b mod 16) * 4]"
| "sextets [a] = [a div 4, (a mod 4) * 16]"
| "sextets [] = []"

fun octets :: "nat list \<Rightarrow> nat list" where
  "octets (a # b # c # d # rest) =
     [a * 4 + b div 16, (b mod 16) * 16 + c div 4, (c mod 4) * 64 + d] @ octets rest"
| "octets [a, b, c] = [a * 4 + b div 16, (b mod 16) * 16 + c div 4]"
| "octets [a, b] = [a * 4 + b div 16]"
| "octets _ = []"

definition b64_padding :: "nat \<Rightarrow> nat" where
  "b64_padding n = (3 - n mod 3) mod 3"

definition btoa :: "string \<Rightarrow> string" where
  "btoa s = map b64_char (sextets (map of_char s)) @ replicate (b64_padding (length s)) (CHR ''='')"

definition ascii_space :: "char \<Rightarrow> bool" where
  "ascii_space c \<longleftrightarrow> (of_char c :: nat) \<in> {9, 10, 12, 13, 32}"

definition strip_padding :: "string \<Rightarrow> string" where
  "strip_padding s =
     (if length s mod 4 = 0 then
        (case rev s of
           c # d # rest \<Rightarrow>
             (if c = CHR ''='' then (if d = CHR ''='' then rev rest else rev (d # rest)) else s)
         | _ \<Rightarrow> s)
      else s)"

definition atob :: "string \<Rightarrow> string option" where
  "atob s =
     (let u = strip_padding (filter (\<lambda>c. \<not> ascii_space c) s)
      in if length u mod 4 = 1 \<or> \<not> list_all (\<lambda>c. c \<in> set b64_alphabet) u then None
         else Some (map char_of (octets (map b64_value u))))"

definition encodeBase64 :: "8 word list \<Rightarrow> string" where
  "encodeBase64 bytes = btoa (map (\<lambda>b. char_of (unat b)) bytes)"

definition decodeBase64 :: "string \<Rightarrow> 8 word list option" where
  "decodeBase64 v = map_option (map (\<lambda>c. word_of_nat (of_char c))) (atob v)"

lemma small_digits: "b < 256 \<Longrightarrow> b div 16 < 16" "c < 256 \<Longrightarrow> c div 64 < 4" "a < 256 \<Longrightarrow> a div 4 < 64"
  for a b c :: nat
  by (simp_all add: less_mult_imp_div_less)

lemma octets_sextets: "list_all (\<lambda>n. n < 256) xs \<Longrightarrow> octets (sextets xs) = xs"
  by (induction xs rule: sextets.induct) (simp_all add: small_digits)

lemma sextets_range: "list_all (\<lambda>n. n < 256) xs \<Longrightarrow> list_all (\<lambda>n. n < 64) (sextets xs)"
  by (induction xs rule: sextets.induct) (auto simp: less_mult_imp_div_less intro: order.strict_trans2)

lemma length_sextets: "length (sextets xs) + b64_padding (length xs) = 4 * ((length xs + 2) div 3)"
proof (induction xs rule: sextets.induct)
  case (1 a b c rest)
  have "b64_padding (length (a # b # c # rest)) = b64_padding (length rest)"
    unfolding b64_padding_def by simp
  moreover have "(length (a # b # c # rest) + 2) div 3 = (length rest + 2) div 3 + 1" by simp
  ultimately show ?case using 1 by simp
qed (simp_all add: b64_padding_def)

lemma b64_table:
  "list_all (\<lambda>n. b64_value (b64_char n) = n \<and> b64_char n \<in> set b64_alphabet
       \<and> b64_char n \<noteq> CHR ''='' \<and> \<not> ascii_space (b64_char n)) [0..<64]"
  by code_simp

lemma b64_char_simps:
  assumes "n < 64"
  shows "b64_value (b64_char n) = n" "b64_char n \<in> set b64_alphabet" "b64_char n \<noteq> CHR ''=''"
    "\<not> ascii_space (b64_char n)"
  using b64_table assms by (auto simp: list_all_iff)

lemma strip_padding_btoa:
  assumes "list_all (\<lambda>c. c \<noteq> CHR ''='') u" and "length u + p = 4 * n" and "p < 3"
  shows "strip_padding (u @ replicate p (CHR ''='')) = u"
proof -
  have m: "length (u @ replicate p (CHR ''='')) mod 4 = 0" using assms(2) by simp
  consider "p = 0" | "p = 1" | "p = 2" using assms(3) by linarith
  then show ?thesis
  proof cases
    case 1
    show ?thesis
    proof (cases "rev u")
      case (Cons c r)
      then have "u = rev r @ [c]" by (simp add: rev_swap)
      with assms(1) have "c \<noteq> CHR ''=''" by simp
      with 1 Cons show ?thesis by (auto simp: strip_padding_def split: list.splits)
    qed (use 1 in \<open>simp add: strip_padding_def\<close>)
  next
    case 2
    have "u \<noteq> []"
    proof
      assume "u = []"
      with 2 assms(2) have "1 = 4 * n" by simp
      then show False by presburger
    qed
    then obtain d r where "rev u = d # r" by (cases "rev u") auto
    moreover from this have "u = rev r @ [d]" by (simp add: rev_swap)
    ultimately show ?thesis using 2 m assms(1) by (simp add: strip_padding_def)
  next
    case 3
    with m show ?thesis by (simp add: strip_padding_def numeral_2_eq_2)
  qed
qed

lemma no_single_sextet: "l + p = 4 * m \<Longrightarrow> p < 3 \<Longrightarrow> l mod 4 \<noteq> 1" for l p m :: nat
  by presburger

lemma atob_btoa: "atob (btoa s) = Some s"
proof -
  let ?xs = "map of_char s :: nat list"
  let ?u = "map b64_char (sextets ?xs)" and ?p = "b64_padding (length s)"
  have oct: "list_all (\<lambda>n. n < 256) ?xs" by (simp add: list_all_iff)
  then have sx: "list_all (\<lambda>n. n < 64) (sextets ?xs)" by (rule sextets_range)
  have len: "length ?u + ?p = 4 * ((length s + 2) div 3)"
    using length_sextets [of ?xs] by simp
  have p: "?p < 3" by (simp add: b64_padding_def)
  have "\<not> ascii_space (CHR ''='')" by (simp add: ascii_space_def)
  then have "filter (\<lambda>c. \<not> ascii_space c) (btoa s) = btoa s"
    using sx b64_char_simps by (auto simp: btoa_def list_all_iff intro!: filter_True)
  moreover have "strip_padding (btoa s) = ?u"
    unfolding btoa_def using sx b64_char_simps len p
    by (intro strip_padding_btoa) (auto simp: list_all_iff)
  moreover have "length ?u mod 4 \<noteq> 1"
    using len p by (rule no_single_sextet)
  moreover have "list_all (\<lambda>c. c \<in> set b64_alphabet) ?u"
    using sx b64_char_simps by (auto simp: list_all_iff)
  moreover have "map b64_value ?u = sextets ?xs"
    using sx b64_char_simps by (auto simp: list_all_iff intro!: map_idI)
  moreover have "map char_of ?xs = s" by (simp add: comp_def map_idI)
  ultimately show ?thesis
    by (simp add: atob_def octets_sextets [OF oct] del: map_map)
qed

lemma base64_codec: "decodeBase64 (encodeBase64 bytes) = Some bytes"
proof -
  have "word_of_nat (of_char (char_of (unat b) :: char)) = b" for b :: "8 word"
  proof -
    have "unat b < 2 ^ LENGTH(8)" by (rule unsigned_less)
    then show ?thesis by simp
  qed
  then show ?thesis by (simp add: decodeBase64_def encodeBase64_def atob_btoa map_idI)
qed

section \<open>The resampler\<close>

text \<open>
  \<open>while (pos < input.length) { ...; pos += ratio }\<close>: with a ratio of 0 the loop does not end, so
  it is a partial function.
\<close>

definition interpolate :: "real list \<Rightarrow> real \<Rightarrow> real" where
  "interpolate input pos =
     (let idx = nat \<lfloor>pos\<rfloor>;
          next = min (idx + 1) (length input - 1);
          frac = pos - real idx
      in input ! idx * (1 - frac) + input ! next * frac)"

partial_function (option) resample_loop ::
  "real list \<Rightarrow> real \<Rightarrow> real \<Rightarrow> int list \<Rightarrow> (int list \<times> real) option" where
  "resample_loop input ratio pos target =
     (if pos < real (length input)
      then resample_loop input ratio (pos + ratio) (target @ [floatToInt16 (interpolate input pos)])
      else Some (target, pos))"

definition appendResampledPcm16 ::
  "int list \<Rightarrow> real list \<Rightarrow> real \<Rightarrow> real \<Rightarrow> (int list \<times> real) option" where
  "appendResampledPcm16 target input inputRate resampleOffset =
     (let ratio = inputRate / real BLE_SAMPLE_RATE
      in map_option (\<lambda>(t, pos). (t, pos - real (length input)))
           (resample_loop input ratio resampleOffset target))"

text \<open>How many output samples a block of \<open>n\<close> input samples yields from position \<open>pos\<close>.\<close>

definition steps_to :: "real \<Rightarrow> real \<Rightarrow> real \<Rightarrow> nat" where
  "steps_to ratio pos n = nat \<lceil>(n - pos) / ratio\<rceil>"

lemma steps_to_0: "0 < ratio \<Longrightarrow> n \<le> pos \<Longrightarrow> steps_to ratio pos n = 0"
  by (simp add: steps_to_def divide_nonpos_pos)

lemma steps_to_Suc:
  assumes "0 < ratio" and "pos < n"
  shows "steps_to ratio pos n = Suc (steps_to ratio (pos + ratio) n)"
proof -
  have "(n - (pos + ratio)) / ratio = (n - pos) / ratio - 1"
    using assms(1) by (simp add: field_simps)
  moreover have "0 < (n - pos) / ratio" using assms by simp
  then have "1 \<le> \<lceil>(n - pos) / ratio\<rceil>" by linarith
  ultimately show ?thesis by (simp add: steps_to_def) linarith
qed

lemma resample_loop_closed:
  assumes "0 < ratio"
  shows "resample_loop input ratio pos target =
     (let k = steps_to ratio pos (real (length input))
      in Some (target @ map (\<lambda>i. floatToInt16 (interpolate input (pos + real i * ratio))) [0..<k],
               pos + real k * ratio))"
proof (induction "steps_to ratio pos (real (length input))" arbitrary: pos target)
  case 0
  then have "\<not> pos < real (length input)"
    using steps_to_Suc [OF assms] by fastforce
  with 0 show ?case by (simp add: resample_loop.simps)
next
  case (Suc k)
  then have lt: "pos < real (length input)"
    using steps_to_0 [OF assms] by (metis linorder_not_le nat.distinct(1))
  then have k: "steps_to ratio (pos + ratio) (real (length input)) = k"
    using Suc(2) steps_to_Suc [OF assms, of pos] by simp
  let ?f = "\<lambda>p i. floatToInt16 (interpolate input (p + real i * ratio))"
  have IH: "resample_loop input ratio (pos + ratio) t
      = Some (t @ map (?f (pos + ratio)) [0..<k], pos + ratio + real k * ratio)" for t
    using Suc(1) [OF k [symmetric]] by (simp add: Let_def k)
  have "map (?f pos) [0..<Suc k] = ?f pos 0 # map (?f (pos + ratio)) [0..<k]"
    by (simp add: upt_conv_Cons map_Suc_upt [symmetric] comp_def algebra_simps del: upt_Suc)
  moreover have "pos + real (Suc k) * ratio = pos + ratio + real k * ratio" by (simp add: algebra_simps)
  ultimately show ?case
    using lt by (simp add: resample_loop.simps [of input ratio pos] Let_def IH Suc(2) [symmetric] del: upt_Suc of_nat_Suc)
qed

lemma appendResampledPcm16_closed:
  assumes "0 < inputRate"
  shows "appendResampledPcm16 target input inputRate off =
     (let ratio = inputRate / real BLE_SAMPLE_RATE; k = steps_to ratio off (real (length input))
      in Some (target @ map (\<lambda>i. floatToInt16 (interpolate input (off + real i * ratio))) [0..<k],
               off + real k * ratio - real (length input)))"
proof -
  have "0 < inputRate / real BLE_SAMPLE_RATE" using assms by (simp add: BLE_SAMPLE_RATE_def)
  from resample_loop_closed [OF this] show ?thesis
    by (simp add: appendResampledPcm16_def Let_def)
qed

text \<open>The position after a block is the first one at or past its end.\<close>

lemma steps_end:
  assumes "0 < ratio"
  shows "n \<le> pos + real (steps_to ratio pos n) * ratio"
    and "pos \<le> n \<Longrightarrow> pos + real (steps_to ratio pos n) * ratio < n + ratio"
proof -
  have "(n - pos) / ratio \<le> real (steps_to ratio pos n)"
    unfolding steps_to_def by linarith
  with assms show "n \<le> pos + real (steps_to ratio pos n) * ratio"
    by (simp add: field_simps)
  assume "pos \<le> n"
  with assms have "0 \<le> (n - pos) / ratio" by simp
  then have "real (steps_to ratio pos n) < (n - pos) / ratio + 1"
    unfolding steps_to_def by linarith
  with assms show "pos + real (steps_to ratio pos n) * ratio < n + ratio"
    by (simp add: field_simps)
qed

text \<open>Two blocks one after the other take the steps of one block of their joint length.\<close>

lemma steps_split:
  assumes "0 < ratio" and "pos \<le> n" and "0 \<le> m"
  shows "steps_to ratio pos (n + m)
           = steps_to ratio pos n + steps_to ratio (pos + real (steps_to ratio pos n) * ratio - n) m"
proof -
  let ?k = "steps_to ratio pos n"
  have "(m - (pos + real ?k * ratio - n)) / ratio = (n + m - pos) / ratio - real ?k"
    using assms(1) by (simp add: field_simps)
  moreover have "real ?k \<le> \<lceil>(n + m - pos) / ratio\<rceil>"
  proof -
    have "0 \<le> (n - pos) / ratio" using assms by simp
    then have "real ?k = of_int \<lceil>(n - pos) / ratio\<rceil>" by (simp add: steps_to_def)
    moreover have "\<lceil>(n - pos) / ratio\<rceil> \<le> \<lceil>(n + m - pos) / ratio\<rceil>"
      using assms(1,3) by (intro ceiling_mono divide_right_mono) auto
    ultimately show ?thesis by linarith
  qed
  ultimately show ?thesis by (simp add: steps_to_def [of _ _ m] steps_to_def [of _ _ "n + m"]) linarith
qed

section \<open>Framing\<close>

text \<open>\<open>while (pending.length >= BLE_FRAME_SAMPLES) frames.push(pending.splice(0, BLE_FRAME_SAMPLES))\<close>.\<close>

function drain_frames :: "int list \<Rightarrow> int list list \<times> int list" where
  "drain_frames pending =
     (if BLE_FRAME_SAMPLES \<le> length pending
      then (let (frames, rest) = drain_frames (drop BLE_FRAME_SAMPLES pending)
            in (take BLE_FRAME_SAMPLES pending # frames, rest))
      else ([], pending))"
  by pat_completeness auto
termination
  by (relation "measure length") (auto simp: BLE_FRAME_SAMPLES_def)

declare drain_frames.simps [simp del]

definition cap_pending :: "int list \<Rightarrow> int list" where
  "cap_pending pending =
     (let maxPending = BLE_FRAME_SAMPLES * 10
      in if length pending > maxPending
         then drop (length pending - BLE_FRAME_SAMPLES * 5) pending else pending)"

lemma drain_frames_spec:
  "drain_frames pending = (frames, rest) \<Longrightarrow>
   concat frames @ rest = pending \<and> length rest < BLE_FRAME_SAMPLES \<and>
   list_all (\<lambda>f. length f = BLE_FRAME_SAMPLES) frames"
proof (induction pending arbitrary: frames rest rule: drain_frames.induct)
  case (1 pending)
  show ?case
  proof (cases "BLE_FRAME_SAMPLES \<le> length pending")
    case True
    obtain fs r where d: "drain_frames (drop BLE_FRAME_SAMPLES pending) = (fs, r)" by fastforce
    with True "1.prems" have "frames = take BLE_FRAME_SAMPLES pending # fs" "rest = r"
      by (simp_all add: drain_frames.simps [of pending])
    with "1.IH" [OF True d] True show ?thesis by simp
  next
    case False
    with "1.prems" show ?thesis by (simp add: drain_frames.simps [of pending])
  qed
qed

section \<open>Levels\<close>

text \<open>The level of a block of samples in dB, -96 for silence.\<close>

definition level_db :: "real list \<Rightarrow> real" where
  "level_db xs =
     (let sumSq = sum_list (map (\<lambda>x. x * x) xs);
          rms = sqrt (sumSq / real (length xs))
      in if rms > 0 then 20 * log 10 rms else - 96)"

lemma level_db_silence: "list_all (\<lambda>x. x = 0) xs \<Longrightarrow> level_db xs = - 96"
proof -
  assume "list_all (\<lambda>x. x = 0) xs"
  then have "sum_list (map (\<lambda>x. x * x) xs) = 0" by (induction xs) auto
  then show ?thesis by (simp add: level_db_def)
qed

lemma level_db_full: "level_db (replicate (Suc n) 1) = 0"
proof -
  have "sum_list (map (\<lambda>x. x * x) (replicate (Suc n) (1::real))) = real (Suc n)"
    by (simp add: sum_list_replicate)
  then show ?thesis by (simp add: level_db_def del: replicate.simps)
qed

end
