(* ===== verification/Settings.thy ===== *)
theory Settings
  imports Prelude
begin

text \<open>
  The persisted settings of \<open>web/src/store/settingsStore.ts\<close>. Voice modes and map styles are the
  strings of the source, because what comes back from \<open>localStorage\<close> is not checked against the
  unions of the TypeScript type; \<open>settings_wf\<close> says when they are members.
\<close>

section \<open>State\<close>

record settings =
  micDeviceId :: string
  speakerDeviceId :: string
  pttKey :: string
  voiceMode :: string
  noiseGateThreshold :: num
  inputVolume :: num
  preferredTransport :: string
  protomapsApiKey :: string
  mapStyle :: string
  locationEnabled :: bool
  backgroundMode :: bool

definition init_settings :: settings where
  "init_settings =
     \<lparr> micDeviceId = '''', speakerDeviceId = '''', pttKey = '' '', voiceMode = ''ptt'',
       noiseGateThreshold = - 35, inputVolume = 1, preferredTransport = ''tcp'',
       protomapsApiKey = '''', mapStyle = ''dark'', locationEnabled = False,
       backgroundMode = False \<rparr>"

definition voice_modes :: "string list" where
  "voice_modes = [''ptt'', ''noise_gate'', ''auto'']"

section \<open>Operations\<close>

definition setMicDevice :: "string \<Rightarrow> settings \<Rightarrow> settings" where
  "setMicDevice v s = s\<lparr>micDeviceId := v\<rparr>"

definition setSpeakerDevice :: "string \<Rightarrow> settings \<Rightarrow> settings" where
  "setSpeakerDevice v s = s\<lparr>speakerDeviceId := v\<rparr>"

definition setPttKey :: "string \<Rightarrow> settings \<Rightarrow> settings" where
  "setPttKey key s = s\<lparr>pttKey := key\<rparr>"

definition setVoiceMode :: "string \<Rightarrow> settings \<Rightarrow> settings" where
  "setVoiceMode mode s = s\<lparr>voiceMode := mode\<rparr>"

definition setNoiseGateThreshold :: "num \<Rightarrow> settings \<Rightarrow> settings" where
  "setNoiseGateThreshold db s = s\<lparr>noiseGateThreshold := db\<rparr>"

definition setInputVolume :: "num \<Rightarrow> settings \<Rightarrow> settings" where
  "setInputVolume vol s = s\<lparr>inputVolume := vol\<rparr>"

definition setPreferredTransport :: "string \<Rightarrow> settings \<Rightarrow> settings" where
  "setPreferredTransport t s = s\<lparr>preferredTransport := t\<rparr>"

definition setProtomapsApiKey :: "string \<Rightarrow> settings \<Rightarrow> settings" where
  "setProtomapsApiKey key s = s\<lparr>protomapsApiKey := key\<rparr>"

definition setMapStyle :: "string \<Rightarrow> settings \<Rightarrow> settings" where
  "setMapStyle style s = s\<lparr>mapStyle := style\<rparr>"

text \<open>\<open>indexOf\<close> is -1 for a value that is not in the list.\<close>

fun index_of :: "'a list \<Rightarrow> 'a \<Rightarrow> int" where
  "index_of [] y = - 1"
| "index_of (x # xs) y = (if x = y then 0 else (let i = index_of xs y in if i < 0 then - 1 else i + 1))"

definition map_style_order :: "string list" where
  "map_style_order = [''dark'', ''light'', ''topo'', ''satellite'']"

definition cycleMapStyle :: "settings \<Rightarrow> settings" where
  "cycleMapStyle s =
     (let i = index_of map_style_order (mapStyle s);
          next = map_style_order ! nat ((i + 1) mod int (length map_style_order))
      in s\<lparr>mapStyle := next\<rparr>)"

definition setLocationEnabled :: "bool \<Rightarrow> settings \<Rightarrow> settings" where
  "setLocationEnabled enabled s = s\<lparr>locationEnabled := enabled\<rparr>"

text \<open>
  The native bridge is called, where the page has one, with the value that is then stored: the
  second component is the list of calls \<open>PeatLinkSettings.setBackgroundMode\<close> receives.
\<close>

definition setBackgroundMode :: "bool \<Rightarrow> bool \<Rightarrow> settings \<Rightarrow> settings \<times> bool list" where
  "setBackgroundMode has_bridge enabled s =
     (s\<lparr>backgroundMode := enabled\<rparr>, if has_bridge then [enabled] else [])"

text \<open>The callback of \<open>onRehydrateStorage\<close>: no state means that reading the storage failed.\<close>

definition onRehydrate :: "settings option \<Rightarrow> settings option" where
  "onRehydrate state =
     (case state of
        Some s \<Rightarrow> if voiceMode s = ''open'' then Some (s\<lparr>voiceMode := ''ptt''\<rparr>) else Some s
      | None \<Rightarrow> None)"

section \<open>Properties\<close>

definition settings_wf :: "settings \<Rightarrow> bool" where
  "settings_wf s \<longleftrightarrow> voiceMode s \<in> set voice_modes \<and> mapStyle s \<in> set map_style_order"

lemma init_settings_wf: "settings_wf init_settings"
  by (simp add: settings_wf_def init_settings_def voice_modes_def map_style_order_def)

lemma cycle_table:
  "mapStyle (cycleMapStyle s) =
     (if mapStyle s = ''dark'' then ''light'' else if mapStyle s = ''light'' then ''topo''
      else if mapStyle s = ''topo'' then ''satellite'' else ''dark'')"
  by (auto simp: cycleMapStyle_def map_style_order_def Let_def)

lemma cycle_frame [frame_simps]:
  "voiceMode (cycleMapStyle s) = voiceMode s" "pttKey (cycleMapStyle s) = pttKey s"
  "(cycleMapStyle s)\<lparr>mapStyle := m\<rparr> = s\<lparr>mapStyle := m\<rparr>"
  by (simp_all add: cycleMapStyle_def Let_def)

lemma cycle_wf: "voiceMode s \<in> set voice_modes \<Longrightarrow> settings_wf (cycleMapStyle s)"
  by (simp add: settings_wf_def frame_simps cycle_table map_style_order_def)

lemma rehydrate_wf:
  assumes "mapStyle s \<in> set map_style_order"
    and "voiceMode s = ''open'' \<or> voiceMode s \<in> set voice_modes"
  shows "\<exists>s'. onRehydrate (Some s) = Some s' \<and> settings_wf s'"
  using assms by (auto simp: onRehydrate_def settings_wf_def voice_modes_def)

lemma rehydrate_idem: "onRehydrate (onRehydrate st) = onRehydrate st"
  by (auto simp: onRehydrate_def split: option.splits)

end
