(* ===== verification/VoiceManager.thy ===== *)
theory VoiceManager
  imports Dispatch Pcm Settings
begin

text \<open>
  The class \<open>VoiceManager\<close> of \<open>web/src/voice/VoiceManager.ts\<close>: its fields, and every method. The
  browser's objects (peer connections, media streams, the audio graph) are the parts of the state
  at the end of the record: a heap of peer connections, the streams whose tracks run, the frames
  sent, the calls made to the Android bridge, the buffers scheduled for playback.

  An \<open>async\<close> method is split at its awaits: a method returns the new state and, when it is
  suspended, a value of \<open>cont\<close> that holds its local variables and says where it goes on; \<open>resume\<close>
  runs it to its next await with the outcome of the promise. An await on a promise that is
  already resolved (an async method that did not suspend) is not a suspension here. Anything may
  happen between two segments: see \<open>VmSteps\<close>.
\<close>

section \<open>State\<close>

text \<open>
  What the methods see of the platform when they run: which functions of
  \<open>window.PeatLinkVoice\<close> exist and whether \<open>hasBleVoice()\<close> says yes, whether the constructors of
  the audio context and of peer connections work, the clock and rate of the audio context, the
  sink selection of audio elements, \<open>JSON.parse\<close> (\<open>None\<close> where it throws) and the conversion of
  a value to a string.
\<close>

record platform =
  hasBleVoice :: bool
  has_setBridgeLocalMic :: bool
  has_pollIncomingFrames :: bool
  has_sendPcmFrame :: bool
  has_isVoiceDetected :: bool
  audio_ok :: bool
  rtc_ok :: bool
  currentTime :: num
  sampleRate :: num
  has_setSinkId :: bool
  json_parse :: "string \<Rightarrow> jsval option"
  json_string :: "jsval \<Rightarrow> string"

record relay_chain =
  relay_stream :: nat
  pendingSamples :: "int list"
  resampleOffset :: num

record gate =
  gate_threshold :: num
  wasSpeaking :: bool

record audio_element =
  srcObject :: nat
  sinkId :: string

record peer_connection =
  pc_closed :: bool
  remoteDescription :: "jsval option"
  pc_candidates :: "jsval list"
  pc_has_track :: bool

datatype bridge_call =
    SetBridgeLocalMic bool
  | SendPcmFrame string string string

record voice_manager =
  peers :: "(string \<times> nat) list"
  peerNames :: "(string \<times> string) list"
  audioElements :: "(string \<times> audio_element) list"
  pendingIce :: "(string \<times> jsval list) list"
  localStream :: "nat option"
  audioContext :: bool
  gainNode :: "num option"
  sourceNode :: "nat option"
  destinationNode :: bool
  bleIncomingGain :: bool
  bleRelayChains :: "(string \<times> relay_chain) list"
  bleBridgeTimer :: bool
  blePlaybackCursor :: num
  vm_roomId :: string
  vm_channelId :: string
  active :: bool
  listenOnly :: bool
  noiseGateAnalyser :: bool
  noiseGateTimer :: "gate option"
  localInputVolume :: num
  localMicMuted :: bool
  bleSpeakingState :: bool
  loggedSampleRate :: bool
  pc_heap :: "nat \<Rightarrow> peer_connection"
  next_pc :: nat
  live_streams :: "nat list"
  out_log :: "out_msg list"
  bridge_log :: "bridge_call list"
  playback :: "(num \<times> num list) list"

text \<open>
  The gain of \<open>gainNode\<close> is its value (\<open>None\<close>: no node), \<open>sourceNode\<close> the stream it reads; the
  other audio nodes are there or not. The state of the interval of the noise gate, its threshold
  and \<open>wasSpeaking\<close>, is with the timer. \<open>noiseGateActive\<close> is never used by the source.
\<close>

definition new_voice_manager :: "num \<Rightarrow> voice_manager" where
  "new_voice_manager vol =
     \<lparr> peers = [], peerNames = [], audioElements = [], pendingIce = [], localStream = None,
       audioContext = False, gainNode = None, sourceNode = None, destinationNode = False,
       bleIncomingGain = False, bleRelayChains = [], bleBridgeTimer = False,
       blePlaybackCursor = 0, vm_roomId = [], vm_channelId = [], active = False,
       listenOnly = False, noiseGateAnalyser = False, noiseGateTimer = None,
       localInputVolume = vol, localMicMuted = True, bleSpeakingState = False,
       loggedSampleRate = False,
       pc_heap = (\<lambda>_. \<lparr>pc_closed = False, remoteDescription = None, pc_candidates = [],
                       pc_has_track = False\<rparr>),
       next_pc = 0, live_streams = [], out_log = [], bridge_log = [], playback = [] \<rparr>"

datatype flush_for = ForOffer string | ForAnswer

text \<open>
  The suspended methods. The last argument of \<open>JoinResumed\<close>, \<open>JoinMic\<close> and \<open>MicSwitch\<close> is the
  device that \<open>getUserMedia\<close> is or will be asked for.
\<close>

datatype cont =
    JoinResumed string string "voice_member list" string
  | JoinMic string string "voice_member list" string
  | JoinOffer string "voice_member list"
  | OfferRemote string nat jsval
  | AnswerRemote string nat jsval
  | FlushIce nat "jsval list" flush_for
  | OfferAnswer string
  | GateRelease num
  | MicSwitch string

datatype await_result =
    Resolved
  | Stream nat
  | Description string
  | Samples "num list"
  | Rejected

type_synonym suspended = "voice_manager \<times> cont option"

section \<open>Sending, muting, volume\<close>

definition vm_send :: "string \<Rightarrow> jsval \<Rightarrow> voice_manager \<Rightarrow> voice_manager" where
  "vm_send t d st = st\<lparr>out_log := out_log st @ [Out t d]\<rparr>"

definition setMuted :: "bool \<Rightarrow> voice_manager \<Rightarrow> voice_manager" where
  "setMuted m st =
     (let st = st\<lparr>localMicMuted := m\<rparr>
      in case gainNode st of
           None \<Rightarrow> st
         | Some _ \<Rightarrow> st\<lparr>gainNode := Some (if m then 0 else localInputVolume st)\<rparr>)"

definition vm_setInputVolume :: "num \<Rightarrow> voice_manager \<Rightarrow> voice_manager" where
  "vm_setInputVolume vol st =
     (let st = st\<lparr>localInputVolume := vol\<rparr>
      in case gainNode st of
           None \<Rightarrow> st
         | Some _ \<Rightarrow> st\<lparr>gainNode := Some (if localMicMuted st then 0 else vol)\<rparr>)"

definition vm_setSpeakerDevice :: "platform \<Rightarrow> string \<Rightarrow> voice_manager \<Rightarrow> voice_manager" where
  "vm_setSpeakerDevice P dev st =
     (if has_setSinkId P
      then st\<lparr>audioElements := map (\<lambda>(k, el). (k, el\<lparr>sinkId := dev\<rparr>)) (audioElements st)\<rparr>
      else st)"

section \<open>The noise gate\<close>

definition speaking_frame :: "bool \<Rightarrow> voice_manager \<Rightarrow> jsval" where
  "speaking_frame b st =
     JObj [(''room_id'', JStr (vm_roomId st)), (''channel_id'', JStr (vm_channelId st)),
           (''speaking'', JBool b)]"

definition stopNoiseGate :: "voice_manager \<Rightarrow> voice_manager" where
  "stopNoiseGate st = setMuted False (st\<lparr>noiseGateTimer := None, noiseGateAnalyser := False\<rparr>)"

definition startNoiseGate :: "num \<Rightarrow> voice_manager \<Rightarrow> voice_manager" where
  "startNoiseGate thresholdDb st =
     (if \<not> active st \<or> \<not> audioContext st \<or> sourceNode st = None then st
      else (stopNoiseGate st)
             \<lparr>noiseGateAnalyser := True,
              noiseGateTimer := Some \<lparr>gate_threshold = thresholdDb, wasSpeaking = False\<rparr>\<rparr>)"

text \<open>A tick of the interval, on the samples the analyser has; a falling edge starts a timeout.\<close>

definition gate_tick :: "num list \<Rightarrow> voice_manager \<Rightarrow> suspended" where
  "gate_tick data st =
     (case noiseGateTimer st of
        None \<Rightarrow> (st, None)
      | Some g \<Rightarrow>
          if \<not> noiseGateAnalyser st \<or> \<not> active st then (st, None)
          else
            let isSpeaking = (level_db data > gate_threshold g)
            in if isSpeaking = wasSpeaking g then (st, None)
               else
                 let st1 = setMuted (\<not> isSpeaking) st;
                     st2 = (if isSpeaking then vm_send ''voice_speaking'' (speaking_frame True st1) st1
                            else st1)
                 in (st2\<lparr>noiseGateTimer := Some (g\<lparr>wasSpeaking := isSpeaking\<rparr>)\<rparr>,
                     if isSpeaking then None else Some (GateRelease (gate_threshold g))))"

definition gate_release :: "num \<Rightarrow> num list \<Rightarrow> voice_manager \<Rightarrow> voice_manager" where
  "gate_release thresholdDb data st =
     (if \<not> noiseGateAnalyser st then st
      else if level_db data \<le> thresholdDb
           then vm_send ''voice_speaking'' (speaking_frame False st) st
           else st)"

section \<open>The Bluetooth bridge\<close>

definition syncNativeMicBridge :: "platform \<Rightarrow> bool option \<Rightarrow> voice_manager \<Rightarrow> voice_manager" where
  "syncNativeMicBridge P force st =
     (if \<not> has_setBridgeLocalMic P then st
      else
        let enable = (case force of Some b \<Rightarrow> b | None \<Rightarrow> localStream st = None \<and> hasBleVoice P)
        in st\<lparr>bridge_log := bridge_log st @ [SetBridgeLocalMic enable]\<rparr>)"

definition stopBleBridge :: "voice_manager \<Rightarrow> voice_manager" where
  "stopBleBridge st = st\<lparr>bleBridgeTimer := False\<rparr>"

definition startBleBridge :: "platform \<Rightarrow> voice_manager \<Rightarrow> voice_manager" where
  "startBleBridge P st =
     (if \<not> hasBleVoice P then st
      else
        let st1 = stopBleBridge st;
            st2 = (if audioContext st1 then st1\<lparr>blePlaybackCursor := currentTime P\<rparr> else st1)
        in st2\<lparr>bleBridgeTimer := True\<rparr>)"

definition scheduleIncomingBleFrame :: "platform \<Rightarrow> 8 word list \<Rightarrow> voice_manager \<Rightarrow> voice_manager" where
  "scheduleIncomingBleFrame P pcmBytes st =
     (if \<not> audioContext st \<or> \<not> bleIncomingGain st then st
      else
        let channel = map (\<lambda>signed. of_int signed / 32768) (samples_of_bytes pcmBytes);
            duration = real (length channel) / real BLE_SAMPLE_RATE;
            startAt = max (currentTime P) (blePlaybackCursor st)
        in st\<lparr>loggedSampleRate := True, playback := playback st @ [(startAt, channel)],
              blePlaybackCursor := startAt + duration\<rparr>)"

text \<open>
  The loop over the frames of one poll; the flag says that it ended with an exception, which
  nothing in the interval catches (a frame that is null, a payload \<open>atob\<close> refuses).
\<close>

fun play_frames :: "platform \<Rightarrow> jsval list \<Rightarrow> voice_manager \<Rightarrow> voice_manager \<times> bool" where
  "play_frames P [] st = (st, False)"
| "play_frames P (frame # frames) st =
     (if frame = JNull then (st, True)
      else
        let pcm = js_prop frame ''pcm''
        in if \<not> truthy pcm then play_frames P frames st
           else (case decodeBase64 (json_string P pcm) of
                   None \<Rightarrow> (st, True)
                 | Some pcmBytes \<Rightarrow>
                     if length pcmBytes < 2 then play_frames P frames st
                     else play_frames P frames (scheduleIncomingBleFrame P pcmBytes st)))"

definition drainIncomingBleFrames :: "platform \<Rightarrow> string option \<Rightarrow> voice_manager \<Rightarrow> voice_manager \<times> bool" where
  "drainIncomingBleFrames P polled st =
     (if \<not> has_pollIncomingFrames P then (st, False)
      else if \<not> audioContext st \<or> \<not> bleIncomingGain st then (st, False)
      else (case polled of
              None \<Rightarrow> (st, False)
            | Some raw \<Rightarrow>
                if raw = [] then (st, False)
                else (case json_parse P raw of
                        None \<Rightarrow> (st, False)
                      | Some (JArr frames) \<Rightarrow> play_frames P frames st
                      | Some _ \<Rightarrow> (st, True))))"

definition pollNativeSpeakingState :: "platform \<Rightarrow> bool option \<Rightarrow> voice_manager \<Rightarrow> voice_manager" where
  "pollNativeSpeakingState P detected st =
     (if \<not> has_isVoiceDetected P then st
      else (case detected of
              None \<Rightarrow> st
            | Some b \<Rightarrow>
                if b = bleSpeakingState st then st
                else
                  let st1 = st\<lparr>bleSpeakingState := b\<rparr>;
                      st2 = (if localStream st1 = None then setMuted (\<not> b) st1 else st1)
                  in vm_send ''voice_speaking'' (speaking_frame b st2) st2))"

definition bridge_tick :: "platform \<Rightarrow> string option \<Rightarrow> bool option \<Rightarrow> voice_manager \<Rightarrow> voice_manager" where
  "bridge_tick P polled detected st =
     (if \<not> bleBridgeTimer st then st
      else
        let (st1, raised) = drainIncomingBleFrames P polled st
        in if raised then st1 else pollNativeSpeakingState P detected st1)"

definition detachRemoteBleRelay :: "string \<Rightarrow> voice_manager \<Rightarrow> voice_manager" where
  "detachRemoteBleRelay peerId st =
     st\<lparr>bleRelayChains := js_delete peerId (bleRelayChains st)\<rparr>"

definition attachRemoteBleRelay :: "platform \<Rightarrow> string \<Rightarrow> nat \<Rightarrow> voice_manager \<Rightarrow> voice_manager" where
  "attachRemoteBleRelay P peerId stream st =
     (if \<not> audioContext st \<or> \<not> hasBleVoice P \<or> \<not> has_sendPcmFrame P then st
      else
        let st1 = detachRemoteBleRelay peerId st
        in st1\<lparr>bleRelayChains :=
              js_set peerId \<lparr>relay_stream = stream, pendingSamples = [], resampleOffset = 0\<rparr>
                (bleRelayChains st1)\<rparr>)"

definition relay_sender :: "string \<Rightarrow> voice_manager \<Rightarrow> string" where
  "relay_sender peerId st =
     (case js_get (peerNames st) peerId of Some n \<Rightarrow> if n = [] then peerId else n | None \<Rightarrow> peerId)"

text \<open>
  \<open>onaudioprocess\<close> of the chain of a peer on a block of input samples. \<open>None\<close>: the resampling
  loop does not end (a rate of 0).
\<close>

definition relay_block :: "platform \<Rightarrow> string \<Rightarrow> num list \<Rightarrow> voice_manager \<Rightarrow> voice_manager option" where
  "relay_block P peerId input st =
     (case js_get (bleRelayChains st) peerId of
        None \<Rightarrow> Some st
      | Some chain \<Rightarrow>
          if \<not> active st \<or> \<not> has_sendPcmFrame P \<or> \<not> audioContext st then Some st
          else map_option
            (\<lambda>(samples, offset).
               let (frames, rest) = drain_frames (cap_pending samples);
                   calls = map (\<lambda>f. SendPcmFrame (encodeBase64 (int16SamplesToBytes f)) peerId
                                      (relay_sender peerId st)) frames
               in st\<lparr>bleRelayChains :=
                       js_set peerId (chain\<lparr>pendingSamples := rest, resampleOffset := offset\<rparr>)
                         (bleRelayChains st),
                     bridge_log := bridge_log st @ calls\<rparr>)
            (appendResampledPcm16 (pendingSamples chain) input (sampleRate P) (resampleOffset chain)))"

section \<open>Peer connections\<close>

definition update_pc :: "nat \<Rightarrow> (peer_connection \<Rightarrow> peer_connection) \<Rightarrow> voice_manager \<Rightarrow> voice_manager" where
  "update_pc p f st = st\<lparr>pc_heap := (pc_heap st)(p := f (pc_heap st p))\<rparr>"

definition close_pc :: "nat \<Rightarrow> voice_manager \<Rightarrow> voice_manager" where
  "close_pc p st = update_pc p (\<lambda>c. c\<lparr>pc_closed := True\<rparr>) st"

definition add_candidate :: "nat \<Rightarrow> jsval \<Rightarrow> voice_manager \<Rightarrow> voice_manager" where
  "add_candidate p ice st = update_pc p (\<lambda>c. c\<lparr>pc_candidates := pc_candidates c @ [ice]\<rparr>) st"

definition set_remote :: "nat \<Rightarrow> jsval \<Rightarrow> voice_manager \<Rightarrow> voice_manager" where
  "set_remote p desc st = update_pc p (\<lambda>c. c\<lparr>remoteDescription := Some desc\<rparr>) st"

text \<open>\<open>createPeerConnection\<close> up to the creation of an offer: a new connection, in the map.\<close>

definition open_connection :: "string \<Rightarrow> voice_manager \<Rightarrow> voice_manager" where
  "open_connection peerId st =
     (let pc = \<lparr>pc_closed = False, remoteDescription = None, pc_candidates = [],
                pc_has_track = destinationNode st\<rparr>
      in st\<lparr>peers := js_set peerId (next_pc st) (peers st),
            pc_heap := (pc_heap st)(next_pc st := pc), next_pc := Suc (next_pc st)\<rparr>)"

definition drop_audio_element :: "string \<Rightarrow> voice_manager \<Rightarrow> voice_manager" where
  "drop_audio_element peerId st = st\<lparr>audioElements := js_delete peerId (audioElements st)\<rparr>"

text \<open>The three event handlers of a connection; \<open>peerId\<close> is the variable they close over.\<close>

definition pc_ontrack :: "platform \<Rightarrow> string \<Rightarrow> string \<Rightarrow> nat \<Rightarrow> voice_manager \<Rightarrow> voice_manager" where
  "pc_ontrack P speakerDevice peerId stream st =
     (let el = \<lparr>srcObject = stream,
                sinkId = (if speakerDevice \<noteq> [] \<and> has_setSinkId P then speakerDevice else [])\<rparr>
      in attachRemoteBleRelay P peerId stream
           (st\<lparr>audioElements := js_set peerId el (audioElements st)\<rparr>))"

definition signal_frame :: "string \<Rightarrow> string \<Rightarrow> string \<Rightarrow> voice_manager \<Rightarrow> jsval" where
  "signal_frame target k payload st =
     JObj [(''room_id'', JStr (vm_roomId st)), (''channel_id'', JStr (vm_channelId st)),
           (''target_id'', JStr target), (k, JStr payload)]"

definition pc_onicecandidate :: "string \<Rightarrow> string option \<Rightarrow> voice_manager \<Rightarrow> voice_manager" where
  "pc_onicecandidate peerId candidate st =
     (case candidate of
        None \<Rightarrow> st
      | Some c \<Rightarrow> vm_send ''voice_ice'' (signal_frame peerId ''candidate'' c st) st)"

definition pc_onconnectionstatechange :: "string \<Rightarrow> string \<Rightarrow> voice_manager \<Rightarrow> voice_manager" where
  "pc_onconnectionstatechange peerId connectionState st =
     (if connectionState = ''failed'' \<or> connectionState = ''closed'' then
        (let st1 = detachRemoteBleRelay peerId st;
             st2 = vm_send ''voice_speaking''
                     (JObj [(''room_id'', JStr (vm_roomId st1)), (''channel_id'', JStr (vm_channelId st1)),
                            (''peer_id'', JStr peerId), (''speaking'', JBool False)]) st1;
             st3 = st2\<lparr>peers := js_delete peerId (peers st2)\<rparr>
         in drop_audio_element peerId st3)
      else st)"

section \<open>Joining and leaving\<close>

definition stop_local_stream :: "voice_manager \<Rightarrow> voice_manager" where
  "stop_local_stream st =
     (case localStream st of
        None \<Rightarrow> st
      | Some s \<Rightarrow> st\<lparr>live_streams := filter (\<lambda>x. x \<noteq> s) (live_streams st), localStream := None\<rparr>)"

definition cleanup :: "platform \<Rightarrow> voice_manager \<Rightarrow> voice_manager" where
  "cleanup P st =
     (let st1 = st\<lparr>active := False\<rparr>;
          st2 = (foldl (\<lambda>s (i, p). close_pc p s) st1 (peers st1))
                  \<lparr>peers := [], pendingIce := [], peerNames := []\<rparr>;
          st3 = (stopBleBridge st2)\<lparr>bleRelayChains := [], audioElements := []\<rparr>;
          st4 = (stop_local_stream st3)\<lparr>sourceNode := None, audioContext := False\<rparr>
      in (syncNativeMicBridge P (Some False) st4)
           \<lparr>gainNode := None, destinationNode := False, bleIncomingGain := False,
            blePlaybackCursor := 0, vm_roomId := [], vm_channelId := [], listenOnly := False\<rparr>)"

definition channel_frame :: "string \<Rightarrow> string \<Rightarrow> jsval" where
  "channel_frame rid cid = JObj [(''room_id'', JStr rid), (''channel_id'', JStr cid)]"

definition leaveChannel :: "platform \<Rightarrow> voice_manager \<Rightarrow> voice_manager" where
  "leaveChannel P st =
     (if \<not> active st then st
      else cleanup P (vm_send ''leave_voice'' (channel_frame (vm_roomId st) (vm_channelId st)) st))"

definition vm_destroy :: "platform \<Rightarrow> voice_manager \<Rightarrow> voice_manager" where
  "vm_destroy P st = (if active st then leaveChannel P st else st)"

definition is_ble_id :: "string \<Rightarrow> bool" where
  "is_ble_id i = js_starts_with i ''ble-''"

text \<open>The loop over the members: it suspends at the offer of each one that is not on Bluetooth.\<close>

fun join_peers :: "platform \<Rightarrow> voice_member list \<Rightarrow> voice_manager \<Rightarrow> suspended" where
  "join_peers P [] st = (st, None)"
| "join_peers P (m # ms) st =
     (if is_ble_id (vm_id m) then join_peers P ms st
      else if \<not> rtc_ok P then join_peers P ms st
      else (open_connection (vm_id m) st, Some (JoinOffer (vm_id m) ms)))"

definition join_connect ::
  "platform \<Rightarrow> string \<Rightarrow> string \<Rightarrow> voice_member list \<Rightarrow> voice_manager \<Rightarrow> suspended" where
  "join_connect P rid cid existing st =
     join_peers P existing (vm_send ''join_voice'' (channel_frame rid cid) (startBleBridge P st))"

text \<open>The handler of the outer \<open>catch\<close>.\<close>

definition join_audio_failed :: "platform \<Rightarrow> voice_manager \<Rightarrow> voice_manager" where
  "join_audio_failed P st = syncNativeMicBridge P None (st\<lparr>listenOnly := True\<rparr>)"

definition joinChannel ::
  "platform \<Rightarrow> settings \<Rightarrow> string \<Rightarrow> string \<Rightarrow> voice_member list \<Rightarrow> voice_manager \<Rightarrow> suspended" where
  "joinChannel P cfg rid cid existing st =
     (let st0 = (if active st then leaveChannel P st else st);
          st1 = st0\<lparr>vm_roomId := rid, vm_channelId := cid, active := True, listenOnly := False,
                    peerNames := foldl (\<lambda>ns m. js_set (vm_id m) (vm_name m) ns) [] existing,
                    localInputVolume := inputVolume cfg, localMicMuted := True\<rparr>
      in if \<not> audio_ok P then join_connect P rid cid existing (join_audio_failed P st1)
         else (st1\<lparr>audioContext := True, gainNode := Some 0, destinationNode := True,
                   bleIncomingGain := True, blePlaybackCursor := currentTime P\<rparr>,
               Some (JoinResumed rid cid existing (micDeviceId cfg))))"

text \<open>
  After \<open>audioContext.resume()\<close>: the native microphone, or \<open>getUserMedia\<close> with the device of the
  settings. A \<open>leaveChannel\<close> meanwhile has set \<open>destinationNode\<close> to null: reading its stream
  raises, and the outer \<open>catch\<close> runs.
\<close>

definition join_resumed ::
  "platform \<Rightarrow> string \<Rightarrow> string \<Rightarrow> voice_member list \<Rightarrow> string \<Rightarrow> voice_manager \<Rightarrow> suspended" where
  "join_resumed P rid cid existing dev st =
     (if hasBleVoice P then
        (let st1 = syncNativeMicBridge P (Some True) st
         in if destinationNode st1 then join_connect P rid cid existing st1
            else join_connect P rid cid existing (join_audio_failed P st1))
      else (st, Some (JoinMic rid cid existing dev)))"

definition join_mic ::
  "platform \<Rightarrow> string \<Rightarrow> string \<Rightarrow> voice_member list \<Rightarrow> await_result \<Rightarrow> voice_manager \<Rightarrow> suspended" where
  "join_mic P rid cid existing result st =
     (let st1 = (case result of
                   Stream s \<Rightarrow>
                     let st' = st\<lparr>localStream := Some s, live_streams := s # live_streams st\<rparr>
                     in if \<not> audioContext st' then st'\<lparr>listenOnly := True\<rparr>
                        else if gainNode st' = None then st'\<lparr>sourceNode := Some s, listenOnly := True\<rparr>
                        else st'\<lparr>sourceNode := Some s\<rparr>
                 | _ \<Rightarrow> st\<lparr>listenOnly := True\<rparr>)
      in join_connect P rid cid existing
           (if destinationNode st1 then syncNativeMicBridge P None st1
            else join_audio_failed P st1))"

definition join_offer :: "platform \<Rightarrow> string \<Rightarrow> voice_member list \<Rightarrow> await_result \<Rightarrow> voice_manager \<Rightarrow> suspended" where
  "join_offer P peerId ms result st =
     (case result of
        Description sdp \<Rightarrow>
          join_peers P ms (vm_send ''voice_offer'' (signal_frame peerId ''sdp'' sdp st) st)
      | _ \<Rightarrow> join_peers P ms st)"

section \<open>Signalling\<close>

definition after_flush :: "flush_for \<Rightarrow> voice_manager \<Rightarrow> suspended" where
  "after_flush k st = (st, case k of ForOffer fromId \<Rightarrow> Some (OfferAnswer fromId) | ForAnswer \<Rightarrow> None)"

definition flush_next :: "nat \<Rightarrow> jsval list \<Rightarrow> flush_for \<Rightarrow> voice_manager \<Rightarrow> suspended" where
  "flush_next p queued k st =
     (case queued of
        [] \<Rightarrow> after_flush k st
      | ice # rest \<Rightarrow> (add_candidate p ice st, Some (FlushIce p rest k)))"

definition flushPendingIce :: "string \<Rightarrow> nat \<Rightarrow> flush_for \<Rightarrow> voice_manager \<Rightarrow> suspended" where
  "flushPendingIce peerId p k st =
     (case js_get (pendingIce st) peerId of
        None \<Rightarrow> after_flush k st
      | Some queued \<Rightarrow>
          if queued = [] then after_flush k st
          else flush_next p queued k (st\<lparr>pendingIce := js_delete peerId (pendingIce st)\<rparr>))"

definition handleOffer :: "platform \<Rightarrow> string \<Rightarrow> string \<Rightarrow> voice_manager \<Rightarrow> suspended" where
  "handleOffer P fromId sdp st =
     (if \<not> active st then (st, None)
      else if is_ble_id fromId then (st, None)
      else if \<not> rtc_ok P then (st, None)
      else
        let st1 = open_connection fromId st
        in (case json_parse P sdp of
              None \<Rightarrow> (st1, None)
            | Some desc \<Rightarrow> (st1, Some (OfferRemote fromId (next_pc st) desc))))"

definition handleAnswer :: "platform \<Rightarrow> string \<Rightarrow> string \<Rightarrow> voice_manager \<Rightarrow> suspended" where
  "handleAnswer P fromId sdp st =
     (case js_get (peers st) fromId of
        None \<Rightarrow> (st, None)
      | Some p \<Rightarrow>
          (case json_parse P sdp of
             None \<Rightarrow> (st, None)
           | Some desc \<Rightarrow> (st, Some (AnswerRemote fromId p desc))))"

definition queue_ice :: "string \<Rightarrow> jsval \<Rightarrow> voice_manager \<Rightarrow> voice_manager" where
  "queue_ice fromId ice st =
     (let queue = (case js_get (pendingIce st) fromId of Some q \<Rightarrow> q | None \<Rightarrow> [])
      in st\<lparr>pendingIce := js_set fromId (queue @ [ice]) (pendingIce st)\<rparr>)"

definition handleIce :: "platform \<Rightarrow> string \<Rightarrow> string \<Rightarrow> voice_manager \<Rightarrow> voice_manager" where
  "handleIce P fromId candidate st =
     (case json_parse P candidate of
        None \<Rightarrow> st
      | Some ice \<Rightarrow>
          (case js_get (peers st) fromId of
             None \<Rightarrow> queue_ice fromId ice st
           | Some p \<Rightarrow>
               if remoteDescription (pc_heap st p) = None then queue_ice fromId ice st
               else add_candidate p ice st))"

definition handlePeerJoined :: "string \<Rightarrow> string option \<Rightarrow> voice_manager \<Rightarrow> voice_manager" where
  "handlePeerJoined peerId name st =
     (case name of
        Some n \<Rightarrow> if n \<noteq> [] then st\<lparr>peerNames := js_set peerId n (peerNames st)\<rparr> else st
      | None \<Rightarrow> st)"

definition handlePeerLeft :: "string \<Rightarrow> voice_manager \<Rightarrow> voice_manager" where
  "handlePeerLeft peerId st =
     (let st1 = detachRemoteBleRelay peerId (st\<lparr>pendingIce := js_delete peerId (pendingIce st)\<rparr>);
          st2 = st1\<lparr>peerNames := js_delete peerId (peerNames st1)\<rparr>;
          st3 = (case js_get (peers st2) peerId of
                   None \<Rightarrow> st2
                 | Some p \<Rightarrow> (close_pc p st2)\<lparr>peers := js_delete peerId (peers st2)\<rparr>)
      in drop_audio_element peerId st3)"

section \<open>Switching the microphone\<close>

definition switchMicrophone :: "string \<Rightarrow> voice_manager \<Rightarrow> suspended" where
  "switchMicrophone dev st =
     (if \<not> active st \<or> \<not> audioContext st \<or> gainNode st = None \<or> \<not> destinationNode st
      then (st, None) else (st, Some (MicSwitch dev)))"

definition mic_switched :: "platform \<Rightarrow> await_result \<Rightarrow> voice_manager \<Rightarrow> voice_manager" where
  "mic_switched P result st =
     (case result of
        Stream s \<Rightarrow>
          let st1 = stop_local_stream st;
              st2 = st1\<lparr>localStream := Some s, live_streams := s # live_streams st1\<rparr>
          in if \<not> audioContext st2 then st2
             else
               let st3 = st2\<lparr>sourceNode := Some s\<rparr>
               in if gainNode st3 = None then st3
                  else syncNativeMicBridge P None
                         (st3\<lparr>gainNode := Some (if localMicMuted st3 then 0 else localInputVolume st3)\<rparr>)
      | _ \<Rightarrow> st)"

section \<open>Resuming\<close>

definition resume :: "platform \<Rightarrow> cont \<Rightarrow> await_result \<Rightarrow> voice_manager \<Rightarrow> suspended" where
  "resume P k result st =
     (case k of
        JoinResumed rid cid existing dev \<Rightarrow> join_resumed P rid cid existing dev st
      | JoinMic rid cid existing dev \<Rightarrow> join_mic P rid cid existing result st
      | JoinOffer peerId ms \<Rightarrow> join_offer P peerId ms result st
      | OfferRemote fromId p desc \<Rightarrow>
          (if result = Rejected then (st, None)
           else flushPendingIce fromId p (ForOffer fromId) (set_remote p desc st))
      | AnswerRemote fromId p desc \<Rightarrow>
          (if result = Rejected then (st, None)
           else flushPendingIce fromId p ForAnswer (set_remote p desc st))
      | FlushIce p rest f \<Rightarrow> flush_next p rest f st
      | OfferAnswer fromId \<Rightarrow>
          (case result of
             Description sdp \<Rightarrow>
               (vm_send ''voice_answer'' (signal_frame fromId ''sdp'' sdp st) st, None)
           | _ \<Rightarrow> (st, None))
      | GateRelease thr \<Rightarrow>
          (case result of Samples xs \<Rightarrow> (gate_release thr xs st, None) | _ \<Rightarrow> (st, None))
      | MicSwitch dev \<Rightarrow> (mic_switched P result st, None))"

end
