(* ===== verification/VmSteps.thy ===== *)
theory VmSteps
  imports VoiceManager
begin

text \<open>
  The voice manager under every interleaving: the calls and events as one type of operations, the
  suspended methods that any later step may resume, the well-formedness all of them keep.
\<close>

section \<open>Well-formed states\<close>

text \<open>What the microphone sends: nothing while muted, the chosen volume otherwise.\<close>

definition mic_wf :: "voice_manager \<Rightarrow> bool" where
  "mic_wf st \<longleftrightarrow>
     (\<forall>g. gainNode st = Some g \<longrightarrow>
        (localMicMuted st \<longrightarrow> g = 0) \<and> (\<not> localMicMuted st \<longrightarrow> g = localInputVolume st))"

definition graph_wf :: "voice_manager \<Rightarrow> bool" where
  "graph_wf st \<longleftrightarrow>
     (gainNode st \<noteq> None \<longleftrightarrow> audioContext st) \<and> (destinationNode st \<longleftrightarrow> audioContext st) \<and>
     (bleIncomingGain st \<longleftrightarrow> audioContext st) \<and> (audioContext st \<longrightarrow> active st)"

definition gate_wf :: "voice_manager \<Rightarrow> bool" where
  "gate_wf st \<longleftrightarrow> (noiseGateTimer st \<noteq> None \<longleftrightarrow> noiseGateAnalyser st)"

definition pcs_wf :: "voice_manager \<Rightarrow> bool" where
  "pcs_wf st \<longleftrightarrow>
     distinct (js_keys (peers st)) \<and> distinct (map snd (peers st)) \<and>
     (\<forall>p \<in> set (map snd (peers st)). p < next_pc st \<and> \<not> pc_closed (pc_heap st p))"

definition relay_wf :: "voice_manager \<Rightarrow> bool" where
  "relay_wf st \<longleftrightarrow>
     distinct (js_keys (bleRelayChains st)) \<and> (bleRelayChains st \<noteq> [] \<longrightarrow> audioContext st) \<and>
     (\<forall>c \<in> set (map snd (bleRelayChains st)).
        length (pendingSamples c) < BLE_FRAME_SAMPLES)"

definition stream_wf :: "voice_manager \<Rightarrow> bool" where
  "stream_wf st \<longleftrightarrow> (\<forall>s. localStream st = Some s \<longrightarrow> s \<in> set (live_streams st))"

definition vm_wf :: "voice_manager \<Rightarrow> bool" where
  "vm_wf st \<longleftrightarrow>
     mic_wf st \<and> graph_wf st \<and> gate_wf st \<and> pcs_wf st \<and> relay_wf st \<and> stream_wf st"

lemmas wf_defs = vm_wf_def mic_wf_def graph_wf_def gate_wf_def relay_wf_def stream_wf_def

lemma new_vm_wf: "vm_wf (new_voice_manager vol)"
  by (simp add: wf_defs pcs_wf_def new_voice_manager_def)

section \<open>The parts of the state a method leaves alone\<close>

text \<open>
  Logs, the clock of the playback, names and queued candidates do not matter for being
  well-formed, nor does what a connection is told, as long as it is not closed.
\<close>

definition core_eq :: "voice_manager \<Rightarrow> voice_manager \<Rightarrow> bool" where
  "core_eq a b \<longleftrightarrow>
     gainNode a = gainNode b \<and> localMicMuted a = localMicMuted b \<and>
     localInputVolume a = localInputVolume b \<and> audioContext a = audioContext b \<and>
     destinationNode a = destinationNode b \<and> bleIncomingGain a = bleIncomingGain b \<and>
     active a = active b \<and> noiseGateTimer a = noiseGateTimer b \<and>
     noiseGateAnalyser a = noiseGateAnalyser b \<and> peers a = peers b \<and> next_pc a = next_pc b \<and>
     (\<forall>p. pc_closed (pc_heap a p) = pc_closed (pc_heap b p)) \<and>
     bleRelayChains a = bleRelayChains b \<and> localStream a = localStream b \<and>
     live_streams a = live_streams b"

lemma core_eq_refl [simp]: "core_eq a a"
  by (simp add: core_eq_def)

lemma core_eq_trans: "core_eq a b \<Longrightarrow> core_eq b c \<Longrightarrow> core_eq a c"
  by (simp add: core_eq_def)

lemma core_eq_wf: "core_eq a b \<Longrightarrow> vm_wf b \<Longrightarrow> vm_wf a"
  unfolding core_eq_def wf_defs pcs_wf_def by (elim conjE, simp split: option.splits)

lemma core_send: "core_eq (vm_send t d st) st"
  by (simp add: core_eq_def vm_send_def)

lemma core_sync: "core_eq (syncNativeMicBridge P b st) st"
  by (simp add: core_eq_def syncNativeMicBridge_def Let_def)

lemma core_bridge: "core_eq (startBleBridge P st) st" "core_eq (stopBleBridge st) st"
  by (simp_all add: core_eq_def startBleBridge_def stopBleBridge_def Let_def)

lemma core_schedule: "core_eq (scheduleIncomingBleFrame P bs st) st"
  by (simp add: core_eq_def scheduleIncomingBleFrame_def Let_def)

lemma core_eq_schedule: "core_eq a (scheduleIncomingBleFrame P bs st) \<Longrightarrow> core_eq a st"
  using core_eq_trans core_schedule by blast

lemma core_play: "core_eq (fst (play_frames P frames st)) st"
proof (induction P frames st rule: play_frames.induct)
  case (2 P frame frames st)
  show ?case
  proof (cases "frame = JNull \<or> \<not> truthy (js_prop frame ''pcm'')")
    case True
    with 2 show ?thesis by auto
  next
    case False
    show ?thesis
    proof (cases "decodeBase64 (json_string P (js_prop frame ''pcm''))")
      case (Some bs)
      show ?thesis
      proof (cases "length bs < 2")
        case False
        with 2(3) Some \<open>\<not> (frame = JNull \<or> \<not> truthy (js_prop frame ''pcm''))\<close>
        have "core_eq (fst (play_frames P frames (scheduleIncomingBleFrame P bs st)))
                (scheduleIncomingBleFrame P bs st)" by simp
        then show ?thesis
          using False Some \<open>\<not> (frame = JNull \<or> \<not> truthy (js_prop frame ''pcm''))\<close>
          by (simp add: core_eq_schedule)
      qed (use 2 Some False in simp)
    qed (use False in simp)
  qed
qed simp

lemma core_drain: "core_eq (fst (drainIncomingBleFrames P polled st)) st"
  by (auto simp: drainIncomingBleFrames_def core_play split: option.splits jsval.splits)

lemma core_candidate: "core_eq (add_candidate p ice st) st" "core_eq (set_remote p desc st) st"
  by (simp_all add: core_eq_def add_candidate_def set_remote_def update_pc_def)

lemma core_queue: "core_eq (queue_ice i ice st) st"
  by (simp add: core_eq_def queue_ice_def Let_def)

lemma core_fields:
  "core_eq (st\<lparr>pendingIce := a\<rparr>) st" "core_eq (st\<lparr>peerNames := b\<rparr>) st"
  "core_eq (st\<lparr>audioElements := c\<rparr>) st" "core_eq (st\<lparr>bleSpeakingState := d\<rparr>) st"
  "core_eq (st\<lparr>listenOnly := e\<rparr>) st" "core_eq (st\<lparr>sourceNode := s\<rparr>) st"
  by (simp_all add: core_eq_def)

lemmas core_frames = core_send core_sync core_bridge core_schedule core_drain core_candidate
  core_queue core_fields

lemma wf_frames [wf_intros]:
  "vm_wf st \<Longrightarrow> vm_wf (vm_send t d st)"
  "vm_wf st \<Longrightarrow> vm_wf (syncNativeMicBridge P b st)"
  "vm_wf st \<Longrightarrow> vm_wf (startBleBridge P st)"
  "vm_wf st \<Longrightarrow> vm_wf (stopBleBridge st)"
  "vm_wf st \<Longrightarrow> vm_wf (add_candidate p ice st)"
  "vm_wf st \<Longrightarrow> vm_wf (set_remote p desc st)"
  "vm_wf st \<Longrightarrow> vm_wf (queue_ice i ice st)"
  "vm_wf st \<Longrightarrow> vm_wf (st\<lparr>pendingIce := pend\<rparr>)"
  "vm_wf st \<Longrightarrow> vm_wf (st\<lparr>peerNames := names\<rparr>)"
  "vm_wf st \<Longrightarrow> vm_wf (st\<lparr>audioElements := els\<rparr>)"
  "vm_wf st \<Longrightarrow> vm_wf (st\<lparr>bleSpeakingState := b'\<rparr>)"
  "vm_wf st \<Longrightarrow> vm_wf (st\<lparr>listenOnly := l\<rparr>)"
  "vm_wf st \<Longrightarrow> vm_wf (st\<lparr>sourceNode := s\<rparr>)"
  by (rule core_eq_wf [OF core_frames(1)] core_eq_wf [OF core_frames(2)]
        core_eq_wf [OF core_bridge(1)] core_eq_wf [OF core_bridge(2)]
        core_eq_wf [OF core_candidate(1)] core_eq_wf [OF core_candidate(2)]
        core_eq_wf [OF core_queue] core_eq_wf [OF core_fields(1)] core_eq_wf [OF core_fields(2)]
        core_eq_wf [OF core_fields(3)] core_eq_wf [OF core_fields(4)] core_eq_wf [OF core_fields(5)]
        core_eq_wf [OF core_fields(6)], assumption)+

section \<open>Every operation keeps the state well-formed\<close>

lemma wf_setMuted [wf_intros]: "vm_wf st \<Longrightarrow> vm_wf (setMuted m st)"
  by (auto simp: wf_defs pcs_wf_def setMuted_def Let_def split: option.splits)

lemma wf_volume [wf_intros]: "vm_wf st \<Longrightarrow> vm_wf (vm_setInputVolume v st)"
  by (auto simp: wf_defs pcs_wf_def vm_setInputVolume_def Let_def split: option.splits)

lemma wf_speaker [wf_intros]: "vm_wf st \<Longrightarrow> vm_wf (vm_setSpeakerDevice P dev st)"
  by (simp add: vm_setSpeakerDevice_def wf_intros)

lemma wf_stopGate [wf_intros]: "vm_wf st \<Longrightarrow> vm_wf (stopNoiseGate st)"
  unfolding stopNoiseGate_def
  by (rule wf_setMuted) (simp add: wf_defs pcs_wf_def)

lemma wf_gate_fields:
  "vm_wf st \<Longrightarrow> vm_wf (st\<lparr>noiseGateAnalyser := True, noiseGateTimer := Some g\<rparr>)"
  "vm_wf st \<Longrightarrow> noiseGateAnalyser st \<Longrightarrow> vm_wf (st\<lparr>noiseGateTimer := Some g\<rparr>)"
  by (simp_all add: wf_defs pcs_wf_def)

lemma wf_startGate [wf_intros]: "vm_wf st \<Longrightarrow> vm_wf (startNoiseGate thr st)"
  unfolding startNoiseGate_def by (auto intro: wf_gate_fields wf_stopGate)

lemma analyser_frames [simp]:
  "noiseGateAnalyser (setMuted m st) = noiseGateAnalyser st"
  "noiseGateAnalyser (vm_send t d st) = noiseGateAnalyser st"
  by (auto simp: setMuted_def vm_send_def Let_def split: option.splits)

lemma wf_gate_tick [wf_intros]: "vm_wf st \<Longrightarrow> vm_wf (fst (gate_tick data st))"
  by (auto simp: gate_tick_def Let_def split: option.splits intro!: wf_gate_fields(2) wf_frames wf_setMuted)

lemma wf_gate_release [wf_intros]: "vm_wf st \<Longrightarrow> vm_wf (gate_release thr data st)"
  by (simp add: gate_release_def wf_intros)

lemma wf_native_poll [wf_intros]: "vm_wf st \<Longrightarrow> vm_wf (pollNativeSpeakingState P d st)"
  by (auto simp: pollNativeSpeakingState_def Let_def split: option.splits
      intro!: wf_frames wf_setMuted)

lemma wf_bridge_tick [wf_intros]: "vm_wf st \<Longrightarrow> vm_wf (bridge_tick P polled d st)"
proof -
  assume wf: "vm_wf st"
  obtain st1 r where d: "drainIncomingBleFrames P polled st = (st1, r)" by fastforce
  then have "vm_wf st1" using core_eq_wf [OF core_drain [of P polled st] wf] by simp
  with wf d show ?thesis by (simp add: bridge_tick_def wf_native_poll)
qed

lemma set_js_delete: "set (js_delete k m) \<subseteq> set m"
  by (auto simp: js_delete_def)

lemma wf_detach [wf_intros]:
  assumes "vm_wf st"
  shows "vm_wf (detachRemoteBleRelay i st)"
proof -
  have "js_delete i (bleRelayChains st) \<noteq> [] \<Longrightarrow> bleRelayChains st \<noteq> []"
    by (auto simp: js_delete_def)
  then have "relay_wf (detachRemoteBleRelay i st)"
    using assms set_js_delete [of i "bleRelayChains st"]
    by (auto simp: vm_wf_def relay_wf_def detachRemoteBleRelay_def)
  with assms show ?thesis
    by (simp add: vm_wf_def mic_wf_def graph_wf_def gate_wf_def pcs_wf_def stream_wf_def
        detachRemoteBleRelay_def)
qed

lemma set_js_set: "set (js_set k v m) \<subseteq> insert (k, v) (set m)"
  using js_set_other by fastforce

lemma wf_chain_set:
  assumes "vm_wf st" and "audioContext st" and "length (pendingSamples c) < BLE_FRAME_SAMPLES"
  shows "vm_wf (st\<lparr>bleRelayChains := js_set i c (bleRelayChains st)\<rparr>)"
proof -
  have "distinct (js_keys (js_set i c (bleRelayChains st)))"
    using assms(1) by (simp add: vm_wf_def relay_wf_def)
  moreover have "length (pendingSamples x) < BLE_FRAME_SAMPLES"
    if "(k, x) \<in> set (js_set i c (bleRelayChains st))" for k x
    using js_set_other [OF that] assms(1,3) by (auto simp: vm_wf_def relay_wf_def)
  ultimately show ?thesis
    using assms by (auto simp: wf_defs pcs_wf_def)
qed

lemma wf_attach [wf_intros]: "vm_wf st \<Longrightarrow> vm_wf (attachRemoteBleRelay P i s st)"
  using wf_chain_set [OF wf_detach [of st i], where i = i]
  by (simp add: attachRemoteBleRelay_def Let_def BLE_FRAME_SAMPLES_def detachRemoteBleRelay_def)

lemma wf_relay [wf_intros]:
  assumes wf: "vm_wf st" and "relay_block P i input st = Some st'"
  shows "vm_wf st'"
proof (cases "st' = st")
  case False
  then obtain chain samples offset where
      c: "js_get (bleRelayChains st) i = Some chain" and ac: "audioContext st"
    and st': "st' = (let (frames, rest) = drain_frames (cap_pending samples);
                   calls = map (\<lambda>f. SendPcmFrame (encodeBase64 (int16SamplesToBytes f)) i
                                      (relay_sender i st)) frames
               in st\<lparr>bleRelayChains :=
                       js_set i (chain\<lparr>pendingSamples := rest, resampleOffset := offset\<rparr>)
                         (bleRelayChains st),
                     bridge_log := bridge_log st @ calls\<rparr>)"
    using assms(2) unfolding relay_block_def by (auto split: option.splits if_splits)
  obtain frames rest where d: "drain_frames (cap_pending samples) = (frames, rest)" by fastforce
  then have len: "length rest < BLE_FRAME_SAMPLES" using drain_frames_spec by blast
  let ?st1 = "st\<lparr>bleRelayChains := js_set i (chain\<lparr>pendingSamples := rest, resampleOffset := offset\<rparr>)
                         (bleRelayChains st)\<rparr>"
  have "vm_wf ?st1" using wf ac len by (intro wf_chain_set) auto
  then show ?thesis
    by (rule core_eq_wf [rotated]) (simp add: st' d core_eq_def)
qed (use wf in simp)

section \<open>Connections\<close>

lemma js_set_Cons_fst [simp]:
  "js_set k v (p # m) = (if fst p = k then (k, v) # m else p # js_set k v m)"
  by (cases p) (simp add: js_set_def)

lemma js_set_snd: "distinct (map snd m) \<Longrightarrow> v \<notin> set (map snd m) \<Longrightarrow> distinct (map snd (js_set k v m))"
proof (induction m)
  case (Cons p m)
  then show ?case using js_set_other [of _ _ k v m] by (cases p) fastforce
qed (simp add: js_set_def)

lemma wf_open [wf_intros]:
  assumes "vm_wf st"
  shows "vm_wf (open_connection i st)"
proof -
  have "pcs_wf st" using assms by (simp add: vm_wf_def)
  moreover have "next_pc st \<notin> set (map snd (peers st))"
    using \<open>pcs_wf st\<close> by (auto simp: pcs_wf_def)
  ultimately have "pcs_wf (open_connection i st)"
    using set_js_set [of i "next_pc st" "peers st"]
    by (fastforce simp: pcs_wf_def open_connection_def Let_def js_set_snd)
  with assms show ?thesis by (simp add: wf_defs open_connection_def Let_def)
qed

lemma distinct_snd_delete: "distinct (map snd m) \<Longrightarrow> distinct (map snd (js_delete k m))"
  by (simp add: js_delete_def distinct_map_filter)

lemma pcs_wf_delete: "pcs_wf st \<Longrightarrow> pcs_wf (st\<lparr>peers := js_delete i (peers st)\<rparr>)"
  using set_js_delete [of i "peers st"] by (auto simp: pcs_wf_def distinct_snd_delete)

lemma wf_peers_delete [wf_intros]: "vm_wf st \<Longrightarrow> vm_wf (st\<lparr>peers := js_delete i (peers st)\<rparr>)"
  using pcs_wf_delete [of st i] by (simp add: wf_defs)

lemma wf_drop_audio [wf_intros]: "vm_wf st \<Longrightarrow> vm_wf (drop_audio_element i st)"
  by (simp add: drop_audio_element_def wf_intros)

lemma wf_ontrack [wf_intros]: "vm_wf st \<Longrightarrow> vm_wf (pc_ontrack P dev i s st)"
  by (simp add: pc_ontrack_def Let_def wf_intros)

lemma wf_onice [wf_intros]: "vm_wf st \<Longrightarrow> vm_wf (pc_onicecandidate i c st)"
  by (auto simp: pc_onicecandidate_def intro: wf_intros split: option.splits)

lemma wf_onstate [wf_intros]: "vm_wf st \<Longrightarrow> vm_wf (pc_onconnectionstatechange i s st)"
  unfolding pc_onconnectionstatechange_def Let_def
  by (cases "s = ''failed'' \<or> s = ''closed''")
    (simp_all only: if_True if_False wf_drop_audio wf_peers_delete wf_frames wf_detach)

text \<open>Closing a connection and taking it out of the map.\<close>

lemma wf_close:
  assumes "vm_wf st" and "js_get (peers st) i = Some p"
  shows "vm_wf ((close_pc p st)\<lparr>peers := js_delete i (peers st)\<rparr>)"
proof -
  have wf: "pcs_wf st" using assms(1) by (simp add: vm_wf_def)
  have ip: "(i, p) \<in> set (peers st)" using assms(2) by (rule map_of_SomeD)
  have other: "q \<noteq> p" if "(j, q) \<in> set (peers st)" "j \<noteq> i" for j q
  proof
    assume "q = p"
    with that ip wf have "(j, p) = (i, p)"
      by (metis inj_on_def distinct_map pcs_wf_def snd_conv)
    with that show False by simp
  qed
  have "pcs_wf ((close_pc p st)\<lparr>peers := js_delete i (peers st)\<rparr>)"
    using pcs_wf_delete [OF wf, of i] other
    by (auto simp: pcs_wf_def close_pc_def update_pc_def js_delete_def)
  with assms(1) show ?thesis by (simp add: wf_defs close_pc_def update_pc_def)
qed

lemma wf_drop_peer:
  "vm_wf st \<Longrightarrow>
   vm_wf (case js_get (peers st) i of
            None \<Rightarrow> st | Some p \<Rightarrow> (close_pc p st)\<lparr>peers := js_delete i (peers st)\<rparr>)"
  by (cases "js_get (peers st) i") (simp_all add: wf_close)

lemma wf_peer_left [wf_intros]: "vm_wf st \<Longrightarrow> vm_wf (handlePeerLeft i st)"
  unfolding handlePeerLeft_def Let_def
  by (intro wf_drop_audio wf_drop_peer wf_frames(9) wf_detach wf_frames(8))

lemma wf_peer_joined [wf_intros]: "vm_wf st \<Longrightarrow> vm_wf (handlePeerJoined i n st)"
  by (auto simp: handlePeerJoined_def intro: wf_intros split: option.splits)

section \<open>Joining and leaving\<close>

lemma close_all_core:
  "gainNode (foldl (\<lambda>s (i, p). close_pc p s) st ps) = gainNode st"
  "noiseGateTimer (foldl (\<lambda>s (i, p). close_pc p s) st ps) = noiseGateTimer st"
  "noiseGateAnalyser (foldl (\<lambda>s (i, p). close_pc p s) st ps) = noiseGateAnalyser st"
  "localStream (foldl (\<lambda>s (i, p). close_pc p s) st ps) = localStream st"
  "live_streams (foldl (\<lambda>s (i, p). close_pc p s) st ps) = live_streams st"
  "active (foldl (\<lambda>s (i, p). close_pc p s) st ps) = active st"
  "out_log (foldl (\<lambda>s (i, p). close_pc p s) st ps) = out_log st"
  "next_pc (foldl (\<lambda>s (i, p). close_pc p s) st ps) = next_pc st"
  "bridge_log (foldl (\<lambda>s (i, p). close_pc p s) st ps) = bridge_log st"
  "localMicMuted (foldl (\<lambda>s (i, p). close_pc p s) st ps) = localMicMuted st"
  "localInputVolume (foldl (\<lambda>s (i, p). close_pc p s) st ps) = localInputVolume st"
  by (induction ps arbitrary: st) (auto simp: close_pc_def update_pc_def)

lemma close_all_closed:
  "pc_closed (pc_heap (foldl (\<lambda>s (i, p). close_pc p s) st ps) q)
     \<longleftrightarrow> pc_closed (pc_heap st q) \<or> q \<in> snd ` set ps"
proof (induction ps arbitrary: st)
  case (Cons ip ps)
  obtain i p where "ip = (i, p)" by fastforce
  then show ?case using Cons [of "close_pc p st"] by (auto simp: close_pc_def update_pc_def)
qed simp

lemma cleanup_fields:
  "peers (cleanup P st) = []" "pendingIce (cleanup P st) = []" "peerNames (cleanup P st) = []"
  "audioElements (cleanup P st) = []" "bleRelayChains (cleanup P st) = []"
  "active (cleanup P st) = False" "audioContext (cleanup P st) = False"
  "gainNode (cleanup P st) = None" "destinationNode (cleanup P st) = False"
  "bleIncomingGain (cleanup P st) = False" "localStream (cleanup P st) = None"
  "bleBridgeTimer (cleanup P st) = False" "sourceNode (cleanup P st) = None"
  "out_log (cleanup P st) = out_log st" "next_pc (cleanup P st) = next_pc st"
  "noiseGateTimer (cleanup P st) = noiseGateTimer st"
  "noiseGateAnalyser (cleanup P st) = noiseGateAnalyser st"
  "vm_roomId (cleanup P st) = []" "vm_channelId (cleanup P st) = []"
  "listenOnly (cleanup P st) = False"
  by (simp_all add: cleanup_def syncNativeMicBridge_def stop_local_stream_def stopBleBridge_def
      Let_def close_all_core split: option.splits)

lemma cleanup_streams:
  "live_streams (cleanup P st) =
     (case localStream st of None \<Rightarrow> live_streams st | Some s \<Rightarrow> filter (\<lambda>x. x \<noteq> s) (live_streams st))"
  by (simp add: cleanup_def syncNativeMicBridge_def stop_local_stream_def stopBleBridge_def
      Let_def close_all_core split: option.splits)

lemma cleanup_closed:
  "pc_closed (pc_heap (cleanup P st) q) \<longleftrightarrow> pc_closed (pc_heap st q) \<or> q \<in> snd ` set (peers st)"
proof -
  have "pc_heap (cleanup P st) = pc_heap (foldl (\<lambda>s (i, p). close_pc p s) (st\<lparr>active := False\<rparr>) (peers st))"
    by (simp add: cleanup_def syncNativeMicBridge_def stop_local_stream_def stopBleBridge_def
      Let_def split: option.splits)
  then show ?thesis by (simp add: close_all_closed)
qed

lemma wf_cleanup [wf_intros]: "vm_wf st \<Longrightarrow> vm_wf (cleanup P st)"
  by (simp add: wf_defs pcs_wf_def cleanup_fields)

lemma wf_leave [wf_intros]: "vm_wf st \<Longrightarrow> vm_wf (leaveChannel P st)"
  unfolding leaveChannel_def by (simp add: wf_intros)

lemma wf_join_peers: "vm_wf st \<Longrightarrow> vm_wf (fst (join_peers P ms st))"
  by (induction P ms st rule: join_peers.induct) (auto intro: wf_open)

lemma wf_join_connect: "vm_wf st \<Longrightarrow> vm_wf (fst (join_connect P rid cid ms st))"
  unfolding join_connect_def by (intro wf_join_peers wf_frames)

lemma wf_audio_failed [wf_intros]: "vm_wf st \<Longrightarrow> vm_wf (join_audio_failed P st)"
  unfolding join_audio_failed_def by (intro wf_frames)

lemma wf_join_mic: "vm_wf st \<Longrightarrow> vm_wf (fst (join_mic P rid cid ms r st))"
proof -
  assume wf: "vm_wf st"
  have s: "vm_wf (st\<lparr>localStream := Some s, live_streams := s # live_streams st\<rparr>)" for s
    using wf by (simp add: wf_defs pcs_wf_def)
  show ?thesis
    unfolding join_mic_def Let_def
    by (cases r) (auto intro!: wf_join_connect wf_intros wf s)
qed

lemma inactive_graph: "vm_wf st \<Longrightarrow> \<not> active st \<Longrightarrow> gainNode st = None \<and> \<not> audioContext st"
  by (auto simp: vm_wf_def graph_wf_def)

lemma wf_joinChannel: "vm_wf st \<Longrightarrow> vm_wf (fst (joinChannel P cfg rid cid ms st))"
proof -
  assume wf: "vm_wf st"
  define st0 where "st0 = (if active st then leaveChannel P st else st)"
  have wf0: "vm_wf st0" using wf by (simp add: st0_def wf_leave)
  have in0: "\<not> active st0" by (simp add: st0_def leaveChannel_def cleanup_fields)
  from inactive_graph [OF wf0 in0] have g0: "gainNode st0 = None" "\<not> audioContext st0" by auto
  define st1 where "st1 = st0\<lparr>vm_roomId := rid, vm_channelId := cid, active := True, listenOnly := False,
                    peerNames := foldl (\<lambda>ns m. js_set (vm_id m) (vm_name m) ns) [] ms,
                    localInputVolume := inputVolume cfg, localMicMuted := True\<rparr>"
  have wf1: "vm_wf st1" using wf0 g0 by (simp add: wf_defs pcs_wf_def st1_def)
  have wf2: "vm_wf (st1\<lparr>audioContext := True, gainNode := Some 0, destinationNode := True,
                   bleIncomingGain := True, blePlaybackCursor := currentTime P\<rparr>)"
    using wf0 g0 by (simp add: wf_defs pcs_wf_def st1_def)
  show ?thesis
    using wf1 wf2
    by (simp add: joinChannel_def Let_def wf_join_connect wf_audio_failed flip: st0_def st1_def)
qed

section \<open>Signalling and resuming\<close>

lemma wf_flush: "vm_wf st \<Longrightarrow> vm_wf (fst (flush_next p q k st))"
  by (cases q) (simp_all add: flush_next_def after_flush_def wf_frames)

lemma wf_flushPending: "vm_wf st \<Longrightarrow> vm_wf (fst (flushPendingIce i p k st))"
  by (auto simp: flushPendingIce_def after_flush_def split: option.splits intro!: wf_flush wf_frames)

lemma wf_offer: "vm_wf st \<Longrightarrow> vm_wf (fst (handleOffer P i sdp st))"
  by (auto simp: handleOffer_def Let_def wf_open split: option.splits)

lemma wf_answer: "vm_wf st \<Longrightarrow> vm_wf (fst (handleAnswer P i sdp st))"
  by (auto simp: handleAnswer_def split: option.splits)

lemma wf_ice [wf_intros]: "vm_wf st \<Longrightarrow> vm_wf (handleIce P i c st)"
  by (auto simp: handleIce_def wf_frames split: option.splits)

lemma wf_stop_stream: "vm_wf st \<Longrightarrow> vm_wf (stop_local_stream st)"
  by (auto simp: wf_defs pcs_wf_def stop_local_stream_def split: option.splits)

lemma wf_rewire:
  assumes "vm_wf st"
  shows "vm_wf (if \<not> audioContext st then st
    else if gainNode (st\<lparr>sourceNode := x\<rparr>) = None then st\<lparr>sourceNode := x\<rparr>
    else syncNativeMicBridge P None (st\<lparr>sourceNode := x,
           gainNode := Some (if localMicMuted (st\<lparr>sourceNode := x\<rparr>) then 0
                             else localInputVolume (st\<lparr>sourceNode := x\<rparr>))\<rparr>))"
proof (cases "audioContext st")
  case True
  then have "vm_wf (st\<lparr>sourceNode := x,
           gainNode := Some (if localMicMuted (st\<lparr>sourceNode := x\<rparr>) then 0
                             else localInputVolume (st\<lparr>sourceNode := x\<rparr>))\<rparr>)"
    using assms by (simp add: wf_defs pcs_wf_def)
  from wf_frames(2) [OF this] wf_frames(13) [OF assms] True show ?thesis
    by (simp only: if_True if_False not_True_eq_False split: if_split) blast
qed (use assms in simp)

lemma wf_mic_switched: "vm_wf st \<Longrightarrow> vm_wf (mic_switched P r st)"
proof -
  assume wf: "vm_wf st"
  then have "vm_wf (stop_local_stream st)" by (rule wf_stop_stream)
  then have "vm_wf ((stop_local_stream st)\<lparr>localStream := Some s,
                  live_streams := s # live_streams (stop_local_stream st)\<rparr>)" for s
    by (simp add: wf_defs pcs_wf_def)
  from wf_rewire [OF this] wf show ?thesis
    unfolding mic_switched_def Let_def by (cases r) (simp_all only: await_result.case)
qed

lemma wf_resume: "vm_wf st \<Longrightarrow> vm_wf (fst (resume P k r st))"
proof (cases k)
  case (JoinResumed rid cid ms dev)
  assume "vm_wf st"
  with JoinResumed show ?thesis
    by (simp add: resume_def join_resumed_def Let_def wf_join_connect wf_frames wf_audio_failed)
next
  case (JoinOffer i ms)
  assume "vm_wf st"
  with JoinOffer show ?thesis
    by (cases r) (simp_all add: resume_def join_offer_def wf_join_peers wf_frames)
next
  case (OfferAnswer i)
  assume "vm_wf st"
  with OfferAnswer show ?thesis by (cases r) (simp_all add: resume_def wf_frames)
next
  case (GateRelease thr)
  assume "vm_wf st"
  with GateRelease show ?thesis by (cases r) (simp_all add: resume_def wf_gate_release)
qed (simp_all add: resume_def wf_join_mic wf_flush wf_flushPending wf_mic_switched wf_frames)

section \<open>The operations as one type\<close>

datatype vm_op =
    OpJoin settings string string "voice_member list"
  | OpLeave
  | OpDestroy
  | OpMute bool
  | OpVolume num
  | OpSpeaker string
  | OpSwitchMic string
  | OpGateStart num
  | OpGateStop
  | OpGateTick "num list"
  | OpBridgeTick "string option" "bool option"
  | OpOffer string string
  | OpAnswer string string
  | OpIce string string
  | OpPeerJoined string "string option"
  | OpPeerLeft string
  | EvTrack string string nat
  | EvCandidate string "string option"
  | EvState string string

definition vm_apply :: "platform \<Rightarrow> vm_op \<Rightarrow> voice_manager \<Rightarrow> suspended" where
  "vm_apply P a st =
     (case a of
        OpJoin cfg rid cid ms \<Rightarrow> joinChannel P cfg rid cid ms st
      | OpLeave \<Rightarrow> (leaveChannel P st, None)
      | OpDestroy \<Rightarrow> (vm_destroy P st, None)
      | OpMute m \<Rightarrow> (setMuted m st, None)
      | OpVolume v \<Rightarrow> (vm_setInputVolume v st, None)
      | OpSpeaker dev \<Rightarrow> (vm_setSpeakerDevice P dev st, None)
      | OpSwitchMic dev \<Rightarrow> switchMicrophone dev st
      | OpGateStart thr \<Rightarrow> (startNoiseGate thr st, None)
      | OpGateStop \<Rightarrow> (stopNoiseGate st, None)
      | OpGateTick data \<Rightarrow> gate_tick data st
      | OpBridgeTick polled detected \<Rightarrow> (bridge_tick P polled detected st, None)
      | OpOffer i sdp \<Rightarrow> handleOffer P i sdp st
      | OpAnswer i sdp \<Rightarrow> handleAnswer P i sdp st
      | OpIce i c \<Rightarrow> (handleIce P i c st, None)
      | OpPeerJoined i n \<Rightarrow> (handlePeerJoined i n st, None)
      | OpPeerLeft i \<Rightarrow> (handlePeerLeft i st, None)
      | EvTrack dev i s \<Rightarrow> (pc_ontrack P dev i s st, None)
      | EvCandidate i c \<Rightarrow> (pc_onicecandidate i c st, None)
      | EvState i s \<Rightarrow> (pc_onconnectionstatechange i s st, None))"

lemma wf_apply: "vm_wf st \<Longrightarrow> vm_wf (fst (vm_apply P a st))"
  by (cases a) (simp_all add: vm_apply_def wf_joinChannel wf_leave vm_destroy_def wf_setMuted
      wf_volume wf_speaker switchMicrophone_def wf_startGate wf_stopGate wf_gate_tick
      wf_bridge_tick wf_offer wf_answer wf_ice wf_peer_joined wf_peer_left wf_ontrack wf_onice
      wf_onstate)

text \<open>
  The system: the manager and the suspended methods. A step applies an operation, delivers a block
  of audio to a relay, or resumes any suspended method with any outcome.
\<close>

type_synonym vm_sys = "voice_manager \<times> cont list"

definition add_waiting :: "suspended \<Rightarrow> cont list \<Rightarrow> vm_sys" where
  "add_waiting r w = (fst r, w @ (case snd r of None \<Rightarrow> [] | Some k \<Rightarrow> [k]))"

inductive vm_step :: "vm_sys \<Rightarrow> vm_sys \<Rightarrow> bool" where
  apply_op: "vm_step (st, w) (add_waiting (vm_apply P a st) w)"
| audio_block: "relay_block P i input st = Some st' \<Longrightarrow> vm_step (st, w) (st', w)"
| resumed: "n < length w \<Longrightarrow>
    vm_step (st, w) (add_waiting (resume P (w ! n) r st) (take n w @ drop (Suc n) w))"

inductive_cases vm_stepE: "vm_step c c'"

inductive vm_reachable :: "vm_sys \<Rightarrow> bool" where
  vm_start: "vm_reachable (new_voice_manager vol, [])"
| vm_next: "vm_reachable c \<Longrightarrow> vm_step c c' \<Longrightarrow> vm_reachable c'"

lemma vm_step_wf: "vm_step c c' \<Longrightarrow> vm_wf (fst c) \<Longrightarrow> vm_wf (fst c')"
  by (erule vm_stepE) (auto simp: add_waiting_def wf_apply wf_resume wf_relay)

lemma vm_reachable_inv: "vm_reachable c \<Longrightarrow> vm_wf (fst c)"
  by (induction rule: vm_reachable.induct) (auto simp: new_vm_wf intro: vm_step_wf)

end
