(* ===== verification/Ptt.thy ===== *)
theory Ptt
  imports VmSteps
begin

text \<open>
  Push-to-talk, \<open>web/src/hooks/usePTT.ts\<close>. The hook is given a voice manager and calls one method
  of it, \<open>setMuted\<close>: the handlers take that operation as an argument and work on any device that
  has it. The contract they rely on is the locale \<open>mic_switch\<close>; \<open>VoiceManager\<close> provides it.
\<close>

section \<open>The hook\<close>

text \<open>
  The values the effect closes over, the state it shares with its handlers, and the calls it makes
  on the Android bridge. \<open>bursting\<close> is the variable \<open>speaking\<close> of the effect.
\<close>

record ptt_closure =
  c_room :: string
  c_channel :: string
  c_key :: string
  c_user :: string
  c_name :: string

datatype ptt_call = StartPtt string string | StopPtt

record 'd ptt =
  bursting :: bool
  device :: "'d option"
  ptt_chat :: chat_state
  ptt_out :: "out_msg list"
  ptt_calls :: "ptt_call list"

datatype ptt_event = KeyDown string bool bool | KeyUp string | TouchStart | TouchEnd

definition ptt_frame :: "ptt_closure \<Rightarrow> bool \<Rightarrow> out_msg" where
  "ptt_frame c b =
     Out ''voice_speaking'' (JObj [(''room_id'', JStr (c_room c)), (''channel_id'', JStr (c_channel c)),
                                 (''speaking'', JBool b)])"

definition ptt_press :: "(bool \<Rightarrow> 'd \<Rightarrow> 'd) \<Rightarrow> bool \<Rightarrow> ptt_closure \<Rightarrow> 'd ptt \<Rightarrow> 'd ptt" where
  "ptt_press set_muted ble c p =
     p\<lparr>bursting := True, device := map_option (set_muted False) (device p),
       ptt_calls := ptt_calls p @
         (if ble then [StartPtt (c_user c) (if c_name c = [] then ''Android'' else c_name c)] else []),
       ptt_chat := setLocalSpeaking True (ptt_chat p),
       ptt_out := ptt_out p @ [ptt_frame c True]\<rparr>"

definition ptt_release :: "(bool \<Rightarrow> 'd \<Rightarrow> 'd) \<Rightarrow> bool \<Rightarrow> ptt_closure \<Rightarrow> 'd ptt \<Rightarrow> 'd ptt" where
  "ptt_release set_muted ble c p =
     p\<lparr>bursting := False, device := map_option (set_muted True) (device p),
       ptt_calls := ptt_calls p @ (if ble then [StopPtt] else []),
       ptt_chat := setLocalSpeaking False (ptt_chat p),
       ptt_out := ptt_out p @ [ptt_frame c False]\<rparr>"

text \<open>
  \<open>KeyDown key repeat in_field\<close>: \<open>in_field\<close> says that the target is an input or a text area.
\<close>

definition handleKeyDown ::
  "(bool \<Rightarrow> 'd \<Rightarrow> 'd) \<Rightarrow> bool \<Rightarrow> ptt_closure \<Rightarrow> string \<Rightarrow> bool \<Rightarrow> bool \<Rightarrow> 'd ptt \<Rightarrow> 'd ptt" where
  "handleKeyDown set_muted ble c key rep in_field p =
     (if in_field then p
      else if key = c_key c \<and> \<not> rep \<and> \<not> bursting p then ptt_press set_muted ble c p
      else p)"

definition handleKeyUp ::
  "(bool \<Rightarrow> 'd \<Rightarrow> 'd) \<Rightarrow> bool \<Rightarrow> ptt_closure \<Rightarrow> string \<Rightarrow> 'd ptt \<Rightarrow> 'd ptt" where
  "handleKeyUp set_muted ble c key p =
     (if key = c_key c \<and> bursting p then ptt_release set_muted ble c p else p)"

definition handleTouchStart :: "(bool \<Rightarrow> 'd \<Rightarrow> 'd) \<Rightarrow> bool \<Rightarrow> ptt_closure \<Rightarrow> 'd ptt \<Rightarrow> 'd ptt" where
  "handleTouchStart set_muted ble c p =
     (if \<not> bursting p then ptt_press set_muted ble c p else p)"

definition handleTouchEnd :: "(bool \<Rightarrow> 'd \<Rightarrow> 'd) \<Rightarrow> bool \<Rightarrow> ptt_closure \<Rightarrow> 'd ptt \<Rightarrow> 'd ptt" where
  "handleTouchEnd set_muted ble c p =
     (if bursting p then ptt_release set_muted ble c p else p)"

fun ptt_handle ::
  "(bool \<Rightarrow> 'd \<Rightarrow> 'd) \<Rightarrow> bool \<Rightarrow> ptt_closure \<Rightarrow> ptt_event \<Rightarrow> 'd ptt \<Rightarrow> 'd ptt" where
  "ptt_handle sm ble c (KeyDown k r f) p = handleKeyDown sm ble c k r f p"
| "ptt_handle sm ble c (KeyUp k) p = handleKeyUp sm ble c k p"
| "ptt_handle sm ble c TouchStart p = handleTouchStart sm ble c p"
| "ptt_handle sm ble c TouchEnd p = handleTouchEnd sm ble c p"

text \<open>The effect: it installs handlers only in a voice channel and with something to talk through.\<close>

definition ptt_installs :: "(string \<times> string) option \<Rightarrow> bool \<Rightarrow> bool \<Rightarrow> bool" where
  "ptt_installs act has_vm ble \<longleftrightarrow> act \<noteq> None \<and> (has_vm \<or> ble)"

definition ptt_cleanup :: "(bool \<Rightarrow> 'd \<Rightarrow> 'd) \<Rightarrow> bool \<Rightarrow> ptt_closure \<Rightarrow> 'd ptt \<Rightarrow> 'd ptt" where
  "ptt_cleanup set_muted ble c p = (if bursting p then ptt_release set_muted ble c p else p)"

definition ptt_run ::
  "(bool \<Rightarrow> 'd \<Rightarrow> 'd) \<Rightarrow> bool \<Rightarrow> ptt_closure \<Rightarrow> ptt_event list \<Rightarrow> 'd ptt \<Rightarrow> 'd ptt" where
  "ptt_run set_muted ble c es p = foldl (\<lambda>q e. ptt_handle set_muted ble c e q) p es"

text \<open>A run of the effect: it starts with no burst.\<close>

definition ptt_mount :: "'d option \<Rightarrow> chat_state \<Rightarrow> 'd ptt" where
  "ptt_mount d s = \<lparr> bursting = False, device = d, ptt_chat = s, ptt_out = [], ptt_calls = [] \<rparr>"

section \<open>The contract of the microphone\<close>

locale mic_switch =
  fixes set_muted :: "bool \<Rightarrow> 'd \<Rightarrow> 'd"
    and is_muted :: "'d \<Rightarrow> bool"
    and mic_ok :: "'d \<Rightarrow> bool"
  assumes muted_set [simp]: "is_muted (set_muted m d) = m"
    and ok_set: "mic_ok d \<Longrightarrow> mic_ok (set_muted m d)"

fun bursts :: "ptt_closure \<Rightarrow> nat \<Rightarrow> out_msg list" where
  "bursts c 0 = []"
| "bursts c (Suc n) = bursts c n @ [ptt_frame c True, ptt_frame c False]"

context mic_switch
begin

text \<open>What holds between two events.\<close>

definition in_step :: "ptt_closure \<Rightarrow> 'd ptt \<Rightarrow> bool" where
  "in_step c p \<longleftrightarrow>
     (\<forall>d. device p = Some d \<longrightarrow> mic_ok d \<and> is_muted d = (\<not> bursting p)) \<and>
     localSpeaking (ptt_chat p) = bursting p \<and>
     (\<exists>n. ptt_out p = bursts c n @ (if bursting p then [ptt_frame c True] else []))"

lemma in_step_press:
  assumes "in_step c p" and "\<not> bursting p"
  shows "in_step c (ptt_press set_muted ble c p)"
  using assms by (auto simp: in_step_def ptt_press_def setLocalSpeaking_def ok_set)

lemma in_step_release:
  assumes "in_step c p" and "bursting p"
  shows "in_step c (ptt_release set_muted ble c p)"
proof -
  obtain n where "ptt_out p = bursts c n @ [ptt_frame c True]"
    using assms by (auto simp: in_step_def)
  then have "ptt_out p @ [ptt_frame c False] = bursts c (Suc n)" by simp
  with assms show ?thesis
    by (auto simp: in_step_def ptt_release_def setLocalSpeaking_def ok_set simp del: bursts.simps)
qed

lemma in_step_event: "in_step c p \<Longrightarrow> in_step c (ptt_handle set_muted ble c e p)"
  by (cases e) (simp_all add: handleKeyDown_def handleKeyUp_def handleTouchStart_def
      handleTouchEnd_def in_step_press in_step_release)

lemma in_step_run: "in_step c p \<Longrightarrow> in_step c (ptt_run set_muted ble c es p)"
  by (induction es arbitrary: p) (simp_all add: ptt_run_def in_step_event)

lemma in_step_cleanup:
  "in_step c p \<Longrightarrow> in_step c (ptt_cleanup set_muted ble c p)"
  "\<not> bursting (ptt_cleanup set_muted ble c p)"
  by (simp_all add: ptt_cleanup_def in_step_release) (simp add: ptt_release_def)

lemma in_step_mount:
  assumes "\<And>d. dev = Some d \<Longrightarrow> mic_ok d \<and> is_muted d" and "\<not> localSpeaking s"
  shows "in_step c (ptt_mount dev s)"
proof -
  have "ptt_out (ptt_mount dev s) = bursts c 0" by (simp add: ptt_mount_def)
  with assms show ?thesis by (auto simp: in_step_def ptt_mount_def simp del: bursts.simps)
qed

end

section \<open>The voice manager as the microphone\<close>

lemma setMuted_muted [simp]: "localMicMuted (setMuted m st) = m"
  by (auto simp: setMuted_def Let_def split: option.splits)

interpretation vm_mic: mic_switch setMuted localMicMuted vm_wf
  by unfold_locales (simp_all add: wf_setMuted)

lemma vm_ptt_run:
  assumes "\<And>st. dev = Some st \<Longrightarrow> vm_wf st \<and> localMicMuted st" and "\<not> localSpeaking s"
  shows "vm_mic.in_step c (ptt_run setMuted ble c es (ptt_mount dev s))"
  by (rule vm_mic.in_step_run) (rule vm_mic.in_step_mount [OF assms])

lemma ptt_run_device: "device p \<noteq> None \<Longrightarrow> device (ptt_run sm ble c es p) \<noteq> None"
proof (induction es arbitrary: p)
  case (Cons e es)
  have "device (ptt_handle sm ble c e p) \<noteq> None"
    using Cons.prems
    by (cases e) (auto simp: handleKeyDown_def handleKeyUp_def handleTouchStart_def handleTouchEnd_def
        ptt_press_def ptt_release_def)
  from Cons.IH [OF this] show ?case by (simp add: ptt_run_def)
qed (simp add: ptt_run_def)

lemma mic_gain:
  assumes "vm_wf st" and "gainNode st = Some g"
  shows "g = (if localMicMuted st then 0 else localInputVolume st)"
  using assms by (simp add: vm_wf_def mic_wf_def)

end
