(* ===== verification/VmRuns.thy ===== *)
theory VmRuns
  imports VmSteps
begin

text \<open>
  Whole runs of the voice manager's asynchronous methods with nothing in between: joining a
  channel ends and sends one offer per WebRTC member, leaving undoes it, ICE candidates reach
  their connection in the order they came.
\<close>

section \<open>Running a method to its end\<close>

text \<open>
  The promises are answered by \<open>answer\<close> from the suspended method; at most \<open>n\<close> segments are run.
  \<open>None\<close> in the second component says that the method has returned.
\<close>

fun settle :: "platform \<Rightarrow> (cont \<Rightarrow> await_result) \<Rightarrow> nat \<Rightarrow> suspended \<Rightarrow> suspended" where
  "settle P answer 0 s = s"
| "settle P answer (Suc n) (st, None) = (st, None)"
| "settle P answer (Suc n) (st, Some k) = settle P answer n (resume P k (answer k) st)"

lemma settle_done [simp]: "settle P answer n (st, None) = (st, None)"
  by (cases n) auto

section \<open>Joining\<close>

definition webrtc_ids :: "voice_member list \<Rightarrow> string list" where
  "webrtc_ids ms = filter (\<lambda>i. \<not> is_ble_id i) (map vm_id ms)"

definition offer_msg :: "string \<Rightarrow> string \<Rightarrow> (string \<Rightarrow> string) \<Rightarrow> string \<Rightarrow> out_msg" where
  "offer_msg rid cid sdp i =
     Out ''voice_offer'' (JObj [(''room_id'', JStr rid), (''channel_id'', JStr cid),
                              (''target_id'', JStr i), (''sdp'', JStr (sdp i))])"

definition offers_answered :: "(cont \<Rightarrow> await_result) \<Rightarrow> (string \<Rightarrow> string) \<Rightarrow> bool" where
  "offers_answered answer sdp \<longleftrightarrow> (\<forall>i ms. answer (JoinOffer i ms) = Description (sdp i))"

lemma open_connection_frames [simp]:
  "out_log (open_connection i st) = out_log st" "vm_roomId (open_connection i st) = vm_roomId st"
  "vm_channelId (open_connection i st) = vm_channelId st" "active (open_connection i st) = active st"
  "gainNode (open_connection i st) = gainNode st"
  "localMicMuted (open_connection i st) = localMicMuted st"
  "js_keys (peers (open_connection i st)) =
     (if i \<in> set (js_keys (peers st)) then js_keys (peers st) else js_keys (peers st) @ [i])"
  by (simp_all add: open_connection_def Let_def js_keys_set)

lemma vm_send_frames [simp]:
  "out_log (vm_send t d st) = out_log st @ [Out t d]" "vm_roomId (vm_send t d st) = vm_roomId st"
  "vm_channelId (vm_send t d st) = vm_channelId st" "active (vm_send t d st) = active st"
  "peers (vm_send t d st) = peers st" "gainNode (vm_send t d st) = gainNode st"
  "localMicMuted (vm_send t d st) = localMicMuted st"
  by (simp_all add: vm_send_def)

lemma sync_frames [simp]:
  "out_log (syncNativeMicBridge P b st) = out_log st"
  "vm_roomId (syncNativeMicBridge P b st) = vm_roomId st"
  "vm_channelId (syncNativeMicBridge P b st) = vm_channelId st"
  "active (syncNativeMicBridge P b st) = active st" "peers (syncNativeMicBridge P b st) = peers st"
  "localMicMuted (syncNativeMicBridge P b st) = localMicMuted st"
  "destinationNode (syncNativeMicBridge P b st) = destinationNode st"
  by (simp_all add: syncNativeMicBridge_def Let_def)

lemma startBle_frames [simp]:
  "out_log (startBleBridge P st) = out_log st" "vm_roomId (startBleBridge P st) = vm_roomId st"
  "vm_channelId (startBleBridge P st) = vm_channelId st" "active (startBleBridge P st) = active st"
  "peers (startBleBridge P st) = peers st"
  "localMicMuted (startBleBridge P st) = localMicMuted st"
  by (simp_all add: startBleBridge_def stopBleBridge_def Let_def)

definition joined :: "voice_manager \<Rightarrow> string \<Rightarrow> string \<Rightarrow> voice_manager \<Rightarrow> bool" where
  "joined st rid cid st' \<longleftrightarrow>
     active st' = active st \<and> localMicMuted st' = localMicMuted st \<and>
     vm_roomId st' = rid \<and> vm_channelId st' = cid"

lemma settle_offers:
  assumes "rtc_ok P" and "offers_answered answer sdp"
    and "length ms \<le> n" and "vm_roomId st = rid" and "vm_channelId st = cid"
  shows "\<exists>st'. settle P answer n (join_peers P ms st) = (st', None) \<and> joined st rid cid st' \<and>
           out_log st' = out_log st @ map (offer_msg rid cid sdp) (webrtc_ids ms) \<and>
           set (js_keys (peers st')) = set (js_keys (peers st)) \<union> set (webrtc_ids ms)"
  using assms(3-5)
proof (induction ms arbitrary: n st)
  case Nil
  then show ?case by (simp add: joined_def webrtc_ids_def)
next
  case (Cons m ms)
  show ?case
  proof (cases "is_ble_id (vm_id m)")
    case True
    with Cons.IH [of n st] Cons.prems show ?thesis by (simp add: webrtc_ids_def)
  next
    case False
    from Cons.prems(1) obtain n' where n: "n = Suc n'" "length ms \<le> n'" by (cases n) auto
    let ?st1 = "open_connection (vm_id m) st"
    let ?st2 = "vm_send ''voice_offer'' (signal_frame (vm_id m) ''sdp'' (sdp (vm_id m)) ?st1) ?st1"
    from Cons.IH [OF n(2), of ?st2] Cons.prems False n assms(1,2) show ?thesis
      by (auto simp: offers_answered_def resume_def join_offer_def webrtc_ids_def joined_def
          offer_msg_def signal_frame_def)
  qed
qed

lemma settle_connect:
  assumes "rtc_ok P" and "offers_answered answer sdp"
    and "length ms \<le> n" and "vm_roomId st = rid" and "vm_channelId st = cid"
  shows "\<exists>st'. settle P answer n (join_connect P rid cid ms st) = (st', None) \<and>
           joined st rid cid st' \<and>
           out_log st' = out_log st @ Out ''join_voice'' (channel_frame rid cid)
                            # map (offer_msg rid cid sdp) (webrtc_ids ms) \<and>
           set (js_keys (peers st')) = set (js_keys (peers st)) \<union> set (webrtc_ids ms)"
proof -
  let ?st1 = "vm_send ''join_voice'' (channel_frame rid cid) (startBleBridge P st)"
  have "vm_roomId ?st1 = rid" "vm_channelId ?st1 = cid" using assms(4,5) by simp_all
  from settle_offers [OF assms(1-3) this] show ?thesis
    by (simp add: join_connect_def joined_def)
qed

lemma settle_audio:
  assumes "rtc_ok P" and "offers_answered answer sdp"
    and "length ms + 2 \<le> n" and "vm_roomId st = rid" and "vm_channelId st = cid"
  shows "\<exists>st'. settle P answer n (st, Some (JoinResumed rid cid ms dev)) = (st', None) \<and>
           joined st rid cid st' \<and>
           out_log st' = out_log st @ Out ''join_voice'' (channel_frame rid cid)
                            # map (offer_msg rid cid sdp) (webrtc_ids ms) \<and>
           set (js_keys (peers st')) = set (js_keys (peers st)) \<union> set (webrtc_ids ms)"
proof -
  define prep where "prep st1 \<longleftrightarrow> joined st rid cid st1 \<and> out_log st1 = out_log st \<and> peers st1 = peers st"
    for st1
  have go: "\<exists>st'. settle P answer n1 (join_connect P rid cid ms st1) = (st', None) \<and>
           joined st rid cid st' \<and>
           out_log st' = out_log st @ Out ''join_voice'' (channel_frame rid cid)
                            # map (offer_msg rid cid sdp) (webrtc_ids ms) \<and>
           set (js_keys (peers st')) = set (js_keys (peers st)) \<union> set (webrtc_ids ms)"
    if "prep st1" "length ms \<le> n1" for st1 n1
    using settle_connect [OF assms(1,2) that(2), of st1 rid cid] that(1)
    by (auto simp: prep_def joined_def)
  from assms(3) obtain n1 where n: "n = Suc (Suc n1)" "length ms \<le> n1"
    using that [of "n - 2"] by simp
  have prep0: "prep st" using assms(4,5) by (simp add: prep_def joined_def)
  have prep_sync: "prep (syncNativeMicBridge P b st1)" "prep (join_audio_failed P st1)" if "prep st1" for b st1
    using that by (simp_all add: prep_def joined_def join_audio_failed_def)
  show ?thesis
  proof (cases "hasBleVoice P")
    case True
    let ?st1 = "syncNativeMicBridge P (Some True) st"
    have "prep (if destinationNode ?st1 then ?st1 else join_audio_failed P ?st1)"
      using prep_sync prep0 by simp
    from go [OF this, of "Suc n1"] n True show ?thesis
      by (auto simp: resume_def join_resumed_def Let_def split: if_splits)
  next
    case False
    let ?r = "answer (JoinMic rid cid ms dev)"
    define st1 where "st1 = (case ?r of
                   Stream s \<Rightarrow>
                     let st' = st\<lparr>localStream := Some s, live_streams := s # live_streams st\<rparr>
                     in if \<not> audioContext st' then st'\<lparr>listenOnly := True\<rparr>
                        else if gainNode st' = None then st'\<lparr>sourceNode := Some s, listenOnly := True\<rparr>
                        else st'\<lparr>sourceNode := Some s\<rparr>
                 | _ \<Rightarrow> st\<lparr>listenOnly := True\<rparr>)"
    have "prep st1" using prep0 by (cases ?r) (auto simp: st1_def prep_def joined_def Let_def)
    then have "prep (if destinationNode st1 then syncNativeMicBridge P None st1
            else join_audio_failed P st1)"
      using prep_sync by simp
    from go [OF this n(2)] False show ?thesis
      by (simp add: n(1) resume_def join_resumed_def join_mic_def Let_def flip: st1_def)
  qed
qed

definition leave_msgs :: "voice_manager \<Rightarrow> out_msg list" where
  "leave_msgs st =
     (if active st then [Out ''leave_voice'' (channel_frame (vm_roomId st) (vm_channelId st))] else [])"

lemma leave_log: "out_log (if active st then leaveChannel P st else st) = out_log st @ leave_msgs st"
  by (simp add: leave_msgs_def leaveChannel_def cleanup_fields)

lemma join_run:
  assumes "rtc_ok P" and "offers_answered answer sdp"
    and "length ms + 2 \<le> n"
  shows "\<exists>st'. settle P answer n (joinChannel P cfg rid cid ms st) = (st', None) \<and>
           active st' \<and> localMicMuted st' \<and> vm_roomId st' = rid \<and> vm_channelId st' = cid \<and>
           out_log st' = out_log st @ leave_msgs st @ Out ''join_voice'' (channel_frame rid cid)
                            # map (offer_msg rid cid sdp) (webrtc_ids ms) \<and>
           set (js_keys (peers st')) =
             (if active st then {} else set (js_keys (peers st))) \<union> set (webrtc_ids ms)"
proof -
  define st0 where "st0 = (if active st then leaveChannel P st else st)"
  have log: "out_log st0 = out_log st @ leave_msgs st" unfolding st0_def by (rule leave_log)
  have ps: "set (js_keys (peers st0)) = (if active st then {} else set (js_keys (peers st)))"
    by (simp add: st0_def leaveChannel_def cleanup_fields)
  define st1 where "st1 = st0\<lparr>vm_roomId := rid, vm_channelId := cid, active := True, listenOnly := False,
                    peerNames := foldl (\<lambda>ns m. js_set (vm_id m) (vm_name m) ns) [] ms,
                    localInputVolume := inputVolume cfg, localMicMuted := True\<rparr>"
  show ?thesis
  proof (cases "audio_ok P")
    case True
    let ?st2 = "st1\<lparr>audioContext := True, gainNode := Some 0, destinationNode := True,
                   bleIncomingGain := True, blePlaybackCursor := currentTime P\<rparr>"
    have r: "vm_roomId ?st2 = rid" "vm_channelId ?st2 = cid" by (simp_all add: st1_def)
    from settle_audio [OF assms r] True log ps show ?thesis
      by (auto simp: joinChannel_def Let_def joined_def st1_def simp flip: st0_def)
  next
    case False
    let ?st2 = "join_audio_failed P st1"
    have r: "vm_roomId ?st2 = rid" "vm_channelId ?st2 = cid"
      by (simp_all add: st1_def join_audio_failed_def)
    have "length ms \<le> n" using assms(3) by simp
    from settle_connect [OF assms(1,2) this r] False log ps show ?thesis
      by (auto simp: joinChannel_def Let_def joined_def st1_def join_audio_failed_def simp flip: st0_def)
  qed
qed

section \<open>ICE candidates\<close>

definition parsed_candidates :: "platform \<Rightarrow> string list \<Rightarrow> jsval list" where
  "parsed_candidates P cs = List.map_filter (json_parse P) cs"

definition receive_ice :: "platform \<Rightarrow> string \<Rightarrow> string list \<Rightarrow> voice_manager \<Rightarrow> voice_manager" where
  "receive_ice P i cs st = foldl (\<lambda>s c. handleIce P i c s) st cs"

definition queued :: "string \<Rightarrow> voice_manager \<Rightarrow> jsval list" where
  "queued i st = (case js_get (pendingIce st) i of Some q \<Rightarrow> q | None \<Rightarrow> [])"

lemma parsed_Cons:
  "parsed_candidates P (c # cs) =
     (case json_parse P c of None \<Rightarrow> [] | Some v \<Rightarrow> [v]) @ parsed_candidates P cs"
  by (simp add: parsed_candidates_def map_filter_simps split: option.splits)

lemma ice_queued:
  assumes "js_get (peers st) i = Some p" and "remoteDescription (pc_heap st p) = None"
  shows "queued i (receive_ice P i cs st) = queued i st @ parsed_candidates P cs \<and>
         peers (receive_ice P i cs st) = peers st \<and> pc_heap (receive_ice P i cs st) = pc_heap st"
  using assms
proof (induction cs arbitrary: st)
  case Nil
  then show ?case by (simp add: receive_ice_def parsed_candidates_def map_filter_simps)
next
  case (Cons c cs)
  have h: "queued i (handleIce P i c st) = queued i st @ (case json_parse P c of None \<Rightarrow> [] | Some v \<Rightarrow> [v])"
    "peers (handleIce P i c st) = peers st" "pc_heap (handleIce P i c st) = pc_heap st"
    using Cons.prems by (auto simp: handleIce_def queue_ice_def queued_def Let_def split: option.splits)
  from Cons.IH [of "handleIce P i c st"] Cons.prems h show ?case
    by (simp add: receive_ice_def parsed_Cons)
qed

lemma ice_direct:
  assumes "js_get (peers st) i = Some p" and "remoteDescription (pc_heap st p) \<noteq> None"
  shows "pc_candidates (pc_heap (receive_ice P i cs st) p)
           = pc_candidates (pc_heap st p) @ parsed_candidates P cs \<and>
         pendingIce (receive_ice P i cs st) = pendingIce st"
  using assms
proof (induction cs arbitrary: st)
  case Nil
  then show ?case by (simp add: receive_ice_def parsed_candidates_def map_filter_simps)
next
  case (Cons c cs)
  have h: "pc_candidates (pc_heap (handleIce P i c st) p)
      = pc_candidates (pc_heap st p) @ (case json_parse P c of None \<Rightarrow> [] | Some v \<Rightarrow> [v])"
    "peers (handleIce P i c st) = peers st" "pendingIce (handleIce P i c st) = pendingIce st"
    "remoteDescription (pc_heap (handleIce P i c st) p) = remoteDescription (pc_heap st p)"
    using Cons.prems by (auto simp: handleIce_def add_candidate_def update_pc_def split: option.splits)
  from Cons.IH [of "handleIce P i c st"] Cons.prems h show ?case
    by (simp add: receive_ice_def parsed_Cons)
qed

lemma candidate_frames [simp]:
  "peers (add_candidate p ice st) = peers st" "pendingIce (add_candidate p ice st) = pendingIce st"
  "remoteDescription (pc_heap (add_candidate p ice st) q) = remoteDescription (pc_heap st q)"
  "peers (set_remote p d st) = peers st" "pendingIce (set_remote p d st) = pendingIce st"
  "pc_candidates (pc_heap (set_remote p d st) q) = pc_candidates (pc_heap st q)"
  by (simp_all add: add_candidate_def set_remote_def update_pc_def)

lemma settle_flush:
  "length q < n \<Longrightarrow> \<exists>st'. settle P answer n (flush_next p q ForAnswer st) = (st', None) \<and>
     pc_candidates (pc_heap st' p) = pc_candidates (pc_heap st p) @ q \<and> peers st' = peers st \<and>
     pendingIce st' = pendingIce st \<and>
     remoteDescription (pc_heap st' p) = remoteDescription (pc_heap st p)"
proof (induction q arbitrary: n st)
  case Nil
  then show ?case by (simp add: flush_next_def after_flush_def)
next
  case (Cons ice q)
  from Cons.prems obtain n' where n: "n = Suc n'" "length q < n'" by (cases n) auto
  from Cons.IH [OF n(2), of "add_candidate p ice st"] n show ?case
    by (auto simp: flush_next_def [of p "ice # q"] resume_def add_candidate_def update_pc_def)
qed

lemma settle_answer:
  assumes "answer (AnswerRemote i p desc) = Resolved" and "length (queued i st) + 1 < n"
  shows "\<exists>st'. settle P answer n (st, Some (AnswerRemote i p desc)) = (st', None) \<and>
     pc_candidates (pc_heap st' p) = pc_candidates (pc_heap st p) @ queued i st \<and>
     peers st' = peers st \<and> queued i st' = [] \<and> remoteDescription (pc_heap st' p) = Some desc"
proof -
  from assms(2) obtain n' where n: "n = Suc n'" "length (queued i st) < n'" by (cases n) auto
  let ?st1 = "set_remote p desc st"
  have r: "remoteDescription (pc_heap ?st1 p) = Some desc" by (simp add: set_remote_def update_pc_def)
  show ?thesis
  proof (cases "queued i st = []")
    case True
    then show ?thesis
      using assms(1) n r
      by (auto simp: resume_def flushPendingIce_def after_flush_def queued_def split: option.splits)
  next
    case False
    then obtain q where q: "js_get (pendingIce st) i = Some q" "queued i st = q" "q \<noteq> []"
      by (auto simp: queued_def split: option.splits)
    let ?st2 = "?st1\<lparr>pendingIce := js_delete i (pendingIce st)\<rparr>"
    have go: "settle P answer n (st, Some (AnswerRemote i p desc))
        = settle P answer n' (flush_next p q ForAnswer ?st2)"
      using q assms(1) by (simp add: n(1) resume_def flushPendingIce_def)
    have "length q < n'" using n(2) q(2) by simp
    from settle_flush [OF this, of P answer p ?st2] obtain st' where
      st': "settle P answer n' (flush_next p q ForAnswer ?st2) = (st', None)"
        "pc_candidates (pc_heap st' p) = pc_candidates (pc_heap st p) @ q" "peers st' = peers st"
        "pendingIce st' = js_delete i (pendingIce st)"
        "remoteDescription (pc_heap st' p) = Some desc"
      using r by auto
    from st'(4) have "queued i st' = []" by (simp add: queued_def)
    with go st' q show ?thesis by simp
  qed
qed

lemma ice_run:
  assumes "js_get (peers st) i = Some p" and "remoteDescription (pc_heap st p) = None"
    and "json_parse P sdp = Some desc"
    and "answer (AnswerRemote i p desc) = Resolved"
    and "length (queued i st) + length cs + 1 < n"
  shows "\<exists>st2. settle P answer n (handleAnswer P i sdp (receive_ice P i cs st)) = (st2, None) \<and>
     queued i (receive_ice P i ds st2) = [] \<and>
     pc_candidates (pc_heap (receive_ice P i ds st2) p) =
       pc_candidates (pc_heap st p) @ queued i st @ parsed_candidates P cs @ parsed_candidates P ds"
proof -
  let ?st1 = "receive_ice P i cs st"
  have q: "queued i ?st1 = queued i st @ parsed_candidates P cs" "peers ?st1 = peers st"
    "pc_heap ?st1 = pc_heap st"
    using ice_queued [OF assms(1,2)] by auto
  have "length (parsed_candidates P cs) \<le> length cs"
    by (induction cs) (auto simp: parsed_Cons parsed_candidates_def map_filter_simps split: option.splits)
  with q(1) assms(5) have "length (queued i ?st1) + 1 < n" by simp
  from settle_answer [where st = ?st1 and i = i and answer = answer, OF assms(4) this, of P] obtain st2 where
      st2: "settle P answer n (?st1, Some (AnswerRemote i p desc)) = (st2, None)"
      "pc_candidates (pc_heap st2 p) = pc_candidates (pc_heap st p) @ queued i st @ parsed_candidates P cs"
      "peers st2 = peers st" "queued i st2 = []" "remoteDescription (pc_heap st2 p) = Some desc"
    using q by auto
  have "handleAnswer P i sdp ?st1 = (?st1, Some (AnswerRemote i p desc))"
    using assms(1,3) q by (simp add: handleAnswer_def)
  moreover have "pc_candidates (pc_heap (receive_ice P i ds st2) p)
      = pc_candidates (pc_heap st2 p) @ parsed_candidates P ds"
    "pendingIce (receive_ice P i ds st2) = pendingIce st2"
    using ice_direct [of st2 i p P ds] st2 assms(1) by auto
  ultimately show ?thesis using st2 by (simp add: queued_def)
qed

end
