(* ===== verification/AppModel.thy ===== *)
theory AppModel
  imports Ptt VmRuns
begin

text \<open>
  The component \<open>web/src/App.tsx\<close>: the actions it hands to the user interface, on the stores, the
  voice manager and the Android bridge together, and the name entry screen.
\<close>

section \<open>State\<close>

text \<open>\<open>app_vm\<close> is null where the voice manager could not be made.\<close>

record app =
  app_vm :: "voice_manager option"
  app_chat :: chat_state
  app_settings :: settings
  app_out :: "out_msg list"
  app_calls :: "ptt_call list"

definition app_send :: "string \<Rightarrow> jsval \<Rightarrow> app \<Rightarrow> app" where
  "app_send t d a = a\<lparr>app_out := app_out a @ [Out t d]\<rparr>"

definition on_chat :: "(chat_state \<Rightarrow> chat_state) \<Rightarrow> app \<Rightarrow> app" where
  "on_chat f a = a\<lparr>app_chat := f (app_chat a)\<rparr>"

definition on_vm :: "(voice_manager \<Rightarrow> voice_manager) \<Rightarrow> app \<Rightarrow> app" where
  "on_vm f a = a\<lparr>app_vm := map_option f (app_vm a)\<rparr>"

section \<open>Joining and leaving a voice channel\<close>

text \<open>The dash of the message is an em dash in the source, a character outside the model's range.\<close>

definition LISTEN_ONLY_ERROR :: string where
  "LISTEN_ONLY_ERROR = ''No mic - listen-only (HTTPS required for mic on LAN)''"

definition is_gate_mode :: "string \<Rightarrow> bool" where
  "is_gate_mode mode \<longleftrightarrow> mode = ''noise_gate'' \<or> mode = ''auto''"

text \<open>What \<open>joinVoice\<close> does when \<open>joinChannel\<close> has returned.\<close>

definition joinVoice_done :: "string \<Rightarrow> string \<Rightarrow> app \<Rightarrow> app" where
  "joinVoice_done rid cid a =
     (case app_vm a of
        None \<Rightarrow> on_chat (setActiveVoice rid cid) a
      | Some st \<Rightarrow>
          let a1 = on_chat (setActiveVoice rid cid) a;
              a2 = (if listenOnly st then on_chat (setVoiceError (Some LISTEN_ONLY_ERROR)) a1 else a1)
          in if is_gate_mode (voiceMode (app_settings a2))
             then on_vm (startNoiseGate (noiseGateThreshold (app_settings a2))) a2
             else a2)"

text \<open>
  The call, and the resumption of the manager's method it waits for. The flag of the result says
  that it is still waiting, for the suspended method given.
\<close>

definition joinVoice_step :: "string \<Rightarrow> string \<Rightarrow> suspended \<Rightarrow> app \<Rightarrow> app \<times> cont option" where
  "joinVoice_step rid cid r a =
     (case r of
        (st, None) \<Rightarrow> (joinVoice_done rid cid (a\<lparr>app_vm := Some st\<rparr>), None)
      | (st, Some k) \<Rightarrow> (a\<lparr>app_vm := Some st\<rparr>, Some k))"

definition joinVoice ::
  "platform \<Rightarrow> string \<Rightarrow> string \<Rightarrow> voice_member list \<Rightarrow> app \<Rightarrow> app \<times> cont option" where
  "joinVoice P rid cid existing a =
     (case app_vm a of
        None \<Rightarrow>
          if \<not> hasBleVoice P then (a, None)
          else (on_chat (setActiveVoice rid cid) (app_send ''join_voice'' (channel_frame rid cid) a), None)
      | Some st \<Rightarrow>
          joinVoice_step rid cid (joinChannel P (app_settings a) rid cid existing st) a)"

definition joinVoice_resume ::
  "platform \<Rightarrow> string \<Rightarrow> string \<Rightarrow> cont \<Rightarrow> await_result \<Rightarrow> app \<Rightarrow> app \<times> cont option" where
  "joinVoice_resume P rid cid k r a =
     (case app_vm a of
        None \<Rightarrow> (a, None)
      | Some st \<Rightarrow> joinVoice_step rid cid (resume P k r st) a)"

definition leaveVoice :: "platform \<Rightarrow> app \<Rightarrow> app" where
  "leaveVoice P a =
     on_chat (setVoiceMuted False) (on_chat clearActiveVoice (on_vm (leaveChannel P) a))"

text \<open>The timeout that clears the error of \<open>joinVoice\<close>.\<close>

definition voiceError_timeout :: "app \<Rightarrow> app" where
  "voiceError_timeout a = on_chat (setVoiceError None) a"

section \<open>Controls\<close>

definition handleMuteToggle :: "bool \<Rightarrow> app \<Rightarrow> app" where
  "handleMuteToggle m a = on_chat (setVoiceMuted m) (on_vm (setMuted m) a)"

definition vm_is_active :: "app \<Rightarrow> bool" where
  "vm_is_active a = (case app_vm a of None \<Rightarrow> False | Some st \<Rightarrow> active st)"

definition handleModeChange :: "string \<Rightarrow> app \<Rightarrow> app" where
  "handleModeChange newMode a =
     (if \<not> vm_is_active a then a
      else
        let a1 = on_vm stopNoiseGate a
        in if is_gate_mode newMode
           then on_vm (startNoiseGate (noiseGateThreshold (app_settings a1))) a1
           else on_vm (setMuted True) a1)"

definition speaking_msg :: "string \<Rightarrow> string \<Rightarrow> bool \<Rightarrow> jsval" where
  "speaking_msg rid cid b =
     JObj [(''room_id'', JStr rid), (''channel_id'', JStr cid), (''speaking'', JBool b)]"

definition handlePTTStart :: "platform \<Rightarrow> app \<Rightarrow> app" where
  "handlePTTStart P a =
     (case activeVoice (app_chat a) of
        None \<Rightarrow> a
      | Some (rid, cid) \<Rightarrow>
          let a1 = (if vm_is_active a then on_vm (setMuted False) a else a);
              a2 = (if hasBleVoice P
                    then a1\<lparr>app_calls := app_calls a1 @
                           [StartPtt (userId (app_chat a))
                              (if displayName (app_chat a) = [] then ''Android''
                               else displayName (app_chat a))]\<rparr>
                    else a1)
          in app_send ''voice_speaking'' (speaking_msg rid cid True)
               (on_chat (setLocalSpeaking True) a2))"

definition handlePTTEnd :: "platform \<Rightarrow> app \<Rightarrow> app" where
  "handlePTTEnd P a =
     (case activeVoice (app_chat a) of
        None \<Rightarrow> a
      | Some (rid, cid) \<Rightarrow>
          let a1 = (if vm_is_active a then on_vm (setMuted True) a else a);
              a2 = (if hasBleVoice P then a1\<lparr>app_calls := app_calls a1 @ [StopPtt]\<rparr> else a1)
          in app_send ''voice_speaking'' (speaking_msg rid cid False)
               (on_chat (setLocalSpeaking False) a2))"

section \<open>The name entry screen\<close>

text \<open>The Enter key and the Join button do the same.\<close>

definition submit_name :: "string \<Rightarrow> app \<Rightarrow> app" where
  "submit_name nameInput a =
     (let name = js_trim nameInput
      in if name = [] then a
         else app_send ''join_room'' (JObj [(''name'', JStr ''general'')])
                (app_send ''set_name'' (JObj [(''name'', JStr name)])
                   (on_chat (setDisplayName name) a)))"

definition shows_name_entry :: "app \<Rightarrow> bool" where
  "shows_name_entry a \<longleftrightarrow> displayName (app_chat a) = []"

section \<open>Properties\<close>

lemma app_simps [simp]:
  "app_vm (app_send t d a) = app_vm a" "app_chat (app_send t d a) = app_chat a"
  "app_settings (app_send t d a) = app_settings a"
  "app_vm (on_chat f a) = app_vm a" "app_chat (on_chat f a) = f (app_chat a)"
  "app_settings (on_chat f a) = app_settings a"
  "app_vm (on_vm g a) = map_option g (app_vm a)" "app_chat (on_vm g a) = app_chat a"
  "app_settings (on_vm g a) = app_settings a"
  "app_out (on_chat f a) = app_out a" "app_out (on_vm g a) = app_out a"
  "app_out (app_send t d a) = app_out a @ [Out t d]"
  "app_calls (app_send t d a) = app_calls a" "app_calls (on_chat f a) = app_calls a"
  "app_calls (on_vm g a) = app_calls a"
  by (simp_all add: app_send_def on_chat_def on_vm_def)

lemma gate_fields [simp]:
  "active (setMuted m st) = active st" "noiseGateTimer (setMuted m st) = noiseGateTimer st"
  "out_log (setMuted m st) = out_log st"
  by (auto simp: setMuted_def Let_def split: option.splits)

lemma stopGate_fields [simp]:
  "active (stopNoiseGate st) = active st" "noiseGateTimer (stopNoiseGate st) = None"
  "localMicMuted (stopNoiseGate st) = False" "out_log (stopNoiseGate st) = out_log st"
  by (simp_all add: stopNoiseGate_def)

lemma stopGate_nodes:
  "audioContext (stopNoiseGate st) = audioContext st" "sourceNode (stopNoiseGate st) = sourceNode st"
  by (auto simp: stopNoiseGate_def setMuted_def Let_def split: option.splits)

text \<open>The whole of \<open>joinVoice\<close> when nothing intervenes.\<close>

fun app_settle :: "platform \<Rightarrow> (cont \<Rightarrow> await_result) \<Rightarrow> string \<Rightarrow> string \<Rightarrow> nat \<Rightarrow>
    app \<times> cont option \<Rightarrow> app \<times> cont option" where
  "app_settle P answer rid cid 0 r = r"
| "app_settle P answer rid cid (Suc n) (a, None) = (a, None)"
| "app_settle P answer rid cid (Suc n) (a, Some k) =
     app_settle P answer rid cid n (joinVoice_resume P rid cid k (answer k) a)"

lemma app_settle_done [simp]: "app_settle P answer rid cid n (a, None) = (a, None)"
  by (cases n) auto

lemma app_settle_vm:
  "settle P answer n r = (st', None) \<Longrightarrow>
   app_settle P answer rid cid n (joinVoice_step rid cid r a)
     = (joinVoice_done rid cid (a\<lparr>app_vm := Some st'\<rparr>), None)"
proof (induction n arbitrary: r a)
  case 0
  then show ?case by (simp add: joinVoice_step_def)
next
  case (Suc n)
  obtain st k where r: "r = (st, k)" by fastforce
  show ?case
  proof (cases k)
    case None
    with Suc.prems r show ?thesis by (simp add: joinVoice_step_def)
  next
    case (Some k')
    have "joinVoice_step rid cid r a = (a\<lparr>app_vm := Some st\<rparr>, Some k')"
      using r Some by (simp add: joinVoice_step_def)
    moreover have "joinVoice_resume P rid cid k' (answer k') (a\<lparr>app_vm := Some st\<rparr>)
        = joinVoice_step rid cid (resume P k' (answer k') st) (a\<lparr>app_vm := Some st\<rparr>)"
      by (simp add: joinVoice_resume_def)
    moreover have "settle P answer n (resume P k' (answer k') st) = (st', None)"
      using Suc.prems r Some by simp
    from Suc.IH [OF this, of "a\<lparr>app_vm := Some st\<rparr>"]
    have "app_settle P answer rid cid n
        (joinVoice_step rid cid (resume P k' (answer k') st) (a\<lparr>app_vm := Some st\<rparr>))
        = (joinVoice_done rid cid (a\<lparr>app_vm := Some st'\<rparr>), None)" by simp
    ultimately show ?thesis by simp
  qed
qed

lemma joinVoice_run:
  assumes "app_vm a = Some st" and "rtc_ok P" and "offers_answered answer sdp"
    and "length ms + 2 \<le> n" and "\<not> is_gate_mode (voiceMode (app_settings a))"
  shows "\<exists>a' st'. app_settle P answer rid cid n (joinVoice P rid cid ms a) = (a', None) \<and>
     app_vm a' = Some st' \<and> activeVoice (app_chat a') = Some (rid, cid) \<and>
     active st' \<and> localMicMuted st' \<and>
     out_log st' = out_log st @ leave_msgs st @ Out ''join_voice'' (channel_frame rid cid)
                            # map (offer_msg rid cid sdp) (webrtc_ids ms)"
proof -
  from join_run [OF assms(2-4), of "app_settings a" rid cid st] obtain st' where
    run: "settle P answer n (joinChannel P (app_settings a) rid cid ms st) = (st', None)"
    and st': "active st'" "localMicMuted st'"
      "out_log st' = out_log st @ leave_msgs st @ Out ''join_voice'' (channel_frame rid cid)
                            # map (offer_msg rid cid sdp) (webrtc_ids ms)"
    by auto
  have "app_settle P answer rid cid n (joinVoice P rid cid ms a)
      = (joinVoice_done rid cid (a\<lparr>app_vm := Some st'\<rparr>), None)"
    using app_settle_vm [OF run] assms(1) by (simp add: joinVoice_def)
  with st' assms(5) show ?thesis
    by (auto simp: joinVoice_done_def Let_def setActiveVoice_def setVoiceError_def)
qed

end
