(* ===== verification/VoiceProps.thy ===== *)
theory VoiceProps
  imports AppModel
begin

text \<open>
  What the voice part promises: the microphone is silent while muted under every interleaving,
  joining and leaving a channel, push-to-talk, the noise gate, ICE candidates in order, and the
  audio relay to Bluetooth, from input samples to what decoding its frames gives.
\<close>

section \<open>The noise gate over a run of ticks\<close>

definition gate_run :: "num list list \<Rightarrow> voice_manager \<Rightarrow> voice_manager" where
  "gate_run blocks st = foldl (\<lambda>s b. fst (gate_tick b s)) st blocks"

definition gate_open :: "num \<Rightarrow> num list list \<Rightarrow> bool" where
  "gate_open thr blocks \<longleftrightarrow> blocks \<noteq> [] \<and> level_db (last blocks) > thr"

lemma gate_tick_fields:
  assumes "noiseGateTimer st = Some g" and "noiseGateAnalyser st" and "active st"
  shows "noiseGateTimer (fst (gate_tick b st)) = Some (g\<lparr>wasSpeaking := level_db b > gate_threshold g\<rparr>)"
    and "noiseGateAnalyser (fst (gate_tick b st))" and "active (fst (gate_tick b st))"
    and "localMicMuted (fst (gate_tick b st)) =
           (if (level_db b > gate_threshold g) = wasSpeaking g then localMicMuted st
            else \<not> level_db b > gate_threshold g)"
  using assms by (auto simp: gate_tick_def Let_def)

lemma gate_run_fields:
  assumes "noiseGateTimer st = Some \<lparr>gate_threshold = thr, wasSpeaking = False\<rparr>"
    and "noiseGateAnalyser st" and "active st" and "\<not> localMicMuted st"
  shows "noiseGateTimer (gate_run bs st) = Some \<lparr>gate_threshold = thr, wasSpeaking = gate_open thr bs\<rparr> \<and>
         noiseGateAnalyser (gate_run bs st) \<and> active (gate_run bs st) \<and>
         localMicMuted (gate_run bs st) = (list_ex (\<lambda>b. level_db b > thr) bs \<and> \<not> gate_open thr bs)"
proof (induction bs rule: rev_induct)
  case Nil
  with assms show ?case by (simp add: gate_run_def gate_open_def)
next
  case (snoc b bs)
  have r: "gate_run (bs @ [b]) st = fst (gate_tick b (gate_run bs st))" by (simp add: gate_run_def)
  from snoc have t: "noiseGateTimer (gate_run bs st)
      = Some \<lparr>gate_threshold = thr, wasSpeaking = gate_open thr bs\<rparr>"
    and a: "noiseGateAnalyser (gate_run bs st)" "active (gate_run bs st)"
    and m: "localMicMuted (gate_run bs st) = (list_ex (\<lambda>b. level_db b > thr) bs \<and> \<not> gate_open thr bs)"
    by simp_all
  have loud: "gate_open thr bs \<Longrightarrow> list_ex (\<lambda>b. level_db b > thr) bs"
    by (auto simp: gate_open_def list_ex_iff intro: bexI [of _ "last bs"])
  have "gate_open thr (bs @ [b]) = (level_db b > thr)" by (simp add: gate_open_def)
  with gate_tick_fields [OF t a, of b] m loud show ?case unfolding r by auto
qed

section \<open>What decoding the relayed frames gives\<close>

fun call_samples :: "bridge_call \<Rightarrow> int list" where
  "call_samples (SendPcmFrame payload i n) =
     (case decodeBase64 payload of None \<Rightarrow> [] | Some bs \<Rightarrow> samples_of_bytes bs)"
| "call_samples (SetBridgeLocalMic b) = []"

lemma frame_payload:
  assumes "list_all is_int16 f"
  shows "call_samples (SendPcmFrame (encodeBase64 (int16SamplesToBytes f)) i n) = f"
  using assms by (simp add: base64_codec samples_codec)

definition resampled :: "num list \<Rightarrow> num \<Rightarrow> num \<Rightarrow> int list" where
  "resampled input rate offset =
     map (\<lambda>i. floatToInt16 (interpolate input (offset + real i * (rate / 8000))))
       [0..<steps_to (rate / 8000) offset (real (length input))]"

fun resample_blocks :: "num \<Rightarrow> num list list \<Rightarrow> int list \<times> num \<Rightarrow> (int list \<times> num) option" where
  "resample_blocks rate [] (target, off) = Some (target, off)"
| "resample_blocks rate (b # bs) (target, off) =
     (case appendResampledPcm16 target b rate off of
        None \<Rightarrow> None
      | Some r \<Rightarrow> resample_blocks rate bs r)"

lemma resampled_int16: "list_all is_int16 (resampled input rate offset)"
  by (simp add: resampled_def list_all_iff floatToInt16_range)

lemma resampled_length:
  assumes "8000 \<le> rate" and "0 \<le> offset"
  shows "length (resampled input rate offset) \<le> length input"
proof -
  have "(real (length input) - offset) / (rate / 8000) \<le> real (length input)"
  proof -
    have "(real (length input) - offset) / (rate / 8000) \<le> real (length input) / (rate / 8000)"
      using assms by (intro divide_right_mono) auto
    also have "\<dots> \<le> real (length input)"
    proof -
      have "real (length input) * 8000 \<le> real (length input) * rate"
        using assms(1) by (intro mult_left_mono) auto
      then show ?thesis using assms(1) by (simp add: field_simps)
    qed
    finally show ?thesis .
  qed
  then show ?thesis by (simp add: resampled_def steps_to_def)
qed

lemma steps_append:
  assumes "0 < rate"
  shows "appendResampledPcm16 target b rate off =
     Some (target @ resampled b rate off,
           off + real (steps_to (rate / 8000) off (real (length b))) * (rate / 8000) - real (length b))"
  using appendResampledPcm16_closed [OF assms] by (simp add: Let_def BLE_SAMPLE_RATE_def resampled_def)

lemma append_resampled:
  assumes "0 < rate"
  shows "\<exists>off. appendResampledPcm16 target input rate offset = Some (target @ resampled input rate offset, off) \<and>
     0 \<le> off"
  using steps_end(1) [of "rate / 8000" "real (length input)" offset] assms
  by (simp add: steps_append [OF assms])

lemma call_samples_concat:
  assumes "list_all (list_all is_int16) frames"
  shows "concat (map (\<lambda>f. call_samples (SendPcmFrame (encodeBase64 (int16SamplesToBytes f)) i n)) frames)
           = concat frames"
  using assms by (induction frames) (auto simp: frame_payload simp del: call_samples.simps)

lemma resample_blocks_count:
  assumes "0 < rate" and "\<forall>b \<in> set bs. rate / 8000 \<le> real (length b)" and "off < rate / 8000" and "0 \<le> off"
  shows "\<exists>out off'. resample_blocks rate bs (target, off) = Some (out, off') \<and>
     length out = length target + steps_to (rate / 8000) off (real (sum_list (map length bs)))"
  using assms(2-4)
proof (induction bs arbitrary: target off)
  case Nil
  then show ?case using assms(1) by (simp add: steps_to_0)
next
  case (Cons b bs)
  let ?r = "rate / 8000"
  let ?k = "steps_to ?r off (real (length b))"
  let ?off = "off + real ?k * ?r - real (length b)"
  have r: "0 < ?r" using assms(1) by simp
  have le: "off \<le> real (length b)" using Cons.prems by auto
  have "?off < ?r" "0 \<le> ?off" using steps_end(2) [OF r le] steps_end(1) [OF r] by simp_all
  from Cons.IH [OF _ this, of "target @ resampled b rate off"] Cons.prems(1) obtain out off' where
    go: "resample_blocks rate bs (target @ resampled b rate off, ?off) = Some (out, off')"
    and len: "length out = length target + length (resampled b rate off)
                + steps_to ?r ?off (real (sum_list (map length bs)))" by auto
  have "steps_to ?r off (real (sum_list (map length (b # bs))))
      = ?k + steps_to ?r ?off (real (sum_list (map length bs)))"
    using steps_split [OF r le, of "real (sum_list (map length bs))"] by simp
  moreover have "length (resampled b rate off) = ?k" by (simp add: resampled_def)
  ultimately show ?case
    using go len by (simp add: steps_append [OF assms(1)])
qed

section \<open>Leaving while a join is suspended\<close>

text \<open>Join, let the audio context resume, leave, then the user grants the microphone.\<close>

definition leave_while_asking ::
  "platform \<Rightarrow> settings \<Rightarrow> string \<Rightarrow> string \<Rightarrow> nat \<Rightarrow> voice_manager \<Rightarrow> voice_manager" where
  "leave_while_asking P cfg rid cid mic st =
     (let (st1, k1) = joinChannel P cfg rid cid [] st;
          (st2, k2) = resume P (the k1) Resolved st1;
          st3 = leaveChannel P st2
      in fst (resume P (the k2) (Stream mic) st3))"

section \<open>Concrete data of the witnesses\<close>

text \<open>A desktop browser without the Android bridge, and a tablet with it.\<close>

definition desktop :: platform where
  "desktop =
     \<lparr> hasBleVoice = False, has_setBridgeLocalMic = False, has_pollIncomingFrames = False,
       has_sendPcmFrame = False, has_isVoiceDetected = False, audio_ok = True, rtc_ok = True,
       currentTime = 0, sampleRate = 48000, has_setSinkId = True,
       json_parse = (\<lambda>t. if t = [] then None else Some (JStr t)), json_string = str_or [] \<rparr>"

definition tablet :: platform where
  "tablet = desktop\<lparr>hasBleVoice := True, has_sendPcmFrame := True\<rparr>"

definition live_vm :: voice_manager where
  "live_vm = (new_voice_manager 1)\<lparr>active := True, audioContext := True, gainNode := Some 0,
     destinationNode := True, bleIncomingGain := True, sourceNode := Some 7, localStream := Some 7,
     live_streams := [7]\<rparr>"

definition answer_all :: "cont \<Rightarrow> await_result" where
  "answer_all k = (case k of JoinOffer i ms \<Rightarrow> Description i | AnswerRemote i p d \<Rightarrow> Resolved | _ \<Rightarrow> Rejected)"

definition plain_closure :: ptt_closure where
  "plain_closure = \<lparr> c_room = ''r'', c_channel = ''c'', c_key = '' '', c_user = ''u'', c_name = ''n'' \<rparr>"

definition plain_member :: "string \<Rightarrow> voice_member" where
  "plain_member i = \<lparr> vm_id = i, vm_name = i, vm_short_id = i, speaking = False, muted = None \<rparr>"

definition waiting_vm :: voice_manager where
  "waiting_vm = open_connection ''a'' live_vm"

definition relaying_vm :: voice_manager where
  "relaying_vm = live_vm\<lparr>bleRelayChains :=
     [(''a'', \<lparr>relay_stream = 1, pendingSamples = [1, -1], resampleOffset = 0\<rparr>)]\<rparr>"

section \<open>Properties of the voice manager\<close>

text \<open>
  C9. In every state the voice manager can reach, whatever calls, events and resumptions came in
  whatever order, the microphone's gain is 0 while muted and the input volume otherwise; the audio
  graph exists only while a channel is active; no connection in the map is closed and no two peers
  share one; each relay holds less than a frame.
\<close>

theorem voice_manager_invariant:
  assumes "vm_reachable (st, w)"
  shows "(\<forall>g. gainNode st = Some g \<longrightarrow> g = (if localMicMuted st then 0 else localInputVolume st)) \<and>
         (gainNode st \<noteq> None \<longrightarrow> active st) \<and>
         distinct (map snd (peers st)) \<and>
         (\<forall>(i, p) \<in> set (peers st). \<not> pc_closed (pc_heap st p)) \<and>
         (\<forall>(i, c) \<in> set (bleRelayChains st). length (pendingSamples c) < BLE_FRAME_SAMPLES)"
  using vm_reachable_inv [OF assms] by (auto simp: wf_defs pcs_wf_def)

lemma voice_manager_invariant_witness:
  "\<exists>st w. vm_reachable (st, w) \<and> localMicMuted st \<and>
     (\<forall>g. gainNode st = Some g \<longrightarrow> g = (if localMicMuted st then 0 else localInputVolume st))"
proof -
  have r: "vm_reachable (new_voice_manager 1, [])" by (rule vm_start)
  show ?thesis
    using voice_manager_invariant [OF r] r
    by (intro exI [of _ "new_voice_manager 1"] exI [of _ "[]"]) (simp add: new_voice_manager_def)
qed

text \<open>
  Joining a channel returns, for every list of members and every outcome of the microphone
  request: it leaves the channel it was in, sends \<open>join_voice\<close> once and then one offer to each
  member that is not on Bluetooth, in order, and ends in the channel with the microphone muted
  (push-to-talk mode).
\<close>

lemma join_voice_completes:
  assumes "app_vm a = Some st" and "rtc_ok P" and "offers_answered answer sdp"
    and "length ms + 2 \<le> n" and "\<not> is_gate_mode (voiceMode (app_settings a))"
  shows "\<exists>a' st'. app_settle P answer rid cid n (joinVoice P rid cid ms a) = (a', None) \<and>
     app_vm a' = Some st' \<and> activeVoice (app_chat a') = Some (rid, cid) \<and>
     active st' \<and> localMicMuted st' \<and>
     out_log st' = out_log st @ leave_msgs st @ Out ''join_voice'' (channel_frame rid cid)
                            # map (offer_msg rid cid sdp) (webrtc_ids ms)"
  by (rule joinVoice_run [OF assms])

text \<open>
  C29. Leaving an active channel says so once and lets go of everything: no connection, audio
  element, relay, queued candidate, audio node or local stream is left, every connection that was
  in the map is closed and the tracks of the local stream are stopped.
\<close>

theorem leave_releases_everything:
  assumes "active st"
  shows "let st' = leaveChannel P st in
     out_log st' = out_log st @ [Out ''leave_voice'' (channel_frame (vm_roomId st) (vm_channelId st))] \<and>
     \<not> active st' \<and> peers st' = [] \<and> audioElements st' = [] \<and> bleRelayChains st' = [] \<and>
     pendingIce st' = [] \<and> gainNode st' = None \<and> \<not> audioContext st' \<and> \<not> bleBridgeTimer st' \<and>
     localStream st' = None \<and>
     (\<forall>(i, p) \<in> set (peers st). pc_closed (pc_heap st' p)) \<and>
     (\<forall>s. localStream st = Some s \<longrightarrow> s \<notin> set (live_streams st'))"
  using assms
  by (force simp: leaveChannel_def Let_def cleanup_fields cleanup_streams cleanup_closed vm_send_def
      split: option.splits)

lemma leave_releases_everything_witness:
  "localStream (leaveChannel desktop live_vm) = None \<and> 7 \<notin> set (live_streams (leaveChannel desktop live_vm))"
proof -
  have "active live_vm" by (simp add: live_vm_def)
  from leave_releases_everything [OF this, of desktop] show ?thesis
    by (simp add: Let_def live_vm_def)
qed

text \<open>
  Leaving while the browser still asks for the microphone does not end the call: the join
  goes on when the user answers, sends \<open>join_voice\<close> after the \<open>leave_voice\<close>, and leaves a running
  microphone track behind in a manager that is not active.
\<close>

lemma leave_during_join:
  assumes "\<not> active st" and "audio_ok P" and "\<not> hasBleVoice P"
  shows "let st' = leave_while_asking P cfg rid cid mic st in
     \<not> active st' \<and> localStream st' = Some mic \<and> mic \<in> set (live_streams st') \<and>
     out_log st' = out_log st @ [Out ''leave_voice'' (channel_frame rid cid),
                                 Out ''join_voice'' (channel_frame rid cid)]"
proof -
  let ?st1 = "st\<lparr>vm_roomId := rid, vm_channelId := cid, active := True, listenOnly := False,
      peerNames := [], localInputVolume := inputVolume cfg, localMicMuted := True,
      audioContext := True, gainNode := Some 0, destinationNode := True, bleIncomingGain := True,
      blePlaybackCursor := currentTime P\<rparr>"
  have j: "joinChannel P cfg rid cid [] st = (?st1, Some (JoinResumed rid cid [] (micDeviceId cfg)))"
    using assms by (simp add: joinChannel_def Let_def)
  have r: "resume P (JoinResumed rid cid [] dev) x s = (s, Some (JoinMic rid cid [] dev))" for dev x s
    using assms by (simp add: resume_def join_resumed_def)
  have l: "localStream (leaveChannel P ?st1) = None" "\<not> audioContext (leaveChannel P ?st1)"
    "\<not> destinationNode (leaveChannel P ?st1)" "\<not> active (leaveChannel P ?st1)"
    "out_log (leaveChannel P ?st1) = out_log st @ [Out ''leave_voice'' (channel_frame rid cid)]"
    by (simp_all add: leaveChannel_def cleanup_fields vm_send_def)
  have m: "\<exists>s4. resume P (JoinMic rid cid [] dev) (Stream mic) s = (s4, None) \<and> \<not> active s4 \<and>
      localStream s4 = Some mic \<and> mic \<in> set (live_streams s4) \<and>
      out_log s4 = out_log s @ [Out ''join_voice'' (channel_frame rid cid)]"
    if "\<not> audioContext s" "\<not> destinationNode s" "\<not> active s" for s dev
    using that assms(3)
    by (simp add: resume_def join_mic_def Let_def join_connect_def join_audio_failed_def
        syncNativeMicBridge_def startBleBridge_def vm_send_def)
  from m [OF l(2-4), of "micDeviceId cfg"] show ?thesis
    by (auto simp: leave_while_asking_def j r l(5))
qed

text \<open>
  C20. Every ICE candidate reaches its connection once and in the order of arrival: those that come
  before the answer wait, the answer hands them over, those after it follow; nothing stays queued.
\<close>

theorem ice_candidates_in_order:
  assumes "js_get (peers st) i = Some p" and "remoteDescription (pc_heap st p) = None"
    and "json_parse P sdp = Some desc"
    and "answer (AnswerRemote i p desc) = Resolved"
    and "length (queued i st) + length cs + 1 < n"
  shows "\<exists>st2. settle P answer n (handleAnswer P i sdp (receive_ice P i cs st)) = (st2, None) \<and>
     queued i (receive_ice P i ds st2) = [] \<and>
     pc_candidates (pc_heap (receive_ice P i ds st2) p) =
       pc_candidates (pc_heap st p) @ queued i st @ parsed_candidates P cs @ parsed_candidates P ds"
  using assms by (rule ice_run)

lemma ice_candidates_in_order_witness:
  "\<exists>st2. pc_candidates (pc_heap (receive_ice desktop ''a'' [''3''] st2) 0) = [JStr ''1'', JStr ''2'', JStr ''3'']"
proof -
  have "js_get (peers waiting_vm) ''a'' = Some 0" "remoteDescription (pc_heap waiting_vm 0) = None"
    "queued ''a'' waiting_vm = []" "pc_candidates (pc_heap waiting_vm 0) = []"
    by (simp_all add: waiting_vm_def open_connection_def live_vm_def new_voice_manager_def queued_def
        Let_def js_set_def)
  moreover have "json_parse desktop ''s'' = Some (JStr ''s'')"
    "parsed_candidates desktop [''1'', ''2''] = [JStr ''1'', JStr ''2'']"
    "parsed_candidates desktop [''3''] = [JStr ''3'']"
    by (simp_all add: desktop_def parsed_candidates_def map_filter_simps)
  moreover have "answer_all (AnswerRemote ''a'' 0 (JStr ''s'')) = Resolved" by (simp add: answer_all_def)
  ultimately show ?thesis
    using ice_candidates_in_order [where st = waiting_vm and i = "''a''" and p = 0 and P = desktop
        and sdp = "''s''" and desc = "JStr ''s''" and answer = answer_all and cs = "[''1'', ''2'']"
        and n = 4 and ds = "[''3'']"]
    by auto
qed

section \<open>Properties of push-to-talk and of the noise gate\<close>

text \<open>
  C10. Through any sequence of key and touch events the voice manager is muted exactly when no
  burst is on, the gain follows, the interface shows what is sent, and the frames alternate: every
  burst but the current one has been closed.
\<close>

theorem ptt_follows_the_key:
  assumes "vm_wf st" and "localMicMuted st" and "\<not> localSpeaking s"
  shows "let p = ptt_run setMuted ble c es (ptt_mount (Some st) s) in
     (\<exists>st'. device p = Some st' \<and> localMicMuted st' = (\<not> bursting p) \<and>
        (\<forall>g. gainNode st' = Some g \<longrightarrow> g = (if bursting p then localInputVolume st' else 0))) \<and>
     localSpeaking (ptt_chat p) = bursting p \<and>
     (\<exists>n. ptt_out p = bursts c n @ (if bursting p then [ptt_frame c True] else []))"
proof -
  let ?p = "ptt_run setMuted ble c es (ptt_mount (Some st) s)"
  have inv: "vm_mic.in_step c ?p" using assms by (intro vm_ptt_run) auto
  have "device ?p \<noteq> None" by (rule ptt_run_device) (simp add: ptt_mount_def)
  then obtain st' where "device ?p = Some st'" by auto
  with inv show ?thesis
    by (auto simp: vm_mic.in_step_def Let_def dest: mic_gain)
qed

lemma ptt_follows_the_key_witness:
  "localSpeaking (ptt_chat (ptt_run setMuted False plain_closure [KeyDown '' '' False False]
     (ptt_mount (Some live_vm) init_chat)))"
proof -
  have "vm_wf live_vm" "localMicMuted live_vm" "\<not> localSpeaking init_chat"
    by (simp_all add: live_vm_def new_voice_manager_def wf_defs pcs_wf_def init_chat_def)
  from ptt_follows_the_key [OF this, of False plain_closure "[KeyDown '' '' False False]"] show ?thesis
    by (simp add: Let_def) (simp add: ptt_run_def handleKeyDown_def ptt_press_def ptt_mount_def plain_closure_def)
qed

text \<open>
  The cleanup of the effect ends the burst that is on: whatever happened before, afterwards
  the microphone is muted, the interface does not show the user speaking, and as many bursts have
  been closed as were opened.
\<close>

lemma ptt_cleanup_closes:
  assumes "vm_wf st" and "localMicMuted st" and "\<not> localSpeaking s"
  shows "let p = ptt_cleanup setMuted ble c (ptt_run setMuted ble c es (ptt_mount (Some st) s)) in
     (\<exists>st'. device p = Some st' \<and> localMicMuted st') \<and>
     \<not> localSpeaking (ptt_chat p) \<and> (\<exists>n. ptt_out p = bursts c n)"
proof -
  let ?q = "ptt_run setMuted ble c es (ptt_mount (Some st) s)" and ?p = "ptt_cleanup setMuted ble c"
  have "vm_mic.in_step c ?q" using assms by (intro vm_ptt_run) auto
  then have inv: "vm_mic.in_step c (?p ?q)" by (rule vm_mic.in_step_cleanup)
  have off: "\<not> bursting (?p ?q)" by (rule vm_mic.in_step_cleanup)
  have "device ?q \<noteq> None" by (rule ptt_run_device) (simp add: ptt_mount_def)
  then have "device (?p ?q) \<noteq> None" by (simp add: ptt_cleanup_def ptt_release_def)
  with inv off show ?thesis by (auto simp: vm_mic.in_step_def Let_def)
qed

text \<open>
  The noise gate follows the level from tick to tick, but it starts open: until the first
  tick above the threshold the microphone is not muted, however quiet the room is, and it is muted
  only after a loud tick has been followed by a quiet one.
\<close>

lemma noise_gate_starts_open:
  assumes "active st" and "audioContext st" and "sourceNode st \<noteq> None"
  shows "localMicMuted (gate_run blocks (startNoiseGate thr st))
           = (list_ex (\<lambda>b. level_db b > thr) blocks \<and> \<not> level_db (last blocks) > thr)"
proof -
  have "localMicMuted (gate_run blocks (startNoiseGate thr st))
      = (list_ex (\<lambda>b. level_db b > thr) blocks \<and> \<not> gate_open thr blocks)"
    using assms by (intro gate_run_fields [THEN conjunct2, THEN conjunct2, THEN conjunct2])
      (auto simp: startNoiseGate_def)
  then show ?thesis by (auto simp: gate_open_def)
qed

text \<open>
  Changing the mode of a running call to push-to-talk stops the gate and mutes; changing it
  to a gate mode leaves the microphone open, with a gate where there is a microphone.
\<close>

lemma mode_change:
  assumes "app_vm a = Some st" and "active st"
  shows "\<exists>st'. app_vm (handleModeChange mode a) = Some st' \<and> active st' \<and>
     (if is_gate_mode mode
      then \<not> localMicMuted st' \<and>
           (noiseGateTimer st' \<noteq> None \<longleftrightarrow> audioContext st \<and> sourceNode st \<noteq> None)
      else localMicMuted st' \<and> noiseGateTimer st' = None)"
  using assms
  by (auto simp: handleModeChange_def vm_is_active_def Let_def startNoiseGate_def stopGate_nodes)

section \<open>Properties of the audio relay\<close>

lemma quantised:
  assumes "\<bar>x\<bar> \<le> 1"
  shows "\<bar>of_int (floatToInt16 x) / 32768 - x\<bar> \<le> 3 / 65536"
proof (cases "x < 0")
  case True
  with assms have "floatToInt16 x = \<lfloor>x * 32768 + 1/2\<rfloor>" by (simp add: floatToInt16_def js_round_def Let_def)
  then have "of_int (floatToInt16 x) \<le> x * 32768 + 1/2" "x * 32768 + 1/2 < of_int (floatToInt16 x) + 1"
    using floor_correct [of "x * 32768 + 1/2"] by auto
  then show ?thesis by (intro abs_leI) linarith+
next
  case False
  with assms have "floatToInt16 x = \<lfloor>x * 32767 + 1/2\<rfloor>" by (simp add: floatToInt16_def js_round_def Let_def)
  then have "of_int (floatToInt16 x) \<le> x * 32767 + 1/2" "x * 32767 + 1/2 < of_int (floatToInt16 x) + 1"
    using floor_correct [of "x * 32767 + 1/2"] by auto
  moreover have "0 \<le> x" "x \<le> 1" using False assms by simp_all
  ultimately show ?thesis by (intro abs_leI) linarith+
qed

lemma encodeBase64_nonempty:
  assumes "bs \<noteq> []"
  shows "encodeBase64 bs \<noteq> []"
proof
  assume "encodeBase64 bs = []"
  then have "decodeBase64 [] = Some bs" using base64_codec [of bs] by simp
  moreover have "encodeBase64 [] = []" by (simp add: encodeBase64_def btoa_def b64_padding_def)
  then have "decodeBase64 [] = Some []" using base64_codec [of "[]"] by simp
  ultimately show False using assms by simp
qed

text \<open>
  C22. Audio survives the bridge. A frame of samples in the range of audio, quantised, packed into
  bytes and encoded the way the relay sends it, is played by a receiving page as a buffer of the
  same length whose samples differ from the original ones by less than 1/20000; it starts where the
  buffer before it ends, or now if that is over, and lasts for its samples at 8 kHz.
\<close>

theorem audio_roundtrip:
  assumes "audioContext st" and "bleIncomingGain st" and "\<And>t. json_string P (JStr t) = t"
    and "xs \<noteq> []" and "list_all (\<lambda>x. \<bar>x\<bar> \<le> 1) xs"
  shows "let frame = JObj [(''pcm'', JStr (encodeBase64 (int16SamplesToBytes (map floatToInt16 xs))))];
             (st', raised) = play_frames P [frame] st;
             start = max (currentTime P) (blePlaybackCursor st)
         in \<not> raised \<and> blePlaybackCursor st' = start + real (length xs) / 8000 \<and>
            (\<exists>ys. playback st' = playback st @ [(start, ys)] \<and>
               list_all2 (\<lambda>y x. \<bar>y - x\<bar> < 1 / 20000) ys xs)"
proof -
  let ?ss = "map floatToInt16 xs"
  have codec: "samples_of_bytes (int16SamplesToBytes ?ss) = ?ss"
    by (rule samples_codec) (simp add: list_all_iff floatToInt16_range)
  have len: "length (int16SamplesToBytes ?ss) = 2 * length xs"
    by (induction xs) (simp_all add: int16SamplesToBytes_def int16_bytes_def Let_def)
  have "encodeBase64 (int16SamplesToBytes ?ss) \<noteq> []"
    using len assms(4) by (intro encodeBase64_nonempty) auto
  moreover have "list_all2 (\<lambda>y x. \<bar>y - x\<bar> < 1 / 20000) (map (\<lambda>s. of_int s / 32768) ?ss) xs"
    using assms(5) by (force simp: list_all2_map1 list_all_iff list_all2_same dest: quantised)
  ultimately show ?thesis
    using assms(1-4) len
    by (simp add: Let_def base64_codec scheduleIncomingBleFrame_def codec BLE_SAMPLE_RATE_def not_less)
qed

lemma audio_roundtrip_witness:
  "\<exists>y. playback (fst (play_frames desktop
      [JObj [(''pcm'', JStr (encodeBase64 (int16SamplesToBytes (map floatToInt16 [1/2]))))]] live_vm))
     = [(0, [y])] \<and> \<bar>y - 1/2\<bar> < 1 / 20000"
proof -
  have f: "audioContext live_vm" "bleIncomingGain live_vm" "json_string desktop (JStr t) = t"
    "playback live_vm = []" "blePlaybackCursor live_vm = 0" "currentTime desktop = 0" for t
    by (simp_all add: live_vm_def new_voice_manager_def desktop_def)
  from audio_roundtrip [OF f(1-3), of "[1/2]"] f(4-6) show ?thesis
    by (auto simp: Let_def case_prod_beta list_all2_Cons2)
qed

text \<open>
  C21. A block of input that reaches the relay of a peer is passed on without loss: the frames sent
  to the bridge, decoded, followed by the samples still waiting, are the samples that waited before
  followed by the block resampled to 8 kHz; fewer than a frame waits; the position in the next
  block is not negative. (Blocks of at most 1024 samples at 8 kHz or more, where the cap of the
  buffer has nothing to drop.)
\<close>

theorem relay_delivers_every_sample:
  assumes "js_get (bleRelayChains st) i = Some ch" and "active st" and "has_sendPcmFrame P"
    and "audioContext st" and "8000 \<le> sampleRate P" and "length input \<le> 1024"
    and "length (pendingSamples ch) < BLE_FRAME_SAMPLES" and "list_all is_int16 (pendingSamples ch)"
    and "0 \<le> resampleOffset ch"
  shows "\<exists>st' ch' calls. relay_block P i input st = Some st' \<and>
     js_get (bleRelayChains st') i = Some ch' \<and> bridge_log st' = bridge_log st @ calls \<and>
     concat (map call_samples calls) @ pendingSamples ch'
       = pendingSamples ch @ resampled input (sampleRate P) (resampleOffset ch) \<and>
     length (pendingSamples ch') < BLE_FRAME_SAMPLES \<and> 0 \<le> resampleOffset ch'"
proof -
  let ?new = "resampled input (sampleRate P) (resampleOffset ch)"
  let ?all = "pendingSamples ch @ ?new"
  have rate: "0 < sampleRate P" using assms(5) by simp
  from append_resampled [OF rate, of "pendingSamples ch" input "resampleOffset ch"] obtain off where
    app: "appendResampledPcm16 (pendingSamples ch) input (sampleRate P) (resampleOffset ch) = Some (?all, off)"
    and off: "0 \<le> off" by auto
  have "length ?new \<le> 1024" using resampled_length [OF assms(5,9), of input] assms(6) by simp
  with assms(7) have cap: "cap_pending ?all = ?all"
    by (simp add: cap_pending_def Let_def BLE_FRAME_SAMPLES_def)
  obtain frames rest where d: "drain_frames ?all = (frames, rest)" by fastforce
  from drain_frames_spec [OF d] have fr: "concat frames @ rest = ?all" "length rest < BLE_FRAME_SAMPLES"
    by auto
  have "list_all is_int16 (concat frames @ rest)"
    unfolding fr(1) using assms(8) resampled_int16 by simp
  then have i16: "list_all (list_all is_int16) frames" by (auto simp: list_all_iff)
  let ?calls = "map (\<lambda>f. SendPcmFrame (encodeBase64 (int16SamplesToBytes f)) i (relay_sender i st)) frames"
  have "concat (map call_samples ?calls) = concat frames"
    using call_samples_concat [OF i16] by (simp add: comp_def)
  with fr off show ?thesis
    by (intro exI [of _ "st\<lparr>bleRelayChains :=
          js_set i (ch\<lparr>pendingSamples := rest, resampleOffset := off\<rparr>) (bleRelayChains st),
          bridge_log := bridge_log st @ ?calls\<rparr>"]
        exI [of _ "ch\<lparr>pendingSamples := rest, resampleOffset := off\<rparr>"] exI [of _ ?calls])
      (simp add: relay_block_def assms(1-4) app cap d)
qed

lemma relay_delivers_every_sample_witness:
  "\<exists>st' ch' calls. relay_block tablet ''a'' [0, 1] relaying_vm = Some st' \<and>
     js_get (bleRelayChains st') ''a'' = Some ch' \<and>
     concat (map call_samples calls) @ pendingSamples ch' = [1, -1] @ resampled [0, 1] 48000 0"
proof -
  have "js_get (bleRelayChains relaying_vm) ''a'' = Some \<lparr>relay_stream = 1, pendingSamples = [1, -1], resampleOffset = 0\<rparr>"
    "active relaying_vm" "audioContext relaying_vm" "has_sendPcmFrame tablet" "sampleRate tablet = 48000"
    by (simp_all add: relaying_vm_def live_vm_def tablet_def desktop_def)
  then show ?thesis
    using relay_delivers_every_sample [of relaying_vm "''a''"
        "\<lparr>relay_stream = 1, pendingSamples = [1, -1], resampleOffset = 0\<rparr>" tablet "[0, 1]"]
    by (auto simp: BLE_FRAME_SAMPLES_def is_int16_def)
qed



end
