(* ===== verification/Segments.thy ===== *)
theory Segments
  imports VmRuns
begin

text \<open>
  What holds of one segment of the voice manager's code, whichever it is: the frames it sends come
  after those sent before, and it never makes a manager active, joining apart.
\<close>

definition later :: "voice_manager \<Rightarrow> voice_manager \<Rightarrow> bool" where
  "later st st' \<longleftrightarrow> (active st' \<longrightarrow> active st) \<and> (\<exists>outs. out_log st' = out_log st @ outs)"

lemma later_refl [simp]: "later st st"
  by (simp add: later_def)

lemma later_trans: "later a b \<Longrightarrow> later b c \<Longrightarrow> later a c"
  by (auto simp: later_def)

lemma later_fields [simp]:
  "active st' = active st \<Longrightarrow> out_log st' = out_log st \<Longrightarrow> later st st'"
  by (simp add: later_def)

lemma later_send [simp]: "later st (vm_send t d st)"
  by (simp add: later_def)

lemma later_cleanup [simp]: "later st (cleanup P st)"
  by (simp add: later_def cleanup_fields)

lemma later_mic [simp]:
  "later st (setMuted m st)" "later st (stopNoiseGate st)" "later st (startNoiseGate thr st)"
  "later st (vm_setInputVolume v st)" "later st (gate_release thr data st)"
  by (auto simp: setMuted_def stopNoiseGate_def startNoiseGate_def vm_setInputVolume_def
      gate_release_def Let_def split: option.splits)

lemma later_speaker [simp]: "later st (vm_setSpeakerDevice P dev st)"
  by (simp add: vm_setSpeakerDevice_def)

lemma later_tick [simp]: "later st (fst (gate_tick data st))"
proof -
  have s: "later st (vm_send t d (setMuted m st))" for t d m
    by (rule later_trans [of _ "setMuted m st"]) simp_all
  have "later st ((vm_send t d (setMuted m st))\<lparr>noiseGateTimer := x\<rparr>)" for t d m x
    by (rule later_trans [OF s [of t d m]]) simp
  moreover have "later st ((setMuted m st)\<lparr>noiseGateTimer := x\<rparr>)" for m x
    by (rule later_trans [of _ "setMuted m st"]) simp_all
  ultimately show ?thesis by (simp add: gate_tick_def Let_def split: option.split)
qed

lemma later_drain: "later st (fst (drainIncomingBleFrames P polled st))"
proof -
  have s: "later st (scheduleIncomingBleFrame P bs st)" for bs st
    by (simp add: scheduleIncomingBleFrame_def Let_def)
  have "later st (fst (play_frames P frames st))" for frames
    by (induction frames arbitrary: st) (auto simp: Let_def split: option.split intro: later_trans [OF s])
  then show ?thesis by (auto simp: drainIncomingBleFrames_def split: option.split jsval.split)
qed

lemma later_native: "later st (pollNativeSpeakingState P d st)"
proof -
  have m: "later st (setMuted b (st\<lparr>bleSpeakingState := v\<rparr>))" for b v
    by (rule later_trans [of _ "st\<lparr>bleSpeakingState := v\<rparr>"]) simp_all
  have "later st (vm_send t x (setMuted b (st\<lparr>bleSpeakingState := v\<rparr>)))" for t x b v
    by (rule later_trans [OF m [of b v]]) simp
  moreover have "later st (vm_send t x (st\<lparr>bleSpeakingState := v\<rparr>))" for t x v
    by (rule later_trans [of _ "st\<lparr>bleSpeakingState := v\<rparr>"]) simp_all
  ultimately show ?thesis
    by (auto simp: pollNativeSpeakingState_def Let_def split: option.split)
qed

lemma later_bridge [simp]: "later st (bridge_tick P polled d st)"
proof -
  have "later st (pollNativeSpeakingState P d (fst (drainIncomingBleFrames P polled st)))"
    by (rule later_trans [OF later_drain later_native])
  then show ?thesis by (simp add: bridge_tick_def Let_def case_prod_beta later_drain)
qed

lemma later_relay: "relay_block P i input st = Some st' \<Longrightarrow> later st st'"
  by (auto simp: relay_block_def Let_def case_prod_beta split: option.splits if_splits)

lemma later_events [simp]:
  "later st (pc_ontrack P dev i s st)" "later st (pc_onicecandidate i c st)"
  "later st (pc_onconnectionstatechange i x st)" "later st (handlePeerLeft i st)"
  "later st (handlePeerJoined i n st)" "later st (handleIce P i x' st)"
  by (auto simp: pc_ontrack_def pc_onicecandidate_def pc_onconnectionstatechange_def handlePeerLeft_def
      handlePeerJoined_def handleIce_def attachRemoteBleRelay_def detachRemoteBleRelay_def
      drop_audio_element_def close_pc_def update_pc_def queue_ice_def add_candidate_def later_def
      vm_send_def Let_def split: option.split)

lemma later_leave [simp]: "later st (leaveChannel P st)" "later st (vm_destroy P st)"
  by (auto simp: leaveChannel_def vm_destroy_def later_def cleanup_fields)

lemma later_join_peers: "later st (fst (join_peers P ms st))"
  by (induction P ms st rule: join_peers.induct) auto

lemma later_connect: "later st (fst (join_connect P rid cid ms st))"
  unfolding join_connect_def
  by (rule later_trans [OF _ later_join_peers], rule later_trans [OF _ later_send]) simp

lemma later_mic_join: "later st (fst (join_mic P rid cid ms r st))"
  by (cases r) (auto simp: join_mic_def join_audio_failed_def Let_def intro!: later_trans [OF _ later_connect])

lemma later_flush: "later st (fst (flush_next p q k st))" "later st (fst (flushPendingIce i p k st))"
proof -
  show f: "later st (fst (flush_next p q k st))" for st q
    by (simp add: flush_next_def after_flush_def add_candidate_def update_pc_def split: list.split)
  have "later st (fst (flush_next p q k (st\<lparr>pendingIce := x\<rparr>)))" for q x
    by (rule later_trans [OF _ f]) simp
  then show "later st (fst (flushPendingIce i p k st))"
    by (simp add: flushPendingIce_def after_flush_def split: option.split)
qed

lemma later_signal [simp]:
  "later st (fst (handleOffer P i sdp st))" "later st (fst (handleAnswer P i sdp st))"
  by (auto simp: handleOffer_def handleAnswer_def Let_def split: option.split)

lemma later_switched: "later st (mic_switched P r st)"
  by (cases r) (auto simp: mic_switched_def stop_local_stream_def Let_def split: option.split)

lemma later_resume: "later st (fst (resume P k r st))"
proof (cases k)
  case (JoinResumed rid cid ms dev)
  then show ?thesis
    by (auto simp: resume_def join_resumed_def join_audio_failed_def Let_def intro!: later_trans [OF _ later_connect])
next
  case (JoinOffer i ms)
  then show ?thesis
    by (cases r) (auto simp: resume_def join_offer_def later_join_peers
        intro!: later_trans [OF _ later_join_peers])
next
  case (OfferRemote i p desc)
  have "later st (set_remote p desc st)" by (simp add: set_remote_def update_pc_def)
  with OfferRemote show ?thesis by (auto simp: resume_def intro: later_trans [OF _ later_flush(2)])
next
  case (AnswerRemote i p desc)
  have "later st (set_remote p desc st)" by (simp add: set_remote_def update_pc_def)
  with AnswerRemote show ?thesis by (auto simp: resume_def intro: later_trans [OF _ later_flush(2)])
next
  case (OfferAnswer i)
  then show ?thesis by (cases r) (simp_all add: resume_def)
next
  case (GateRelease thr)
  then show ?thesis by (cases r) (simp_all add: resume_def)
qed (simp_all add: resume_def later_mic_join later_flush later_switched)

lemma join_log: "\<exists>outs. out_log (fst (joinChannel P cfg rid cid ms st)) = out_log st @ outs"
proof -
  define st0 where "st0 = (if active st then leaveChannel P st else st)"
  have a: "later st st0" by (simp add: st0_def)
  define st1 where "st1 = st0\<lparr>vm_roomId := rid, vm_channelId := cid, active := True, listenOnly := False,
                    peerNames := foldl (\<lambda>ns m. js_set (vm_id m) (vm_name m) ns) [] ms,
                    localInputVolume := inputVolume cfg, localMicMuted := True\<rparr>"
  have "later st1 (join_audio_failed P st1)" by (simp add: join_audio_failed_def)
  then have "later st1 (fst (join_connect P rid cid ms (join_audio_failed P st1)))"
    by (rule later_trans [OF _ later_connect])
  with a show ?thesis
    by (auto simp: joinChannel_def later_def Let_def st1_def simp flip: st0_def)
qed

section \<open>Answering an offer\<close>

lemma settle_flush_offer:
  "length q + 1 < n \<Longrightarrow> answer (OfferAnswer i) = Description sdp \<Longrightarrow>
   \<exists>st'. settle P answer n (flush_next p q (ForOffer i) st) = (st', None) \<and>
     out_log st' = out_log st @ [Out ''voice_answer'' (signal_frame i ''sdp'' sdp st)] \<and>
     pc_candidates (pc_heap st' p) = pc_candidates (pc_heap st p) @ q \<and> peers st' = peers st \<and>
     pendingIce st' = pendingIce st \<and>
     remoteDescription (pc_heap st' p) = remoteDescription (pc_heap st p)"
proof (induction q arbitrary: n st)
  case Nil
  then obtain n' where "n = Suc n'" by (cases n) auto
  with Nil show ?case by (simp add: flush_next_def after_flush_def resume_def vm_send_def)
next
  case (Cons ice q)
  from Cons.prems obtain n' where n: "n = Suc n'" "length q + 1 < n'" by (cases n) auto
  from Cons.IH [OF n(2), of "add_candidate p ice st"] Cons.prems(2) n show ?case
    by (auto simp: flush_next_def [of p "ice # q"] resume_def add_candidate_def update_pc_def signal_frame_def)
qed

text \<open>
  The answerer: a new connection under the name of the caller, with the description of the offer and
  the candidates that were early, and the answer on its way.
\<close>

lemma settle_offer:
  assumes "active st" and "\<not> is_ble_id i" and "rtc_ok P" and "json_parse P offer = Some desc"
    and "answer (OfferRemote i (next_pc st) desc) = Resolved"
    and "answer (OfferAnswer i) = Description sdp" and "length (queued i st) + 2 < n"
  shows "\<exists>st'. settle P answer n (handleOffer P i offer st) = (st', None) \<and>
     out_log st' = out_log st @ [Out ''voice_answer'' (signal_frame i ''sdp'' sdp st)] \<and>
     peers st' = js_set i (next_pc st) (peers st) \<and>
     remoteDescription (pc_heap st' (next_pc st)) = Some desc \<and>
     pc_candidates (pc_heap st' (next_pc st)) = queued i st"
proof -
  let ?p = "next_pc st" and ?st1 = "set_remote (next_pc st) desc (open_connection i st)"
  have st1: "out_log ?st1 = out_log st" "peers ?st1 = js_set i ?p (peers st)"
    "remoteDescription (pc_heap ?st1 ?p) = Some desc" "pc_candidates (pc_heap ?st1 ?p) = []"
    "pendingIce ?st1 = pendingIce st" "vm_roomId ?st1 = vm_roomId st" "vm_channelId ?st1 = vm_channelId st"
    by (simp_all add: set_remote_def update_pc_def open_connection_def Let_def)
  from assms(7) obtain n' where n: "n = Suc n'" "length (queued i st) + 1 < n'" by (cases n) auto
  have go: "settle P answer n (handleOffer P i offer st)
      = settle P answer n' (flushPendingIce i ?p (ForOffer i) ?st1)"
    using assms(1-5) n(1) by (simp add: handleOffer_def Let_def resume_def)
  show ?thesis
  proof (cases "queued i st = []")
    case True
    then have "flushPendingIce i ?p (ForOffer i) ?st1 = flush_next ?p [] (ForOffer i) ?st1"
      using st1(5) by (auto simp: flushPendingIce_def flush_next_def queued_def split: option.splits)
    with settle_flush_offer [where q = "[]" and answer = answer and i = i and sdp = sdp and P = P and p = ?p and st = ?st1 and n = n']
      go st1 True n(2) assms(6) show ?thesis by (auto simp: signal_frame_def)
  next
    case False
    then obtain q where q: "js_get (pendingIce st) i = Some q" "queued i st = q" "q \<noteq> []"
      by (auto simp: queued_def split: option.splits)
    let ?st2 = "?st1\<lparr>pendingIce := js_delete i (pendingIce st)\<rparr>"
    have "flushPendingIce i ?p (ForOffer i) ?st1 = flush_next ?p q (ForOffer i) ?st2"
      using q st1(5) by (simp add: flushPendingIce_def)
    with settle_flush_offer [where q = q and answer = answer and i = i and sdp = sdp and P = P and p = ?p and st = ?st2 and n = n']
      go st1 q n(2) assms(6) show ?thesis by (auto simp: signal_frame_def)
  qed
qed

end
