(* ===== verification/Page.thy ===== *)
theory Page
  imports AppModel Segments WsConn
begin

text \<open>
  The page as a whole: the connection of \<open>useWebSocket\<close>, the voice manager that \<open>App.tsx\<close> makes in
  an effect and hands to it as \<open>signalingRef\<close>, and the actions of \<open>App.tsx\<close>, on one state. What the
  manager sends goes through \<open>send\<close> of the connection, and is lost while no socket is open; the
  frames of the connection call the manager.

  The effect of \<open>App.tsx\<close> makes a new manager each time it runs and destroys the old one, while
  methods of the old one may still be suspended: the state keeps every manager made so far.
\<close>

section \<open>State\<close>

text \<open>
  A suspended method: the manager it belongs to, where it goes on, and, when it is \<open>joinChannel\<close>
  awaited by \<open>joinVoice\<close>, the room and the channel \<open>joinVoice\<close> goes on with.
\<close>

record pending =
  owner :: nat
  cont_of :: cont
  joining :: "(string \<times> string) option"

record page =
  net :: ws_sys
  vm_ref :: "nat option"
  manager_of :: "nat \<Rightarrow> voice_manager"
  next_manager :: nat
  waiting :: "pending list"
  page_settings :: settings
  page_calls :: "ptt_call list"

definition init_page :: "settings \<Rightarrow> page" where
  "init_page cfg =
     \<lparr> net = init_ws, vm_ref = None, manager_of = (\<lambda>_. new_voice_manager 0), next_manager = 0,
       waiting = [], page_settings = cfg, page_calls = [] \<rparr>"

section \<open>Running the manager\<close>

text \<open>The manager's \<open>send\<close> is \<open>sendRef.current\<close>, the \<open>send\<close> of the connection.\<close>

definition forward :: "out_msg list \<Rightarrow> ws_sys \<Rightarrow> ws_sys" where
  "forward outs c = fold (\<lambda>m c. case m of Out t d \<Rightarrow> ws_send t d c) outs c"

definition new_frames :: "voice_manager \<Rightarrow> voice_manager \<Rightarrow> out_msg list" where
  "new_frames st st' = drop (length (out_log st)) (out_log st')"

definition await_on :: "nat \<Rightarrow> (string \<times> string) option \<Rightarrow> cont option \<Rightarrow> pending list" where
  "await_on i j k = (case k of None \<Rightarrow> [] | Some k \<Rightarrow> [\<lparr>owner = i, cont_of = k, joining = j\<rparr>])"

definition run_segment :: "nat \<Rightarrow> suspended \<Rightarrow> page \<Rightarrow> page" where
  "run_segment i r p =
     p\<lparr>net := forward (new_frames (manager_of p i) (fst r)) (net p),
       manager_of := (manager_of p)(i := fst r),
       waiting := waiting p @ await_on i None (snd r)\<rparr>"

text \<open>The actions of \<open>AppModel\<close> on the page, with the manager they see.\<close>

definition app_view :: "nat option \<Rightarrow> page \<Rightarrow> app" where
  "app_view r p =
     \<lparr> app_vm = map_option (manager_of p) r, app_chat = chat (net p), app_settings = page_settings p,
       app_out = [], app_calls = page_calls p \<rparr>"

definition put_app :: "nat option \<Rightarrow> app \<Rightarrow> page \<Rightarrow> page" where
  "put_app r a p =
     (case (r, app_vm a) of
        (Some i, Some st) \<Rightarrow>
          p\<lparr>net := (forward (new_frames (manager_of p i) st @ app_out a) (net p))\<lparr>chat := app_chat a\<rparr>,
            manager_of := (manager_of p)(i := st),
            page_calls := app_calls a\<rparr>
      | _ \<Rightarrow>
          p\<lparr>net := (forward (app_out a) (net p))\<lparr>chat := app_chat a\<rparr>, page_calls := app_calls a\<rparr>)"

definition on_app :: "(app \<Rightarrow> app) \<Rightarrow> page \<Rightarrow> page" where
  "on_app f p = put_app (vm_ref p) (f (app_view (vm_ref p) p)) p"

definition page_join ::
  "platform \<Rightarrow> string \<Rightarrow> string \<Rightarrow> voice_member list \<Rightarrow> page \<Rightarrow> page" where
  "page_join P rid cid existing p =
     (let (a, k) = joinVoice P rid cid existing (app_view (vm_ref p) p);
          p' = put_app (vm_ref p) a p
      in case vm_ref p of
           None \<Rightarrow> p'
         | Some i \<Rightarrow> p'\<lparr>waiting := waiting p' @ await_on i (Some (rid, cid)) k\<rparr>)"

definition page_resume :: "platform \<Rightarrow> nat \<Rightarrow> await_result \<Rightarrow> page \<Rightarrow> page" where
  "page_resume P n result p =
     (let w = waiting p ! n; p1 = p\<lparr>waiting := take n (waiting p) @ drop (Suc n) (waiting p)\<rparr>
      in case joining w of
           None \<Rightarrow> run_segment (owner w) (resume P (cont_of w) result (manager_of p (owner w))) p1
         | Some (rid, cid) \<Rightarrow>
             let (a, k) = joinVoice_resume P rid cid (cont_of w) result (app_view (Some (owner w)) p1);
                 p' = put_app (Some (owner w)) a p1
             in p'\<lparr>waiting := waiting p' @ await_on (owner w) (Some (rid, cid)) k\<rparr>)"

section \<open>Frames\<close>

text \<open>The calls on \<open>signalingRef?.current\<close>.\<close>

definition call_manager :: "platform \<Rightarrow> vm_call \<Rightarrow> voice_manager \<Rightarrow> suspended" where
  "call_manager P c st =
     (case c of
        CallPeerJoined i n \<Rightarrow> (handlePeerJoined i n st, None)
      | CallPeerLeft i \<Rightarrow> (handlePeerLeft i st, None)
      | CallOffer i sdp \<Rightarrow> handleOffer P i sdp st
      | CallAnswer i sdp \<Rightarrow> handleAnswer P i sdp st
      | CallIce i x \<Rightarrow> (handleIce P i x st, None))"

definition page_call :: "platform \<Rightarrow> vm_call \<Rightarrow> page \<Rightarrow> page" where
  "page_call P c p =
     (case vm_ref p of None \<Rightarrow> p | Some i \<Rightarrow> run_segment i (call_manager P c (manager_of p i)) p)"

definition page_frame :: "platform \<Rightarrow> views \<Rightarrow> nat \<Rightarrow> jsval option \<Rightarrow> page \<Rightarrow> page" where
  "page_frame P V k f p =
     fold (page_call P) (snd (snd (ws_onmessage V f (chat (net p))))) (p\<lparr>net := ws_frame V k f (net p)\<rparr>)"

section \<open>The effects of the root component\<close>

text \<open>
  On mounting the connection is opened and a manager is made, unless its constructor raises;
  on unmounting the socket is closed first and the manager destroyed after it.
\<close>

definition page_mount :: "bool \<Rightarrow> page \<Rightarrow> page" where
  "page_mount constructs p =
     (let p1 = p\<lparr>net := ws_mount (net p)\<rparr>
      in if constructs
         then p1\<lparr>manager_of := (manager_of p1)(next_manager p1 := new_voice_manager (inputVolume (page_settings p1))),
                 vm_ref := Some (next_manager p1), next_manager := Suc (next_manager p1)\<rparr>
         else p1\<lparr>vm_ref := None\<rparr>)"

definition page_unmount :: "platform \<Rightarrow> page \<Rightarrow> page" where
  "page_unmount P p =
     (let p1 = p\<lparr>net := ws_unmount (net p)\<rparr>
      in case vm_ref p1 of
           None \<Rightarrow> p1
         | Some i \<Rightarrow> (run_segment i (vm_destroy P (manager_of p1 i), None) p1)\<lparr>vm_ref := None\<rparr>)"

section \<open>The steps of the page\<close>

text \<open>
  What reaches a manager from outside \<open>App.tsx\<close> and the connection: its timers, the events of its
  peer connections, the subscription to the settings, the gate and mute methods of the
  user interface.
\<close>

fun background :: "vm_op \<Rightarrow> bool" where
  "background (OpMute m) = True"
| "background (OpVolume v) = True"
| "background (OpSpeaker dev) = True"
| "background (OpSwitchMic dev) = True"
| "background (OpGateStart thr) = True"
| "background OpGateStop = True"
| "background (OpGateTick data) = True"
| "background (OpBridgeTick polled detected) = True"
| "background (EvTrack dev i s) = True"
| "background (EvCandidate i c) = True"
| "background (EvState i s) = True"
| "background _ = False"

inductive page_step :: "views \<Rightarrow> page \<Rightarrow> page \<Rightarrow> bool" for V :: views where
  p_mount: "\<not> mounted (net p) \<Longrightarrow> page_step V p (page_mount constructs p)"
| p_unmount: "mounted (net p) \<Longrightarrow> page_step V p (page_unmount P p)"
| p_timer: "reconnect (net p) \<Longrightarrow> page_step V p (p\<lparr>net := ws_timer (net p)\<rparr>)"
| p_opened: "status (socket_of (net p) k) = Connecting \<Longrightarrow> page_step V p (p\<lparr>net := ws_opened pref k (net p)\<rparr>)"
| p_frame: "status (socket_of (net p) k) = Open \<Longrightarrow> page_step V p (page_frame P V k f p)"
| p_error: "status (socket_of (net p) k) \<noteq> Fresh \<Longrightarrow> page_step V p (p\<lparr>net := ws_error k (net p)\<rparr>)"
| p_closed: "status (socket_of (net p) k) \<in> {Connecting, Open, Closing} \<Longrightarrow>
    page_step V p (p\<lparr>net := ws_closed k (net p)\<rparr>)"
| p_send: "page_step V p (p\<lparr>net := ws_send t d (net p)\<rparr>)"
| p_ui: "page_step V p (p\<lparr>net := (net p)\<lparr>chat := ui_step a (chat (net p))\<rparr>\<rparr>)"
| p_settings: "page_step V p (p\<lparr>page_settings := cfg\<rparr>)"
| p_join: "page_step V p (page_join P rid cid existing p)"
| p_leave: "page_step V p (on_app (leaveVoice P) p)"
| p_mute: "page_step V p (on_app (handleMuteToggle m) p)"
| p_mode: "page_step V p (on_app (handleModeChange mode) p)"
| p_talk: "page_step V p (on_app (handlePTTStart P) p)"
| p_hush: "page_step V p (on_app (handlePTTEnd P) p)"
| p_error_timeout: "page_step V p (on_app voiceError_timeout p)"
| p_background: "background a \<Longrightarrow> i < next_manager p \<Longrightarrow>
    page_step V p (run_segment i (vm_apply P a (manager_of p i)) p)"
| p_audio: "relay_block P peer input (manager_of p i) = Some st \<Longrightarrow> i < next_manager p \<Longrightarrow>
    page_step V p (run_segment i (st, None) p)"
| p_resume: "n < length (waiting p) \<Longrightarrow> page_step V p (page_resume P n result p)"

inductive page_reachable :: "views \<Rightarrow> page \<Rightarrow> bool" for V :: views where
  p_start: "page_reachable V (init_page cfg)"
| p_next: "page_reachable V p \<Longrightarrow> page_step V p q \<Longrightarrow> page_reachable V q"

section \<open>The connection of the page is a run of the connection\<close>

text \<open>A store that differs in the four voice fields is a step of the user interface away.\<close>

definition voice_fields :: "chat_state \<Rightarrow> chat_state \<Rightarrow> bool" where
  "voice_fields s t \<longleftrightarrow>
     (\<exists>v sp m e. t = s\<lparr>activeVoice := v, localSpeaking := sp, voiceMuted := m, voiceError := e\<rparr>)"

lemma voice_fields_trans:
  assumes "voice_fields a b" and "voice_fields b c"
  shows "voice_fields a c"
proof -
  from assms obtain v sp m e where "c = a\<lparr>activeVoice := v, localSpeaking := sp, voiceMuted := m, voiceError := e\<rparr>"
    by (auto simp: voice_fields_def)
  then show ?thesis unfolding voice_fields_def by blast
qed

lemma voice_fields_intro [simp]:
  "voice_fields s s"
  "voice_fields s (setActiveVoice rid cid s)" "voice_fields s (clearActiveVoice s)"
  "voice_fields s (setVoiceMuted b s)" "voice_fields s (setLocalSpeaking b s)"
  "voice_fields s (setVoiceError x s)"
proof -
  have g: "voice_fields s (s\<lparr>activeVoice := v, localSpeaking := sp, voiceMuted := m, voiceError := e\<rparr>)"
    for v sp m e unfolding voice_fields_def by blast
  show "voice_fields s s"
    using g [where v = "activeVoice s" and sp = "localSpeaking s" and m = "voiceMuted s" and e = "voiceError s"]
    by simp
  show "voice_fields s (setActiveVoice rid cid s)"
    using g [where v = "Some (rid, cid)" and sp = "localSpeaking s" and m = "voiceMuted s" and e = "voiceError s"]
    by (simp add: setActiveVoice_def)
  show "voice_fields s (clearActiveVoice s)"
    using g [where v = None and sp = "localSpeaking s" and m = "voiceMuted s" and e = "voiceError s"]
    by (simp add: clearActiveVoice_def)
  show "voice_fields s (setVoiceMuted b s)"
    using g [where v = "activeVoice s" and sp = "localSpeaking s" and m = b and e = "voiceError s"]
    by (simp add: setVoiceMuted_def)
  show "voice_fields s (setLocalSpeaking b s)"
    using g [where v = "activeVoice s" and sp = b and m = "voiceMuted s" and e = "voiceError s"]
    by (simp add: setLocalSpeaking_def)
  show "voice_fields s (setVoiceError x s)"
    using g [where v = "activeVoice s" and sp = "localSpeaking s" and m = "voiceMuted s" and e = x]
    by (simp add: setVoiceError_def)
qed

lemma forward_simps [simp]:
  "forward [] c = c" "chat (forward outs c) = chat c" "mounted (forward outs c) = mounted c"
  "ws_ref (forward outs c) = ws_ref c" "socket_of (forward outs c) = socket_of c"
proof -
  have "chat (forward outs c) = chat c \<and> mounted (forward outs c) = mounted c \<and>
      ws_ref (forward outs c) = ws_ref c \<and> socket_of (forward outs c) = socket_of c"
    by (induction outs arbitrary: c)
      (auto simp: forward_def ws_send_def split: out_msg.splits option.splits)
  then show "chat (forward outs c) = chat c" "mounted (forward outs c) = mounted c"
    "ws_ref (forward outs c) = ws_ref c" "socket_of (forward outs c) = socket_of c" by auto
qed (simp add: forward_def)

lemma forward_reachable: "ws_reachable V c \<Longrightarrow> ws_reachable V (forward outs c)"
proof (induction outs arbitrary: c)
  case (Cons m outs)
  obtain t d where m: "m = Out t d" by (cases m)
  have "ws_reachable V (ws_send t d c)" using Cons.prems by (blast intro: ws_reachable.step send)
  from Cons.IH [OF this] show ?case by (simp add: forward_def m)
qed simp

lemma voice_fields_reachable:
  assumes "ws_reachable V c" and "voice_fields (chat c) s"
  shows "ws_reachable V (c\<lparr>chat := s\<rparr>)"
proof -
  from assms(2) obtain v sp m e where "s = ui_step (VoiceFields v sp m e) (chat c)"
    by (auto simp: voice_fields_def)
  with assms(1) show ?thesis by (simp only:) (blast intro: ws_reachable.step ui)
qed

section \<open>The actions\<close>

text \<open>What an action does to the store and to the manager it sees.\<close>

definition app_ok :: "app \<Rightarrow> app \<Rightarrow> bool" where
  "app_ok a b \<longleftrightarrow>
     voice_fields (app_chat a) (app_chat b) \<and>
     (case app_vm a of
        None \<Rightarrow> app_vm b = None
      | Some st \<Rightarrow> (\<exists>st'. app_vm b = Some st' \<and> (vm_wf st \<longrightarrow> vm_wf st') \<and> later st st'))"

lemma app_ok_refl [simp]: "app_ok a a"
  by (simp add: app_ok_def split: option.split)

lemma app_ok_trans: "app_ok a b \<Longrightarrow> app_ok b c \<Longrightarrow> app_ok a c"
  by (auto simp: app_ok_def split: option.splits intro: voice_fields_trans later_trans)

lemma app_ok_parts:
  "app_ok a b \<Longrightarrow> (\<And>s. voice_fields s (f s)) \<Longrightarrow> app_ok a (on_chat f b)"
  "app_ok a b \<Longrightarrow> (\<And>st. vm_wf st \<Longrightarrow> vm_wf (g st)) \<Longrightarrow> (\<And>st. later st (g st)) \<Longrightarrow> app_ok a (on_vm g b)"
  "app_ok a b \<Longrightarrow> app_ok a (app_send t d b)"
  "app_ok a b \<Longrightarrow> app_ok a (b\<lparr>app_calls := x\<rparr>)"
proof -
  show "app_ok a (on_chat f b)" if "app_ok a b" "\<And>s. voice_fields s (f s)"
    using that by (auto simp: app_ok_def split: option.splits intro: voice_fields_trans)
  show "app_ok a (on_vm g b)" if "app_ok a b" "\<And>st. vm_wf st \<Longrightarrow> vm_wf (g st)" "\<And>st. later st (g st)"
    using that by (auto simp: app_ok_def split: option.splits intro: later_trans)
qed (simp_all add: app_ok_def split: option.splits)

lemma actions_ok:
  "app_ok a (leaveVoice P a)" "app_ok a (handleMuteToggle m a)" "app_ok a (handleModeChange mode a)"
  "app_ok a (handlePTTStart P a)" "app_ok a (handlePTTEnd P a)" "app_ok a (voiceError_timeout a)"
  by (auto simp: leaveVoice_def handleMuteToggle_def handleModeChange_def handlePTTStart_def
      handlePTTEnd_def voiceError_timeout_def Let_def split: option.split prod.split
      intro!: app_ok_parts wf_leave wf_setMuted wf_startGate wf_stopGate)

lemma joinVoice_done_ok: "app_ok a (joinVoice_done rid cid a)"
  by (auto simp: joinVoice_done_def Let_def split: option.split intro!: app_ok_parts wf_startGate)

lemma joinVoice_step_ok:
  assumes "app_vm a = Some st" and "vm_wf st \<Longrightarrow> vm_wf (fst r)" and "later st (fst r)"
  shows "app_ok a (fst (joinVoice_step rid cid r a))"
proof -
  have "app_ok a (a\<lparr>app_vm := Some (fst r)\<rparr>)" using assms by (simp add: app_ok_def)
  then show ?thesis
    by (auto simp: joinVoice_step_def split: prod.split option.split intro: app_ok_trans joinVoice_done_ok)
qed

lemma joinVoice_resume_ok: "app_ok a (fst (joinVoice_resume P rid cid k r a))"
  by (auto simp: joinVoice_resume_def split: option.split intro!: joinVoice_step_ok wf_resume later_resume)

text \<open>Joining may make the manager active; otherwise it is an action like the others.\<close>

lemma joinVoice_ok:
  "voice_fields (app_chat a) (app_chat (fst (joinVoice P rid cid ms a)))"
  "app_vm a = None \<Longrightarrow> app_vm (fst (joinVoice P rid cid ms a)) = None"
  "app_vm a = Some st \<Longrightarrow> vm_wf st \<Longrightarrow>
     \<exists>st'. app_vm (fst (joinVoice P rid cid ms a)) = Some st' \<and> vm_wf st'"
proof -
  have step: "app_ok (a\<lparr>app_vm := Some (fst r)\<rparr>) (fst (joinVoice_step rid cid r a))" for r
    by (auto simp: joinVoice_step_def joinVoice_done_ok split: prod.split option.split)
  have "voice_fields (app_chat a) (app_chat (fst (joinVoice_step rid cid r a)))"
    "vm_wf (fst r) \<Longrightarrow> \<exists>st'. app_vm (fst (joinVoice_step rid cid r a)) = Some st' \<and> vm_wf st'" for r
    using step [of r] by (auto simp: app_ok_def)
  then show "voice_fields (app_chat a) (app_chat (fst (joinVoice P rid cid ms a)))"
    "app_vm a = Some st \<Longrightarrow> vm_wf st \<Longrightarrow>
       \<exists>st'. app_vm (fst (joinVoice P rid cid ms a)) = Some st' \<and> vm_wf st'"
    by (auto simp: joinVoice_def wf_joinChannel split: option.split)
qed (simp add: joinVoice_def)

section \<open>The invariant\<close>

definition page_ok :: "views \<Rightarrow> page \<Rightarrow> bool" where
  "page_ok V p \<longleftrightarrow>
     ws_reachable V (net p) \<and> (\<forall>i. vm_wf (manager_of p i)) \<and>
     (\<forall>i. vm_ref p \<noteq> Some i \<longrightarrow> \<not> active (manager_of p i)) \<and>
     (\<forall>i. vm_ref p = Some i \<longrightarrow> i < next_manager p \<and> mounted (net p))"

lemma page_ok_init: "page_ok V (init_page cfg)"
  by (simp add: page_ok_def init_page_def new_vm_wf ws_reachable.start) (simp add: new_voice_manager_def)

lemma page_ok_other [simp]:
  "page_ok V (p\<lparr>waiting := w\<rparr>) = page_ok V p" "page_ok V (p\<lparr>page_settings := cfg\<rparr>) = page_ok V p"
  "page_ok V (p\<lparr>page_calls := x\<rparr>) = page_ok V p"
  by (simp_all add: page_ok_def)

lemma page_ok_net:
  "page_ok V p \<Longrightarrow> ws_reachable V c \<Longrightarrow> mounted c = mounted (net p) \<Longrightarrow> page_ok V (p\<lparr>net := c\<rparr>)"
  by (simp add: page_ok_def)

lemma page_ok_manager:
  "page_ok V p \<Longrightarrow> vm_wf st \<Longrightarrow> (active st \<Longrightarrow> vm_ref p = Some i) \<Longrightarrow>
   page_ok V (p\<lparr>manager_of := (manager_of p)(i := st)\<rparr>)"
  by (auto simp: page_ok_def)

lemma page_ok_later:
  assumes "page_ok V p" and "vm_wf (manager_of p i) \<Longrightarrow> vm_wf st" and "later (manager_of p i) st"
  shows "page_ok V (p\<lparr>manager_of := (manager_of p)(i := st)\<rparr>)"
  using assms by (intro page_ok_manager) (auto simp: page_ok_def later_def)

lemma run_segment_ok:
  assumes ok: "page_ok V p" and "vm_wf (manager_of p i) \<Longrightarrow> vm_wf (fst r)" and "later (manager_of p i) (fst r)"
  shows "page_ok V (run_segment i r p)"
proof -
  have "ws_reachable V (forward outs (net p))" for outs
    using ok by (simp add: page_ok_def forward_reachable)
  then have "page_ok V (p\<lparr>net := forward outs (net p)\<rparr>)" for outs by (simp add: page_ok_net ok)
  from page_ok_later [OF this, where i = i and st = "fst r"] assms(2,3) show ?thesis
    by (simp add: run_segment_def)
qed

lemma put_app_ok:
  assumes ok: "page_ok V p" and fields: "voice_fields (chat (net p)) (app_chat a)"
    and none: "r = None \<Longrightarrow> app_vm a = None"
    and vm: "\<And>i. r = Some i \<Longrightarrow> \<exists>st. app_vm a = Some st \<and> vm_wf st \<and> (active st \<longrightarrow> vm_ref p = Some i)"
  shows "page_ok V (put_app r a p)"
proof -
  have "ws_reachable V (forward outs (net p))" for outs
    using ok by (simp add: page_ok_def forward_reachable)
  then have "ws_reachable V ((forward outs (net p))\<lparr>chat := app_chat a\<rparr>)" for outs
    by (rule voice_fields_reachable) (simp add: fields)
  then have net: "page_ok V (p\<lparr>net := (forward outs (net p))\<lparr>chat := app_chat a\<rparr>\<rparr>)" for outs
    by (simp add: page_ok_net ok)
  show ?thesis
  proof (cases r)
    case None
    with none net show ?thesis by (simp add: put_app_def)
  next
    case (Some i)
    with vm obtain st where "app_vm a = Some st" "vm_wf st" "active st \<longrightarrow> vm_ref p = Some i" by blast
    with Some page_ok_manager [OF net, where st = st and i = i] show ?thesis by (simp add: put_app_def)
  qed
qed

lemma put_app_action:
  assumes "page_ok V p" and "app_ok (app_view r p) a"
  shows "page_ok V (put_app r a p)"
proof (rule put_app_ok [OF assms(1)])
  show "voice_fields (chat (net p)) (app_chat a)" using assms(2) by (simp add: app_ok_def app_view_def)
  show "r = None \<Longrightarrow> app_vm a = None" using assms(2) by (simp add: app_ok_def app_view_def)
  show "\<exists>st. app_vm a = Some st \<and> vm_wf st \<and> (active st \<longrightarrow> vm_ref p = Some i)" if "r = Some i" for i
    using assms that by (auto simp: app_ok_def app_view_def page_ok_def later_def)
qed

lemma on_app_ok: "page_ok V p \<Longrightarrow> (\<And>a. app_ok a (f a)) \<Longrightarrow> page_ok V (on_app f p)"
  by (simp add: on_app_def put_app_action)

lemma page_join_ok:
  assumes ok: "page_ok V p"
  shows "page_ok V (page_join P rid cid ms p)"
proof -
  let ?a = "fst (joinVoice P rid cid ms (app_view (vm_ref p) p))"
  have "page_ok V (put_app (vm_ref p) ?a p)"
  proof (rule put_app_ok [OF ok])
    show "voice_fields (chat (net p)) (app_chat ?a)"
      using joinVoice_ok(1) [of "app_view (vm_ref p) p" P rid cid ms] by (simp add: app_view_def)
    show "vm_ref p = None \<Longrightarrow> app_vm ?a = None"
      using joinVoice_ok(2) [of "app_view (vm_ref p) p"] by (simp add: app_view_def)
    show "\<exists>st. app_vm ?a = Some st \<and> vm_wf st \<and> (active st \<longrightarrow> vm_ref p = Some i)" if "vm_ref p = Some i" for i
      using joinVoice_ok(3) [of "app_view (vm_ref p) p" "manager_of p i"] ok that
      by (auto simp: app_view_def page_ok_def)
  qed
  then show ?thesis by (cases "vm_ref p") (simp_all add: page_join_def case_prod_beta Let_def)
qed

lemma page_resume_ok: "page_ok V p \<Longrightarrow> page_ok V (page_resume P n result p)"
  by (auto simp: page_resume_def Let_def case_prod_beta split: option.split
      intro!: run_segment_ok put_app_action joinVoice_resume_ok later_resume wf_resume)

lemma page_call_ok: "page_ok V p \<Longrightarrow> page_ok V (page_call P c p)"
  by (cases c) (auto simp: page_call_def call_manager_def split: option.split
      intro!: run_segment_ok wf_peer_joined wf_peer_left wf_offer wf_answer wf_ice)

lemma page_calls_ok: "page_ok V p \<Longrightarrow> page_ok V (fold (page_call P) cs p)"
  by (induction cs arbitrary: p) (simp_all add: page_call_ok)

lemma ws_fields [simp]:
  "mounted (ws_timer c) = mounted c" "mounted (ws_opened pref k c) = mounted c"
  "mounted (ws_frame V k f c) = mounted c" "mounted (ws_error k c) = mounted c"
  "mounted (ws_closed k c) = mounted c" "mounted (ws_send t d c) = mounted c"
  "mounted (ws_mount c)" "\<not> mounted (ws_unmount c)"
  by (simp_all add: ws_timer_def ws_connect_def detach_current_def ws_opened_def ws_frame_def
      ws_error_def ws_closed_def ws_send_def ws_mount_def ws_unmount_def Let_def case_prod_beta
      split: option.split)

lemma page_net_step:
  assumes "page_ok V p" and "ws_step V (net p) c" and "mounted c = mounted (net p)"
  shows "page_ok V (p\<lparr>net := c\<rparr>)"
  using assms by (intro page_ok_net) (auto simp: page_ok_def intro: ws_reachable.step)

lemma page_mount_ok:
  assumes ok: "page_ok V p" and "\<not> mounted (net p)"
  shows "page_ok V (page_mount constructs p)"
proof -
  have none: "vm_ref p = None" using assms by (cases "vm_ref p") (auto simp: page_ok_def)
  have "ws_reachable V (ws_mount (net p))"
    using assms by (auto simp: page_ok_def intro: ws_reachable.step mount)
  then have p1: "page_ok V (p\<lparr>net := ws_mount (net p)\<rparr>)" using ok none by (simp add: page_ok_def)
  show ?thesis
  proof (cases constructs)
    case True
    have "\<not> active (manager_of p i)" for i using ok none by (simp add: page_ok_def)
    with p1 True show ?thesis
      by (simp add: page_mount_def page_ok_def Let_def new_vm_wf)
  next
    case False
    with p1 none show ?thesis by (simp add: page_mount_def page_ok_def Let_def)
  qed
qed

lemma page_unmount_ok:
  assumes ok: "page_ok V p" and "mounted (net p)"
  shows "page_ok V (page_unmount P p)"
proof -
  let ?c = "ws_unmount (net p)"
  have c: "ws_reachable V ?c" using assms by (auto simp: page_ok_def intro: ws_reachable.step unmount)
  have wf: "vm_wf (vm_destroy P (manager_of p i))" for i
    using ok by (auto simp: page_ok_def vm_destroy_def wf_leave)
  have dead: "\<not> active (vm_destroy P st)" for st
    by (simp add: vm_destroy_def leaveChannel_def cleanup_fields)
  show ?thesis
    using ok c wf dead forward_reachable [OF c]
    by (auto simp: page_unmount_def page_ok_def run_segment_def Let_def split: option.split)
qed

lemma background_ok:
  "background a \<Longrightarrow> later st (fst (vm_apply P a st))"
  by (cases a) (simp_all add: vm_apply_def switchMicrophone_def)

lemma page_step_ok: "page_step V p q \<Longrightarrow> page_ok V p \<Longrightarrow> page_ok V q"
proof (induction rule: page_step.induct)
  case (p_frame p k P f)
  then have "page_ok V (p\<lparr>net := ws_frame V k f (net p)\<rparr>)"
    by (intro page_net_step) (auto intro: frame)
  then show ?case by (simp add: page_frame_def page_calls_ok)
next
  case (p_join p P rid cid ms)
  then show ?case by (rule page_join_ok)
next
  case (p_background a i p P)
  then show ?case by (intro run_segment_ok background_ok) (auto intro: wf_apply)
next
  case (p_audio P peer input p i st)
  then show ?case by (intro run_segment_ok) (auto intro: wf_relay later_relay)
next
  case (p_resume n p P result)
  then show ?case by (simp add: page_resume_ok)
qed (auto intro!: page_mount_ok page_unmount_ok page_net_step on_app_ok actions_ok
    intro: timer opened error closed send ui)

lemma page_reachable_ok: "page_reachable V p \<Longrightarrow> page_ok V p"
  by (induction rule: page_reachable.induct) (auto intro: page_ok_init page_step_ok)

end
