(* ===== verification/Signalling.thy ===== *)
theory Signalling
  imports Page
begin

text \<open>
  How two pages set up a connection: the relay of the server (\<open>server/client.go\<close>,
  \<open>server/hub.go\<close>), the frames it sends, and a method of the voice manager run to its end on a page.
\<close>

section \<open>The relay\<close>

text \<open>
  What the server knows of its clients: who is in a room, who is in a voice channel of it, who is
  connected.
\<close>

record hub =
  in_room :: "string \<Rightarrow> string \<Rightarrow> bool"
  in_channel :: "string \<Rightarrow> string \<Rightarrow> string \<Rightarrow> bool"
  online :: "string \<Rightarrow> bool"

definition relay_table :: "(string \<times> (string \<times> string)) list" where
  "relay_table =
     [(''voice_offer'', (''voice_offer_relay'', ''sdp'')),
      (''voice_answer'', (''voice_answer_relay'', ''sdp'')),
      (''voice_ice'', (''voice_ice_relay'', ''candidate''))]"

definition relay_frame :: "string \<Rightarrow> string \<Rightarrow> string \<Rightarrow> string \<Rightarrow> string \<Rightarrow> string \<Rightarrow> jsval" where
  "relay_frame t rid cid from_id key payload =
     JObj [(''type'', JStr t),
           (''data'', JObj [(''room_id'', JStr rid), (''channel_id'', JStr cid),
                          (''from_id'', JStr from_id), (key, JStr payload)])]"

text \<open>
  The frame a client sent, relayed: to whom, and as what. A property that is missing is the empty
  string, as Go decodes it.
\<close>

definition relay :: "hub \<Rightarrow> string \<Rightarrow> out_msg \<Rightarrow> (string \<times> jsval) option" where
  "relay h from_id m =
     (case m of Out t d \<Rightarrow>
        (case map_of relay_table t of
           None \<Rightarrow> None
         | Some (t', key) \<Rightarrow>
             let rid = str_or [] (js_prop d ''room_id''); cid = str_or [] (js_prop d ''channel_id'');
                 target = str_or [] (js_prop d ''target_id'')
             in if target = [] then None
                else if \<not> in_room h rid from_id \<or> \<not> in_channel h rid cid from_id then None
                else if \<not> online h target \<or> \<not> in_channel h rid cid target then None
                else Some (target, relay_frame t' rid cid from_id key (str_or [] (js_prop d key)))))"

definition in_call :: "hub \<Rightarrow> string \<Rightarrow> string \<Rightarrow> string \<Rightarrow> bool" where
  "in_call h rid cid i \<longleftrightarrow> i \<noteq> [] \<and> in_room h rid i \<and> in_channel h rid cid i \<and> online h i"

lemma relay_signal:
  assumes "in_call h rid cid a" and "in_call h rid cid b" and "vm_roomId st = rid" and "vm_channelId st = cid"
  shows "relay h a (Out ''voice_offer'' (signal_frame b ''sdp'' x st))
           = Some (b, relay_frame ''voice_offer_relay'' rid cid a ''sdp'' x)"
    and "relay h a (Out ''voice_answer'' (signal_frame b ''sdp'' x st))
           = Some (b, relay_frame ''voice_answer_relay'' rid cid a ''sdp'' x)"
    and "relay h a (Out ''voice_ice'' (signal_frame b ''candidate'' x st))
           = Some (b, relay_frame ''voice_ice_relay'' rid cid a ''candidate'' x)"
  using assms by (simp_all add: relay_def relay_table_def signal_frame_def in_call_def Let_def)

lemma on_relay_frame:
  "ws_onmessage V (Some (relay_frame ''voice_offer_relay'' rid cid i ''sdp'' x)) s = (s, [], [CallOffer i x])"
  "ws_onmessage V (Some (relay_frame ''voice_answer_relay'' rid cid i ''sdp'' x)) s = (s, [], [CallAnswer i x])"
  "ws_onmessage V (Some (relay_frame ''voice_ice_relay'' rid cid i ''candidate'' x)) s = (s, [], [CallIce i x])"
  by (simp_all add: ws_onmessage_def relay_frame_def ws_switch_def on_voice_offer_relay_def
      on_voice_answer_relay_def on_voice_ice_relay_def need_str_def Let_def)

section \<open>A method run to its end\<close>

text \<open>
  The method suspended at position \<open>n\<close> of the queue, resumed until it has returned, \<open>m\<close> times at
  most. Each resumption takes the entry out and appends the next one.
\<close>

fun page_settle :: "platform \<Rightarrow> (cont \<Rightarrow> await_result) \<Rightarrow> nat \<Rightarrow> nat \<Rightarrow> page \<Rightarrow> page" where
  "page_settle P answer n 0 p = p"
| "page_settle P answer n (Suc m) p =
     (if n < length (waiting p)
      then page_settle P answer n m (page_resume P n (answer (cont_of (waiting p ! n))) p)
      else p)"

lemma page_settle_done [simp]: "length (waiting p) \<le> n \<Longrightarrow> page_settle P answer n m p = p"
  by (cases m) auto

lemma forward_append: "forward (xs @ ys) c = forward ys (forward xs c)"
  by (simp add: forward_def)

lemma run_segment_twice:
  assumes "out_log st = out_log (manager_of p i) @ xs" and "out_log (fst r) = out_log st @ ys"
  shows "run_segment i r (run_segment i (st, None) p) = run_segment i r p"
  using assms by (simp add: run_segment_def await_on_def new_frames_def forward_append)

lemma page_settle_segment:
  "settle P answer m r = (st', None) \<Longrightarrow> out_log (fst r) = out_log (manager_of p i) @ xs \<Longrightarrow>
   page_settle P answer (length (waiting p)) m (run_segment i r p) = run_segment i (st', None) p"
proof (induction m arbitrary: r p xs)
  case 0
  then show ?case by simp
next
  case (Suc m)
  obtain st k where r: "r = (st, k)" by fastforce
  show ?case
  proof (cases k)
    case None
    with Suc.prems r show ?thesis by (simp add: run_segment_def await_on_def)
  next
    case (Some k')
    let ?r = "resume P k' (answer k') st"
    obtain ys where ys: "out_log (fst ?r) = out_log st @ ys"
      using later_resume [of st P k' "answer k'"] by (auto simp: later_def)
    have xs: "out_log st = out_log (manager_of p i) @ xs" using Suc.prems(2) r by simp
    have "page_resume P (length (waiting p)) (answer k') (run_segment i r p)
        = run_segment i ?r (run_segment i (st, None) p)"
      by (simp add: page_resume_def r Some run_segment_def await_on_def Let_def)
    also have "\<dots> = run_segment i ?r p" by (rule run_segment_twice [OF xs ys])
    finally have "page_settle P answer (length (waiting p)) (Suc m) (run_segment i r p)
        = page_settle P answer (length (waiting p)) m (run_segment i ?r p)"
      by (simp add: run_segment_def r Some await_on_def)
    moreover have "settle P answer m ?r = (st', None)" using Suc.prems(1) r Some by simp
    ultimately show ?thesis using Suc.IH [of ?r p "xs @ ys"] xs ys by simp
  qed
qed

lemma forward_open:
  "ws_ref c = Some k \<Longrightarrow> status (socket_of c k) = Open \<Longrightarrow>
   forward outs c = c\<lparr>sent := sent c @ map (Pair k) outs\<rparr>"
proof (induction outs arbitrary: c)
  case (Cons m outs)
  obtain t d where m: "m = Out t d" by (cases m)
  from Cons.prems have "ws_send t d c = c\<lparr>sent := sent c @ [(k, m)]\<rparr>" by (simp add: ws_send_def m)
  with Cons.IH [of "c\<lparr>sent := sent c @ [(k, m)]\<rparr>"] Cons.prems show ?case
    by (simp add: forward_def m)
qed (simp add: forward_def)

text \<open>The frame of the relay on a page, up to the end of the method it calls.\<close>

definition receive_relayed ::
  "platform \<Rightarrow> (cont \<Rightarrow> await_result) \<Rightarrow> nat \<Rightarrow> views \<Rightarrow> nat \<Rightarrow> jsval \<Rightarrow> page \<Rightarrow> page" where
  "receive_relayed P answer m V k f p = page_settle P answer (length (waiting p)) m (page_frame P V k (Some f) p)"

lemma receive_call:
  assumes "ws_onmessage V (Some f) (chat (net p)) = (chat (net p), [], [c])" and "vm_ref p = Some i"
    and "settle P answer m (call_manager P c (manager_of p i)) = (st', None)"
    and "later (manager_of p i) (fst (call_manager P c (manager_of p i)))"
  shows "receive_relayed P answer m V k f p
      = run_segment i (st', None) (p\<lparr>net := (net p)\<lparr>called := called (net p) @ [c]\<rparr>\<rparr>)"
proof -
  let ?p1 = "p\<lparr>net := (net p)\<lparr>called := called (net p) @ [c]\<rparr>\<rparr>"
  have "page_frame P V k (Some f) p = run_segment i (call_manager P c (manager_of p i)) ?p1"
    using assms(1,2) by (simp add: page_frame_def ws_frame_def page_call_def)
  moreover obtain xs where "out_log (fst (call_manager P c (manager_of p i))) = out_log (manager_of ?p1 i) @ xs"
    using assms(4) by (auto simp: later_def)
  ultimately show ?thesis
    using page_settle_segment [OF assms(3), of ?p1 i xs] by (simp add: receive_relayed_def)
qed

end
