(* ===== verification/SidebarUi.thy ===== *)
theory SidebarUi
  imports RoomStore NavStore Dispatch AppModel
begin

text \<open>
  The channel list of the context stack: \<open>Sidebar\<close>, \<open>RoomItem\<close>, \<open>VoiceChannelList\<close>,
  \<open>VoiceMemberItem\<close> and \<open>VoiceBar\<close> (\<open>web/src/components\<close>): what they show, computed from the
  store, and their handlers.
\<close>

section \<open>Rows of the list\<close>

definition first_upper :: "string \<Rightarrow> string" where
  "first_upper s = js_upper (take 1 s)"

text \<open>\<open>RoomItem\<close>; the time is the time stamp that \<open>formatTime\<close> prints.\<close>

record room_item =
  ri_letter :: string
  ri_name :: string
  ri_time :: "num option"
  ri_preview :: string
  ri_badge :: "nat option"
  ri_active :: bool

definition last_message :: "room \<Rightarrow> chat_message option" where
  "last_message r = (if messages r = [] then None else Some (last (messages r)))"

definition room_item_of :: "bool \<Rightarrow> room \<Rightarrow> room_item" where
  "room_item_of act r =
     \<lparr> ri_letter = first_upper (room_name r),
       ri_name = room_name r,
       ri_time = map_option timestamp (last_message r),
       ri_preview = (case last_message r of
                       Some m \<Rightarrow> sender_name m @ '': '' @ content m
                     | None \<Rightarrow> ''No messages yet''),
       ri_badge = (if 0 < unread r then Some (unread r) else None),
       ri_active = act \<rparr>"

text \<open>
  \<open>VoiceMemberItem\<close>. The list does not pass \<open>isSelfMuted\<close>, so it is an optional argument.
\<close>

record member_item =
  vmi_initials :: string
  vmi_name :: string
  vmi_you :: bool
  vmi_muted :: bool
  vmi_ring :: bool
  vmi_talking :: bool

definition member_initials :: "string \<Rightarrow> string" where
  "member_initials nm = js_upper (js_slice nm 0 2)"

definition member_item_of :: "bool \<Rightarrow> bool option \<Rightarrow> voice_member \<Rightarrow> member_item" where
  "member_item_of isSelf isSelfMuted m =
     (let mut = ((if isSelf then isSelfMuted else muted m) = Some True);
          nm = text_or ''?'' (vm_name m)
      in \<lparr> vmi_initials = member_initials nm, vmi_name = nm, vmi_you = isSelf, vmi_muted = mut,
           vmi_ring = (speaking m \<and> \<not> mut), vmi_talking = (\<not> mut \<and> speaking m) \<rparr>)"

section \<open>VoiceChannelList\<close>

datatype channel_click = LeaveChannel | JoinChannel string

record channel_item =
  ci_name :: string
  ci_separator :: bool
  ci_count :: "nat option"
  ci_inside :: bool
  ci_click :: channel_click
  ci_members :: "member_item list"

definition isInChannel :: "chat_state \<Rightarrow> string \<Rightarrow> string \<Rightarrow> bool" where
  "isInChannel s rid cid \<longleftrightarrow> activeVoice s = Some (rid, cid)"

definition channel_item_of :: "chat_state \<Rightarrow> string \<Rightarrow> nat \<Rightarrow> voice_channel \<Rightarrow> channel_item" where
  "channel_item_of s rid i c =
     (let inThis = isInChannel s rid (vc_id c); memberCount = length (vc_members c)
      in \<lparr> ci_name = text_or ''Voice'' (vc_name c),
           ci_separator = (0 < i),
           ci_count = (if 0 < memberCount then Some memberCount else None),
           ci_inside = inThis,
           ci_click = (if inThis then LeaveChannel else JoinChannel (vc_id c)),
           ci_members = map (\<lambda>m. member_item_of (vm_id m = userId s) None m) (vc_members c) \<rparr>)"

definition channel_items :: "chat_state \<Rightarrow> string \<Rightarrow> voice_channel list \<Rightarrow> channel_item list" where
  "channel_items s rid chs = map (\<lambda>(i, c). channel_item_of s rid i c) (enumerate 0 chs)"

text \<open>The form that makes a channel: the flag that shows it, and its text.\<close>

type_synonym channel_form = "bool \<times> string"

definition handleCreateChannel :: "channel_form \<Rightarrow> channel_form \<times> string option" where
  "handleCreateChannel f =
     (let trimmed = js_trim (snd f)
      in if trimmed \<noteq> [] then ((False, []), Some trimmed) else (f, None))"

definition channel_form_key :: "string \<Rightarrow> channel_form \<Rightarrow> channel_form \<times> string option" where
  "channel_form_key key f =
     (let (f1, made) = (if key = ''Enter'' then handleCreateChannel f else (f, None))
      in ((if key = ''Escape'' then (False, snd f1) else f1), made))"

section \<open>Sidebar\<close>

record sidebar =
  showDMPicker :: bool
  showCreateRoom :: bool
  newRoomName :: string
  newRoomPublic :: bool

definition init_sidebar :: sidebar where
  "init_sidebar = \<lparr> showDMPicker = False, showCreateRoom = False, newRoomName = [], newRoomPublic = True \<rparr>"

definition handleSelectRoom :: "string \<Rightarrow> chat_state \<Rightarrow> chat_state" where
  "handleSelectRoom rid s = pushContextRoute rid (setActiveRoom rid s)"

definition last_time :: "room \<Rightarrow> num" where
  "last_time r = (case last_message r of Some m \<Rightarrow> timestamp m | None \<Rightarrow> 0)"

definition is_dm :: "room \<Rightarrow> bool" where
  "is_dm r \<longleftrightarrow> isDM r = Some True"

text \<open>\<open>sort\<close> is stable and gets \<open>bLast - aLast\<close> for its order.\<close>

definition regularRooms :: "chat_state \<Rightarrow> room list" where
  "regularRooms s = sort_key (\<lambda>r. - last_time r) (filter (\<lambda>r. \<not> is_dm r) (js_values (rooms s)))"

definition dmRooms :: "chat_state \<Rightarrow> room list" where
  "dmRooms s = sort_key (\<lambda>r. - last_time r) (filter is_dm (js_values (rooms s)))"

text \<open>
  \<open>onlinePeers\<close>: the first peer with each id. The order \<open>localeCompare\<close> gives names depends on the
  locale; \<open>collate\<close> is its key.
\<close>

definition seen_step :: "mesh_peer \<Rightarrow> string list \<times> (string \<times> string \<times> string) list \<Rightarrow>
    string list \<times> (string \<times> string \<times> string) list" where
  "seen_step p acc =
     (if peer_id p \<in> set (fst acc) then acc
      else (fst acc @ [peer_id p], snd acc @ [(peer_id p, peer_name p, peer_short_id p)]))"

definition onlinePeers :: "(string \<Rightarrow> 'k::linorder) \<Rightarrow> chat_state \<Rightarrow> (string \<times> string \<times> string) list" where
  "onlinePeers collate s =
     sort_key (\<lambda>p. collate (fst (snd p))) (snd (fold seen_step (concat (js_values (meshPeers s))) ([], [])))"

definition discoverableRooms :: "chat_state \<Rightarrow> room_info_data list" where
  "discoverableRooms s =
     filter (\<lambda>r. info_room_id r \<notin> set (js_keys (rooms s))) (availableRooms s)"

definition handleStartDM :: "string \<Rightarrow> sidebar \<Rightarrow> sidebar \<times> out_msg list" where
  "handleStartDM target b =
     (b\<lparr>showDMPicker := False\<rparr>, [Out ''start_dm'' (JObj [(''target_id'', JStr target)])])"

definition handleCreateRoom :: "sidebar \<Rightarrow> sidebar \<times> out_msg list" where
  "handleCreateRoom b =
     (let name = js_trim (newRoomName b)
      in if name = [] then (b, [])
         else (b\<lparr>newRoomName := [], newRoomPublic := True, showCreateRoom := False\<rparr>,
               [Out ''create_room'' (JObj [(''name'', JStr name), (''is_public'', JBool (newRoomPublic b))])]))"

definition handleJoinDiscoveredRoom :: "string \<Rightarrow> out_msg" where
  "handleJoinDiscoveredRoom name = Out ''join_room'' (JObj [(''name'', JStr name)])"

definition cancelCreateRoom :: "sidebar \<Rightarrow> sidebar" where
  "cancelCreateRoom b = b\<lparr>showCreateRoom := False, newRoomName := [], newRoomPublic := True\<rparr>"

text \<open>What the list shows. The voice channels are those of the active room, if it is no DM.\<close>

record sidebar_view =
  sv_rooms :: "(room_item \<times> channel_item list option) list"
  sv_no_rooms :: bool
  sv_discover :: "(string \<times> num \<times> bool \<times> out_msg) list"
  sv_create :: "(string \<times> bool \<times> bool) option"
  sv_picker :: "(string \<times> string \<times> string \<times> string) list option"
  sv_no_dms :: bool
  sv_dms :: "room_item list"

definition room_channels :: "chat_state \<Rightarrow> room \<Rightarrow> channel_item list option" where
  "room_channels s r =
     (if Some (room_id r) = activeRoomId s
      then map_option (channel_items s (room_id r)) (js_get (voiceState s) (room_id r))
      else None)"

definition sidebar_view_of :: "(string \<Rightarrow> 'k::linorder) \<Rightarrow> chat_state \<Rightarrow> sidebar \<Rightarrow> sidebar_view" where
  "sidebar_view_of collate s b =
     \<lparr> sv_rooms = map (\<lambda>r. (room_item_of (Some (room_id r) = activeRoomId s) r, room_channels s r))
                    (regularRooms s),
       sv_no_rooms = (length (regularRooms s) = 0),
       sv_discover = map (\<lambda>i. (''# '' @ info_name i, info_members i, info_members i \<noteq> 1,
                               handleJoinDiscoveredRoom (info_name i))) (discoverableRooms s),
       sv_create = (if showCreateRoom b
                    then Some (newRoomName b, newRoomPublic b, js_trim (newRoomName b) = []) else None),
       sv_picker = (if showDMPicker b
                    then Some (map (\<lambda>(i, nm, sid). (i, first_upper nm, nm, sid)) (onlinePeers collate s))
                    else None),
       sv_no_dms = (length (dmRooms s) = 0 \<and> \<not> showDMPicker b),
       sv_dms = map (\<lambda>r. room_item_of (Some (room_id r) = activeRoomId s) r) (dmRooms s) \<rparr>"

text \<open>\<open>onJoinChannel\<close>: the members the channel has, handed to \<open>joinVoice\<close>.\<close>

definition joining_members :: "chat_state \<Rightarrow> string \<Rightarrow> string \<Rightarrow> voice_member list" where
  "joining_members s rid cid =
     (case find (\<lambda>c. vc_id c = cid)
             (case js_get (voiceState s) rid of Some chs \<Rightarrow> chs | None \<Rightarrow> []) of
        Some c \<Rightarrow> vc_members c
      | None \<Rightarrow> [])"

definition onJoinChannel :: "platform \<Rightarrow> string \<Rightarrow> string \<Rightarrow> app \<Rightarrow> app \<times> cont option" where
  "onJoinChannel P rid cid a = joinVoice P rid cid (joining_members (app_chat a) rid cid) a"

definition onCreateChannel :: "string \<Rightarrow> string \<Rightarrow> out_msg" where
  "onCreateChannel rid name =
     Out ''create_voice_channel'' (JObj [(''room_id'', JStr rid), (''name'', JStr name)])"

section \<open>VoiceBar\<close>

text \<open>
  The bar keeps a mute flag of its own. The bridge calls \<open>PeatLinkVoice.setVoiceMode\<close> and
  \<open>setMicMuted\<close> are listed when the bridge has the method.
\<close>

datatype bar_call = BridgeMode string | BridgeMute bool

record 'a bar =
  bar_muted :: bool
  bar_app :: 'a
  bar_calls :: "bar_call list"

definition keyLabel :: "string \<Rightarrow> string" where
  "keyLabel k =
     (if k = [] then ''Space'' else if k = '' '' then ''Space''
      else if length k = 1 then js_upper k else k)"

definition next_mode :: "string \<Rightarrow> string" where
  "next_mode mode =
     (let idx = index_of voice_modes mode
      in voice_modes ! nat ((idx + 1) mod int (length voice_modes)))"

definition cycleMode :: "bool \<Rightarrow> app bar \<Rightarrow> app bar" where
  "cycleMode bridge b =
     (let a = bar_app b;
          next = next_mode (voiceMode (app_settings a));
          a1 = a\<lparr>app_settings := setVoiceMode next (app_settings a)\<rparr>
      in b\<lparr>bar_app := handleModeChange next a1,
           bar_calls := bar_calls b @ (if bridge then [BridgeMode next] else [])\<rparr>)"

definition toggleMute :: "bool \<Rightarrow> app bar \<Rightarrow> app bar" where
  "toggleMute bridge b =
     (let newMuted = (\<not> bar_muted b)
      in b\<lparr>bar_muted := newMuted,
           bar_calls := bar_calls b @ (if bridge then [BridgeMute newMuted] else []),
           bar_app := handleMuteToggle newMuted (bar_app b)\<rparr>)"

definition MODE_LABELS :: "(string \<times> string) list" where
  "MODE_LABELS = [(''ptt'', ''PTT''), (''noise_gate'', ''GATE''), (''auto'', ''AUTO'')]"

datatype bar_dot = DotCritical | DotBrand | DotDim

record bar_view =
  bv_dot :: bar_dot
  bv_ping :: bool
  bv_channel :: string
  bv_muted :: bool
  bv_room :: string
  bv_members :: nat
  bv_mute_label :: string
  bv_mode :: string
  bv_key :: "string option"

definition bar_channel :: "chat_state \<Rightarrow> string \<Rightarrow> string \<Rightarrow> voice_channel option" where
  "bar_channel s rid cid =
     find (\<lambda>c. vc_id c = cid) (case js_get (voiceState s) rid of Some chs \<Rightarrow> chs | None \<Rightarrow> [])"

definition voice_bar :: "app bar \<Rightarrow> bar_view option" where
  "voice_bar b =
     (let s = app_chat (bar_app b); st = app_settings (bar_app b); mut = bar_muted b
      in case activeVoice s of
           None \<Rightarrow> None
         | Some (rid, cid) \<Rightarrow>
             (case js_get (rooms s) rid of
                None \<Rightarrow> None
              | Some r \<Rightarrow>
                  let ch = bar_channel s rid cid
                  in Some
                    \<lparr> bv_dot = (if mut then DotCritical else if localSpeaking s then DotBrand else DotDim),
                      bv_ping = (localSpeaking s \<and> \<not> mut),
                      bv_channel = text_or ''Voice Connected'' (case ch of Some c \<Rightarrow> vc_name c | None \<Rightarrow> []),
                      bv_muted = mut,
                      bv_room = room_name r,
                      bv_members = (case ch of Some c \<Rightarrow> length (vc_members c) | None \<Rightarrow> 0),
                      bv_mute_label = (if mut then ''Unmute mic'' else ''Mute mic''),
                      bv_mode = (case js_get MODE_LABELS (voiceMode st) of
                                   Some l \<Rightarrow> l | None \<Rightarrow> ''PTT''),
                      bv_key = (if voiceMode st = ''ptt'' then Some (keyLabel (pttKey st)) else None) \<rparr>))"

section \<open>Lemmas\<close>

lemma sort_key_desc: "sorted_wrt (\<lambda>a b. (f b :: num) \<le> f a) (sort_key (\<lambda>r. - f r) xs)"
  using sorted_sort_key [of "\<lambda>r. - f r" xs] by (simp add: sorted_map)

lemma regularRooms_set: "set (regularRooms s) = {r \<in> set (js_values (rooms s)). \<not> is_dm r}"
  by (simp add: regularRooms_def)

lemma dmRooms_set: "set (dmRooms s) = {r \<in> set (js_values (rooms s)). is_dm r}"
  by (simp add: dmRooms_def)

text \<open>The fold of \<open>onlinePeers\<close> lists each id once, the first of them first.\<close>

lemma seen_fold:
  "map fst ps = ids \<Longrightarrow> distinct ids \<Longrightarrow>
   (case fold seen_step xs (ids, ps) of (ids', ps') \<Rightarrow>
      map fst ps' = ids' \<and> distinct ids' \<and> set ids' = set ids \<union> peer_id ` set xs \<and>
      set ps' \<subseteq> set ps \<union> (\<lambda>p. (peer_id p, peer_name p, peer_short_id p)) ` set xs)"
proof (induction xs arbitrary: ids ps)
  case (Cons x xs)
  show ?case
  proof (cases "peer_id x \<in> set ids")
    case True
    then show ?thesis using Cons.IH [OF Cons.prems] by (auto simp: seen_step_def)
  next
    case False
    let ?p = "(peer_id x, peer_name x, peer_short_id x)"
    have "map fst (ps @ [?p]) = ids @ [peer_id x]" "distinct (ids @ [peer_id x])"
      using Cons.prems False by auto
    from Cons.IH [OF this] False show ?thesis by (auto simp: seen_step_def)
  qed
qed simp

lemma onlinePeers_facts:
  "distinct (map fst (onlinePeers collate s)) \<and>
   fst ` set (onlinePeers collate s) = peer_id ` set (concat (js_values (meshPeers s))) \<and>
   sorted (map (\<lambda>p. collate (fst (snd p))) (onlinePeers collate s))"
proof -
  let ?r = "fold seen_step (concat (js_values (meshPeers s))) ([], [])"
  have "map fst (snd ?r) = fst ?r \<and> distinct (fst ?r) \<and>
      set (fst ?r) = peer_id ` set (concat (js_values (meshPeers s)))"
    using seen_fold [of "[]" "[]" "concat (js_values (meshPeers s))"] by (auto split: prod.splits)
  then have d: "distinct (map fst (snd ?r))"
    and "fst ` set (snd ?r) = peer_id ` set (concat (js_values (meshPeers s)))"
    by (simp, metis list.set_map)
  then show ?thesis by (simp add: onlinePeers_def)
qed

lemma next_mode_cycle:
  "next_mode mode = (if mode = ''ptt'' then ''noise_gate'' else if mode = ''noise_gate'' then ''auto'' else ''ptt'')"
  by (auto simp: next_mode_def voice_modes_def Let_def)

end
