(* ===== verification/Calls.thy ===== *)
theory Calls
  imports Signalling SidebarUi
begin

text \<open>
  The channel list on the page: a click on a voice channel (\<open>VoiceChannelList.tsx\<close>, with the
  callbacks of \<open>Sidebar.tsx\<close> and the actions of \<open>App.tsx\<close>), and \<open>joinVoice\<close> run to its end on the page.
\<close>

definition click_channel :: "platform \<Rightarrow> string \<Rightarrow> voice_channel \<Rightarrow> page \<Rightarrow> page" where
  "click_channel P rid c p =
     (case ci_click (channel_item_of (chat (net p)) rid 0 c) of
        LeaveChannel \<Rightarrow> on_app (leaveVoice P) p
      | JoinChannel cid \<Rightarrow> page_join P rid cid (joining_members (chat (net p)) rid cid) p)"

section \<open>\<open>joinVoice\<close> on the page\<close>

definition join_segment :: "string \<Rightarrow> string \<Rightarrow> nat \<Rightarrow> suspended \<Rightarrow> page \<Rightarrow> page" where
  "join_segment rid cid i r p =
     (let (a, k) = joinVoice_step rid cid r (app_view (Some i) p); p' = put_app (Some i) a p
      in p'\<lparr>waiting := waiting p' @ await_on i (Some (rid, cid)) k\<rparr>)"

lemma page_join_segment:
  "vm_ref p = Some i \<Longrightarrow>
   page_join P rid cid ms p = join_segment rid cid i (joinChannel P (page_settings p) rid cid ms (manager_of p i)) p"
  by (simp add: page_join_def join_segment_def joinVoice_def app_view_def)

lemma app_view_twice:
  "app_view (Some i) (put_app (Some i) ((app_view (Some i) p)\<lparr>app_vm := Some st\<rparr>) p)
     = (app_view (Some i) p)\<lparr>app_vm := Some st\<rparr>"
  by (simp add: app_view_def put_app_def)

lemma put_app_twice:
  assumes "app_vm a = Some st'" and "app_out a = []"
    and "out_log st = out_log (manager_of p i) @ xs" and "out_log st' = out_log st @ ys"
  shows "put_app (Some i) a (put_app (Some i) ((app_view (Some i) p)\<lparr>app_vm := Some st\<rparr>) p) = put_app (Some i) a p"
proof -
  have f: "forward ys ((forward xs c)\<lparr>chat := s\<rparr>) = (forward ys (forward xs c))\<lparr>chat := s\<rparr>" for c s
  proof (induction ys arbitrary: c xs)
    case (Cons m ys)
    obtain t d where m: "m = Out t d" by (cases m)
    have "ws_send t d (b\<lparr>chat := s\<rparr>) = (ws_send t d b)\<lparr>chat := s\<rparr>" for b
      by (simp add: ws_send_def split: option.split)
    then have "forward (m # ys) ((forward xs c)\<lparr>chat := s\<rparr>) = forward ys ((forward (xs @ [m]) c)\<lparr>chat := s\<rparr>)"
      by (simp add: forward_def m)
    also have "\<dots> = (forward ys (forward (xs @ [m]) c))\<lparr>chat := s\<rparr>" by (rule Cons.IH)
    finally show ?case by (simp add: forward_def)
  qed (simp add: forward_def)
  from assms show ?thesis
    by (simp add: put_app_def app_view_def new_frames_def forward_append f)
qed

lemma joinVoice_done_log:
  "app_vm a = Some st \<Longrightarrow> \<exists>st'. app_vm (joinVoice_done rid cid a) = Some st' \<and> out_log st' = out_log st"
  "app_out (joinVoice_done rid cid a) = app_out a"
  by (auto simp: joinVoice_done_def startNoiseGate_def Let_def split: option.split)

lemma page_settle_join:
  "settle P answer m r = (st', None) \<Longrightarrow> out_log (fst r) = out_log (manager_of p i) @ xs \<Longrightarrow>
   page_settle P answer (length (waiting p)) m (join_segment rid cid i r p)
     = put_app (Some i) (joinVoice_done rid cid ((app_view (Some i) p)\<lparr>app_vm := Some st'\<rparr>)) p"
proof (induction m arbitrary: r xs)
  case 0
  then show ?case by (simp add: join_segment_def joinVoice_step_def await_on_def)
next
  case (Suc m)
  obtain st k where r: "r = (st, k)" by fastforce
  have w: "waiting (put_app (Some i) a q) = waiting q" for a q by (simp add: put_app_def split: option.split)
  show ?case
  proof (cases k)
    case None
    with Suc.prems r show ?thesis
      by (simp add: join_segment_def joinVoice_step_def await_on_def w)
  next
    case (Some k')
    let ?r = "resume P k' (answer k') st" and ?a = "(app_view (Some i) p)\<lparr>app_vm := Some st\<rparr>"
    let ?p1 = "put_app (Some i) ?a p"
    obtain ys where ys: "out_log (fst ?r) = out_log st @ ys"
      using later_resume [of st P k' "answer k'"] by (auto simp: later_def)
    have xs: "out_log st = out_log (manager_of p i) @ xs" using Suc.prems(2) r by simp
    have seg: "join_segment rid cid i r p = ?p1\<lparr>waiting := waiting p @ [\<lparr>owner = i, cont_of = k', joining = Some (rid, cid)\<rparr>]\<rparr>"
      by (simp add: join_segment_def joinVoice_step_def r Some await_on_def w)
    have same: "?p1\<lparr>waiting := waiting p\<rparr> = ?p1" by (simp add: put_app_def app_view_def)
    have "page_resume P (length (waiting p)) (answer k') (join_segment rid cid i r p)
        = (let (a, k) = joinVoice_step rid cid ?r ?a; p' = put_app (Some i) a ?p1
           in p'\<lparr>waiting := waiting p' @ await_on i (Some (rid, cid)) k\<rparr>)"
      unfolding seg by (simp add: page_resume_def joinVoice_resume_def same app_view_twice)
    also have "\<dots> = join_segment rid cid i ?r p"
    proof -
      obtain st2 k2 where r2: "?r = (st2, k2)" by fastforce
      have "put_app (Some i) (fst (joinVoice_step rid cid ?r ?a)) ?p1
          = put_app (Some i) (fst (joinVoice_step rid cid ?r (app_view (Some i) p))) p"
      proof (cases k2)
        case None
        let ?d = "joinVoice_done rid cid ((app_view (Some i) p)\<lparr>app_vm := Some st2\<rparr>)"
        obtain st3 where "app_vm ?d = Some st3" "out_log st3 = out_log st2"
          using joinVoice_done_log(1) [of "(app_view (Some i) p)\<lparr>app_vm := Some st2\<rparr>" st2] by auto
        moreover have "app_out ?d = []" by (simp add: joinVoice_done_log app_view_def)
        ultimately show ?thesis
          using put_app_twice [where a = ?d and i = i and p = p, OF _ _ xs] ys r2 None
          by (simp add: joinVoice_step_def)
      next
        case (Some k3)
        then show ?thesis
          using put_app_twice [where a = "(app_view (Some i) p)\<lparr>app_vm := Some st2\<rparr>" and i = i and p = p, OF _ _ xs] ys r2
          by (simp add: joinVoice_step_def) (simp add: app_view_def)
      qed
      moreover have "snd (joinVoice_step rid cid ?r ?a) = snd (joinVoice_step rid cid ?r (app_view (Some i) p))"
        by (simp add: joinVoice_step_def split: prod.split option.split)
      ultimately show ?thesis by (simp add: join_segment_def case_prod_beta Let_def w)
    qed
    finally have go: "page_settle P answer (length (waiting p)) (Suc m) (join_segment rid cid i r p)
        = page_settle P answer (length (waiting p)) m (join_segment rid cid i ?r p)"
      by (simp add: seg w)
    have "settle P answer m ?r = (st', None)" using Suc.prems(1) r Some by simp
    then show ?thesis unfolding go by (rule Suc.IH) (use xs ys in simp)
  qed
qed

section \<open>A click on a channel\<close>

lemma joining_members_of:
  assumes "channels_wf chs" and "js_get (voiceState s) rid = Some chs" and "c \<in> set chs"
  shows "joining_members s rid (vc_id c) = vc_members c"
proof -
  have "find (\<lambda>d. vc_id d = vc_id c) chs = Some c"
    using assms(1,3) by (induction chs) (auto simp: channels_wf_def)
  with assms(2) show ?thesis by (simp add: joining_members_def)
qed

lemma click_joins:
  "activeVoice (chat (net p)) \<noteq> Some (rid, vc_id c) \<Longrightarrow>
   click_channel P rid c p = page_join P rid (vc_id c) (joining_members (chat (net p)) rid (vc_id c)) p"
  by (simp add: click_channel_def channel_item_of_def isInChannel_def Let_def)

lemma click_leaves:
  "activeVoice (chat (net p)) = Some (rid, vc_id c) \<Longrightarrow> click_channel P rid c p = on_app (leaveVoice P) p"
  by (simp add: click_channel_def channel_item_of_def isInChannel_def Let_def)

text \<open>The page after \<open>joinVoice\<close> has returned.\<close>

lemma page_join_run:
  assumes "vm_ref p = Some i" and "rtc_ok P" and "offers_answered answer sdp"
    and "length ms + 2 \<le> n" and "\<not> is_gate_mode (voiceMode (page_settings p))"
  shows "\<exists>q st s. page_settle P answer (length (waiting p)) n (page_join P rid cid ms p) = q \<and>
     q = p\<lparr>net := (forward (leave_msgs (manager_of p i) @ Out ''join_voice'' (channel_frame rid cid)
                            # map (offer_msg rid cid sdp) (webrtc_ids ms)) (net p))\<lparr>chat := s\<rparr>,
            manager_of := (manager_of p)(i := st)\<rparr> \<and>
     active st \<and> localMicMuted st \<and> vm_roomId st = rid \<and> vm_channelId st = cid \<and>
     activeVoice s = Some (rid, cid) \<and> voice_fields (chat (net p)) s"
proof -
  let ?st = "manager_of p i" and ?r = "joinChannel P (page_settings p) rid cid ms (manager_of p i)"
  from join_run [OF assms(2-4), of "page_settings p" rid cid ?st] obtain st where
    st: "settle P answer n ?r = (st, None)" "active st" "localMicMuted st" "vm_roomId st = rid" "vm_channelId st = cid"
      "out_log st = out_log ?st @ leave_msgs ?st @ Out ''join_voice'' (channel_frame rid cid)
                            # map (offer_msg rid cid sdp) (webrtc_ids ms)"
    by auto
  obtain xs where xs: "out_log (fst ?r) = out_log ?st @ xs" using join_log [of P "page_settings p"] by blast
  have run: "page_settle P answer (length (waiting p)) n (page_join P rid cid ms p)
      = put_app (Some i) (joinVoice_done rid cid ((app_view (Some i) p)\<lparr>app_vm := Some st\<rparr>)) p"
    unfolding page_join_segment [OF assms(1)] by (rule page_settle_join [OF st(1) xs])
  define s where "s = (if listenOnly st then setVoiceError (Some LISTEN_ONLY_ERROR) (setActiveVoice rid cid (chat (net p)))
                       else setActiveVoice rid cid (chat (net p)))"
  have after: "joinVoice_done rid cid ((app_view (Some i) p)\<lparr>app_vm := Some st\<rparr>)
      = (app_view (Some i) p)\<lparr>app_vm := Some st, app_chat := s\<rparr>"
    using assms(5) by (simp add: joinVoice_done_def app_view_def on_chat_def s_def Let_def)
  have s: "activeVoice s = Some (rid, cid)" "voice_fields (chat (net p)) s"
    by (auto simp: s_def setActiveVoice_def setVoiceError_def intro: voice_fields_trans)
       (metis setActiveVoice_def setVoiceError_def voice_fields_intro(2,6) voice_fields_trans)+
  show ?thesis
    unfolding run after using st s
    by (intro exI [of _ st] exI [of _ s] exI conjI refl) (auto simp: put_app_def app_view_def new_frames_def)
qed

end
