(* ===== verification/Keys.thy ===== *)
theory Keys
  imports Page
begin

text \<open>
  Push-to-talk by keyboard on the page: the call \<open>usePTT(send, voiceManagerRef.current)\<close> of
  \<open>App.tsx\<close>. The hook sees the manager that the reference held when the root component rendered,
  runs its effect again when one of its dependencies has changed, and its handlers act on the page
  in the meantime with the values of the last run.
\<close>

section \<open>State\<close>

record key_deps =
  kd_active :: "(string \<times> string) option"
  kd_key :: string
  kd_vm :: "nat option"
  kd_user :: string
  kd_name :: string

text \<open>
  \<open>last_deps\<close> are the dependencies of the last run of the effect, \<open>hears\<close> says that this run has
  installed the handlers, \<open>burst\<close> is its variable \<open>speaking\<close>.
\<close>

record key_hook =
  last_deps :: "key_deps option"
  hears :: bool
  burst :: bool

definition init_hook :: key_hook where
  "init_hook = \<lparr> last_deps = None, hears = False, burst = False \<rparr>"

definition render_deps :: "nat option \<Rightarrow> page \<Rightarrow> key_deps" where
  "render_deps r p =
     \<lparr> kd_active = activeVoice (chat (net p)), kd_key = pttKey (page_settings p), kd_vm = r,
       kd_user = userId (chat (net p)), kd_name = displayName (chat (net p)) \<rparr>"

definition closure_of :: "key_deps \<Rightarrow> ptt_closure" where
  "closure_of d =
     (let (rid, cid) = (case kd_active d of Some x \<Rightarrow> x | None \<Rightarrow> ([], []))
      in \<lparr> c_room = rid, c_channel = cid, c_key = kd_key d, c_user = kd_user d, c_name = kd_name d \<rparr>)"

section \<open>The handlers on the page\<close>

definition ptt_view :: "nat option \<Rightarrow> page \<Rightarrow> key_hook \<Rightarrow> voice_manager ptt" where
  "ptt_view r p h =
     \<lparr> bursting = burst h, device = map_option (manager_of p) r, ptt_chat = chat (net p), ptt_out = [],
       ptt_calls = page_calls p \<rparr>"

definition put_ptt :: "nat option \<Rightarrow> voice_manager ptt \<Rightarrow> page \<Rightarrow> page" where
  "put_ptt r q p =
     put_app r \<lparr> app_vm = device q, app_chat = ptt_chat q, app_settings = page_settings p,
                 app_out = ptt_out q, app_calls = ptt_calls q \<rparr> p"

definition on_ptt ::
  "(ptt_closure \<Rightarrow> voice_manager ptt \<Rightarrow> voice_manager ptt) \<Rightarrow> page \<times> key_hook \<Rightarrow> page \<times> key_hook" where
  "on_ptt f s =
     (case last_deps (snd s) of
        None \<Rightarrow> s
      | Some d \<Rightarrow>
          if hears (snd s)
          then let q = f (closure_of d) (ptt_view (kd_vm d) (fst s) (snd s))
               in (put_ptt (kd_vm d) q (fst s), (snd s)\<lparr>burst := bursting q\<rparr>)
          else s)"

definition key_event :: "platform \<Rightarrow> ptt_event \<Rightarrow> page \<times> key_hook \<Rightarrow> page \<times> key_hook" where
  "key_event P e = on_ptt (\<lambda>c. ptt_handle setMuted (hasBleVoice P) c e)"

section \<open>The effect\<close>

definition keys_cleanup :: "platform \<Rightarrow> page \<times> key_hook \<Rightarrow> page \<times> key_hook" where
  "keys_cleanup P s =
     (let (p, h) = on_ptt (ptt_cleanup setMuted (hasBleVoice P)) s in (p, h\<lparr>hears := False, burst := False\<rparr>))"

text \<open>
  \<open>fresh\<close> says that the object \<open>activeVoice\<close> is another one than at the last run, though its fields
  may be the same; \<open>r\<close> is the manager seen at the render.
\<close>

definition keys_effect :: "platform \<Rightarrow> nat option \<Rightarrow> bool \<Rightarrow> page \<times> key_hook \<Rightarrow> page \<times> key_hook" where
  "keys_effect P r fresh s =
     (let d = render_deps r (fst s)
      in if last_deps (snd s) = Some d \<and> \<not> fresh then s
         else let (p, h) = keys_cleanup P s
              in (p, h\<lparr>last_deps := Some d,
                       hears := ptt_installs (kd_active d) (kd_vm d \<noteq> None) (hasBleVoice P),
                       burst := False\<rparr>))"

text \<open>A render of the root component and its effects; mounting it renders before the manager is made.\<close>

definition keys_commit :: "platform \<Rightarrow> bool \<Rightarrow> page \<times> key_hook \<Rightarrow> page \<times> key_hook" where
  "keys_commit P fresh s = keys_effect P (vm_ref (fst s)) fresh s"

definition keyed_mount :: "platform \<Rightarrow> bool \<Rightarrow> page \<times> key_hook \<Rightarrow> page \<times> key_hook" where
  "keyed_mount P constructs s = keys_effect P (vm_ref (fst s)) True (page_mount constructs (fst s), init_hook)"

definition keyed_unmount :: "platform \<Rightarrow> page \<times> key_hook \<Rightarrow> page \<times> key_hook" where
  "keyed_unmount P s = (fst (keys_cleanup P (page_unmount P (fst s), snd s)), init_hook)"

inductive keyed_step :: "views \<Rightarrow> page \<times> key_hook \<Rightarrow> page \<times> key_hook \<Rightarrow> bool" for V :: views where
  k_mount: "\<not> mounted (net (fst s)) \<Longrightarrow> keyed_step V s (keyed_mount P constructs s)"
| k_unmount: "mounted (net (fst s)) \<Longrightarrow> keyed_step V s (keyed_unmount P s)"
| k_page: "page_step V (fst s) q \<Longrightarrow> mounted (net (fst s)) = mounted (net q) \<Longrightarrow> keyed_step V s (q, snd s)"
| k_commit: "mounted (net (fst s)) \<Longrightarrow> keyed_step V s (keys_commit P fresh s)"
| k_event: "keyed_step V s (key_event P e s)"

inductive keyed_reachable :: "views \<Rightarrow> page \<times> key_hook \<Rightarrow> bool" for V :: views where
  k_start: "keyed_reachable V (init_page cfg, init_hook)"
| k_next: "keyed_reachable V s \<Longrightarrow> keyed_step V s t \<Longrightarrow> keyed_reachable V t"

section \<open>The handlers keep the page well formed\<close>

text \<open>What a handler changes of the manager it closes over and of the store.\<close>

lemma ptt_handle_ok:
  "voice_fields (ptt_chat q) (ptt_chat (ptt_handle setMuted ble c e q))"
  "device q = None \<Longrightarrow> device (ptt_handle setMuted ble c e q) = None"
  "device q = Some st \<Longrightarrow> \<exists>st'. device (ptt_handle setMuted ble c e q) = Some st' \<and>
     (vm_wf st \<longrightarrow> vm_wf st') \<and> later st st'"
  by (cases e; simp add: handleKeyDown_def handleKeyUp_def handleTouchStart_def handleTouchEnd_def
      ptt_press_def ptt_release_def wf_setMuted)+

lemma ptt_cleanup_ok:
  "voice_fields (ptt_chat q) (ptt_chat (ptt_cleanup setMuted ble c q))"
  "device q = None \<Longrightarrow> device (ptt_cleanup setMuted ble c q) = None"
  "device q = Some st \<Longrightarrow> \<exists>st'. device (ptt_cleanup setMuted ble c q) = Some st' \<and>
     (vm_wf st \<longrightarrow> vm_wf st') \<and> later st st'"
  by (simp_all add: ptt_cleanup_def ptt_release_def wf_setMuted)

lemma on_ptt_ok:
  assumes ok: "page_ok V (fst s)"
    and f: "\<And>c q. voice_fields (ptt_chat q) (ptt_chat (f c q))" "\<And>c q. device q = None \<Longrightarrow> device (f c q) = None"
      "\<And>c q st. device q = Some st \<Longrightarrow> \<exists>st'. device (f c q) = Some st' \<and> (vm_wf st \<longrightarrow> vm_wf st') \<and> later st st'"
  shows "page_ok V (fst (on_ptt f s))"
proof -
  have "page_ok V (put_ptt r (f c (ptt_view r (fst s) h)) (fst s))" for r c h
    unfolding put_ptt_def
  proof (rule put_app_action [OF ok])
    let ?q = "ptt_view r (fst s) h"
    show "app_ok (app_view r (fst s)) \<lparr> app_vm = device (f c ?q), app_chat = ptt_chat (f c ?q),
            app_settings = page_settings (fst s), app_out = ptt_out (f c ?q), app_calls = ptt_calls (f c ?q) \<rparr>"
      using f(1) [of ?q c] f(2) [of ?q c] f(3) [of ?q _ c]
      by (cases r) (auto simp: app_ok_def app_view_def ptt_view_def)
  qed
  with ok show ?thesis by (auto simp: on_ptt_def Let_def split: option.split)
qed

lemma on_ptt_keeps [simp]:
  "mounted (net (fst (on_ptt f s))) = mounted (net (fst s))" "vm_ref (fst (on_ptt f s)) = vm_ref (fst s)"
  "next_manager (fst (on_ptt f s)) = next_manager (fst s)" "last_deps (snd (on_ptt f s)) = last_deps (snd s)"
  "hears (snd (on_ptt f s)) = hears (snd s)" "page_settings (fst (on_ptt f s)) = page_settings (fst s)"
  "waiting (fst (on_ptt f s)) = waiting (fst s)"
  by (auto simp: on_ptt_def put_ptt_def put_app_def Let_def split: option.split)

text \<open>The store and the manager after a handler that releases.\<close>

lemma on_ptt_chat:
  "voice_fields (chat (net (fst s))) (chat (net (fst (on_ptt f s))))"
  if "\<And>c q. voice_fields (ptt_chat q) (ptt_chat (f c q))"
  using that by (auto simp: on_ptt_def put_ptt_def put_app_def ptt_view_def Let_def split: option.split)
    (metis ptt.select_convs(3))+

lemma voice_fields_same:
  "voice_fields s t \<Longrightarrow> userId t = userId s \<and> displayName t = displayName s"
  by (auto simp: voice_fields_def)

section \<open>The invariant of the page with its keyboard\<close>

definition keyed_ok :: "views \<Rightarrow> page \<times> key_hook \<Rightarrow> bool" where
  "keyed_ok V s \<longleftrightarrow>
     page_ok V (fst s) \<and>
     (burst (snd s) \<longrightarrow> hears (snd s)) \<and>
     (hears (snd s) \<longrightarrow> mounted (net (fst s)) \<and> (\<exists>d. last_deps (snd s) = Some d \<and> kd_active d \<noteq> None)) \<and>
     (\<forall>d. last_deps (snd s) = Some d \<longrightarrow> kd_vm d = None \<or> kd_vm d = vm_ref (fst s))"

lemma keyed_event_ok: "keyed_ok V s \<Longrightarrow> keyed_ok V (key_event P e s)"
proof -
  assume s: "keyed_ok V s"
  have "page_ok V (fst (key_event P e s))"
    unfolding key_event_def by (rule on_ptt_ok) (use s in \<open>auto simp: keyed_ok_def ptt_handle_ok\<close>)
  moreover have "burst (snd (key_event P e s)) \<longrightarrow> burst (snd s) \<or> hears (snd s)"
    by (auto simp: key_event_def on_ptt_def Let_def split: option.split)
  ultimately show ?thesis using s by (auto simp: keyed_ok_def key_event_def)
qed

lemma keys_cleanup_keeps [simp]:
  "mounted (net (fst (keys_cleanup P s))) = mounted (net (fst s))"
  "vm_ref (fst (keys_cleanup P s)) = vm_ref (fst s)"
  "last_deps (snd (keys_cleanup P s)) = last_deps (snd s)"
  "\<not> hears (snd (keys_cleanup P s))" "\<not> burst (snd (keys_cleanup P s))"
  by (simp_all add: keys_cleanup_def case_prod_beta)

lemma keys_cleanup_ok: "page_ok V (fst s) \<Longrightarrow> page_ok V (fst (keys_cleanup P s))"
  unfolding keys_cleanup_def case_prod_beta Let_def fst_conv
  by (rule on_ptt_ok) (auto simp: ptt_cleanup_ok)

lemma keys_effect_ok:
  assumes s: "keyed_ok V s" and "mounted (net (fst s))" and "r = None \<or> r = vm_ref (fst s)"
  shows "keyed_ok V (keys_effect P r fresh s)"
proof -
  have "page_ok V (fst (keys_cleanup P s))" using s by (simp add: keyed_ok_def keys_cleanup_ok)
  with assms show ?thesis
    by (auto simp: keys_effect_def keyed_ok_def render_deps_def ptt_installs_def Let_def case_prod_beta)
qed

lemma page_mount_mounted [simp]: "mounted (net (page_mount c p))"
  by (simp add: page_mount_def ws_mount_def ws_connect_def detach_current_def Let_def split: option.split)

lemma page_step_ref:
  assumes "page_step V p q" and "mounted (net p) = mounted (net q)"
  shows "vm_ref q = vm_ref p"
proof -
  have app: "vm_ref (put_app r a p) = vm_ref p" for r a p by (auto simp: put_app_def split: option.split)
  have call: "vm_ref (fold (page_call P) cs p) = vm_ref p" for P cs p
    by (induction cs arbitrary: p) (auto simp: page_call_def run_segment_def split: option.split)
  show ?thesis
    using assms
  proof (induction rule: page_step.induct)
    case (p_unmount p P)
    then show ?case by (auto simp: page_unmount_def ws_unmount_def detach_current_def Let_def run_segment_def
          split: option.splits)
  qed (auto simp: page_frame_def call page_join_def
      on_app_def app run_segment_def page_resume_def Let_def case_prod_beta split: option.split)
qed

lemma keyed_step_ok: "keyed_step V s t \<Longrightarrow> keyed_ok V s \<Longrightarrow> keyed_ok V t"
proof (induction rule: keyed_step.induct)
  case (k_mount s P c)
  have "vm_ref (fst s) = None" using k_mount by (cases "vm_ref (fst s)") (auto simp: keyed_ok_def page_ok_def)
  moreover have "keyed_ok V (page_mount c (fst s), init_hook)"
    using k_mount page_mount_ok [of V "fst s" c] by (simp add: keyed_ok_def init_hook_def)
  ultimately show ?case by (simp add: keyed_mount_def keys_effect_ok)
next
  case (k_unmount s P)
  then have "page_ok V (page_unmount P (fst s))" by (simp add: keyed_ok_def page_unmount_ok)
  then show ?case by (simp add: keyed_unmount_def keyed_ok_def init_hook_def keys_cleanup_ok)
next
  case (k_page s q)
  then have "page_ok V q" "vm_ref q = vm_ref (fst s)"
    by (auto simp: keyed_ok_def intro: page_step_ok page_step_ref)
  with k_page show ?case by (simp add: keyed_ok_def)
next
  case (k_commit s P fresh)
  then show ?case by (simp add: keys_commit_def keys_effect_ok)
next
  case (k_event s P e)
  then show ?case by (rule keyed_event_ok)
qed

lemma keyed_reachable_ok: "keyed_reachable V s \<Longrightarrow> keyed_ok V s"
proof (induction rule: keyed_reachable.induct)
  case (k_start cfg)
  then show ?case by (simp add: keyed_ok_def init_hook_def page_ok_init)
qed (rule keyed_step_ok)

section \<open>The end of a burst\<close>

text \<open>Cleaning up while a burst is on does what letting the key go does.\<close>

definition released :: "platform \<Rightarrow> key_deps \<Rightarrow> page \<times> key_hook \<Rightarrow> page" where
  "released P d s =
     put_ptt (kd_vm d) (ptt_release setMuted (hasBleVoice P) (closure_of d) (ptt_view (kd_vm d) (fst s) (snd s))) (fst s)"

lemma cleanup_released:
  assumes "last_deps (snd s) = Some d"
  shows "fst (keys_cleanup P s) =
     (if hears (snd s)
      then if burst (snd s) then released P d s else put_ptt (kd_vm d) (ptt_view (kd_vm d) (fst s) (snd s)) (fst s)
      else fst s)"
  using assms by (simp add: keys_cleanup_def on_ptt_def ptt_cleanup_def released_def ptt_view_def
      case_prod_beta Let_def)

lemma put_ptt_same [simp]: "put_ptt r (ptt_view r p h) p = p"
  by (auto simp: put_ptt_def put_app_def ptt_view_def new_frames_def split: option.split)

lemma released_fields:
  "chat (net (released P d s)) = setLocalSpeaking False (chat (net (fst s)))"
  "page_calls (released P d s) = page_calls (fst s) @ (if hasBleVoice P then [StopPtt] else [])"
  "kd_vm d = Some i \<Longrightarrow> localMicMuted (manager_of (released P d s) i)"
  "net (released P d s) =
     (forward [ptt_frame (closure_of d) False] (net (fst s)))\<lparr>chat := setLocalSpeaking False (chat (net (fst s)))\<rparr>"
  by (cases "kd_vm d"; simp add: released_def put_ptt_def put_app_def ptt_release_def ptt_view_def new_frames_def)+

lemma cleanup_chat:
  "chat (net (fst (keys_cleanup P s))) = chat (net (fst s)) \<or>
   chat (net (fst (keys_cleanup P s))) = setLocalSpeaking False (chat (net (fst s)))"
proof (cases "last_deps (snd s)")
  case None
  then show ?thesis by (simp add: keys_cleanup_def on_ptt_def case_prod_beta)
next
  case (Some d)
  then show ?thesis by (simp add: cleanup_released released_fields)
qed

lemma commit_deps:
  "last_deps (snd (keys_commit P fresh s)) = Some (render_deps (vm_ref (fst s)) (fst (keys_commit P fresh s)))"
proof -
  have "render_deps r (fst (keys_cleanup P s)) = render_deps r (fst s)" for r
  proof -
    have "page_settings (fst (keys_cleanup P s)) = page_settings (fst s)"
      by (simp add: keys_cleanup_def case_prod_beta)
    with cleanup_chat [of P s] show ?thesis by (auto simp: render_deps_def setLocalSpeaking_def)
  qed
  then show ?thesis by (auto simp: keys_commit_def keys_effect_def Let_def case_prod_beta)
qed

lemma commit_reruns:
  assumes "last_deps (snd s) = Some d" and "kd_active d \<noteq> activeVoice (chat (net (fst s)))"
  shows "fst (keys_commit P fresh s) = fst (keys_cleanup P s)" "\<not> burst (snd (keys_commit P fresh s))"
    "hears (snd (keys_commit P fresh s)) \<longleftrightarrow>
       ptt_installs (activeVoice (chat (net (fst s)))) (vm_ref (fst s) \<noteq> None) (hasBleVoice P)"
  using assms by (auto simp: keys_commit_def keys_effect_def render_deps_def Let_def case_prod_beta)

text \<open>
  The button of the call strip and the key do not know of each other: pressing and releasing the
  button closes the microphone while the key is still held, and the repeats of the key do not open
  it again.
\<close>

lemma button_closes_key_burst:
  assumes "vm_ref p = Some i" and "active (manager_of p i)" and "activeVoice (chat (net p)) = Some x"
    and "burst h" and "hears h" and "last_deps h = Some d"
  shows "let q = on_app (handlePTTEnd P) (on_app (handlePTTStart P) p) in
     localMicMuted (manager_of q i) \<and> \<not> localSpeaking (chat (net q)) \<and>
     key_event P (KeyDown (kd_key d) True False) (q, h) = (q, h)"
proof -
  obtain rid cid where x: "x = (rid, cid)" by fastforce
  have key: "key_event P (KeyDown (kd_key d) True False) (q, h) = (q, h)" for q
    using assms by (simp add: key_event_def on_ptt_def handleKeyDown_def Let_def) (simp add: ptt_view_def)
  from assms x show ?thesis
    by (auto simp: key on_app_def put_app_def app_view_def
        handlePTTStart_def handlePTTEnd_def vm_is_active_def setActiveVoice_def setLocalSpeaking_def
        ptt_view_def closure_of_def Let_def split: prod.split)
qed

end
