(* ===== verification/PageProps.thy ===== *)
theory PageProps
  imports Calls Keys VoiceProps
begin

text \<open>
  Properties of the whole page and of two pages in a call: the invariant of \<open>Page\<close> and \<open>Keys\<close>, how a
  burst on the keyboard ends, what a peer's leaving does on both sides, and the exchange of offer and
  answer through the server.
\<close>

section \<open>The page\<close>

text \<open>A page that has mounted and whose user has asked for a voice channel, for the witnesses.\<close>

definition joined_page :: page where
  "joined_page = page_join desktop ''r'' ''c'' [] (page_mount True (init_page init_settings))"

lemma joined_page_facts:
  "page_reachable V joined_page" "waiting joined_page \<noteq> []" "mounted (net joined_page)"
  "vm_ref joined_page = Some 0" "active (manager_of joined_page 0)"
proof -
  have m0: "\<not> mounted (net (init_page init_settings))" by (simp add: init_page_def init_ws_def)
  have "page_reachable V (page_mount True (init_page init_settings))"
    by (rule page_reachable.p_next [OF page_reachable.p_start p_mount [OF m0]])
  then show "page_reachable V joined_page"
    unfolding joined_page_def by (rule page_reachable.p_next [OF _ p_join])
qed (simp_all add: joined_page_def page_join_def page_mount_def init_page_def joinVoice_def joinVoice_step_def
    app_view_def joinChannel_def desktop_def put_app_def await_on_def new_voice_manager_def Let_def)

text \<open>The same page with its keyboard: a run with the effect of the mount.\<close>

definition idle_hook :: key_hook where
  "idle_hook = \<lparr> last_deps = Some (render_deps None (page_mount True (init_page init_settings))),
     hears = False, burst = False \<rparr>"

lemma keyed_mounted: "keyed_reachable V (page_mount True (init_page init_settings), idle_hook)"
proof -
  let ?s = "(init_page init_settings, init_hook)"
  have m0: "\<not> mounted (net (fst ?s))" by (simp add: init_page_def init_ws_def)
  have none: "activeVoice (chat (net (page_mount True (init_page init_settings)))) = None"
    by (simp add: page_mount_def init_page_def ws_mount_def ws_connect_def detach_current_def init_ws_def
        init_chat_def Let_def)
  have "keyed_reachable V (keyed_mount desktop True ?s)"
    by (rule k_next [OF k_start k_mount [OF m0]])
  moreover have "keyed_mount desktop True ?s = (page_mount True (init_page init_settings), idle_hook)"
    using none by (simp add: keyed_mount_def keys_effect_def keys_cleanup_def on_ptt_def init_hook_def idle_hook_def
        ptt_installs_def render_deps_def init_page_def)
  ultimately show ?thesis by simp
qed

lemma keyed_joined: "keyed_reachable V (joined_page, idle_hook)"
proof -
  have "page_step V (page_mount True (init_page init_settings)) joined_page"
    unfolding joined_page_def by (rule p_join)
  from k_page [where s = "(page_mount True (init_page init_settings), idle_hook)", simplified, OF this]
  show ?thesis using joined_page_facts(3) by (auto intro: k_next [OF keyed_mounted])
qed

text \<open>
  C2. Whatever happens on the page, in any order, its keyboard included: the connection does what the
  connection alone can do, a manager is there only while the page is mounted, and every manager but
  the current one is shut down: not in a channel, without audio graph and without relays, even if
  methods of it are resumed after it was destroyed. The gain of every manager follows its mute flag.
  The keyboard is listened to only while the page is mounted and for a voice channel, with the
  current manager or with none, never with one that was destroyed; a burst is on only then.
\<close>

theorem page_invariant:
  assumes "keyed_reachable V (p, h)"
  shows "ws_reachable V (net p) \<and>
     (\<forall>i. vm_ref p = Some i \<longrightarrow> mounted (net p)) \<and>
     (\<forall>i. vm_ref p \<noteq> Some i \<longrightarrow>
        \<not> active (manager_of p i) \<and> gainNode (manager_of p i) = None \<and>
        \<not> audioContext (manager_of p i) \<and> bleRelayChains (manager_of p i) = []) \<and>
     (\<forall>i g. gainNode (manager_of p i) = Some g \<longrightarrow>
        g = (if localMicMuted (manager_of p i) then 0 else localInputVolume (manager_of p i))) \<and>
     (burst h \<longrightarrow> hears h) \<and>
     (hears h \<longrightarrow> mounted (net p) \<and>
        (\<exists>d. last_deps h = Some d \<and> kd_active d \<noteq> None \<and> (kd_vm d = None \<or> kd_vm d = vm_ref p)))"
proof -
  have k: "keyed_ok V (p, h)" using assms by (rule keyed_reachable_ok)
  then have ok: "page_ok V p" by (simp add: keyed_ok_def)
  then have wf: "vm_wf (manager_of p i)" for i by (simp add: page_ok_def)
  have "\<not> active st \<Longrightarrow> vm_wf st \<Longrightarrow> gainNode st = None \<and> \<not> audioContext st \<and> bleRelayChains st = []" for st
    using inactive_graph [of st] by (auto simp: vm_wf_def relay_wf_def)
  moreover note mic_gain wf
  ultimately have "(\<forall>i. vm_ref p \<noteq> Some i \<longrightarrow>
        \<not> active (manager_of p i) \<and> gainNode (manager_of p i) = None \<and>
        \<not> audioContext (manager_of p i) \<and> bleRelayChains (manager_of p i) = []) \<and>
     (\<forall>i g. gainNode (manager_of p i) = Some g \<longrightarrow>
        g = (if localMicMuted (manager_of p i) then 0 else localInputVolume (manager_of p i)))"
    using ok unfolding page_ok_def by blast
  moreover from k have "(burst h \<longrightarrow> hears h) \<and> (hears h \<longrightarrow> mounted (net p) \<and>
        (\<exists>d. last_deps h = Some d \<and> kd_active d \<noteq> None \<and> (kd_vm d = None \<or> kd_vm d = vm_ref p)))"
    by (auto simp: keyed_ok_def)
  ultimately show ?thesis using ok unfolding page_ok_def by blast
qed

lemma page_invariant_witness:
  "\<forall>V. \<exists>p h. keyed_reachable V (p, h) \<and> waiting p \<noteq> [] \<and> vm_ref p = None \<and> gainNode (manager_of p 0) = None"
proof
  fix V
  have u: "keyed_unmount desktop (joined_page, idle_hook) = (page_unmount desktop joined_page, init_hook)"
    by (simp add: keyed_unmount_def keys_cleanup_def on_ptt_def idle_hook_def)
  have "keyed_step V (joined_page, idle_hook) (keyed_unmount desktop (joined_page, idle_hook))"
    by (rule k_unmount) (simp add: joined_page_facts)
  then have r: "keyed_reachable V (page_unmount desktop joined_page, init_hook)"
    unfolding u by (rule k_next [OF keyed_joined])
  moreover have u: "vm_ref (page_unmount desktop joined_page) = None" "waiting (page_unmount desktop joined_page) \<noteq> []"
    using joined_page_facts by (simp_all add: page_unmount_def run_segment_def)
  moreover have "gainNode (manager_of (page_unmount desktop joined_page) 0) = None"
    using page_invariant [OF r] u(1) by simp
  ultimately show "\<exists>p h. keyed_reachable V (p, h) \<and> waiting p \<noteq> [] \<and> vm_ref p = None \<and> gainNode (manager_of p 0) = None"
    by (intro exI [of _ "page_unmount desktop joined_page"] exI [of _ init_hook] conjI)
qed

section \<open>A burst on the keyboard\<close>

text \<open>
  C39. A key that is held cannot keep the microphone open after the call is gone: when the voice
  channel of the store is no longer the one the burst began in (the user left or moved, the
  connection was lost), the next render ends the burst. Then the manager it spoke through is muted
  and its gain 0, the store does not show the user speaking, the native side is told to stop, the
  channel left is told on the open socket, and without a channel no key does anything any more.
\<close>

theorem key_burst_ends:
  assumes "keyed_reachable V s" and "burst (snd s)" and "last_deps (snd s) = Some d"
    and "kd_active d \<noteq> activeVoice (chat (net (fst s)))"
  shows "let t = keys_commit P fresh s; p = fst t in
     \<not> burst (snd t) \<and> \<not> localSpeaking (chat (net p)) \<and>
     (\<forall>i. kd_vm d = Some i \<longrightarrow>
        localMicMuted (manager_of p i) \<and> (\<forall>g. gainNode (manager_of p i) = Some g \<longrightarrow> g = 0)) \<and>
     page_calls p = page_calls (fst s) @ (if hasBleVoice P then [StopPtt] else []) \<and>
     (\<forall>k. ws_ref (net (fst s)) = Some k \<and> status (socket_of (net (fst s)) k) = Open \<longrightarrow>
        sent (net p) = sent (net (fst s)) @ [(k, ptt_frame (closure_of d) False)]) \<and>
     (activeVoice (chat (net p)) = None \<longrightarrow> (\<forall>Q e. key_event Q e t = t))"
proof -
  let ?t = "keys_commit P fresh s"
  have ok: "keyed_ok V s" using assms(1) by (rule keyed_reachable_ok)
  then have hears: "hears (snd s)" using assms(2) by (simp add: keyed_ok_def)
  have t: "fst ?t = released P d s"
    using commit_reruns(1) [OF assms(3,4)] cleanup_released [OF assms(3)] hears assms(2) by simp
  have "page_ok V (fst ?t)"
    unfolding commit_reruns(1) [OF assms(3,4)] by (rule keys_cleanup_ok) (use ok in \<open>simp add: keyed_ok_def\<close>)
  then have wf: "vm_wf (manager_of (fst ?t) i)" for i by (simp add: page_ok_def)
  have mute: "localMicMuted (manager_of (fst ?t) i) \<and> (\<forall>g. gainNode (manager_of (fst ?t) i) = Some g \<longrightarrow> g = 0)"
    if "kd_vm d = Some i" for i
    using released_fields(3) [OF that, of P s] mic_gain [OF wf [unfolded t], of i] unfolding t by simp
  have quiet: "key_event Q e ?t = ?t" if "activeVoice (chat (net (fst ?t))) = None" for Q e
  proof -
    have "activeVoice (chat (net (fst s))) = None"
      using that by (simp add: t released_fields setLocalSpeaking_def)
    then have "\<not> hears (snd ?t)" using commit_reruns(3) [OF assms(3,4)] by (simp add: ptt_installs_def)
    then show ?thesis by (simp add: key_event_def on_ptt_def split: option.split)
  qed
  have "sent (net (fst ?t)) = sent (net (fst s)) @ [(k, ptt_frame (closure_of d) False)]"
    if "ws_ref (net (fst s)) = Some k \<and> status (socket_of (net (fst s)) k) = Open" for k
    using that by (simp add: t released_fields forward_open)
  with mute quiet commit_reruns(2) [OF assms(3,4)] show ?thesis
    by (simp add: Let_def t released_fields setLocalSpeaking_def)
qed

text \<open>For the witness: a voice channel is there, the key goes down, the channel goes away.\<close>

definition with_voice :: "(string \<times> string) option \<Rightarrow> page \<times> key_hook \<Rightarrow> page \<times> key_hook" where
  "with_voice v s =
     ((fst s)\<lparr>net := (net (fst s))\<lparr>chat := ui_step (VoiceFields v True False None) (chat (net (fst s)))\<rparr>\<rparr>, snd s)"

definition held_page :: "page \<times> key_hook" where
  "held_page = key_event desktop (KeyDown '' '' False False)
     (keys_commit desktop True (with_voice (Some (''r'', ''c'')) (page_mount True (init_page init_settings), idle_hook)))"

lemma with_voice_step: "keyed_reachable V s \<Longrightarrow> keyed_reachable V (with_voice v s)"
  unfolding with_voice_def by (rule k_next, assumption, rule k_page) (rule p_ui, simp)

lemma key_burst_ends_witness:
  "\<forall>V. \<exists>i. localMicMuted (manager_of (fst (keys_commit desktop True (with_voice None held_page))) i)"
proof
  fix V
  let ?s = "with_voice None held_page"
  have "keyed_reachable V (keys_commit desktop True
      (with_voice (Some (''r'', ''c'')) (page_mount True (init_page init_settings), idle_hook)))"
    by (rule k_next [OF with_voice_step [OF keyed_mounted] k_commit]) (simp add: with_voice_def)
  then have "keyed_reachable V held_page" unfolding held_page_def by (rule k_next) (rule k_event)
  then have r: "keyed_reachable V ?s" by (rule with_voice_step)
  have hook: "last_deps (snd ?s) = Some \<lparr> kd_active = Some (''r'', ''c''), kd_key = '' '', kd_vm = Some 0,
        kd_user = [], kd_name = [] \<rparr> \<and> burst (snd ?s)"
    by (simp add: with_voice_def held_page_def key_event_def on_ptt_def keys_commit_def keys_effect_def
        keys_cleanup_def idle_hook_def render_deps_def ptt_installs_def ptt_view_def closure_of_def
        handleKeyDown_def ptt_press_def page_mount_def init_page_def ws_mount_def ws_connect_def
        detach_current_def init_ws_def init_chat_def init_settings_def Let_def)
  have none: "activeVoice (chat (net (fst ?s))) = None" by (simp add: with_voice_def)
  show "\<exists>i. localMicMuted (manager_of (fst (keys_commit desktop True ?s)) i)"
    using key_burst_ends [OF r hook [THEN conjunct2] hook [THEN conjunct1], of desktop True] none
    by (auto simp: Let_def)
qed

section \<open>A click in the channel list\<close>

text \<open>
  C18. A click on a voice channel the user is not in joins it, from the list to the wire, for every
  list of members and every outcome of the microphone request: \<open>joinVoice\<close> returns, nothing is
  left suspended, the channel the manager was in is left first, then \<open>join_voice\<close> goes out once and
  one offer to each member the list shows that is not on Bluetooth, in order, all on the open
  socket. The manager ends in the channel with the microphone muted (push-to-talk mode), and the
  list then shows the user inside: a second click leaves the channel and tells the server so.
\<close>

theorem channel_click_joins:
  assumes "chat_wf (chat (net p))" and "js_get (voiceState (chat (net p))) rid = Some chs" and "c \<in> set chs"
    and "activeVoice (chat (net p)) \<noteq> Some (rid, vc_id c)"
    and "vm_ref p = Some i" and "ws_ref (net p) = Some k" and "status (socket_of (net p) k) = Open"
    and "rtc_ok P" and "offers_answered answer sdp" and "length (vc_members c) + 2 \<le> n"
    and "\<not> is_gate_mode (voiceMode (page_settings p))"
  shows "let q = page_settle P answer (length (waiting p)) n (click_channel P rid c p); r = click_channel P rid c q in
     waiting q = waiting p \<and>
     sent (net q) = sent (net p) @ map (Pair k) (leave_msgs (manager_of p i) @
        Out ''join_voice'' (channel_frame rid (vc_id c)) # map (offer_msg rid (vc_id c) sdp) (webrtc_ids (vc_members c))) \<and>
     active (manager_of q i) \<and> localMicMuted (manager_of q i) \<and>
     vm_roomId (manager_of q i) = rid \<and> vm_channelId (manager_of q i) = vc_id c \<and>
     ci_inside (channel_item_of (chat (net q)) rid 0 c) \<and>
     \<not> active (manager_of r i) \<and> peers (manager_of r i) = [] \<and> activeVoice (chat (net r)) = None \<and>
     sent (net r) = sent (net q) @ [(k, Out ''leave_voice'' (channel_frame rid (vc_id c)))]"
proof -
  let ?cid = "vc_id c" and ?q = "page_settle P answer (length (waiting p)) n (click_channel P rid c p)"
  have "channels_wf chs"
    using assms(1,2) by (auto simp: chat_wf_def voice_wf_def list_all_iff dest: map_of_SomeD)
  then have "joining_members (chat (net p)) rid ?cid = vc_members c"
    using assms(2,3) by (rule joining_members_of)
  then have click: "click_channel P rid c p = page_join P rid ?cid (vc_members c) p"
    using assms(4) by (simp add: click_joins)
  obtain st s where q: "?q = p\<lparr>net := (forward (leave_msgs (manager_of p i) @
        Out ''join_voice'' (channel_frame rid ?cid) # map (offer_msg rid ?cid sdp) (webrtc_ids (vc_members c)))
        (net p))\<lparr>chat := s\<rparr>, manager_of := (manager_of p)(i := st)\<rparr>"
    and st: "active st" "localMicMuted st" "vm_roomId st = rid" "vm_channelId st = ?cid"
    and s: "activeVoice s = Some (rid, ?cid)"
    using page_join_run [OF assms(5,8,9,10,11), of rid ?cid] unfolding click by blast
  have "activeVoice (chat (net ?q)) = Some (rid, ?cid)" unfolding q using s by simp
  then have r: "click_channel P rid c ?q = on_app (leaveVoice P) ?q" by (rule click_leaves)
  show ?thesis
    unfolding Let_def r unfolding q
    using st s assms(5-7)
    by (simp add: forward_open channel_item_of_def isInChannel_def on_app_def leaveVoice_def app_view_def
        put_app_def new_frames_def leaveChannel_def cleanup_fields vm_send_def clearActiveVoice_def
        setVoiceMuted_def Let_def)
qed

text \<open>For the witness: a page with an open socket and a channel with one member of either kind.\<close>

definition listing_page :: page where
  "listing_page = (let p = page_mount True (init_page init_settings) in
     p\<lparr>net := (ws_opened [] 0 (net p))\<lparr>chat := init_chat\<lparr>voiceState :=
        [(''r'', [\<lparr>vc_id = ''c'', vc_name = ''C'', vc_members = [plain_member ''ble-1'', plain_member ''b'']\<rparr>])]\<rparr>\<rparr>\<rparr>)"

lemma channel_click_joins_witness:
  "\<exists>c. vc_id c = ''c'' \<and> active (manager_of (page_settle desktop answer_all 0 4 (click_channel desktop ''r'' c listing_page)) 0)"
proof -
  let ?c = "\<lparr>vc_id = ''c'', vc_name = ''C'', vc_members = [plain_member ''ble-1'', plain_member ''b'']\<rparr>"
  have "voiceState (chat (net listing_page)) = [(''r'', [?c])]"
    by (simp add: listing_page_def Let_def)
  moreover have "chat_wf (chat (net listing_page))"
    using chat_wf_voice [OF chat_wf_init, of "[(''r'', [?c])]"]
    by (simp add: listing_page_def Let_def voice_wf_def channels_wf_def channel_wf_def member_wf_def
        plain_member_def js_trim_def js_space_def)
  moreover have "vm_ref listing_page = Some 0" "ws_ref (net listing_page) = Some 0" "waiting listing_page = []"
    "status (socket_of (net listing_page) 0) = Open" "activeVoice (chat (net listing_page)) = None"
    "voiceMode (page_settings listing_page) = ''ptt''"
    by (simp_all add: listing_page_def page_mount_def init_page_def ws_mount_def ws_connect_def detach_current_def
        init_ws_def ws_opened_def init_chat_def init_settings_def Let_def case_prod_beta)
  moreover have "offers_answered answer_all id" by (simp add: offers_answered_def answer_all_def)
  moreover have "rtc_ok desktop" by (simp add: desktop_def)
  ultimately show ?thesis
    using channel_click_joins [where p = listing_page and rid = "''r''" and c = ?c and chs = "[?c]" and i = 0 and k = 0
        and P = desktop and answer = answer_all and sdp = id and n = 4]
    by (intro exI [of _ ?c]) (simp add: Let_def is_gate_mode_def)
qed

section \<open>A peer leaves the channel\<close>

definition peer_left_frame :: "string \<Rightarrow> string \<Rightarrow> string \<Rightarrow> jsval" where
  "peer_left_frame rid cid i =
     JObj [(''type'', JStr ''voice_peer_left''),
           (''data'', JObj [(''room_id'', JStr rid), (''channel_id'', JStr cid), (''peer_id'', JStr i)])]"

lemma on_peer_left_frame:
  "ws_onmessage V (Some (peer_left_frame rid cid i)) s = (removeVoicePeer rid cid i s, [], [CallPeerLeft i])"
  by (simp add: ws_onmessage_def peer_left_frame_def ws_switch_def on_voice_peer_left_def need_str_def Let_def)

lemma one_owner: "distinct (map snd ps) \<Longrightarrow> (x, c) \<in> set ps \<Longrightarrow> (y, c) \<in> set ps \<Longrightarrow> x = y"
  by (fastforce simp: distinct_map inj_on_def)

lemma peer_left_fields:
  "peers (handlePeerLeft i st) = (if js_get (peers st) i = None then peers st else js_delete i (peers st))"
  "pc_closed (pc_heap (handlePeerLeft i st) c) \<longleftrightarrow> pc_closed (pc_heap st c) \<or> js_get (peers st) i = Some c"
  "bleRelayChains (handlePeerLeft i st) = js_delete i (bleRelayChains st)"
  "audioElements (handlePeerLeft i st) = js_delete i (audioElements st)"
  "pendingIce (handlePeerLeft i st) = js_delete i (pendingIce st)"
  "out_log (handlePeerLeft i st) = out_log st" "active (handlePeerLeft i st) = active st"
  by (auto simp: handlePeerLeft_def detachRemoteBleRelay_def drop_audio_element_def close_pc_def
      update_pc_def Let_def split: option.split)



section \<open>Two pages set up a connection\<close>

text \<open>
  C3. The exchange of offer and answer completes. The page of \<open>a\<close> has opened a connection to \<open>b\<close>
  and sent its offer, the page of \<open>b\<close> is in the same channel, and the server knows both there.
  Then the server relays the offer to \<open>b\<close>; the page of \<open>b\<close> ends up with a connection to \<open>a\<close> that
  has the description of the offer and the candidates that came before it, and sends one frame on
  its socket, the answer; the server relays it to \<open>a\<close>; and the page of \<open>a\<close> gives the same connection
  the description of the answer and the candidates that were waiting. Both methods return.
\<close>

theorem call_negotiated:
  assumes "vm_ref p = Some i" and "vm_roomId (manager_of p i) = rid" and "vm_channelId (manager_of p i) = cid"
    and "js_get (peers (manager_of p i)) b = Some c"
    and "vm_ref q = Some j" and "active (manager_of q j)"
    and "vm_roomId (manager_of q j) = rid" and "vm_channelId (manager_of q j) = cid"
    and "ws_ref (net q) = Some l" and "status (socket_of (net q) l) = Open"
    and "in_call h rid cid a" and "in_call h rid cid b" and "\<not> is_ble_id a" and "rtc_ok P"
    and "json_parse P offer = Some desc_o" and "json_parse P reply = Some desc_a"
    and "answer_b (OfferRemote a (next_pc (manager_of q j)) desc_o) = Resolved"
    and "answer_b (OfferAnswer a) = Description reply" and "answer_a (AnswerRemote b c desc_a) = Resolved"
    and "length (queued a (manager_of q j)) + 2 < m" and "length (queued b (manager_of p i)) + 1 < m"
  shows "\<exists>f g ans.
     relay h a (Out ''voice_offer'' (signal_frame b ''sdp'' offer (manager_of p i))) = Some (b, f) \<and>
     (let q' = receive_relayed P answer_b m V l f q; st = manager_of q' j in
        sent (net q') = sent (net q) @ [(l, ans)] \<and> waiting q' = waiting q \<and>
        (\<exists>d. js_get (peers st) a = Some d \<and> remoteDescription (pc_heap st d) = Some desc_o \<and>
             pc_candidates (pc_heap st d) = queued a (manager_of q j))) \<and>
     relay h b ans = Some (a, g) \<and>
     (let p' = receive_relayed P answer_a m V k g p; st = manager_of p' i in
        waiting p' = waiting p \<and> js_get (peers st) b = Some c \<and>
        remoteDescription (pc_heap st c) = Some desc_a \<and>
        pc_candidates (pc_heap st c) = pc_candidates (pc_heap (manager_of p i) c) @ queued b (manager_of p i))"
proof -
  let ?A = "manager_of p i" and ?B = "manager_of q j"
  let ?f = "relay_frame ''voice_offer_relay'' rid cid a ''sdp'' offer"
  let ?g = "relay_frame ''voice_answer_relay'' rid cid b ''sdp'' reply"
  let ?ans = "Out ''voice_answer'' (signal_frame a ''sdp'' reply ?B)"
  have rel: "relay h a (Out ''voice_offer'' (signal_frame b ''sdp'' offer ?A)) = Some (b, ?f)"
    "relay h b ?ans = Some (a, ?g)"
    using relay_signal [OF assms(11,12)] relay_signal [OF assms(12,11)] assms(2,3,7,8) by auto
  obtain B' where B': "settle P answer_b m (handleOffer P a offer ?B) = (B', None)"
    "out_log B' = out_log ?B @ [?ans]" "peers B' = js_set a (next_pc ?B) (peers ?B)"
    "remoteDescription (pc_heap B' (next_pc ?B)) = Some desc_o"
    "pc_candidates (pc_heap B' (next_pc ?B)) = queued a ?B"
    using settle_offer [OF assms(6,13,14,15,17,18,20)] by blast
  have q': "receive_relayed P answer_b m V l ?f q
      = run_segment j (B', None) (q\<lparr>net := (net q)\<lparr>called := called (net q) @ [CallOffer a offer]\<rparr>\<rparr>)"
    by (rule receive_call) (simp_all add: on_relay_frame assms(5) call_manager_def B'(1))
  have "handleAnswer P b reply ?A = (?A, Some (AnswerRemote b c desc_a))"
    using assms(4,16) by (simp add: handleAnswer_def)
  then obtain A' where A': "settle P answer_a m (handleAnswer P b reply ?A) = (A', None)"
    "pc_candidates (pc_heap A' c) = pc_candidates (pc_heap ?A c) @ queued b ?A" "peers A' = peers ?A"
    "remoteDescription (pc_heap A' c) = Some desc_a"
    using settle_answer [where answer = answer_a and i = b and p = c and st = ?A and desc = desc_a and P = P, OF assms(19,21)]
    by auto
  have p': "receive_relayed P answer_a m V k ?g p
      = run_segment i (A', None) (p\<lparr>net := (net p)\<lparr>called := called (net p) @ [CallAnswer b reply]\<rparr>\<rparr>)"
    by (rule receive_call) (simp_all add: on_relay_frame assms(1) call_manager_def A'(1))
  have "sent (net (receive_relayed P answer_b m V l ?f q)) = sent (net q) @ [(l, ?ans)]"
    using assms(9,10) B'(2) by (simp add: q' run_segment_def new_frames_def forward_open)
  with rel A' B' assms(4) show ?thesis
    by (intro exI [of _ ?f] exI [of _ ?g] exI [of _ ?ans]) (simp add: Let_def q' p' run_segment_def await_on_def)
qed

text \<open>
  For the witness: the page of \<open>a\<close> after opening a connection to \<open>b\<close>, and the page of \<open>b\<close> with an
  open socket; every promise is fulfilled.
\<close>

definition calling_page :: page where
  "calling_page = joined_page\<lparr>manager_of := (\<lambda>_. open_connection ''b'' (manager_of joined_page 0))\<rparr>"

definition called_page :: page where
  "called_page = joined_page\<lparr>net := ws_opened [] 0 (net joined_page)\<rparr>"

definition full_hub :: hub where
  "full_hub = \<lparr>in_room = (\<lambda>_ _. True), in_channel = (\<lambda>_ _ _. True), online = (\<lambda>_. True)\<rparr>"

definition fulfil :: "cont \<Rightarrow> await_result" where
  "fulfil k = (case k of OfferAnswer i \<Rightarrow> Description ''reply'' | _ \<Rightarrow> Resolved)"

lemma joined_manager:
  "vm_roomId (manager_of joined_page 0) = ''r''" "vm_channelId (manager_of joined_page 0) = ''c''"
  "queued x (manager_of joined_page 0) = []" "ws_ref (net joined_page) = Some 0"
  by (simp_all add: joined_page_def page_join_def page_mount_def init_page_def joinVoice_def joinVoice_step_def
    app_view_def joinChannel_def desktop_def put_app_def await_on_def new_voice_manager_def queued_def
    ws_mount_def ws_connect_def detach_current_def init_ws_def Let_def)

lemma call_negotiated_witness:
  "\<forall>V. \<exists>f. \<exists>d. js_get (peers (manager_of (receive_relayed desktop fulfil 3 V 0 f called_page) 0)) ''a'' = Some d"
proof
  fix V
  have a: "vm_ref calling_page = Some 0" "vm_roomId (manager_of calling_page 0) = ''r''"
    "vm_channelId (manager_of calling_page 0) = ''c''"
    "js_get (peers (manager_of calling_page 0)) ''b'' = Some (next_pc (manager_of joined_page 0))"
    "queued ''b'' (manager_of calling_page 0) = []"
    using joined_page_facts joined_manager
    by (simp_all add: calling_page_def open_connection_def queued_def Let_def)
  have b: "vm_ref called_page = Some 0" "active (manager_of called_page 0)"
    "vm_roomId (manager_of called_page 0) = ''r''" "vm_channelId (manager_of called_page 0) = ''c''"
    "ws_ref (net called_page) = Some 0" "status (socket_of (net called_page) 0) = Open"
    "queued ''a'' (manager_of called_page 0) = []"
    using joined_page_facts joined_manager
    by (simp_all add: called_page_def ws_opened_def case_prod_beta)
  have h: "in_call full_hub ''r'' ''c'' ''a''" "in_call full_hub ''r'' ''c'' ''b''"
    by (simp_all add: in_call_def full_hub_def)
  have o: "\<not> is_ble_id ''a''" "rtc_ok desktop" "json_parse desktop ''offer'' = Some (JStr ''offer'')"
    "json_parse desktop ''reply'' = Some (JStr ''reply'')"
    by (simp_all add: is_ble_id_def js_starts_with_def desktop_def)
  note call_negotiated [OF a(1-4) b(1-6) h o, where answer_a = fulfil and answer_b = fulfil and m = 3 and V = V and k = 0]
  then show "\<exists>f. \<exists>d. js_get (peers (manager_of (receive_relayed desktop fulfil 3 V 0 f called_page) 0)) ''a'' = Some d"
    using a(5) b(7) by (auto simp: fulfil_def Let_def)
qed

end
