(* ===== verification/Hooks.thy ===== *)
theory Hooks
  imports Settings Dispatch
begin

text \<open>
  The small hooks: \<open>useTheme\<close> (a theme kept in \<open>localStorage\<close> and on the document element),
  \<open>useBreakpoint\<close> and \<open>useOrientation\<close> (media queries turned into layout classes) and
  \<open>useGeolocation\<close> (one position watch while the setting is on). The browser APIs are steps or
  arguments: a storage that may refuse to read or to write, a window size, a list of live watches.
\<close>

section \<open>useTheme\<close>

text \<open>
  \<open>slot\<close> is what \<open>localStorage\<close> holds under \<open>dtak.theme\<close>; \<open>readable\<close> and \<open>writable\<close> say whether
  \<open>getItem\<close> and \<open>setItem\<close> return or throw. \<open>theme\<close> is the component's state, \<open>dom_theme\<close> the
  attribute on the document.
\<close>

record theme_sys =
  slot :: "string option"
  readable :: bool
  writable :: bool
  theme :: string
  dom_theme :: "string option"

definition VALID_themes :: "string list" where
  "VALID_themes = [''dark'', ''light'', ''ld'']"

definition readStored :: "theme_sys \<Rightarrow> string" where
  "readStored c =
     (if readable c then
        (case slot c of Some v \<Rightarrow> if v \<in> set VALID_themes then v else ''dark'' | None \<Rightarrow> ''dark'')
      else ''dark'')"

definition applyToDom :: "string \<Rightarrow> theme_sys \<Rightarrow> theme_sys" where
  "applyToDom t c = c\<lparr>dom_theme := Some t\<rparr>"

definition theme_mount :: "theme_sys \<Rightarrow> theme_sys" where
  "theme_mount c = (let t = readStored c in applyToDom t (c\<lparr>theme := t\<rparr>))"

text \<open>\<open>setTheme\<close> and the effect that runs after the render it causes.\<close>

definition setTheme :: "string \<Rightarrow> theme_sys \<Rightarrow> theme_sys" where
  "setTheme next c =
     (if next \<notin> set VALID_themes then c
      else
        let c' = (if writable c then c\<lparr>slot := Some next\<rparr> else c)
        in applyToDom next (c'\<lparr>theme := next\<rparr>))"

definition theme_ok :: "theme_sys \<Rightarrow> bool" where
  "theme_ok c \<longleftrightarrow> theme c \<in> set VALID_themes \<and> dom_theme c = Some (theme c)"

lemma theme_ok_mount: "theme_ok (theme_mount c)"
  by (auto simp: theme_ok_def theme_mount_def applyToDom_def readStored_def VALID_themes_def Let_def
      split: option.splits)

lemma theme_ok_setTheme: "theme_ok c \<Longrightarrow> theme_ok (setTheme t c)"
  by (auto simp: theme_ok_def setTheme_def applyToDom_def Let_def)

section \<open>useBreakpoint and useOrientation\<close>

text \<open>
  A media query list fires its change event when its result flips; the handlers re-read both
  queries. \<open>width\<close> and \<open>height\<close> are the viewport in CSS pixels.
\<close>

record viewport =
  width :: num
  height :: num

definition desktop_query :: "viewport \<Rightarrow> bool" where "desktop_query v \<longleftrightarrow> 1024 \<le> width v"

definition tablet_query :: "viewport \<Rightarrow> bool" where "tablet_query v \<longleftrightarrow> 768 \<le> width v"

definition portrait_query :: "viewport \<Rightarrow> bool" where "portrait_query v \<longleftrightarrow> width v \<le> height v"

datatype breakpoint = Mobile | Tablet | Desktop

datatype orientation = Portrait | Landscape

definition read_breakpoint :: "viewport \<Rightarrow> breakpoint" where
  "read_breakpoint v =
     (if desktop_query v then Desktop else if tablet_query v then Tablet else Mobile)"

definition read_orientation :: "viewport \<Rightarrow> orientation" where
  "read_orientation v = (if portrait_query v then Portrait else Landscape)"

definition bp_resize :: "viewport \<Rightarrow> viewport \<Rightarrow> breakpoint \<Rightarrow> breakpoint" where
  "bp_resize old new bp =
     (if desktop_query old \<noteq> desktop_query new \<or> tablet_query old \<noteq> tablet_query new
      then read_breakpoint new else bp)"

definition orient_resize :: "viewport \<Rightarrow> viewport \<Rightarrow> orientation \<Rightarrow> orientation" where
  "orient_resize old new o' =
     (if portrait_query old \<noteq> portrait_query new then read_orientation new else o')"

fun bp_run :: "viewport \<Rightarrow> viewport list \<Rightarrow> breakpoint \<Rightarrow> breakpoint" where
  "bp_run v [] bp = bp"
| "bp_run v (w # ws) bp = bp_run w ws (bp_resize v w bp)"

lemma bp_resize_read: "bp_resize v w (read_breakpoint v) = read_breakpoint w"
  by (auto simp: bp_resize_def read_breakpoint_def)

lemma orient_resize_read: "orient_resize v w (read_orientation v) = read_orientation w"
  by (auto simp: orient_resize_def read_orientation_def)

lemma bp_run_read: "bp_run v ws (read_breakpoint v) = read_breakpoint (last (v # ws))"
  by (induction ws arbitrary: v) (simp_all add: bp_resize_read)

section \<open>useGeolocation\<close>

record geo_sys =
  watchIdRef :: "nat option"
  positionRef :: "geo_position option"
  live_watches :: "nat list"
  next_watch :: nat
  geo_chat :: chat_state
  geo_sent :: "out_msg list"

definition position_frame :: "string \<Rightarrow> geo_position \<Rightarrow> out_msg" where
  "position_frame rid p =
     Out ''cot_position''
       (JObj [(''room_id'', JStr rid), (''lat'', JNum (lat p)), (''lon'', JNum (lon p)),
              (''hae'', JNum (hae p)), (''ce'', JNum (ce p)), (''cot_type'', JStr ''a-f-G-U-C'')])"

definition sendPosition :: "geo_sys \<Rightarrow> geo_sys" where
  "sendPosition g =
     (case (positionRef g, activeRoomId (geo_chat g)) of
        (Some pos, Some rid) \<Rightarrow>
          if rid = [] then g else g\<lparr>geo_sent := geo_sent g @ [position_frame rid pos]\<rparr>
      | _ \<Rightarrow> g)"

definition clear_watch :: "geo_sys \<Rightarrow> geo_sys" where
  "clear_watch g =
     (case watchIdRef g of
        None \<Rightarrow> g
      | Some w \<Rightarrow> g\<lparr>live_watches := filter (\<lambda>x. x \<noteq> w) (live_watches g), watchIdRef := None\<rparr>)"

text \<open>
  The body of the effect for the current value of the setting. Without a geolocation API there
  is no watch to clear (\<open>watchIdRef\<close> is null then, \<open>geo_inv\<close> below).
\<close>

definition geo_effect :: "bool \<Rightarrow> bool \<Rightarrow> geo_sys \<Rightarrow> geo_sys" where
  "geo_effect enabled has_api g =
     (if \<not> enabled \<or> \<not> has_api then
        (let g' = clear_watch g
         in g'\<lparr>positionRef := None, geo_chat := setSelfPosition None (geo_chat g')\<rparr>)
      else g\<lparr>watchIdRef := Some (next_watch g), live_watches := next_watch g # live_watches g,
             next_watch := Suc (next_watch g)\<rparr>)"

text \<open>A fix: \<open>altitude\<close> may be null.\<close>

definition geo_fix :: "num \<Rightarrow> num \<Rightarrow> num option \<Rightarrow> num \<Rightarrow> geo_sys \<Rightarrow> geo_sys" where
  "geo_fix latitude longitude altitude accuracy g =
     (let geoPos = \<lparr> lat = latitude, lon = longitude,
                     hae = (case altitude of Some a \<Rightarrow> a | None \<Rightarrow> 0), ce = accuracy \<rparr>
      in sendPosition (g\<lparr>positionRef := Some geoPos,
                         geo_chat := setSelfPosition (Some geoPos) (geo_chat g)\<rparr>))"

text \<open>
  React runs the cleanup of the previous run before the effect runs again, and on unmounting; a
  run that returned early has none. \<open>on\<close> is what the last run saw.
\<close>

record geo_hook =
  geo :: geo_sys
  geo_mounted :: bool
  geo_on :: bool

definition init_geo_hook :: geo_hook where
  "init_geo_hook =
     \<lparr> geo = \<lparr> watchIdRef = None, positionRef = None, live_watches = [], next_watch = 0,
               geo_chat = init_chat, geo_sent = [] \<rparr>,
       geo_mounted = False, geo_on = False \<rparr>"

definition geo_rerun :: "bool \<Rightarrow> bool \<Rightarrow> geo_hook \<Rightarrow> geo_hook" where
  "geo_rerun enabled has_api h =
     h\<lparr>geo := geo_effect enabled has_api (if geo_on h then clear_watch (geo h) else geo h),
       geo_on := enabled \<and> has_api, geo_mounted := True\<rparr>"

definition geo_unmount :: "geo_hook \<Rightarrow> geo_hook" where
  "geo_unmount h =
     h\<lparr>geo := (if geo_on h then clear_watch (geo h) else geo h), geo_on := False,
       geo_mounted := False\<rparr>"

inductive geo_step :: "bool \<Rightarrow> geo_hook \<Rightarrow> geo_hook \<Rightarrow> bool" for has_api :: bool where
  rerun: "geo_step has_api h (geo_rerun enabled has_api h)"
| unmount: "geo_mounted h \<Longrightarrow> geo_step has_api h (geo_unmount h)"
| fix_: "live_watches (geo h) \<noteq> [] \<Longrightarrow>
         geo_step has_api h (h\<lparr>geo := geo_fix la lo al ac (geo h)\<rparr>)"
| room_: "geo_step has_api h (h\<lparr>geo := (geo h)\<lparr>geo_chat := setActiveRoom rid (geo_chat (geo h))\<rparr>\<rparr>)"

inductive geo_reachable :: "bool \<Rightarrow> geo_hook \<Rightarrow> bool" for has_api :: bool where
  geo_start: "geo_reachable has_api init_geo_hook"
| geo_next: "geo_reachable has_api h \<Longrightarrow> geo_step has_api h h' \<Longrightarrow> geo_reachable has_api h'"

definition geo_inv :: "geo_hook \<Rightarrow> bool" where
  "geo_inv h \<longleftrightarrow>
     live_watches (geo h) = (case watchIdRef (geo h) of None \<Rightarrow> [] | Some w \<Rightarrow> [w]) \<and>
     (watchIdRef (geo h) \<noteq> None \<longleftrightarrow> geo_on h) \<and>
     (geo_on h \<longrightarrow> geo_mounted h) \<and>
     selfPosition (geo_chat (geo h)) = positionRef (geo h) \<and>
     (geo_mounted h \<and> \<not> geo_on h \<longrightarrow> positionRef (geo h) = None)"

lemma clear_watch_simps [simp]:
  "watchIdRef (clear_watch g) = None"
  "positionRef (clear_watch g) = positionRef g" "geo_chat (clear_watch g) = geo_chat g"
  "geo_sent (clear_watch g) = geo_sent g" "next_watch (clear_watch g) = next_watch g"
  by (auto simp: clear_watch_def split: option.splits)

lemma clear_watch_live:
  "live_watches g = (case watchIdRef g of None \<Rightarrow> [] | Some w \<Rightarrow> [w]) \<Longrightarrow>
   live_watches (clear_watch g) = []"
  by (auto simp: clear_watch_def split: option.splits)

lemma sendPosition_simps [simp]:
  "watchIdRef (sendPosition g) = watchIdRef g" "live_watches (sendPosition g) = live_watches g"
  "positionRef (sendPosition g) = positionRef g" "geo_chat (sendPosition g) = geo_chat g"
  by (auto simp: sendPosition_def split: option.splits)

lemma geo_inv_rerun: "geo_inv h \<Longrightarrow> geo_inv (geo_rerun en api h)"
  by (auto simp: geo_inv_def geo_rerun_def geo_effect_def setSelfPosition_def clear_watch_live Let_def
      split: option.splits)

lemma geo_inv_unmount: "geo_inv h \<Longrightarrow> geo_inv (geo_unmount h)"
  by (auto simp: geo_inv_def geo_unmount_def clear_watch_live split: option.splits)

lemma geo_inv_fix:
  "geo_inv h \<Longrightarrow> live_watches (geo h) \<noteq> [] \<Longrightarrow> geo_inv (h\<lparr>geo := geo_fix la lo al ac (geo h)\<rparr>)"
  by (auto simp: geo_inv_def geo_fix_def setSelfPosition_def Let_def split: option.splits)

lemma geo_inv_room:
  "geo_inv h \<Longrightarrow> geo_inv (h\<lparr>geo := (geo h)\<lparr>geo_chat := setActiveRoom rid (geo_chat (geo h))\<rparr>\<rparr>)"
  by (auto simp: geo_inv_def setActiveRoom_def update_room_def split: option.splits)

lemma geo_reachable_inv: "geo_reachable has_api h \<Longrightarrow> geo_inv h"
proof (induction rule: geo_reachable.induct)
  case geo_start
  show ?case by (simp add: geo_inv_def init_geo_hook_def init_chat_def)
next
  case (geo_next h h')
  from geo_next.hyps(2) geo_next.IH show ?case
    by (cases rule: geo_step.cases)
      (auto intro: geo_inv_rerun geo_inv_unmount geo_inv_fix geo_inv_room)
qed

lemma geo_sent_frames:
  "geo_sent (sendPosition g) = geo_sent g \<or>
   (\<exists>rid p. geo_sent (sendPosition g) = geo_sent g @ [position_frame rid p] \<and>
      activeRoomId (geo_chat g) = Some rid \<and> positionRef g = Some p)"
  by (auto simp: sendPosition_def split: option.splits)

end
