(* ===== verification/Lib.thy ===== *)
theory Lib
  imports Prelude "HOL-Library.Word"
begin

text \<open>
  The pure helpers of \<open>web/src/lib\<close>: the avatar colour hash (\<open>avatarColor.ts\<close>), the initials
  (\<open>initials.ts\<close>), the CoT type and colour registry (\<open>cot-icons.ts\<close>), the form schemas
  (\<open>forms/\<close>) and the submit path of \<open>components/MarkerForm.tsx\<close>.
\<close>

section \<open>Avatar colours\<close>

definition AVATAR_HUES :: "string list" where
  "AVATAR_HUES =
     [''bg-brand text-fg-on-brand'',
      ''bg-status-success text-fg-on-brand'',
      ''bg-status-warning text-fg-primary'',
      ''bg-status-info text-fg-on-brand'',
      ''bg-status-danger text-fg-on-brand'',
      ''bg-surface-3 text-fg-primary'']"

text \<open>\<open>ToInt32\<close>, which \<open><<\<close> and \<open>|\<close> apply to their operands and give as their result.\<close>

definition to_int32 :: "int \<Rightarrow> int" where
  "to_int32 x = sint (word_of_int x :: 32 word)"

definition hash_step :: "int \<Rightarrow> char \<Rightarrow> int" where
  "hash_step h c = to_int32 (to_int32 (push_bit 5 (to_int32 h)) + h + of_char c)"

definition hash :: "string \<Rightarrow> int" where
  "hash input = \<bar>foldl hash_step 5381 input\<bar>"

definition colorForSender :: "string \<Rightarrow> string" where
  "colorForSender senderId = AVATAR_HUES ! nat (hash senderId mod int (length AVATAR_HUES))"

text \<open>The reference: djb2 in 32-bit wrap-around arithmetic.\<close>

definition djb2 :: "string \<Rightarrow> 32 word" where
  "djb2 = foldl (\<lambda>w c. w * 33 + word_of_int (of_char c)) 5381"

lemma word_of_to_int32: "(word_of_int (to_int32 x) :: 32 word) = word_of_int x"
  by (simp add: to_int32_def)

lemma hash_step_word:
  "hash_step (sint (w :: 32 word)) c = sint (w * 33 + word_of_int (of_char c))"
proof -
  have a: "(word_of_int (to_int32 (push_bit 5 (to_int32 (sint w)))) :: 32 word) = w * 32"
    by (simp only: word_of_to_int32) (simp add: push_bit_eq_mult to_int32_def)
  have "(word_of_int (to_int32 (push_bit 5 (to_int32 (sint w))) + sint w + of_char c) :: 32 word)
          = w * 33 + word_of_int (of_char c)"
    by (simp add: a algebra_simps)
  then show ?thesis unfolding hash_step_def by (simp only: to_int32_def [of "_ + _"])
qed

lemma hash_djb2: "hash s = \<bar>sint (djb2 s)\<bar>"
proof -
  have "foldl hash_step (sint w) s = sint (foldl (\<lambda>w c. w * 33 + word_of_int (of_char c)) w s)" for w :: "32 word"
    by (induction s arbitrary: w) (simp_all add: hash_step_word)
  from this [of 5381] show ?thesis by (simp add: hash_def djb2_def)
qed

lemma hash_range: "0 \<le> hash s \<and> hash s \<le> 2 ^ 31"
proof -
  have "- (2 ^ 31) \<le> sint (djb2 s)" and "sint (djb2 s) < 2 ^ 31"
    using sint_ge [of "djb2 s"] sint_lt [of "djb2 s"] by simp_all
  then show ?thesis by (simp add: hash_djb2)
qed

lemma colorForSender_mem: "colorForSender s \<in> set AVATAR_HUES"
  unfolding colorForSender_def using hash_range [of s]
  by (intro nth_mem) (simp add: AVATAR_HUES_def nat_less_iff)

section \<open>Initials\<close>

text \<open>\<open>split(/\s+/)\<close> and the first code unit of each piece that has one.\<close>

function split_ws :: "string \<Rightarrow> string list" where
  "split_ws s =
     (let w = takeWhile (\<lambda>c. \<not> js_space c) s; r = dropWhile (\<lambda>c. \<not> js_space c) s
      in if r = [] then [w] else w # split_ws (dropWhile js_space r))"
  by pat_completeness auto
termination
proof (relation "measure length")
  fix s w r :: string
  assume r: "r = dropWhile (\<lambda>c. \<not> js_space c) s" and ne: "r \<noteq> []"
  from ne r have "js_space (hd r)" using hd_dropWhile [of "\<lambda>c. \<not> js_space c" s] by simp
  with ne have "length (dropWhile js_space r) < length r"
    using length_dropWhile_le [of js_space "tl r"] by (cases r) auto
  also have "\<dots> \<le> length s" unfolding r by (rule length_dropWhile_le)
  finally show "(dropWhile js_space r, s) \<in> measure length" by simp
qed simp

declare split_ws.simps [simp del]

definition first_letters :: "string \<Rightarrow> string" where
  "first_letters trimmed =
     js_upper (take 2 (map hd (filter (\<lambda>w. w \<noteq> []) (split_ws trimmed))))"

definition initialsFor :: "string \<Rightarrow> string \<Rightarrow> string" where
  "initialsFor senderName sender =
     (let trimmed = js_trim senderName; letters = first_letters trimmed
      in if 0 < length trimmed \<and> 0 < length letters then letters
         else if 0 < length sender then js_upper (js_slice sender 0 2)
         else ''?'')"

lemma js_upper_length [simp]: "length (js_upper s) = length s"
  by (simp add: js_upper_def)

lemma js_upper_Nil [simp]: "js_upper s = [] \<longleftrightarrow> s = []"
  by (simp add: js_upper_def)

lemma first_letters_nonempty:
  assumes "s \<noteq> []" and "\<not> js_space (hd s)"
  shows "first_letters s \<noteq> [] \<and> hd (first_letters s) = js_upper_char (hd s)"
proof -
  from assms obtain c r where s: "s = c # r" "\<not> js_space c" by (cases s) auto
  then have "hd (split_ws s) = c # takeWhile (\<lambda>c. \<not> js_space c) r \<and> split_ws s \<noteq> []"
    by (simp add: split_ws.simps [of "c # r"] Let_def)
  then obtain w ws where "split_ws s = (c # w) # ws" by (cases "split_ws s") auto
  with s show ?thesis by (simp add: first_letters_def js_upper_def)
qed

lemma initialsFor_length: "1 \<le> length (initialsFor n s) \<and> length (initialsFor n s) \<le> 2"
  by (cases s) (auto simp: initialsFor_def Let_def first_letters_def js_slice_def Suc_le_eq)

lemma initialsFor_name:
  assumes "js_trim n \<noteq> []"
  shows "hd (initialsFor n s) = js_upper_char (hd (js_trim n))"
  using first_letters_nonempty [OF assms js_trim_hd [OF assms]] assms
  by (simp add: initialsFor_def)

section \<open>CoT types and colours\<close>

definition COT_TYPE_VALUES :: "string list" where
  "COT_TYPE_VALUES = [''b-m-p-w'', ''b-m-p-s-m'', ''b-m-p-s-p-i'', ''b-m-p-c-cp'', ''b-r-.-O'']"

record cot_type_entry =
  ct_value :: string
  ct_label :: string
  ct_icon :: string

definition cot_entry :: "string \<Rightarrow> string \<Rightarrow> string \<Rightarrow> cot_type_entry" where
  "cot_entry v l i = \<lparr> ct_value = v, ct_label = l, ct_icon = i \<rparr>"

definition COT_TYPES :: "cot_type_entry list" where
  "COT_TYPES =
     [cot_entry ''b-m-p-w'' ''Waypoint''
        ''M21 10c0 7-9 13-9 13s-9-6-9-13a9 9 0 0 1 18 0z'',
      cot_entry ''b-m-p-s-m'' ''Marker''
        ''M4 15s1-1 4-1 5 2 8 2 4-1V3s-3 1-4 1-5-2-8-2v12'',
      cot_entry ''b-m-p-s-p-i'' ''POI''
        ''M12 22C6.477 22 2 17.523 2 12S6.477 2 12 2s10 4.477 10 10-4.477 10-10 10zm-1-11v6h2v-6h-2zm0-4v2h2V7h-2z'',
      cot_entry ''b-m-p-c-cp'' ''Contact''
        ''M12 22s-8-4.5-8-11.8A8 8 0 0 1 12 2a8 8 0 0 1 8 8.2c0 7.3-8 11.8-8 11.8z'',
      cot_entry ''b-r-.-O'' ''Objective''
        ''M22 11.08V12a10 10 0 1 1-5.93-9.14M22 4L12 14.01l-3-3'']"

definition FALLBACK_TYPE :: cot_type_entry where
  "FALLBACK_TYPE = COT_TYPES ! 0"

text \<open>An absent type is undefined or null in the source: \<open>None\<close>; the empty string is falsy too.\<close>

definition getCotType :: "string option \<Rightarrow> cot_type_entry" where
  "getCotType cotType =
     (if \<not> str_truthy cotType then FALLBACK_TYPE
      else case map_of (map (\<lambda>t. (ct_value t, t)) COT_TYPES) (the cotType) of
             Some t \<Rightarrow> t | None \<Rightarrow> FALLBACK_TYPE)"

definition getCotIcon :: "string option \<Rightarrow> string" where
  "getCotIcon cotType = ct_icon (getCotType cotType)"

definition AFFILIATION_TO_LEGACY :: "(string \<times> string) list" where
  "AFFILIATION_TO_LEGACY =
     [(''f'', ''green''), (''h'', ''red''), (''n'', ''blue''), (''u'', ''yellow'')]"

definition LEGACY_TO_COT_TOKEN :: "(string \<times> string) list" where
  "LEGACY_TO_COT_TOKEN =
     [(''green'', ''friendly''), (''red'', ''hostile''), (''blue'', ''neutral''),
      (''yellow'', ''unknown''), (''white'', ''unknown'')]"

definition getCotColorVar :: "string option \<Rightarrow> string" where
  "getCotColorVar legacyColor =
     (let key = (case legacyColor of Some c \<Rightarrow> c | None \<Rightarrow> []);
          token = (case map_of LEGACY_TO_COT_TOKEN key of Some t \<Rightarrow> t | None \<Rightarrow> ''unknown'')
      in ''var(--color-cot-'' @ token @ '')'')"

lemma cot_values: "map ct_value COT_TYPES = COT_TYPE_VALUES" "length COT_TYPES = 5"
  by (simp_all add: COT_TYPES_def cot_entry_def COT_TYPE_VALUES_def)

lemma cot_values_distinct: "distinct COT_TYPE_VALUES" "[] \<notin> set COT_TYPE_VALUES"
  by (simp_all add: COT_TYPE_VALUES_def)

lemma getCotType_registered:
  assumes "t \<in> set COT_TYPES"
  shows "getCotType (Some (ct_value t)) = t"
proof -
  have "distinct (map fst (map (\<lambda>t. (ct_value t, t)) COT_TYPES))"
    by (simp only: map_map comp_def fst_conv cot_values cot_values_distinct)
  with assms have "map_of (map (\<lambda>t. (ct_value t, t)) COT_TYPES) (ct_value t) = Some t"
    by (intro map_of_is_SomeI) auto
  moreover have "ct_value t \<noteq> []"
    using assms cot_values_distinct(2) by (metis cot_values(1) image_eqI list.set_map)
  ultimately show ?thesis by (simp add: getCotType_def)
qed

lemma getCotType_mem: "getCotType ct \<in> set COT_TYPES"
proof -
  have "FALLBACK_TYPE \<in> set COT_TYPES" by (simp add: FALLBACK_TYPE_def COT_TYPES_def)
  moreover have "t \<in> set COT_TYPES"
    if "map_of (map (\<lambda>t. (ct_value t, t)) COT_TYPES) k = Some t" for k t
    using map_of_SomeD [OF that] by auto
  ultimately show ?thesis by (auto simp: getCotType_def split: option.splits)
qed

section \<open>Forms\<close>

text \<open>
  The schemas of \<open>forms/\<close> as data. Checking a value against a schema is the work of the zod
  package: the checker is a parameter \<open>zod\<close> of what depends on it, and \<open>zod_laws\<close> states what
  zod documents of the checks used here (lengths count code units).
\<close>

datatype zod_type =
    ZStr (zod_min: nat) (zod_max: "nat option")
  | ZOptional zod_type
  | ZEnum "string list"
  | ZNum num num
  | ZBool

type_synonym zod_schema = "(string \<times> zod_type) list"

definition AFFILIATION_VALUES :: "string list" where
  "AFFILIATION_VALUES = [''f'', ''h'', ''n'', ''u'']"

definition joinRoomSchema :: zod_schema where
  "joinRoomSchema = [(''name'', ZStr 1 (Some 64))]"

definition markerSchema :: zod_schema where
  "markerSchema =
     [(''name'', ZStr 1 (Some 64)),
      (''cotType'', ZEnum COT_TYPE_VALUES),
      (''affiliation'', ZEnum AFFILIATION_VALUES),
      (''remarks'', ZOptional (ZStr 0 (Some 500)))]"

definition meshSchema :: zod_schema where
  "meshSchema =
     [(''preferredTransport'', ZEnum [''tcp'', ''wifi-direct'', ''btle'']), (''backgroundMode'', ZBool)]"

definition profileSchema :: zod_schema where
  "profileSchema = [(''displayName'', ZStr 1 (Some 64))]"

definition voiceSettingsSchema :: zod_schema where
  "voiceSettingsSchema =
     [(''voiceMode'', ZEnum [''ptt'', ''noise_gate'', ''auto'']),
      (''noiseGateThreshold'', ZNum (- 60) (- 10)),
      (''micDeviceId'', ZStr 0 None),
      (''speakerDeviceId'', ZStr 0 None),
      (''inputVolume'', ZNum 0 2)]"

text \<open>The object check of zod: every declared field is accepted by its type.\<close>

definition form_ok :: "(zod_type \<Rightarrow> jsval \<Rightarrow> bool) \<Rightarrow> zod_schema \<Rightarrow> jsval \<Rightarrow> bool" where
  "form_ok zod schema v \<longleftrightarrow> list_all (\<lambda>(k, t). zod t (js_prop v k)) schema"

definition zod_laws :: "(zod_type \<Rightarrow> jsval \<Rightarrow> bool) \<Rightarrow> bool" where
  "zod_laws zod \<longleftrightarrow>
     (\<forall>a b v. zod (ZStr a b) v \<longleftrightarrow>
        (\<exists>s. v = JStr s \<and> a \<le> length s \<and> (case b of None \<Rightarrow> True | Some m \<Rightarrow> length s \<le> m))) \<and>
     (\<forall>t v. zod (ZOptional t) v \<longleftrightarrow> v = JUndefined \<or> zod t v) \<and>
     (\<forall>vals v. zod (ZEnum vals) v \<longleftrightarrow> (\<exists>s\<in>set vals. v = JStr s))"

text \<open>What \<open>MarkerForm\<close> submits: its values are the fields the schema has accepted.\<close>

record marker_input =
  mi_name :: string
  mi_cotType :: string
  mi_affiliation :: string
  mi_remarks :: "string option"

record marker_submission =
  ms_name :: string
  ms_icon :: string
  ms_color :: string
  ms_cot_type :: string
  ms_remarks :: string

definition marker_values :: "marker_input \<Rightarrow> jsval" where
  "marker_values m =
     JObj ([(''name'', JStr (mi_name m)), (''cotType'', JStr (mi_cotType m)),
            (''affiliation'', JStr (mi_affiliation m))]
           @ (case mi_remarks m of None \<Rightarrow> [] | Some r \<Rightarrow> [(''remarks'', JStr r)]))"

definition marker_defaults :: marker_input where
  "marker_defaults =
     \<lparr> mi_name = '''', mi_cotType = ''b-m-p-w'', mi_affiliation = ''f'', mi_remarks = Some '''' \<rparr>"

definition marker_handleSubmit :: "marker_input \<Rightarrow> marker_submission" where
  "marker_handleSubmit values =
     \<lparr> ms_name = js_trim (mi_name values),
       ms_icon = mi_cotType values,
       ms_color = (case map_of AFFILIATION_TO_LEGACY (mi_affiliation values) of
                     Some c \<Rightarrow> c | None \<Rightarrow> ''blue''),
       ms_cot_type = mi_cotType values,
       ms_remarks = js_trim (case mi_remarks values of Some r \<Rightarrow> r | None \<Rightarrow> []) \<rparr>"

text \<open>The colour classes of the affiliation buttons and of the Place button.\<close>

definition AFFILIATIONS :: "(string \<times> string \<times> string \<times> string) list" where
  "AFFILIATIONS =
     [(''f'', ''Friendly'', ''bg-cot-friendly'', ''text-fg-primary''),
      (''h'', ''Hostile'', ''bg-cot-hostile'', ''text-fg-on-brand''),
      (''n'', ''Neutral'', ''bg-cot-neutral'', ''text-fg-on-brand''),
      (''u'', ''Unknown'', ''bg-cot-unknown'', ''text-fg-primary'')]"

definition affiliationPlaceClass :: "string \<Rightarrow> string" where
  "affiliationPlaceClass a =
     (case map_of [(''f'', ''bg-cot-friendly''), (''h'', ''bg-cot-hostile''),
                   (''n'', ''bg-cot-neutral''), (''u'', ''bg-cot-unknown'')] a of
        Some c \<Rightarrow> c | None \<Rightarrow> ''bg-cot-neutral'')"

text \<open>The concrete checker the witnesses use.\<close>

fun zod_check :: "zod_type \<Rightarrow> jsval \<Rightarrow> bool" where
  "zod_check (ZStr a b) v =
     (case v of JStr s \<Rightarrow> a \<le> length s \<and> (case b of None \<Rightarrow> True | Some m \<Rightarrow> length s \<le> m) | _ \<Rightarrow> False)"
| "zod_check (ZOptional t) v = (v = JUndefined \<or> zod_check t v)"
| "zod_check (ZEnum vals) v = (case v of JStr s \<Rightarrow> s \<in> set vals | _ \<Rightarrow> False)"
| "zod_check (ZNum a b) v = (case v of JNum x \<Rightarrow> a \<le> x \<and> x \<le> b | _ \<Rightarrow> False)"
| "zod_check ZBool v = (case v of JBool b \<Rightarrow> True | _ \<Rightarrow> False)"

lemma zod_laws_check: "zod_laws zod_check"
  by (auto simp: zod_laws_def split: jsval.splits)

lemma marker_accepted:
  assumes "zod_laws zod" and "form_ok zod markerSchema (marker_values m)"
  shows "mi_cotType m \<in> set COT_TYPE_VALUES" and "mi_affiliation m \<in> set AFFILIATION_VALUES"
    and "1 \<le> length (mi_name m)" and "length (mi_name m) \<le> 64"
    and "mi_remarks m = Some r \<Longrightarrow> length r \<le> 500"
  using assms
  by (auto simp: zod_laws_def form_ok_def markerSchema_def marker_values_def)

lemma legacy_colour_class:
  assumes "a \<in> set AFFILIATION_VALUES"
  shows "\<exists>token. affiliationPlaceClass a = ''bg-cot-'' @ token \<and>
           getCotColorVar (map_of AFFILIATION_TO_LEGACY a) = ''var(--color-cot-'' @ token @ '')'' \<and>
           map_of AFFILIATION_TO_LEGACY a \<noteq> None"
  using assms
  by (auto simp: AFFILIATION_VALUES_def AFFILIATION_TO_LEGACY_def affiliationPlaceClass_def
        getCotColorVar_def LEGACY_TO_COT_TOKEN_def)

end
