(* ===== verification/ClientProps.thy ===== *)
theory ClientProps
  imports Hooks Lib
begin

text \<open>
  What the hooks, the settings and the helpers promise: the theme survives a reload and is always
  on the document, the layout class follows the window, there is at most one position watch and
  none while sharing is off, the map style cycles, avatar colours are the 32-bit hash, initials
  are one or two letters, and a marker is painted in the colour it was placed with.
\<close>

section \<open>The theme\<close>

definition theme_run :: "string list \<Rightarrow> theme_sys \<Rightarrow> theme_sys" where
  "theme_run ts c = foldl (\<lambda>c t. setTheme t c) c ts"

lemma theme_run_ok:
  assumes "theme_ok c"
  shows "theme_ok (theme_run ts c)"
  using assms unfolding theme_run_def
  by (induction ts arbitrary: c) (simp_all add: theme_ok_setTheme)

lemma theme_run_slot:
  assumes "theme_ok c" and "writable c" and "slot c = Some (theme c)"
  shows "slot (theme_run ts c) = Some (theme (theme_run ts c)) \<and>
         readable (theme_run ts c) = readable c"
  using assms
proof (induction ts arbitrary: c)
  case (Cons t ts)
  have "theme_ok (setTheme t c)" "writable (setTheme t c)" "slot (setTheme t c) = Some (theme (setTheme t c))"
    "readable (setTheme t c) = readable c"
    using Cons.prems theme_ok_setTheme [of c t] by (auto simp: setTheme_def applyToDom_def Let_def)
  with Cons.IH [of "setTheme t c"] show ?case by (simp add: theme_run_def)
qed (simp add: theme_run_def)

text \<open>
  Whatever is in the storage and whichever themes are asked for, the theme is a known one and
  is the one on the document; with a storage that works, a reload brings back the last theme set.
\<close>

lemma theme_survives_reload:
  "theme_ok (theme_run ts (theme_mount c)) \<and>
   (readable c \<and> writable c \<and> t \<in> set VALID_themes \<longrightarrow>
      theme (theme_mount (theme_run ts (setTheme t (theme_mount c))))
        = theme (theme_run ts (setTheme t (theme_mount c))))"
proof -
  have ok: "theme_ok (theme_mount c)" by (rule theme_ok_mount)
  let ?d = "setTheme t (theme_mount c)"
  have "theme (theme_mount (theme_run ts ?d)) = theme (theme_run ts ?d)"
    if "readable c" "writable c" "t \<in> set VALID_themes"
  proof -
    have d: "theme_ok ?d" "writable ?d" "slot ?d = Some (theme ?d)" "readable ?d"
      using that theme_ok_setTheme [OF ok, of t]
      by (auto simp: setTheme_def applyToDom_def Let_def theme_mount_def)
    from theme_run_slot [OF d(1-3), of ts] d(4) theme_run_ok [OF d(1), of ts] show ?thesis
      by (simp add: theme_mount_def applyToDom_def Let_def readStored_def theme_ok_def)
  qed
  with theme_run_ok [OF ok] show ?thesis by blast
qed

section \<open>Layout\<close>

text \<open>
  The layout class follows the window: after any sequence of sizes, with an update only on the
  change events of the two queries, it is the class of the last size.
\<close>

lemma breakpoint_follows_window:
  "bp_run v ws (read_breakpoint v) = read_breakpoint (last (v # ws)) \<and>
   (read_breakpoint v = Desktop \<longleftrightarrow> 1024 \<le> width v) \<and>
   (read_breakpoint v = Mobile \<longleftrightarrow> width v < 768)"
  by (intro conjI bp_run_read) (auto simp: read_breakpoint_def desktop_query_def tablet_query_def)

section \<open>Position sharing\<close>

text \<open>
  In every reachable state there is at most one position watch, exactly while sharing is on in
  a mounted page that has the API; while it is off the store shows no position, and what the store
  shows is the position that is sent.
\<close>

lemma geolocation_single_watch:
  assumes "geo_reachable has_api h"
  shows "length (live_watches (geo h)) = (if geo_on h then 1 else 0) \<and>
         (geo_on h \<longrightarrow> geo_mounted h) \<and>
         (geo_mounted h \<and> \<not> geo_on h \<longrightarrow> selfPosition (geo_chat (geo h)) = None) \<and>
         selfPosition (geo_chat (geo h)) = positionRef (geo h)"
  using geo_reachable_inv [OF assms] by (auto simp: geo_inv_def split: option.splits)

section \<open>Settings\<close>

text \<open>
  Cycling the map style four times is no change, fewer are not, an unknown stored style cycles
  to the first one; and settings read from storage with the retired voice mode are repaired.
\<close>

lemma settings_cycle_and_migrate:
  assumes "mapStyle s \<in> set map_style_order"
    and "voiceMode s = ''open'' \<or> voiceMode s \<in> set voice_modes"
  shows "cycleMapStyle (cycleMapStyle (cycleMapStyle (cycleMapStyle s))) = s \<and>
         distinct (map mapStyle [s, cycleMapStyle s, cycleMapStyle (cycleMapStyle s),
                                 cycleMapStyle (cycleMapStyle (cycleMapStyle s))]) \<and>
         (\<exists>s'. onRehydrate (Some s) = Some s' \<and> settings_wf s')"
proof -
  have eq: "cycleMapStyle t = t\<lparr>mapStyle := mapStyle (cycleMapStyle t)\<rparr>" for t :: settings
    by (simp add: cycleMapStyle_def Let_def)
  have "cycleMapStyle (cycleMapStyle (cycleMapStyle (cycleMapStyle s)))
      = s\<lparr>mapStyle := mapStyle (cycleMapStyle (cycleMapStyle (cycleMapStyle (cycleMapStyle s))))\<rparr>"
    by (subst eq, subst (2) eq, subst (3) eq, subst (4) eq) simp
  moreover have "mapStyle (cycleMapStyle (cycleMapStyle (cycleMapStyle (cycleMapStyle s)))) = mapStyle s"
    using assms(1) by (auto simp: cycle_table map_style_order_def)
  moreover have "distinct (map mapStyle [s, cycleMapStyle s, cycleMapStyle (cycleMapStyle s),
                                 cycleMapStyle (cycleMapStyle (cycleMapStyle s))])"
    using assms(1) by (auto simp: cycle_table map_style_order_def)
  ultimately show ?thesis using rehydrate_wf [OF assms] by simp
qed

section \<open>Avatars and initials\<close>

text \<open>
  The hash the avatar colour is taken from is djb2 in 32-bit wrap-around arithmetic, made
  non-negative; it is at most 2 to the 31 and the colour is always one of the palette.
\<close>

lemma avatar_hash_is_djb2:
  "hash s = \<bar>sint (djb2 s)\<bar> \<and> 0 \<le> hash s \<and> hash s \<le> 2 ^ 31 \<and>
   colorForSender s \<in> set AVATAR_HUES"
  using hash_range [of s] by (simp add: hash_djb2 [symmetric] colorForSender_mem)

text \<open>
  Initials are one or two characters, whatever the name and the id; when the name has a
  visible character they begin with the first of them.
\<close>

lemma initials_shape:
  "1 \<le> length (initialsFor n s) \<and> length (initialsFor n s) \<le> 2 \<and>
   (js_trim n = [] \<or> hd (initialsFor n s) = js_upper_char (hd (js_trim n)))"
  using initialsFor_length [of n s] initialsFor_name [of n s] by blast

section \<open>Markers\<close>

text \<open>
  A marker the form accepts is submitted with a registered CoT type and with a colour that the
  map paints as the very affiliation token the Place button showed; the remarks are not longer than
  the schema allows.
\<close>

lemma marker_keeps_type_and_colour:
  assumes "zod_laws zod" and "form_ok zod markerSchema (marker_values m)"
  shows "(\<exists>t \<in> set COT_TYPES. ct_value t = ms_cot_type (marker_handleSubmit m) \<and>
            getCotType (Some (ms_cot_type (marker_handleSubmit m))) = t) \<and>
         (\<exists>token. affiliationPlaceClass (mi_affiliation m) = ''bg-cot-'' @ token \<and>
            getCotColorVar (Some (ms_color (marker_handleSubmit m))) = ''var(--color-cot-'' @ token @ '')'') \<and>
         length (ms_remarks (marker_handleSubmit m)) \<le> 500"
proof -
  from marker_accepted(1) [OF assms] obtain t where t: "t \<in> set COT_TYPES" "ct_value t = mi_cotType m"
    by (metis cot_values(1) image_iff list.set_map)
  from legacy_colour_class [OF marker_accepted(2) [OF assms]] obtain token c where
    tok: "affiliationPlaceClass (mi_affiliation m) = ''bg-cot-'' @ token"
      "map_of AFFILIATION_TO_LEGACY (mi_affiliation m) = Some c"
      "getCotColorVar (Some c) = ''var(--color-cot-'' @ token @ '')''"
    by auto
  have "length (js_trim r) \<le> 500" if "mi_remarks m = Some r" for r
    using marker_accepted(5) [OF assms that] js_trim_length [of r] by simp
  then have "length (ms_remarks (marker_handleSubmit m)) \<le> 500"
    by (auto simp: marker_handleSubmit_def js_trim_def split: option.split)
  with t tok getCotType_registered [OF t(1)] show ?thesis
    by (auto simp: marker_handleSubmit_def intro!: bexI [of _ t])
qed

text \<open>
  The form does not enforce a visible name: a name of blanks is accepted and the marker is
  submitted with the empty name.
\<close>

lemma marker_blank_name:
  assumes "zod_laws zod" and "form_ok zod markerSchema (marker_values m)"
    and "length blanks \<in> {1..64}" and "list_all js_space blanks"
  shows "form_ok zod markerSchema (marker_values (m\<lparr>mi_name := blanks\<rparr>)) \<and>
         ms_name (marker_handleSubmit (m\<lparr>mi_name := blanks\<rparr>)) = []"
proof -
  have "js_trim blanks = []"
    using assms(4) by (auto simp: js_trim_def list_all_iff dest: set_dropWhileD)
  moreover have "zod (ZStr 1 (Some 64)) (JStr blanks)"
    using assms(1,3) by (auto simp: zod_laws_def)
  ultimately show ?thesis
    using assms(2) by (simp add: form_ok_def markerSchema_def marker_values_def marker_handleSubmit_def)
qed

end
