(* ===== verification/MapStyle.thy ===== *)
theory MapStyle
  imports Settings Lib
begin

text \<open>
  The map style and the marker elements of \<open>web/src/components/MapViewer.tsx\<close>: \<open>buildStyle\<close> gives
  the style document handed to MapLibre as a JavaScript value, the builders at lines 17 to 33 and
  437 to 558 give DOM elements.
\<close>

section \<open>The style document\<close>

abbreviation S :: "string \<Rightarrow> jsval" where "S \<equiv> JStr"
abbreviation N :: "num \<Rightarrow> jsval" where "N \<equiv> JNum"

definition protomaps_url :: "string \<Rightarrow> string" where
  "protomaps_url apiKey = ''https://api.protomaps.com/tiles/v4.json?key='' @ apiKey"

definition COMMON_SOURCE :: "string \<Rightarrow> (string \<times> jsval) list" where
  "COMMON_SOURCE apiKey =
     [(''protomaps'', JObj
        [(''type'', S ''vector''),
         (''url'', S (protomaps_url apiKey)),
         (''attribution'',
            S ''<a href=\"https://protomaps.com\">Protomaps</a> | <a href=\"https://openstreetmap.org\">OSM</a>'')])]"

definition COMMON_GLYPHS :: string where
  "COMMON_GLYPHS = ''https://protomaps.github.io/basemaps-assets/fonts/{fontstack}/{range}.pbf''"

definition kind_any :: "string list \<Rightarrow> jsval" where
  "kind_any kinds = JArr (S ''any'' # map (\<lambda>k. JArr [S ''=='', S ''pmap:kind'', S k]) kinds)"

definition zoom_ramp :: "num list \<Rightarrow> jsval" where
  "zoom_ramp stops =
     JArr ([S ''interpolate'', JArr [S ''linear''], JArr [S ''zoom'']] @ map N stops)"

definition places_layout :: jsval where
  "places_layout =
     JObj [(''text-field'', JArr [S ''get'', S ''name'']),
           (''text-size'', zoom_ramp [6, 10, 14, 14]),
           (''text-font'', JArr [S ''Noto Sans Regular''])]"

text \<open>The satellite branch: imagery, and the vector overlays where there is an API key.\<close>

definition satellite_sources :: "string \<Rightarrow> (string \<times> jsval) list" where
  "satellite_sources apiKey =
     [(''esri'', JObj
        [(''type'', S ''raster''),
         (''tiles'', JArr
            [S ''https://server.arcgisonline.com/ArcGIS/rest/services/World_Imagery/MapServer/tile/{z}/{y}/{x}'']),
         (''tileSize'', N 256),
         (''maxzoom'', N 19),
         (''attribution'', S ''&copy; <a href=\"https://www.esri.com\">Esri</a>, Maxar, Earthstar Geographics'')])]
     @ (if apiKey \<noteq> [] then
          [(''protomaps'', JObj [(''type'', S ''vector''), (''url'', S (protomaps_url apiKey))])]
        else [])"

definition satellite_layers :: "string \<Rightarrow> jsval list" where
  "satellite_layers apiKey =
     [JObj [(''id'', S ''satellite''), (''type'', S ''raster''), (''source'', S ''esri'')]]
     @ (if apiKey \<noteq> [] then
          [JObj [(''id'', S ''roads_major''), (''type'', S ''line''), (''source'', S ''protomaps''),
                 (''source-layer'', S ''roads''),
                 (''filter'', kind_any [''highway'', ''major_road'']),
                 (''paint'', JObj [(''line-color'', S ''rgba(255,255,255,0.25)''),
                                   (''line-width'', zoom_ramp [6, 1/2, 14, 2])])],
           JObj [(''id'', S ''boundaries''), (''type'', S ''line''), (''source'', S ''protomaps''),
                 (''source-layer'', S ''boundaries''),
                 (''paint'', JObj [(''line-color'', S ''rgba(255,255,0,0.3)''), (''line-width'', N 1),
                                   (''line-dasharray'', JArr [N 3, N 2])])],
           JObj [(''id'', S ''places''), (''type'', S ''symbol''), (''source'', S ''protomaps''),
                 (''source-layer'', S ''places''), (''layout'', places_layout),
                 (''paint'', JObj [(''text-color'', S ''#ffffff''), (''text-halo-color'', S ''#000000''),
                                   (''text-halo-width'', N 2)])]]
        else [])"

text \<open>The palettes of the vector styles, and their layers.\<close>

record palette =
  bg :: string
  earth :: string
  water :: string
  park :: string
  roadMajor :: string
  roadMinor :: string
  building :: string
  boundary :: string
  textColor :: string
  textHalo :: string

definition palettes :: "(string \<times> palette) list" where
  "palettes =
     [(''dark'',
       \<lparr> bg = ''#0b141a'', earth = ''#111b21'', water = ''#080f14'', park = ''#0d1f17'',
         roadMajor = ''#2a3942'', roadMinor = ''#1f2c33'', building = ''#1f2c33'',
         boundary = ''#2a3942'', textColor = ''#8696a0'', textHalo = ''#0b141a'' \<rparr>),
      (''light'',
       \<lparr> bg = ''#f0ede6'', earth = ''#f5f3ee'', water = ''#c4daf6'', park = ''#d4edcf'',
         roadMajor = ''#ffffff'', roadMinor = ''#e8e4db'', building = ''#dfdbd3'',
         boundary = ''#bbb8b0'', textColor = ''#444444'', textHalo = ''#f5f3ee'' \<rparr>),
      (''topo'',
       \<lparr> bg = ''#1a1a2e'', earth = ''#16213e'', water = ''#0a1628'', park = ''#1a3a2a'',
         roadMajor = ''#3a4a5e'', roadMinor = ''#2a3a4e'', building = ''#2a3a4e'',
         boundary = ''#4a5a6e'', textColor = ''#8a9ab0'', textHalo = ''#16213e'' \<rparr>)]"

definition vector_layers :: "palette \<Rightarrow> jsval list" where
  "vector_layers p =
     [JObj [(''id'', S ''background''), (''type'', S ''background''),
            (''paint'', JObj [(''background-color'', S (bg p))])],
      JObj [(''id'', S ''earth''), (''type'', S ''fill''), (''source'', S ''protomaps''),
            (''source-layer'', S ''earth''), (''paint'', JObj [(''fill-color'', S (earth p))])],
      JObj [(''id'', S ''water''), (''type'', S ''fill''), (''source'', S ''protomaps''),
            (''source-layer'', S ''water''), (''paint'', JObj [(''fill-color'', S (water p))])],
      JObj [(''id'', S ''landuse_park''), (''type'', S ''fill''), (''source'', S ''protomaps''),
            (''source-layer'', S ''landuse''),
            (''filter'', kind_any [''park'', ''forest'', ''nature_reserve'']),
            (''paint'', JObj [(''fill-color'', S (park p)), (''fill-opacity'', N (1/2))])],
      JObj [(''id'', S ''roads_major''), (''type'', S ''line''), (''source'', S ''protomaps''),
            (''source-layer'', S ''roads''),
            (''filter'', kind_any [''highway'', ''major_road'']),
            (''paint'', JObj [(''line-color'', S (roadMajor p)), (''line-width'', zoom_ramp [6, 1/2, 14, 3])])],
      JObj [(''id'', S ''roads_minor''), (''type'', S ''line''), (''source'', S ''protomaps''),
            (''source-layer'', S ''roads''),
            (''filter'', kind_any [''minor_road'', ''other'']), (''minzoom'', N 12),
            (''paint'', JObj [(''line-color'', S (roadMinor p)), (''line-width'', zoom_ramp [12, 3/10, 18, 2])])],
      JObj [(''id'', S ''buildings''), (''type'', S ''fill''), (''source'', S ''protomaps''),
            (''source-layer'', S ''buildings''), (''minzoom'', N 14),
            (''paint'', JObj [(''fill-color'', S (building p)), (''fill-opacity'', N (3/5))])],
      JObj [(''id'', S ''boundaries''), (''type'', S ''line''), (''source'', S ''protomaps''),
            (''source-layer'', S ''boundaries''),
            (''paint'', JObj [(''line-color'', S (boundary p)), (''line-width'', N 1),
                              (''line-dasharray'', JArr [N 3, N 2])])],
      JObj [(''id'', S ''places''), (''type'', S ''symbol''), (''source'', S ''protomaps''),
            (''source-layer'', S ''places''), (''layout'', places_layout),
            (''paint'', JObj [(''text-color'', S (textColor p)), (''text-halo-color'', S (textHalo p)),
                              (''text-halo-width'', N (3/2))])]]"

definition style_document :: "(string \<times> jsval) list \<Rightarrow> jsval list \<Rightarrow> jsval" where
  "style_document sources layers =
     JObj [(''version'', N 8), (''glyphs'', S COMMON_GLYPHS), (''sources'', JObj sources),
           (''layers'', JArr layers)]"

text \<open>\<open>None\<close>: there is no palette of that name, and reading a colour of it raises.\<close>

definition buildStyle :: "string \<Rightarrow> string \<Rightarrow> jsval option" where
  "buildStyle apiKey theme =
     (if theme = ''satellite'' then
        Some (style_document (satellite_sources apiKey) (satellite_layers apiKey))
      else
        (case map_of palettes theme of
           None \<Rightarrow> None
         | Some p \<Rightarrow> Some (style_document (COMMON_SOURCE apiKey) (vector_layers p))))"

text \<open>The style the viewer asks for: without a key, only the imagery can be had.\<close>

definition availableStyles :: "string \<Rightarrow> string list" where
  "availableStyles apiKey =
     (if apiKey \<noteq> [] then [''dark'', ''light'', ''topo'', ''satellite''] else [''satellite''])"

definition effectiveStyle :: "string \<Rightarrow> string \<Rightarrow> string" where
  "effectiveStyle apiKey style =
     (if style \<in> set (availableStyles apiKey) then style else availableStyles apiKey ! 0)"

text \<open>What MapLibre requires of a style: unique layer ids, every source a layer names declared.\<close>

definition layer_source :: "jsval \<Rightarrow> string option" where
  "layer_source l = (case js_prop l ''source'' of JStr x \<Rightarrow> Some x | _ \<Rightarrow> None)"

definition source_names :: "jsval \<Rightarrow> string list" where
  "source_names st = (case js_prop st ''sources'' of JObj kvs \<Rightarrow> map fst kvs | _ \<Rightarrow> [])"

definition style_layers :: "jsval \<Rightarrow> jsval list" where
  "style_layers st = arr_or_empty (js_prop st ''layers'')"

definition style_wf :: "jsval \<Rightarrow> bool" where
  "style_wf st \<longleftrightarrow>
     distinct (map (\<lambda>l. js_prop l ''id'') (style_layers st)) \<and>
     list_all (\<lambda>l. case layer_source l of None \<Rightarrow> True | Some x \<Rightarrow> x \<in> set (source_names st))
       (style_layers st)"

lemma style_document_simps [simp]:
  "style_layers (style_document srcs ls) = ls" "source_names (style_document srcs ls) = map fst srcs"
  by (simp_all add: style_layers_def source_names_def style_document_def)

lemma satellite_wf: "style_wf (style_document (satellite_sources apiKey) (satellite_layers apiKey))"
  by (cases "apiKey = []")
    (simp_all add: style_wf_def satellite_layers_def satellite_sources_def layer_source_def)

lemma vector_wf: "style_wf (style_document (COMMON_SOURCE apiKey) (vector_layers p))"
  by (simp add: style_wf_def vector_layers_def COMMON_SOURCE_def layer_source_def)

lemma effectiveStyle_available: "effectiveStyle apiKey style \<in> set (availableStyles apiKey)"
  by (simp add: effectiveStyle_def availableStyles_def)

section \<open>Marker elements\<close>

text \<open>DOM nodes: elements with attributes, inline styles and children, and text.\<close>

datatype dom =
    El string "(string \<times> string) list" "(string \<times> string) list" "dom list"
  | Text string

definition create :: "string \<Rightarrow> dom" where "create tag = El tag [] [] []"

fun setAttr :: "string \<Rightarrow> string \<Rightarrow> dom \<Rightarrow> dom" where
  "setAttr k v (El t as st cs) = El t (js_set k v as) st cs"
| "setAttr k v (Text s) = Text s"

text \<open>\<open>Object.assign(el.style, ...)\<close>.\<close>

fun assignStyle :: "(string \<times> string) list \<Rightarrow> dom \<Rightarrow> dom" where
  "assignStyle kvs (El t as st cs) = El t as (fold (\<lambda>(k, v). js_set k v) kvs st) cs"
| "assignStyle kvs (Text s) = Text s"

fun setText :: "string \<Rightarrow> dom \<Rightarrow> dom" where
  "setText s (El t as st cs) = El t as st [Text s]"
| "setText s (Text r) = Text s"

fun appendChild :: "dom \<Rightarrow> dom \<Rightarrow> dom" where
  "appendChild c (El t as st cs) = El t as st (cs @ [c])"
| "appendChild c (Text s) = Text s"

definition buildIconSvg :: "string \<Rightarrow> nat \<Rightarrow> dom" where
  "buildIconSvg cotType px =
     appendChild (setAttr ''d'' (getCotIcon (Some cotType)) (create ''path''))
       (setAttr ''stroke-linejoin'' ''round'' (setAttr ''stroke-linecap'' ''round''
         (setAttr ''stroke-width'' ''2'' (setAttr ''stroke'' ''currentColor'' (setAttr ''fill'' ''none''
           (setAttr ''height'' (decimal px) (setAttr ''width'' (decimal px)
             (setAttr ''viewBox'' ''0 0 24 24'' (create ''svg'')))))))))"

definition buildMarkerLabel :: "string \<Rightarrow> dom" where
  "buildMarkerLabel text =
     assignStyle
       [(''fontSize'', ''10px''), (''fontWeight'', ''500''), (''color'', ''var(--color-fg-primary)''),
        (''background'', ''color-mix(in oklch, var(--color-surface-1) 90%, transparent)''),
        (''padding'', ''1px 6px''), (''borderRadius'', ''4px''), (''whiteSpace'', ''nowrap''),
        (''border'', ''1px solid var(--color-border-subtle)'')]
       (setText text (create ''span''))"

definition buildMarkerWrapper :: dom where
  "buildMarkerWrapper =
     assignStyle
       [(''display'', ''flex''), (''flexDirection'', ''column''), (''alignItems'', ''center''),
        (''gap'', ''3px'')] (create ''div'')"

definition buildSelfMarkerEl :: "string \<Rightarrow> dom" where
  "buildSelfMarkerEl name =
     (let label = assignStyle [(''fontWeight'', ''600'')] (buildMarkerLabel name);
          dot = assignStyle
            [(''width'', ''28px''), (''height'', ''28px''), (''borderRadius'', ''50%''),
             (''background'', ''var(--color-cot-friendly)''), (''display'', ''flex''),
             (''alignItems'', ''center''), (''justifyContent'', ''center''), (''color'', ''#fff''),
             (''border'', ''3px solid color-mix(in oklch, var(--color-cot-friendly) 30%, transparent)''),
             (''boxShadow'', ''0 0 12px color-mix(in oklch, var(--color-cot-friendly) 40%, transparent)'')]
            (create ''div'');
          youLabel = assignStyle
            [(''color'', ''#fff''), (''fontSize'', ''8px''), (''fontWeight'', ''700''),
             (''letterSpacing'', ''0.04em'')] (setText ''YOU'' (create ''span''));
          wrapper = appendChild (appendChild youLabel dot) (appendChild label buildMarkerWrapper)
      in appendChild wrapper (create ''div''))"

definition marker_disc :: "string \<Rightarrow> string \<Rightarrow> string \<Rightarrow> string \<Rightarrow> dom" where
  "marker_disc side background border shadow =
     assignStyle
       [(''width'', side), (''height'', side), (''borderRadius'', ''50%''),
        (''background'', background), (''border'', border), (''display'', ''flex''),
        (''alignItems'', ''center''), (''justifyContent'', ''center''), (''color'', ''#fff''),
        (''boxShadow'', shadow)] (create ''div'')"

definition buildContactMarkerEl :: "string \<Rightarrow> bool \<Rightarrow> dom" where
  "buildContactMarkerEl callsign isStale =
     (let el = assignStyle [(''cursor'', ''pointer''), (''opacity'', if isStale then ''0.4'' else ''1'')]
                 (create ''div'');
          disc = appendChild (buildIconSvg ''b-m-p-c-cp'' 12)
            (marker_disc ''22px'' ''var(--color-cot-friendly)''
               ''2px solid color-mix(in oklch, var(--color-cot-friendly) 60%, white)''
               ''0 1px 3px rgba(0,0,0,0.35)'');
          wrapper = appendChild disc (appendChild (buildMarkerLabel callsign) buildMarkerWrapper)
      in appendChild wrapper el)"

definition buildUserMarkerEl :: "string \<Rightarrow> string \<Rightarrow> string \<Rightarrow> dom" where
  "buildUserMarkerEl name colorKey cotType =
     (let colorVar = getCotColorVar (Some colorKey);
          disc = appendChild (buildIconSvg cotType 15)
            (marker_disc ''28px'' colorVar
               (''2px solid color-mix(in oklch, '' @ colorVar @ '' 60%, white)'')
               ''0 1px 4px rgba(0,0,0,0.4)'');
          wrapper = appendChild disc (appendChild (buildMarkerLabel name) buildMarkerWrapper)
      in appendChild wrapper (assignStyle [(''cursor'', ''pointer'')] (create ''div'')))"

text \<open>The element with its texts blanked out, and its texts.\<close>

fun skeleton :: "dom \<Rightarrow> dom" where
  "skeleton (El t as st cs) = El t as st (map skeleton cs)"
| "skeleton (Text s) = Text []"

fun texts :: "dom \<Rightarrow> string list" where
  "texts (El t as st cs) = concat (map texts cs)"
| "texts (Text s) = [s]"

lemmas element_defs = buildUserMarkerEl_def buildContactMarkerEl_def buildSelfMarkerEl_def
  buildMarkerLabel_def buildMarkerWrapper_def marker_disc_def buildIconSvg_def create_def Let_def

lemma user_marker_texts: "texts (buildUserMarkerEl name c t) = [name]"
  by (simp add: element_defs)

lemma contact_marker_texts: "texts (buildContactMarkerEl name b) = [name]"
  by (simp add: element_defs)

lemma self_marker_texts: "texts (buildSelfMarkerEl name) = [name, ''YOU'']"
  by (simp add: element_defs)

lemma marker_skeletons:
  "skeleton (buildUserMarkerEl name c t) = skeleton (buildUserMarkerEl name' c t)"
  "skeleton (buildContactMarkerEl name b) = skeleton (buildContactMarkerEl name' b)"
  "skeleton (buildSelfMarkerEl name) = skeleton (buildSelfMarkerEl name')"
  by (simp_all add: element_defs)

end
