(* ===== verification/MapView.thy ===== *)
theory MapView
  imports MapStyle PeerStore NavStore Dispatch
begin

text \<open>
  The component \<open>MapViewer\<close> (\<open>web/src/components/MapViewer.tsx\<close>): its map instance and its three
  groups of markers, the effects that keep the markers in step with the store, the gestures that
  place a marker and the handlers of its forms. A render runs the effects whose dependencies have
  changed; dependencies are compared by identity, so a prop that is an object comes with the
  identity of the object (a number).
\<close>

section \<open>State\<close>

record map_marker =
  mk_lng :: num
  mk_lat :: num
  mk_label :: string
  mk_faded :: bool
  mk_el :: dom

text \<open>
  \<open>controls\<close> is \<open>mapControls\<close> of the store, the map its four functions close over.
  \<open>contactMarkers\<close> also keeps what the click handler of each element closes over: the list of
  contacts of the render that made it, and the contact.
\<close>

record map_view =
  mapRef :: "nat option"
  controls :: "nat option"
  next_map :: nat
  contactMarkers :: "(string \<times> (map_marker \<times> (cot_contact list \<times> cot_contact))) list"
  userMarkers :: "(string \<times> (map_marker \<times> cot_marker)) list"
  selfMarker :: "map_marker option"
  selectedContact :: "cot_contact option"
  selectedMarker :: "cot_marker option"
  markerForm :: "(num \<times> num) option"
  longPressTimer :: "nat option"
  longPressPos :: "(num \<times> num) option"
  pending_timers :: "nat list"
  next_timer :: nat

definition init_map_view :: map_view where
  "init_map_view =
     \<lparr> mapRef = None, controls = None, next_map = 0, contactMarkers = [], userMarkers = [], selfMarker = None,
       selectedContact = None, selectedMarker = None, markerForm = None,
       longPressTimer = None, longPressPos = None, pending_timers = [], next_timer = 0 \<rparr>"

text \<open>The props and settings a render reads; objects with their identity.\<close>

record map_props =
  p_contacts :: "nat \<times> cot_contact list"
  p_markers :: "nat \<times> cot_marker list"
  p_self :: "(nat \<times> geo_position) option"
  p_selfName :: string
  p_apiKey :: string
  p_mapStyle :: string

section \<open>The effects\<close>

definition init_map :: "map_view \<Rightarrow> map_view" where
  "init_map v = v\<lparr>mapRef := Some (next_map v), controls := Some (next_map v), next_map := Suc (next_map v),
                  longPressTimer := None, longPressPos := None\<rparr>"

definition dispose_map :: "map_view \<Rightarrow> map_view" where
  "dispose_map v = v\<lparr>mapRef := None, controls := None, contactMarkers := [], userMarkers := [], selfMarker := None\<rparr>"

definition self_effect :: "geo_position option \<Rightarrow> string \<Rightarrow> map_view \<Rightarrow> map_view" where
  "self_effect pos name v =
     (case (mapRef v, pos) of
        (Some m, Some p) \<Rightarrow>
          (case selfMarker v of
             None \<Rightarrow> v\<lparr>selfMarker := Some \<lparr> mk_lng = lon p, mk_lat = lat p, mk_label = name,
                         mk_faded = False, mk_el = buildSelfMarkerEl name \<rparr>\<rparr>
           | Some k \<Rightarrow> v\<lparr>selfMarker := Some (k\<lparr>mk_lng := lon p, mk_lat := lat p\<rparr>)\<rparr>)
      | _ \<Rightarrow> v)"

definition positioned_contacts :: "string \<Rightarrow> cot_contact list \<Rightarrow> cot_contact list" where
  "positioned_contacts selfName contacts =
     filter (\<lambda>c. callsign c \<noteq> selfName) (filter contactHasPosition contacts)"

definition place_contact ::
  "num \<Rightarrow> cot_contact list \<Rightarrow> cot_contact \<Rightarrow>
   (string \<times> (map_marker \<times> (cot_contact list \<times> cot_contact))) list \<Rightarrow>
   (string \<times> (map_marker \<times> (cot_contact list \<times> cot_contact))) list" where
  "place_contact now contacts c ms =
     (let isStale = now > contact_stale c
      in case js_get ms (uid c) of
           Some (k, click) \<Rightarrow>
             js_set (uid c)
               (k\<lparr>mk_lng := contact_lon c, mk_lat := contact_lat c, mk_faded := isStale,
                  mk_label := callsign c\<rparr>, click) ms
         | None \<Rightarrow>
             js_set (uid c)
               (\<lparr> mk_lng = contact_lon c, mk_lat = contact_lat c, mk_label = callsign c,
                  mk_faded = isStale, mk_el = buildContactMarkerEl (callsign c) isStale \<rparr>,
                (contacts, c)) ms)"

definition contacts_effect :: "num \<Rightarrow> string \<Rightarrow> cot_contact list \<Rightarrow> map_view \<Rightarrow> map_view" where
  "contacts_effect now selfName contacts v =
     (case mapRef v of
        None \<Rightarrow> v
      | Some m \<Rightarrow>
          let ps = positioned_contacts selfName contacts;
              currentIds = uid ` set ps;
              kept = filter (\<lambda>(i, k). i \<in> currentIds) (contactMarkers v)
          in v\<lparr>contactMarkers := fold (place_contact now contacts) ps kept\<rparr>)"

definition place_marker ::
  "cot_marker \<Rightarrow> (string \<times> (map_marker \<times> cot_marker)) list \<Rightarrow> (string \<times> (map_marker \<times> cot_marker)) list" where
  "place_marker m ms =
     (if js_get ms (marker_id m) \<noteq> None then ms
      else js_set (marker_id m)
             (\<lparr> mk_lng = marker_lon m, mk_lat = marker_lat m, mk_label = marker_name m, mk_faded = False,
                mk_el = buildUserMarkerEl (marker_name m) (marker_color m) (marker_cot_type m) \<rparr>, m) ms)"

definition markers_effect :: "cot_marker list \<Rightarrow> map_view \<Rightarrow> map_view" where
  "markers_effect markers v =
     (case mapRef v of
        None \<Rightarrow> v
      | Some m \<Rightarrow>
          let currentIds = marker_id ` set markers;
              kept = filter (\<lambda>(i, k). i \<in> currentIds) (userMarkers v)
          in v\<lparr>userMarkers := fold place_marker markers kept\<rparr>)"

text \<open>
  A commit: the cleanups of the effects that will run (only the first has one that matters here),
  then the effects with changed dependencies, in the order of the source. \<open>None\<close> as the previous
  props is the first render.
\<close>

definition style_deps :: "map_props \<Rightarrow> string \<times> string" where
  "style_deps p = (p_apiKey p, effectiveStyle (p_apiKey p) (p_mapStyle p))"

definition changed :: "('p \<Rightarrow> 'a) \<Rightarrow> 'p option \<Rightarrow> 'p \<Rightarrow> bool" where
  "changed dep old new = (case old of None \<Rightarrow> True | Some p \<Rightarrow> dep p \<noteq> dep new)"

definition map_commit :: "num \<Rightarrow> map_props option \<Rightarrow> map_props \<Rightarrow> map_view \<Rightarrow> map_view" where
  "map_commit now old p v =
     (let v1 = (if changed style_deps old p
                then init_map (if old = None then v else dispose_map v) else v);
          v2 = (if changed (\<lambda>p. (map_option fst (p_self p), p_selfName p)) old p
                then self_effect (map_option snd (p_self p)) (p_selfName p) v1 else v1);
          v3 = (if changed (fst \<circ> p_contacts) old p
                then contacts_effect now (p_selfName p) (snd (p_contacts p)) v2 else v2)
      in if changed (fst \<circ> p_markers) old p
         then markers_effect (snd (p_markers p)) v3 else v3)"

section \<open>Gestures and handlers\<close>

definition open_form :: "num \<Rightarrow> num \<Rightarrow> map_view \<Rightarrow> map_view" where
  "open_form la lo v = v\<lparr>markerForm := Some (la, lo), selectedContact := None, selectedMarker := None\<rparr>"

definition on_contextmenu :: "num \<Rightarrow> num \<Rightarrow> map_view \<Rightarrow> map_view" where
  "on_contextmenu la lo v = open_form la lo v"

text \<open>\<open>touches\<close> is the number of fingers; the timeout of 600 ms is one of \<open>pending_timers\<close>.\<close>

definition on_touchstart :: "nat \<Rightarrow> num \<Rightarrow> num \<Rightarrow> map_view \<Rightarrow> map_view" where
  "on_touchstart touches la lo v =
     (if touches \<noteq> 1 then v
      else v\<lparr>longPressPos := Some (la, lo), longPressTimer := Some (next_timer v),
             pending_timers := next_timer v # pending_timers v, next_timer := Suc (next_timer v)\<rparr>)"

definition on_touch_cancel :: "map_view \<Rightarrow> map_view" where
  "on_touch_cancel v =
     (case longPressTimer v of
        None \<Rightarrow> v
      | Some t \<Rightarrow> v\<lparr>pending_timers := filter (\<lambda>x. x \<noteq> t) (pending_timers v), longPressTimer := None\<rparr>)"

definition on_long_press :: "nat \<Rightarrow> map_view \<Rightarrow> map_view" where
  "on_long_press t v =
     (if t \<notin> set (pending_timers v) then v
      else
        let v1 = v\<lparr>pending_timers := filter (\<lambda>x. x \<noteq> t) (pending_timers v)\<rparr>
        in case longPressPos v1 of None \<Rightarrow> v1 | Some (la, lo) \<Rightarrow> open_form la lo v1)"

text \<open>\<open>openAddMarker\<close> of the map controls, at the centre of the map.\<close>

definition openAddMarker :: "num \<Rightarrow> num \<Rightarrow> map_view \<Rightarrow> map_view" where
  "openAddMarker la lo v = v\<lparr>markerForm := Some (la, lo)\<rparr>"

text \<open>\<open>centerOnSelf\<close>: where the map flies to, and the zoom it ends at.\<close>

definition centerOnSelf :: "geo_position option \<Rightarrow> num \<Rightarrow> (num \<times> num \<times> num) option" where
  "centerOnSelf pos zoom = map_option (\<lambda>p. (lon p, lat p, max zoom 15)) pos"

definition click_contact :: "string \<Rightarrow> map_view \<Rightarrow> map_view" where
  "click_contact i v =
     (case js_get (contactMarkers v) i of
        None \<Rightarrow> v
      | Some (k, contacts, contact) \<Rightarrow>
          let latest = (case find (\<lambda>c. uid c = i) contacts of Some c \<Rightarrow> c | None \<Rightarrow> contact)
          in v\<lparr>selectedContact := Some latest, selectedMarker := None, markerForm := None\<rparr>)"

definition click_marker :: "string \<Rightarrow> map_view \<Rightarrow> map_view" where
  "click_marker i v =
     (case js_get (userMarkers v) i of
        None \<Rightarrow> v
      | Some (k, m) \<Rightarrow> v\<lparr>selectedMarker := Some m, selectedContact := None, markerForm := None\<rparr>)"

definition popover_anchor :: "map_view \<Rightarrow> (num \<times> num) option" where
  "popover_anchor v =
     (if mapRef v = None then None
      else case selectedContact v of
             Some c \<Rightarrow> Some (contact_lon c, contact_lat c)
           | None \<Rightarrow> map_option (\<lambda>m. (marker_lon m, marker_lat m)) (selectedMarker v))"

definition handlePlaceMarker ::
  "string option \<Rightarrow> marker_submission \<Rightarrow> map_view \<Rightarrow> map_view \<times> out_msg list" where
  "handlePlaceMarker activeRoom d v =
     (case (markerForm v, activeRoom) of
        (Some (la, lo), Some rid) \<Rightarrow>
          if rid = [] then (v, [])
          else (v\<lparr>markerForm := None\<rparr>,
                [Out ''create_marker''
                  (JObj [(''room_id'', JStr rid), (''lat'', JNum la), (''lon'', JNum lo),
                         (''name'', JStr (ms_name d)), (''icon'', JStr (ms_icon d)),
                         (''color'', JStr (ms_color d)), (''cot_type'', JStr (ms_cot_type d)),
                         (''remarks'', JStr (ms_remarks d))])])
      | _ \<Rightarrow> (v, []))"

definition handleDeleteMarker :: "string option \<Rightarrow> string \<Rightarrow> map_view \<Rightarrow> map_view \<times> out_msg list" where
  "handleDeleteMarker activeRoom mid v =
     (if \<not> str_truthy activeRoom then (v, [])
      else (v\<lparr>selectedMarker := None\<rparr>,
            [Out ''delete_marker'' (JObj [(''room_id'', JStr (the activeRoom)), (''marker_id'', JStr mid)])]))"

text \<open>The delete button of the marker popover is there for the creator only.\<close>

definition shows_delete :: "string \<Rightarrow> map_view \<Rightarrow> bool" where
  "shows_delete me v \<longleftrightarrow> (case selectedMarker v of None \<Rightarrow> False | Some m \<Rightarrow> creator_id m = me)"

text \<open>What \<open>MapBackground\<close> hands over for the active room (\<open>components/layout/MapBackground.tsx\<close>).\<close>

definition room_map_data :: "chat_state \<Rightarrow> cot_contact list \<times> cot_marker list" where
  "room_map_data s =
     (case activeRoomId s of
        None \<Rightarrow> ([], [])
      | Some rid \<Rightarrow> if rid = [] then ([], [])
                    else (room_entries (cotContacts s) rid, room_entries (cotMarkers s) rid))"

definition map_click :: "chat_state \<Rightarrow> chat_state" where
  "map_click s = (if drawerSnap s > 1/10 then setDrawerSnap (1/10) s else s)"

section \<open>What the effects establish\<close>

lemma get_filter_keys:
  "js_get (filter (\<lambda>(i, k). i \<in> A) m) j = (if j \<in> A then js_get m j else None)"
  by (induction m) auto

definition contact_placed :: "num \<Rightarrow> cot_contact \<Rightarrow> map_marker \<Rightarrow> bool" where
  "contact_placed now c k \<longleftrightarrow>
     mk_lng k = contact_lon c \<and> mk_lat k = contact_lat c \<and> mk_label k = callsign c \<and>
     mk_faded k = (now > contact_stale c)"

lemma place_contact_get:
  "\<exists>k click. js_get (place_contact now cs c ms) = (js_get ms)(uid c \<mapsto> (k, click)) \<and> contact_placed now c k"
proof (cases "js_get ms (uid c)")
  case None
  let ?k = "\<lparr> mk_lng = contact_lon c, mk_lat = contact_lat c, mk_label = callsign c,
     mk_faded = contact_stale c < now, mk_el = buildContactMarkerEl (callsign c) (contact_stale c < now) \<rparr>"
  have "js_get (place_contact now cs c ms) = (js_get ms)(uid c \<mapsto> (?k, cs, c))"
    using None by (simp add: place_contact_def Let_def)
  moreover have "contact_placed now c ?k" by (simp add: contact_placed_def)
  ultimately show ?thesis by blast
next
  case (Some old)
  obtain k click where old: "old = (k, click)" by (cases old)
  let ?k = "k\<lparr>mk_lng := contact_lon c, mk_lat := contact_lat c, mk_faded := contact_stale c < now,
     mk_label := callsign c\<rparr>"
  have "js_get (place_contact now cs c ms) = (js_get ms)(uid c \<mapsto> (?k, click))"
    using Some old by (simp add: place_contact_def Let_def)
  moreover have "contact_placed now c ?k" by (simp add: contact_placed_def)
  ultimately show ?thesis by blast
qed

lemma fold_place_contact:
  "dom (js_get (fold (place_contact now cs) ps ms)) = dom (js_get ms) \<union> uid ` set ps \<and>
   (distinct (map uid ps) \<longrightarrow> (\<forall>c \<in> set ps. \<exists>k click.
      js_get (fold (place_contact now cs) ps ms) (uid c) = Some (k, click) \<and> contact_placed now c k)) \<and>
   (\<forall>i. i \<notin> uid ` set ps \<longrightarrow> js_get (fold (place_contact now cs) ps ms) i = js_get ms i)"
proof (induction ps arbitrary: ms)
  case (Cons c ps)
  obtain k click where g: "js_get (place_contact now cs c ms) = (js_get ms)(uid c \<mapsto> (k, click))"
    and p: "contact_placed now c k" using place_contact_get by blast
  show ?case using Cons [of "place_contact now cs c ms"] by (auto simp: g p)
qed simp

lemma fold_place_marker:
  "dom (js_get (fold place_marker ns ms)) = dom (js_get ms) \<union> marker_id ` set ns"
proof (induction ns arbitrary: ms)
  case (Cons m ns)
  have "dom (js_get (place_marker m ms)) = insert (marker_id m) (dom (js_get ms))"
    by (auto simp: place_marker_def)
  with Cons [of "place_marker m ms"] show ?case by auto
qed simp

lemma init_map_ref [simp]: "mapRef (init_map v) \<noteq> None"
  by (simp add: init_map_def)

lemma self_effect_frame [simp]:
  "mapRef (self_effect p n v) = mapRef v" "contactMarkers (self_effect p n v) = contactMarkers v"
  "userMarkers (self_effect p n v) = userMarkers v"
  by (auto simp: self_effect_def split: option.splits)

lemma contacts_effect_frame [simp]:
  "mapRef (contacts_effect now n cs v) = mapRef v"
  "userMarkers (contacts_effect now n cs v) = userMarkers v"
  by (auto simp: contacts_effect_def Let_def split: option.splits)

lemma markers_effect_frame [simp]:
  "mapRef (markers_effect ms v) = mapRef v"
  "contactMarkers (markers_effect ms v) = contactMarkers v"
  by (auto simp: markers_effect_def Let_def split: option.splits)

lemma contacts_effect_keys:
  assumes "mapRef v \<noteq> None"
  shows "dom (js_get (contactMarkers (contacts_effect now n cs v))) = uid ` set (positioned_contacts n cs)"
  using assms fold_place_contact [of now cs "positioned_contacts n cs"
      "filter (\<lambda>(i, k). i \<in> uid ` set (positioned_contacts n cs)) (contactMarkers v)"]
  by (auto simp: contacts_effect_def Let_def get_filter_keys split: option.splits if_splits)

lemma markers_effect_keys:
  assumes "mapRef v \<noteq> None"
  shows "dom (js_get (userMarkers (markers_effect ms v))) = marker_id ` set ms"
  using assms fold_place_marker [of ms "filter (\<lambda>(i, k). i \<in> marker_id ` set ms) (userMarkers v)"]
  by (auto simp: markers_effect_def Let_def get_filter_keys split: option.splits if_splits)

lemma contacts_effect_placed:
  assumes "mapRef v \<noteq> None" and "distinct (map uid (positioned_contacts n cs))"
    and "c \<in> set (positioned_contacts n cs)"
  shows "\<exists>k click. js_get (contactMarkers (contacts_effect now n cs v)) (uid c) = Some (k, click) \<and>
           contact_placed now c k"
  using assms fold_place_contact [of now cs "positioned_contacts n cs"
      "filter (\<lambda>(i, k). i \<in> uid ` set (positioned_contacts n cs)) (contactMarkers v)"]
  by (auto simp: contacts_effect_def Let_def split: option.splits)

end
