(* ===== verification/ChatUi.thy ===== *)
theory ChatUi
  imports RoomStore NavStore Dispatch Lib
begin

text \<open>
  The chat pane: \<open>ChatView\<close>, \<open>MessageRow\<close> and \<open>MessageInput\<close> (\<open>web/src/components\<close>). What a
  component keeps with \<open>useState\<close> is a record, its handlers are functions on it that also give
  the frames sent, what it renders is a value that holds the texts, flags and handlers shown (not
  the CSS classes).
\<close>

section \<open>ChatView\<close>

record composer =
  replyToId :: "string option"
  editingId :: "string option"
  editContent :: string

definition init_composer :: composer where
  "init_composer = \<lparr> replyToId = None, editingId = None, editContent = [] \<rparr>"

definition message_frame :: "string \<Rightarrow> string \<Rightarrow> (string \<times> jsval) list \<Rightarrow> jsval" where
  "message_frame rid mid extra = JObj ([(''room_id'', JStr rid), (''message_id'', JStr mid)] @ extra)"

text \<open>The effect on a change of the active room, and the cancel button of the composer.\<close>

definition composer_reset :: "composer \<Rightarrow> composer" where
  "composer_reset c = c\<lparr>replyToId := None, editingId := None, editContent := []\<rparr>"

definition chat_handleSend :: "string \<Rightarrow> string \<Rightarrow> composer \<Rightarrow> composer \<times> out_msg list" where
  "chat_handleSend rid body c =
     (if str_truthy (editingId c) then
        (c\<lparr>editingId := None, editContent := []\<rparr>,
         [Out ''edit_message'' (message_frame rid (the (editingId c)) [(''content'', JStr body)])])
      else
        (c\<lparr>replyToId := None\<rparr>,
         [Out ''send_message''
            (JObj ([(''room_id'', JStr rid), (''content'', JStr body)] @
                   (if str_truthy (replyToId c) then [(''reply_to'', JStr (the (replyToId c)))] else [])))]))"

definition handleReply :: "string \<Rightarrow> composer \<Rightarrow> composer" where
  "handleReply mid c = c\<lparr>replyToId := Some mid, editingId := None, editContent := []\<rparr>"

definition handleEdit :: "string \<Rightarrow> string \<Rightarrow> composer \<Rightarrow> composer" where
  "handleEdit mid body c = c\<lparr>editingId := Some mid, editContent := body, replyToId := None\<rparr>"

definition handleDelete :: "string \<Rightarrow> string \<Rightarrow> out_msg" where
  "handleDelete rid mid = Out ''delete_message'' (message_frame rid mid [])"

definition handleReact :: "string \<Rightarrow> string \<Rightarrow> string \<Rightarrow> out_msg" where
  "handleReact rid mid emoji = Out ''add_reaction'' (message_frame rid mid [(''emoji'', JStr emoji)])"

definition handleRemoveReact :: "string \<Rightarrow> string \<Rightarrow> string \<Rightarrow> out_msg" where
  "handleRemoveReact rid mid emoji =
     Out ''remove_reaction'' (message_frame rid mid [(''emoji'', JStr emoji)])"

definition handlePin :: "string \<Rightarrow> string \<Rightarrow> out_msg" where
  "handlePin rid mid = Out ''pin_message'' (message_frame rid mid [])"

definition handleUnpin :: "string \<Rightarrow> string \<Rightarrow> out_msg" where
  "handleUnpin rid mid = Out ''unpin_message'' (message_frame rid mid [])"

text \<open>The buttons of the reply bar and of the edit bar.\<close>

definition close_reply_bar :: "composer \<Rightarrow> composer" where
  "close_reply_bar c = c\<lparr>replyToId := None\<rparr>"

definition close_edit_bar :: "composer \<Rightarrow> composer" where
  "close_edit_bar c = c\<lparr>editingId := None, editContent := []\<rparr>"

text \<open>The room on show, and the rows: each message with what it is given.\<close>

definition shown_room :: "chat_state \<Rightarrow> room option" where
  "shown_room s =
     (if str_truthy (activeRoomId s) then js_get (rooms s) (the (activeRoomId s)) else None)"

definition is_group_head :: "chat_message option \<Rightarrow> chat_message \<Rightarrow> bool" where
  "is_group_head prev m =
     (case prev of
        None \<Rightarrow> True
      | Some q \<Rightarrow> sender q \<noteq> sender m \<or> timestamp m - timestamp q > 5 * 60000)"

record row_props =
  rp_message :: chat_message
  rp_isSelf :: bool
  rp_isGroupHead :: bool
  rp_replyParent :: "chat_message option"

definition reply_parent :: "(string \<times> chat_message) list \<Rightarrow> chat_message \<Rightarrow> chat_message option" where
  "reply_parent messageMap m =
     (if str_truthy (reply_to m) then js_get messageMap (the (reply_to m)) else None)"

fun rows_from :: "string \<Rightarrow> (string \<times> chat_message) list \<Rightarrow> chat_message option \<Rightarrow>
    chat_message list \<Rightarrow> row_props list" where
  "rows_from me mm prev [] = []"
| "rows_from me mm prev (m # ms) =
     \<lparr> rp_message = m, rp_isSelf = (sender m = me), rp_isGroupHead = is_group_head prev m,
       rp_replyParent = reply_parent mm m \<rparr> # rows_from me mm (Some m) ms"

definition message_rows :: "string \<Rightarrow> room \<Rightarrow> row_props list" where
  "message_rows me r = rows_from me (map_from msg_id (messages r)) None (messages r)"

text \<open>The header of the pane, and the bars above the composer.\<close>

definition active_channel :: "chat_state \<Rightarrow> room \<Rightarrow> voice_channel option" where
  "active_channel s r =
     (case activeVoice s of
        None \<Rightarrow> None
      | Some (vr, vc) \<Rightarrow>
          if vr = room_id r
          then find (\<lambda>c. vc_id c = vc)
                 (case js_get (voiceState s) (room_id r) of Some chs \<Rightarrow> chs | None \<Rightarrow> [])
          else None)"

record chat_pane =
  cp_title :: string
  cp_members :: num
  cp_plural :: bool
  cp_voice :: "string option"
  cp_rows :: "row_props list"
  cp_reply_bar :: "(string \<times> string) option"
  cp_edit_bar :: bool
  cp_ptt_bar :: "(string \<times> bool) option"
  cp_edit_content :: "string option"
  cp_context :: "string option"

definition chat_view :: "chat_state \<Rightarrow> composer \<Rightarrow> chat_pane option" where
  "chat_view s c =
     (case shown_room s of
        None \<Rightarrow> None
      | Some r \<Rightarrow>
          let messageMap = map_from msg_id (messages r);
              channel = active_channel s r;
              replyParentMsg = (if str_truthy (replyToId c) then js_get messageMap (the (replyToId c)) else None);
              editing = str_truthy (editingId c)
          in Some \<lparr> cp_title = room_name r,
                    cp_members = members r,
                    cp_plural = (members r \<noteq> 1),
                    cp_voice = map_option (\<lambda>ch. text_or ''Voice'' (vc_name ch)) channel,
                    cp_rows = message_rows (userId s) r,
                    cp_reply_bar = map_option
                      (\<lambda>m. (sender_name m, if deleted m = Some True then ''Message deleted'' else content m))
                      replyParentMsg,
                    cp_edit_bar = editing,
                    cp_ptt_bar = map_option (\<lambda>ch. (text_or ''Voice'' (vc_name ch), localSpeaking s)) channel,
                    cp_edit_content = (if editing then Some (editContent c) else None),
                    cp_context = (if editing then Some ''edit''
                                  else if str_truthy (replyToId c) then Some ''reply'' else None) \<rparr>)"

section \<open>MessageRow\<close>

text \<open>
  \<open>QUICK_EMOJIS\<close> is a parameter: its members are characters outside the model's range. A click
  handler is the frame it makes \<open>ChatView\<close> send.
\<close>

definition reactions_of :: "chat_message \<Rightarrow> (string \<times> string list) list" where
  "reactions_of m = (case reactions m of None \<Rightarrow> [] | Some r \<Rightarrow> r)"

definition has_reacted :: "string \<Rightarrow> string \<Rightarrow> chat_message \<Rightarrow> bool" where
  "has_reacted me emoji m =
     (case js_get (reactions_of m) emoji of None \<Rightarrow> False | Some senders \<Rightarrow> me \<in> set senders)"

record reaction_chip =
  chip_emoji :: string
  chip_count :: nat
  chip_self :: bool
  chip_click :: out_msg

definition reaction_chips :: "string \<Rightarrow> string \<Rightarrow> chat_message \<Rightarrow> reaction_chip list" where
  "reaction_chips rid me m =
     map (\<lambda>(emoji, senders).
            let selfReacted = me \<in> set senders
            in \<lparr> chip_emoji = emoji, chip_count = length senders, chip_self = selfReacted,
                 chip_click = (if selfReacted then handleRemoveReact rid (msg_id m) emoji
                               else handleReact rid (msg_id m) emoji) \<rparr>)
       (filter (\<lambda>(e, senders). 0 < length senders) (reactions_of m))"

definition pick_reaction :: "string \<Rightarrow> string \<Rightarrow> string \<Rightarrow> chat_message \<Rightarrow> out_msg" where
  "pick_reaction rid me emoji m =
     (if has_reacted me emoji m then handleRemoveReact rid (msg_id m) emoji
      else handleReact rid (msg_id m) emoji)"

datatype menu_item = ItemReply | ItemPin out_msg | ItemUnpin out_msg | ItemEdit string string | ItemDelete out_msg

definition context_menu :: "string \<Rightarrow> bool \<Rightarrow> chat_message \<Rightarrow> menu_item list" where
  "context_menu rid isSelf m =
     [ItemReply,
      if pinned m = Some True then ItemUnpin (handleUnpin rid (msg_id m))
      else ItemPin (handlePin rid (msg_id m))] @
     (if isSelf then [ItemEdit (msg_id m) (content m), ItemDelete (handleDelete rid (msg_id m))] else [])"

text \<open>\<open>slice(0, 80)\<close> and an ellipsis (three dots stand for its character).\<close>

definition preview :: "chat_message \<Rightarrow> string" where
  "preview m =
     (if deleted m = Some True then ''Message deleted''
      else js_slice (content m) 0 80 @ (if 80 < length (content m) then ''...'' else []))"

record row_body =
  rb_avatar :: "(string \<times> string) option"
  rb_sender :: "string option"
  rb_pinned :: bool
  rb_edited :: bool
  rb_reply :: "(string \<times> string) option"
  rb_content :: string
  rb_chips :: "reaction_chip list"
  rb_picker :: "(string \<times> bool \<times> out_msg) list"
  rb_menu :: "menu_item list"

datatype row_view = DeletedRow | MessageBody row_body

text \<open>A number as a condition: 0 is falsy.\<close>

definition num_truthy :: "num option \<Rightarrow> bool" where
  "num_truthy v = (case v of None \<Rightarrow> False | Some x \<Rightarrow> x \<noteq> 0)"

definition message_row :: "string list \<Rightarrow> string \<Rightarrow> string \<Rightarrow> bool \<Rightarrow> row_props \<Rightarrow> row_view" where
  "message_row quick rid me showReactions p =
     (let m = rp_message p; head = rp_isGroupHead p
      in if deleted m = Some True then DeletedRow
         else MessageBody
           \<lparr> rb_avatar = (if head then Some (initialsFor (sender_name m) (sender m), colorForSender (sender m))
                          else None),
             rb_sender = (if head then Some (sender_name m) else None),
             rb_pinned = (head \<and> pinned m = Some True),
             rb_edited = (head \<and> num_truthy (edited_at m)),
             rb_reply = map_option (\<lambda>q. (sender_name q, preview q)) (rp_replyParent p),
             rb_content = content m,
             rb_chips = reaction_chips rid me m,
             rb_picker = (if showReactions
                          then map (\<lambda>e. (e, has_reacted me e m, pick_reaction rid me e m)) quick else []),
             rb_menu = context_menu rid (rp_isSelf p) m \<rparr>)"

section \<open>MessageInput\<close>

text \<open>
  The text of the box, and the caret: the positions of the selection, which the browser keeps
  within the text.
\<close>

record input_box =
  box_text :: string
  sel_start :: nat
  sel_end :: nat

definition init_box :: input_box where
  "init_box = \<lparr> box_text = [], sel_start = 0, sel_end = 0 \<rparr>"

text \<open>The effect on \<open>editContent\<close>, which runs when the prop has changed.\<close>

definition edit_effect :: "string option \<Rightarrow> string option \<Rightarrow> input_box \<Rightarrow> input_box" where
  "edit_effect old new b =
     (if old = new then b
      else case new of
             None \<Rightarrow> b
           | Some t \<Rightarrow> b\<lparr>box_text := t, sel_start := length t, sel_end := length t\<rparr>)"

definition canSend :: "bool \<Rightarrow> input_box \<Rightarrow> bool" where
  "canSend conn b \<longleftrightarrow> 0 < length (js_trim (box_text b)) \<and> conn"

text \<open>\<open>handleSend\<close>: the box afterwards and what it hands to \<open>onSend\<close>.\<close>

definition input_handleSend :: "bool \<Rightarrow> input_box \<Rightarrow> input_box \<times> string option" where
  "input_handleSend conn b =
     (if \<not> canSend conn b then (b, None)
      else (init_box, Some (js_trim (box_text b))))"

datatype key_action = NoAction | SendText string | CancelContext

definition input_handleKeyDown ::
  "bool \<Rightarrow> string option \<Rightarrow> string \<Rightarrow> bool \<Rightarrow> input_box \<Rightarrow> input_box \<times> key_action" where
  "input_handleKeyDown conn contextKind key shift b =
     (if key = ''Enter'' \<and> \<not> shift then
        (case input_handleSend conn b of
           (b', Some t) \<Rightarrow> (b', SendText t) | (b', None) \<Rightarrow> (b', NoAction))
      else if key = ''Escape'' \<and> contextKind \<noteq> None then (b, CancelContext)
      else (b, NoAction))"

definition insertEmoji :: "string \<Rightarrow> input_box \<Rightarrow> input_box" where
  "insertEmoji emoji b =
     (let next = take (sel_start b) (box_text b) @ emoji @ drop (sel_end b) (box_text b);
          pos = sel_start b + length emoji
      in \<lparr> box_text = next, sel_start = pos, sel_end = pos \<rparr>)"

text \<open>The texts and flags of the composer; dots stand for the ellipsis character.\<close>

record input_view =
  iv_placeholder :: string
  iv_disabled :: bool
  iv_attach_disabled :: bool
  iv_button :: string
  iv_button_disabled :: bool

definition input_view_of :: "bool \<Rightarrow> bool \<Rightarrow> input_box \<Rightarrow> input_view" where
  "input_view_of conn isEditing b =
     \<lparr> iv_placeholder = (if conn then (if isEditing then ''Edit message...'' else ''Type a message'')
                         else ''Connecting...''),
       iv_disabled = (\<not> conn),
       iv_attach_disabled = (\<not> conn \<or> isEditing),
       iv_button = (if canSend conn b \<or> isEditing
                    then (if isEditing then ''Save edit'' else ''Send message'') else ''Voice message''),
       iv_button_disabled = (canSend conn b \<or> isEditing) \<and> \<not> canSend conn b \<and> \<not> isEditing \<rparr>"

section \<open>The pane as a whole\<close>

text \<open>
  The two components together: \<open>ChatView\<close> renders \<open>MessageInput\<close>, whose effect runs after every
  render in which the prop \<open>editContent\<close> has changed.
\<close>

type_synonym pane = "composer \<times> input_box"

definition edit_prop :: "composer \<Rightarrow> string option" where
  "edit_prop c = (if str_truthy (editingId c) then Some (editContent c) else None)"

definition rerender :: "(composer \<Rightarrow> composer) \<Rightarrow> pane \<Rightarrow> pane" where
  "rerender f p = (f (fst p), edit_effect (edit_prop (fst p)) (edit_prop (f (fst p))) (snd p))"

definition pane_type :: "string \<Rightarrow> pane \<Rightarrow> pane" where
  "pane_type t p = (fst p, (snd p)\<lparr>box_text := t, sel_start := length t, sel_end := length t\<rparr>)"

definition pane_send :: "bool \<Rightarrow> string \<Rightarrow> pane \<Rightarrow> pane \<times> out_msg list" where
  "pane_send conn rid p =
     (case input_handleSend conn (snd p) of
        (b, None) \<Rightarrow> (p, [])
      | (b, Some body) \<Rightarrow>
          let (c, outs) = chat_handleSend rid body (fst p)
          in ((c, edit_effect (edit_prop (fst p)) (edit_prop c) b), outs))"

datatype pane_event =
    PReply string
  | PEdit string string
  | PCancel
  | PCloseReply
  | PCloseEdit
  | PSwitchRoom
  | PType string
  | PEmoji string

fun pane_step :: "pane_event \<Rightarrow> pane \<Rightarrow> pane" where
  "pane_step (PReply mid) p = rerender (handleReply mid) p"
| "pane_step (PEdit mid body) p = rerender (handleEdit mid body) p"
| "pane_step PCancel p = rerender composer_reset p"
| "pane_step PCloseReply p = rerender close_reply_bar p"
| "pane_step PCloseEdit p = rerender close_edit_bar p"
| "pane_step PSwitchRoom p = rerender composer_reset p"
| "pane_step (PType t) p = pane_type t p"
| "pane_step (PEmoji e) p = (fst p, insertEmoji e (snd p))"

inductive pane_reachable :: "pane \<Rightarrow> bool" where
  pane_start: "pane_reachable (init_composer, init_box)"
| pane_event: "pane_reachable p \<Longrightarrow> pane_reachable (pane_step e p)"
| pane_sent: "pane_reachable p \<Longrightarrow> pane_reachable (fst (pane_send conn rid p))"

text \<open>Replying and editing exclude each other, and the caret stays in the text.\<close>

definition pane_ok :: "pane \<Rightarrow> bool" where
  "pane_ok p \<longleftrightarrow>
     (replyToId (fst p) = None \<or> editingId (fst p) = None) \<and>
     sel_start (snd p) \<le> sel_end (snd p) \<and> sel_end (snd p) \<le> length (box_text (snd p))"

lemma edit_effect_caret:
  "sel_start b \<le> sel_end b \<Longrightarrow> sel_end b \<le> length (box_text b) \<Longrightarrow>
   sel_start (edit_effect o' n b) \<le> sel_end (edit_effect o' n b) \<and>
   sel_end (edit_effect o' n b) \<le> length (box_text (edit_effect o' n b))"
  by (auto simp: edit_effect_def split: option.split)

lemma insertEmoji_caret:
  "sel_start b \<le> sel_end b \<Longrightarrow> sel_end b \<le> length (box_text b) \<Longrightarrow>
   sel_start (insertEmoji e b) \<le> sel_end (insertEmoji e b) \<and>
   sel_end (insertEmoji e b) \<le> length (box_text (insertEmoji e b))"
  by (simp add: insertEmoji_def Let_def)

lemma pane_step_ok: "pane_ok p \<Longrightarrow> pane_ok (pane_step e p)"
  by (cases e)
    (auto simp: pane_ok_def rerender_def handleReply_def handleEdit_def composer_reset_def
      close_reply_bar_def close_edit_bar_def pane_type_def edit_effect_caret insertEmoji_caret)

lemma pane_send_ok: "pane_ok p \<Longrightarrow> pane_ok (fst (pane_send conn rid p))"
  by (auto simp: pane_ok_def pane_send_def input_handleSend_def chat_handleSend_def Let_def init_box_def
      edit_effect_def split: option.splits prod.splits if_splits)

lemma pane_reachable_ok: "pane_reachable p \<Longrightarrow> pane_ok p"
  by (induction rule: pane_reachable.induct)
    (auto simp: pane_step_ok pane_send_ok, simp add: pane_ok_def init_composer_def init_box_def)

lemma rows_messages: "map rp_message (rows_from me mm prev ms) = ms"
  by (induction ms arbitrary: prev) auto

end
