(* ===== verification/LayoutUi.thy ===== *)
theory LayoutUi
  imports SidebarUi ChatUi Hooks Complex_Main
begin

text \<open>
  The shell around the map: \<open>web/src/components/layout\<close> (\<open>TopBar\<close>, \<open>OnlineIndicator\<close>,
  \<open>ContextSurface\<close>, \<open>ContextStack\<close>, \<open>ContextSideSheet\<close>, \<open>ContextDrawer\<close>, \<open>OverlaySheets\<close>,
  \<open>ActiveCallStrip\<close>, \<open>MapRail\<close>), the push-to-talk button, and \<open>MeshViewer\<close> with its layout.
\<close>

section \<open>Numbers as text\<close>

text \<open>What a template literal prints of an integer, and \<open>toFixed(d)\<close> of a number below 1e21.\<close>

definition int_text :: "int \<Rightarrow> string" where
  "int_text i = (if i < 0 then ''-'' @ decimal (nat (- i)) else decimal (nat i))"

definition toFixed :: "nat \<Rightarrow> num \<Rightarrow> string" where
  "toFixed d x =
     (let n = nat \<lfloor>\<bar>x\<bar> * 10 ^ d + 1 / 2\<rfloor>; digits = decimal n;
          padded = replicate (d + 1 - length digits) (CHR ''0'') @ digits; k = length padded - d
      in (if x < 0 then ''-'' else []) @ take k padded @ (if d = 0 then [] else CHR ''.'' # drop k padded))"

section \<open>TopBar\<close>

definition formatLatLon :: "num \<Rightarrow> num \<Rightarrow> string" where
  "formatLatLon la lo = toFixed 2 la @ [CHR 0xB0] @ '' / '' @ toFixed 2 lo @ [CHR 0xB0]"

definition usesDrawer :: "breakpoint \<Rightarrow> orientation \<Rightarrow> bool" where
  "usesDrawer bp o' \<longleftrightarrow> bp = Mobile \<and> o' \<noteq> Landscape"

definition chatFocused :: "breakpoint \<Rightarrow> orientation \<Rightarrow> chat_state \<Rightarrow> bool" where
  "chatFocused bp o' s =
     (if usesDrawer bp o' then 1/2 \<le> drawerSnap s else \<not> contextSurfaceHidden s)"

definition focusMap :: "breakpoint \<Rightarrow> orientation \<Rightarrow> chat_state \<Rightarrow> chat_state" where
  "focusMap bp o' s =
     (if usesDrawer bp o' then setDrawerSnap (1/4) s else setContextSurfaceHidden True s)"

definition focusChat :: "breakpoint \<Rightarrow> orientation \<Rightarrow> chat_state \<Rightarrow> chat_state" where
  "focusChat bp o' s =
     (if usesDrawer bp o' then setDrawerSnap (92/100) s else setContextSurfaceHidden False s)"

record top_bar =
  tb_name :: string
  tb_geo :: string
  tb_map_pressed :: bool
  tb_chat_pressed :: bool

definition top_bar_of :: "breakpoint \<Rightarrow> orientation \<Rightarrow> chat_state \<Rightarrow> top_bar" where
  "top_bar_of bp o' s =
     \<lparr> tb_name = text_or ''Operator'' (displayName s),
       tb_geo = (case selfPosition s of Some p \<Rightarrow> formatLatLon (lat p) (lon p) | None \<Rightarrow> ''No fix''),
       tb_map_pressed = (\<not> chatFocused bp o' s),
       tb_chat_pressed = chatFocused bp o' s \<rparr>"

section \<open>OnlineIndicator\<close>

text \<open>The dash of the mesh labels is an em dash in the source, outside the model's characters.\<close>

datatype net_status = Online | Limited | Offline

datatype row_status = RowOk | RowWarn | RowOff

type_synonym transport_row = "string \<times> string \<times> row_status"

definition flatPeers :: "chat_state \<Rightarrow> mesh_peer list" where
  "flatPeers s = concat (js_values (meshPeers s))"

definition btleCount :: "chat_state \<Rightarrow> nat" where
  "btleCount s = length (filter (\<lambda>p. transport p = ''btle'') (flatPeers s))"

definition wifiCount :: "chat_state \<Rightarrow> nat" where
  "wifiCount s = length (filter (\<lambda>p. transport p = ''wifi-direct'') (flatPeers s))"

definition internetMesh :: "chat_state \<Rightarrow> nat" where
  "internetMesh s =
     length (filter (\<lambda>p. transport p \<noteq> ''btle'' \<and> transport p \<noteq> ''wifi-direct'') (flatPeers s))"

definition meshTotal :: "chat_state \<Rightarrow> nat" where
  "meshTotal s = btleCount s + wifiCount s + internetMesh s"

definition overall :: "chat_state \<Rightarrow> net_status" where
  "overall s = (if \<not> connected s then Offline else if 0 < meshTotal s then Online else Limited)"

definition plural_s :: "nat \<Rightarrow> string" where
  "plural_s n = (if n \<noteq> 1 then ''s'' else [])"

definition peer_row :: "string \<Rightarrow> nat \<Rightarrow> transport_row" where
  "peer_row label n =
     (label, if n = 0 then ''No peers'' else decimal n @ '' peer'' @ plural_s n, if 0 < n then RowOk else RowOff)"

definition transport_rows :: "chat_state \<Rightarrow> transport_row list" where
  "transport_rows s =
     [(''WebSocket'', if connected s then ''Connected'' else ''Disconnected'',
       if connected s then RowOk else RowOff),
      peer_row ''Mesh - Bluetooth LE'' (btleCount s),
      peer_row ''Mesh - Wi-Fi Direct'' (wifiCount s),
      peer_row ''Mesh - Internet'' (internetMesh s)]"

definition net_summary :: "chat_state \<Rightarrow> string" where
  "net_summary s =
     (case overall s of
        Online \<Rightarrow> ''Online '' @ [CHR 0xB7] @ '' '' @ decimal (meshTotal s) @ '' mesh peer'' @ plural_s (meshTotal s)
      | Limited \<Rightarrow> ''Online '' @ [CHR 0xB7] @ '' no mesh peers''
      | Offline \<Rightarrow> ''Offline'')"

section \<open>The context surface\<close>

datatype surface = PanelSurface | SheetSurface | DrawerSurface

definition context_surface :: "breakpoint \<Rightarrow> orientation \<Rightarrow> bool \<Rightarrow> surface option" where
  "context_surface bp o' hidden =
     (if bp = Desktop \<or> bp = Tablet then (if hidden then None else Some PanelSurface)
      else if o' = Landscape then (if hidden then None else Some SheetSurface)
      else Some DrawerSurface)"

text \<open>\<open>ContextStack\<close>: the channel list, or the chat under a header with the title of the route.\<close>

definition stack_title :: "chat_state \<Rightarrow> string \<Rightarrow> string" where
  "stack_title s rid =
     (case js_get (rooms s) rid of
        None \<Rightarrow> []
      | Some r \<Rightarrow> if is_dm r then room_name r else ''# '' @ room_name r)"

datatype stack_view = ChannelList sidebar_view | ChatPage string "chat_pane option"

definition context_stack ::
  "(string \<Rightarrow> 'k::linorder) \<Rightarrow> chat_state \<Rightarrow> sidebar \<Rightarrow> composer \<Rightarrow> stack_view" where
  "context_stack collate s b c =
     (case last (contextStack s) of
        ListRoute \<Rightarrow> ChannelList (sidebar_view_of collate s b)
      | ChatRoute rid \<Rightarrow> ChatPage (stack_title s rid) (chat_view s c))"

text \<open>The label of the peek strip of \<open>ContextSideSheet\<close>.\<close>

definition peek_label :: "chat_state \<Rightarrow> string" where
  "peek_label s =
     (case last (contextStack s) of
        ListRoute \<Rightarrow> ''Channels''
      | ChatRoute rid \<Rightarrow> (case js_get (rooms s) rid of Some r \<Rightarrow> room_name r | None \<Rightarrow> ''Channels''))"

text \<open>\<open>ContextDrawer\<close>: the snap points, and the setter, which ignores what is no number.\<close>

definition SNAP_POINTS :: "num list" where
  "SNAP_POINTS = [1/10, 1/4, 6/10, 92/100]"

definition setActiveSnapPoint :: "jsval \<Rightarrow> chat_state \<Rightarrow> chat_state" where
  "setActiveSnapPoint v s = (case v of JNum x \<Rightarrow> setDrawerSnap x s | _ \<Rightarrow> s)"

section \<open>OverlaySheets\<close>

datatype sheet_side = SideRight | SideBottom

definition sheetSideFor :: "breakpoint \<Rightarrow> sheet_side" where
  "sheetSideFor bp = (if bp = Mobile then SideBottom else SideRight)"

fun routeTitle :: "menu_route \<Rightarrow> string" where
  "routeTitle SettingsRoute = ''Settings''"
| "routeTitle JoinRoomRoute = ''Join Room''"
| "routeTitle MeshRoute = ''Mesh Viewer''"
| "routeTitle Home = ''Menu''"

record overlay =
  ov_side :: sheet_side
  ov_title :: string
  ov_back :: bool
  ov_nav :: "(string \<times> menu_route) list"
  ov_page :: "menu_route option"

definition overlay_of :: "breakpoint \<Rightarrow> chat_state \<Rightarrow> overlay option" where
  "overlay_of bp s =
     (if \<not> menuOpen s then None
      else Some
        \<lparr> ov_side = sheetSideFor bp,
          ov_title = routeTitle (menuRoute s),
          ov_back = (menuRoute s \<noteq> Home),
          ov_nav = (if menuRoute s = Home
                    then [(''Join Room'', JoinRoomRoute), (''Settings'', SettingsRoute), (''Mesh Viewer'', MeshRoute)]
                    else []),
          ov_page = (if menuRoute s = Home then None else Some (menuRoute s)) \<rparr>)"

section \<open>ActiveCallStrip and the push-to-talk button\<close>

record call_strip =
  cs_channel :: string
  cs_room :: "string option"
  cs_count :: nat
  cs_speaking :: bool
  cs_muted :: bool
  cs_label :: string

definition call_strip_of :: "chat_state \<Rightarrow> call_strip option" where
  "call_strip_of s =
     (case activeVoice s of
        None \<Rightarrow> None
      | Some (rid, cid) \<Rightarrow>
          let ch = bar_channel s rid cid;
              rn = (case js_get (rooms s) rid of Some r \<Rightarrow> room_name r | None \<Rightarrow> [])
          in Some \<lparr> cs_channel = (case ch of Some c \<Rightarrow> vc_name c | None \<Rightarrow> ''Voice''),
                    cs_room = (if rn = [] then None else Some rn),
                    cs_count = (case ch of Some c \<Rightarrow> length (vc_members c) | None \<Rightarrow> 0),
                    cs_speaking = localSpeaking s,
                    cs_muted = voiceMuted s,
                    cs_label = (if localSpeaking s then ''TRANSMITTING'' else ''Hold to talk'') \<rparr>)"

definition strip_mute_click :: "app \<Rightarrow> app" where
  "strip_mute_click a = handleMuteToggle (\<not> voiceMuted (app_chat a)) a"

text \<open>The pointer events of the button; \<open>shown\<close> is the speaking flag of its last render.\<close>

datatype button_event = TouchStart | TouchEnd | MouseDown | MouseUp | MouseLeave

definition ptt_button :: "platform \<Rightarrow> bool \<Rightarrow> button_event \<Rightarrow> app \<Rightarrow> app" where
  "ptt_button P shown e a =
     (case e of
        TouchStart \<Rightarrow> handlePTTStart P a
      | MouseDown \<Rightarrow> handlePTTStart P a
      | TouchEnd \<Rightarrow> handlePTTEnd P a
      | MouseUp \<Rightarrow> handlePTTEnd P a
      | MouseLeave \<Rightarrow> if shown then handlePTTEnd P a else a)"

section \<open>MeshViewer\<close>

definition TRANSPORT_CSS_VAR :: "(string \<times> string) list" where
  "TRANSPORT_CSS_VAR =
     [(''tcp'', ''var(--color-transport-wifi)''),
      (''btle'', ''var(--color-transport-ble)''),
      (''wifi'', ''var(--color-transport-wifi)''),
      (''wifi-direct'', ''var(--color-transport-wifi)''),
      (''quic'', ''var(--color-transport-wifi)''),
      (''lan'', ''var(--color-status-success)''),
      (''p2p'', ''var(--color-status-info)''),
      (''relay'', ''var(--color-transport-relay)'')]"

definition transportCssVar :: "string \<Rightarrow> string" where
  "transportCssVar t =
     (case js_get TRANSPORT_CSS_VAR t of Some v \<Rightarrow> v | None \<Rightarrow> ''var(--color-fg-tertiary)'')"

definition transportBadgeVariant :: "string \<Rightarrow> string" where
  "transportBadgeVariant t =
     (if t = ''btle'' then ''transport-ble''
      else if t = ''relay'' then ''transport-relay''
      else if t = ''wifi'' \<or> t = ''wifi-direct'' \<or> t = ''tcp'' \<or> t = ''quic'' \<or> t = ''lan'' \<or> t = ''p2p''
        then ''transport-wifi''
      else ''transport-offline'')"

definition room_peers :: "chat_state \<Rightarrow> mesh_peer list" where
  "room_peers s =
     (if str_truthy (activeRoomId s)
      then case js_get (meshPeers s) (the (activeRoomId s)) of Some ps \<Rightarrow> ps | None \<Rightarrow> []
      else [])"

text \<open>The callback of the resize observer.\<close>

definition observe_resize :: "num \<times> num \<Rightarrow> num \<times> num \<Rightarrow> num \<times> num" where
  "observe_resize rect dims = (if 0 < fst rect \<and> 0 < snd rect then rect else dims)"

text \<open>\<open>Math.atan2\<close>.\<close>

definition js_atan2 :: "num \<Rightarrow> num \<Rightarrow> num" where
  "js_atan2 y x =
     (if 0 < x then arctan (y / x)
      else if x < 0 then (if 0 \<le> y then arctan (y / x) + pi else arctan (y / x) - pi)
      else if 0 < y then pi / 2 else if y < 0 then - (pi / 2) else 0)"

record geometry =
  g_cx :: num
  g_cy :: num

definition geometry_of :: "num \<times> num \<Rightarrow> geometry" where
  "geometry_of dims = \<lparr> g_cx = fst dims / 2, g_cy = snd dims / 2 \<rparr>"

definition innerRadius :: "geometry \<Rightarrow> num" where
  "innerRadius g = min (g_cx g) (g_cy g) * (55 / 100)"

definition outerOffset :: "geometry \<Rightarrow> num" where
  "outerOffset g = min (g_cx g) (g_cy g) * (22 / 100)"

definition directPeers :: "mesh_peer list \<Rightarrow> mesh_peer list" where
  "directPeers ps = filter (\<lambda>p. \<not> str_truthy (connected_via p)) ps"

definition relayPeers :: "mesh_peer list \<Rightarrow> mesh_peer list" where
  "relayPeers ps = filter (\<lambda>p. str_truthy (connected_via p)) ps"

type_synonym point = "num \<times> num"

definition direct_angle :: "nat \<Rightarrow> nat \<Rightarrow> num" where
  "direct_angle i n = 2 * pi * real i / real (max n 1) - pi / 2"

definition direct_point :: "geometry \<Rightarrow> nat \<Rightarrow> nat \<Rightarrow> point" where
  "direct_point g n i =
     (g_cx g + innerRadius g * cos (direct_angle i n), g_cy g + innerRadius g * sin (direct_angle i n))"

definition directPositions :: "geometry \<Rightarrow> mesh_peer list \<Rightarrow> (mesh_peer \<times> point) list" where
  "directPositions g ps =
     map (\<lambda>(i, p). (p, direct_point g (length (directPeers ps)) i)) (enumerate 0 (directPeers ps))"

definition posById :: "geometry \<Rightarrow> mesh_peer list \<Rightarrow> (string \<times> point) list" where
  "posById g ps =
     fold (\<lambda>(p, xy). js_set (peer_id p) xy) (directPositions g ps) [(''self'', (g_cx g, g_cy g))]"

definition siblings :: "mesh_peer list \<Rightarrow> mesh_peer \<Rightarrow> mesh_peer list" where
  "siblings ps p = filter (\<lambda>q. connected_via q = connected_via p) (relayPeers ps)"

text \<open>
  The position of the relay peer that is number \<open>idx\<close> among the \<open>count\<close> children of its parent:
  \<open>indexOf\<close> compares object identities, so it is the position in the list.
\<close>

definition child_angle :: "num \<Rightarrow> nat \<Rightarrow> nat \<Rightarrow> num" where
  "child_angle parentAngle count idx =
     (let spreadAngle = pi * (66 / 100);
          startAngle = parentAngle - spreadAngle / 2;
          stp = (if 1 < count then spreadAngle / real (count - 1) else 0)
      in if count = 1 then parentAngle else startAngle + stp * real idx)"

definition relay_point :: "geometry \<Rightarrow> point \<Rightarrow> nat \<Rightarrow> nat \<Rightarrow> point" where
  "relay_point g parent count idx =
     (let a = child_angle (js_atan2 (snd parent - g_cy g) (fst parent - g_cx g)) count idx
      in (fst parent + outerOffset g * cos a, snd parent + outerOffset g * sin a))"

definition parent_point :: "geometry \<Rightarrow> mesh_peer list \<Rightarrow> mesh_peer \<Rightarrow> point" where
  "parent_point g ps p =
     (case js_get (posById g ps) (the (connected_via p)) of
        Some xy \<Rightarrow> xy | None \<Rightarrow> (g_cx g, g_cy g))"

definition relay_place :: "geometry \<Rightarrow> mesh_peer list \<Rightarrow> nat \<Rightarrow> mesh_peer \<times> point \<times> point" where
  "relay_place g ps i =
     (let p = relayPeers ps ! i;
          parent = parent_point g ps p;
          idx = length (filter (\<lambda>q. connected_via q = connected_via p) (take i (relayPeers ps)))
      in (p, relay_point g parent (length (siblings ps p)) idx, parent))"

definition relayPositions :: "geometry \<Rightarrow> mesh_peer list \<Rightarrow> (mesh_peer \<times> point \<times> point) list" where
  "relayPositions g ps = map (relay_place g ps) [0..<length (relayPeers ps)]"

record mesh_node =
  mn_peer :: mesh_peer
  mn_at :: point
  mn_from :: point
  mn_color :: string
  mn_dashed :: bool
  mn_faint :: bool
  mn_radius :: nat

definition node_of :: "geometry \<Rightarrow> mesh_peer \<times> point \<times> point option \<Rightarrow> mesh_node" where
  "node_of g q =
     (let p = fst q; isRelay = str_truthy (connected_via p); isDegraded = (peer_state p = Degraded)
      in \<lparr> mn_peer = p,
           mn_at = fst (snd q),
           mn_from = (case snd (snd q) of
                        Some parent \<Rightarrow> if isRelay then parent else (g_cx g, g_cy g)
                      | None \<Rightarrow> (g_cx g, g_cy g)),
           mn_color = transportCssVar (transport p),
           mn_dashed = (isRelay \<or> isDegraded),
           mn_faint = isDegraded,
           mn_radius = (if isRelay then 14 else 18) \<rparr>)"

definition mesh_nodes :: "num \<times> num \<Rightarrow> mesh_peer list \<Rightarrow> mesh_node list" where
  "mesh_nodes dims ps =
     (let g = geometry_of dims
      in map (node_of g)
           (map (\<lambda>(p, xy). (p, xy, None)) (directPositions g ps) @
            map (\<lambda>(p, xy, parent). (p, xy, Some parent)) (relayPositions g ps)))"

text \<open>A click on a node selects it, a second one clears the selection; the legend.\<close>

definition click_node :: "mesh_peer \<Rightarrow> mesh_peer option \<Rightarrow> mesh_peer option" where
  "click_node p selected =
     (if map_option peer_id selected = Some (peer_id p) then None else Some p)"

definition activeTransports :: "mesh_peer list \<Rightarrow> string list" where
  "activeTransports ps = js_keys (map_from (\<lambda>t. t) (map transport ps))"

definition formatDuration :: "num \<Rightarrow> string" where
  "formatDuration ms =
     (let secs = \<lfloor>ms / 1000\<rfloor>; mins = secs div 60; hours = mins div 60
      in if secs < 60 then int_text secs @ ''s''
         else if mins < 60 then int_text mins @ ''m '' @ int_text (secs mod 60) @ ''s''
         else int_text hours @ ''h '' @ int_text (mins mod 60) @ ''m'')"

end
