(* ===== verification/SettingsUi.thy ===== *)
theory SettingsUi
  imports Settings NavStore Dispatch Lib Pcm
begin

text \<open>
  The settings screens: \<open>SettingsPage\<close>, \<open>VoiceSettings\<close> with its microphone meter,
  \<open>KeyBindingCapture\<close>, and \<open>JoinRoomModal\<close> (\<open>web/src/components\<close>). The form library keeps the
  values of a form from its mount on; a form is its values.
\<close>

section \<open>SettingsPage\<close>

record settings_sys =
  sy_settings :: settings
  sy_chat :: chat_state
  sy_out :: "out_msg list"
  sy_bridge :: "bool list"

definition set_settings :: "(settings \<Rightarrow> settings) \<Rightarrow> settings_sys \<Rightarrow> settings_sys" where
  "set_settings f y = y\<lparr>sy_settings := f (sy_settings y)\<rparr>"

definition onProfileSubmit :: "string \<Rightarrow> settings_sys \<Rightarrow> settings_sys" where
  "onProfileSubmit name y =
     (let trimmed = js_trim name
      in if trimmed \<noteq> [] \<and> trimmed \<noteq> displayName (sy_chat y)
         then y\<lparr>sy_chat := setDisplayName trimmed (sy_chat y),
                sy_out := sy_out y @ [Out ''set_name'' (JObj [(''name'', JStr trimmed)])]\<rparr>
         else y)"

definition onMeshSubmit :: "bool \<Rightarrow> string \<Rightarrow> bool \<Rightarrow> settings_sys \<Rightarrow> settings_sys" where
  "onMeshSubmit has_bridge tr background y =
     (let s1 = setPreferredTransport tr (sy_settings y);
          (s2, calls) = setBackgroundMode has_bridge background s1
      in y\<lparr>sy_settings := s2,
           sy_out := sy_out y @ [Out ''set_preferred_transport'' (JObj [(''transport'', JStr tr)])],
           sy_bridge := sy_bridge y @ calls\<rparr>)"

text \<open>The device lists, and the selects, which stand \<open>__default__\<close> for the empty id.\<close>

record media_device =
  dev_kind :: string
  dev_id :: string
  dev_label :: string

definition DEFAULT_DEVICE_SENTINEL :: string where
  "DEFAULT_DEVICE_SENTINEL = ''__default__''"

definition device_options :: "string \<Rightarrow> string \<Rightarrow> media_device list \<Rightarrow> (string \<times> string) list" where
  "device_options kind word devices =
     map (\<lambda>d. (dev_id d,
               if dev_label d \<noteq> [] then dev_label d
               else word @ '' '' @ (if js_slice (dev_id d) 0 8 \<noteq> [] then js_slice (dev_id d) 0 8 else ''default'')))
       (filter (\<lambda>d. dev_kind d = kind) devices)"

definition select_value :: "string \<Rightarrow> string" where
  "select_value v = (if v = [] then DEFAULT_DEVICE_SENTINEL else v)"

definition select_change :: "string \<Rightarrow> string" where
  "select_change v = (if v = DEFAULT_DEVICE_SENTINEL then [] else v)"

definition pick_microphone :: "string \<Rightarrow> settings_sys \<Rightarrow> settings_sys" where
  "pick_microphone v = set_settings (setMicDevice (select_change v))"

definition pick_speaker :: "string \<Rightarrow> settings_sys \<Rightarrow> settings_sys" where
  "pick_speaker v = set_settings (setSpeakerDevice (select_change v))"

definition slide_volume :: "num \<Rightarrow> settings_sys \<Rightarrow> settings_sys" where
  "slide_volume v = set_settings (setInputVolume v)"

text \<open>The location switch: turning it on asks for a position first. \<open>granted\<close> is the answer.\<close>

definition location_switch :: "bool \<Rightarrow> bool \<Rightarrow> settings_sys \<Rightarrow> settings_sys" where
  "location_switch checked granted y =
     (if checked then (if granted then set_settings (setLocationEnabled True) y else y)
      else set_settings (setLocationEnabled False) y)"

section \<open>VoiceSettings\<close>

record voice_form =
  vf_voiceMode :: string
  vf_threshold :: num
  vf_mic :: string
  vf_speaker :: string
  vf_volume :: num

text \<open>The default values, which the form takes when it mounts.\<close>

definition voice_defaults :: "settings \<Rightarrow> voice_form" where
  "voice_defaults s =
     \<lparr> vf_voiceMode = voiceMode s, vf_threshold = noiseGateThreshold s, vf_mic = micDeviceId s,
       vf_speaker = speakerDeviceId s, vf_volume = inputVolume s \<rparr>"

definition voice_values :: "voice_form \<Rightarrow> jsval" where
  "voice_values f =
     JObj [(''voiceMode'', JStr (vf_voiceMode f)), (''noiseGateThreshold'', JNum (vf_threshold f)),
           (''micDeviceId'', JStr (vf_mic f)), (''speakerDeviceId'', JStr (vf_speaker f)),
           (''inputVolume'', JNum (vf_volume f))]"

definition onSubmit :: "voice_form \<Rightarrow> settings \<Rightarrow> settings" where
  "onSubmit f s =
     setInputVolume (vf_volume f) (setSpeakerDevice (vf_speaker f) (setMicDevice (vf_mic f)
       (setNoiseGateThreshold (vf_threshold f) (setVoiceMode (vf_voiceMode f) s))))"

definition save_voice :: "(zod_type \<Rightarrow> jsval \<Rightarrow> bool) \<Rightarrow> voice_form \<Rightarrow> settings \<Rightarrow> settings" where
  "save_voice zod f s = (if form_ok zod voiceSettingsSchema (voice_values f) then onSubmit f s else s)"

text \<open>The meter: a level in dB as a share of the range from -96 to 0.\<close>

definition meterPercent :: "num \<Rightarrow> num" where
  "meterPercent db = max 0 (min 100 ((db + 96) / 96 * 100))"

subsection \<open>The microphone meter\<close>

text \<open>
  The refs of the component. A stream and an audio context are named by numbers; \<open>recording\<close> and
  \<open>contexts\<close> are those the browser has running. \<open>startMicMonitor\<close> waits for \<open>getUserMedia\<close> in
  between: \<open>waiting\<close> are the contexts of the calls that wait, whose continuation still runs when
  the component has stopped the monitor.
\<close>

record monitor =
  rafRef :: nat
  analyserRef :: "nat option"
  streamRef :: "nat option"
  audioCtxRef :: "nat option"
  recording :: "nat list"
  contexts :: "nat list"
  waiting :: "nat list"
  next_id :: nat

text \<open>
  The effect of the mount: a \<open>getUserMedia\<close> for the permission prompt, whose stream is dropped.
\<close>

definition enumerate_devices :: "bool \<Rightarrow> monitor \<Rightarrow> monitor" where
  "enumerate_devices granted m =
     (if granted then m\<lparr>recording := next_id m # recording m, next_id := next_id m + 1\<rparr> else m)"

text \<open>The web path up to \<open>await getUserMedia\<close>, and the native path (\<open>hasBleVoice\<close>), which polls.\<close>

definition startMicMonitor :: "bool \<Rightarrow> monitor \<Rightarrow> monitor" where
  "startMicMonitor native m =
     (let n = next_id m
      in if native then m\<lparr>rafRef := n, next_id := n + 1\<rparr>
         else m\<lparr>audioCtxRef := Some n, contexts := n # contexts m, waiting := waiting m @ [n],
                next_id := n + 1\<rparr>)"

text \<open>
  The rest, for the oldest call that waits. A refused microphone is logged only.
\<close>

definition micMonitor_resumed :: "bool \<Rightarrow> monitor \<Rightarrow> monitor" where
  "micMonitor_resumed granted m =
     (case waiting m of
        [] \<Rightarrow> m
      | c # cs \<Rightarrow>
          let n = next_id m
          in if \<not> granted then m\<lparr>waiting := cs\<rparr>
             else m\<lparr>waiting := cs, streamRef := Some n, recording := n # recording m,
                    analyserRef := Some (n + 1), rafRef := n + 2, next_id := n + 3\<rparr>)"

definition stopMicMonitor :: "monitor \<Rightarrow> monitor" where
  "stopMicMonitor m =
     m\<lparr>rafRef := 0, analyserRef := None,
       recording := (case streamRef m of Some k \<Rightarrow> removeAll k (recording m) | None \<Rightarrow> recording m),
       streamRef := None,
       contexts := (case audioCtxRef m of Some k \<Rightarrow> removeAll k (contexts m) | None \<Rightarrow> contexts m),
       audioCtxRef := None\<rparr>"

text \<open>
  The effect on the mode and on the two callbacks (the first of them changes with the threshold):
  the clean-up of the effect before, then its body.
\<close>

definition meter_effect :: "bool \<Rightarrow> string \<Rightarrow> monitor \<Rightarrow> monitor" where
  "meter_effect native mode m =
     (if mode = ''noise_gate'' \<or> mode = ''auto'' then startMicMonitor native m else stopMicMonitor m)"

definition meter_rerun :: "bool \<Rightarrow> string \<Rightarrow> monitor \<Rightarrow> monitor" where
  "meter_rerun native mode m = meter_effect native mode (stopMicMonitor m)"

text \<open>Nothing is left running: what the monitor has open, its refs name.\<close>

definition monitor_ok :: "monitor \<Rightarrow> bool" where
  "monitor_ok m \<longleftrightarrow>
     waiting m = [] \<and>
     recording m = (case streamRef m of Some k \<Rightarrow> [k] | None \<Rightarrow> []) \<and>
     contexts m = (case audioCtxRef m of Some k \<Rightarrow> [k] | None \<Rightarrow> [])"

lemma monitor_stop: "monitor_ok m \<Longrightarrow> recording (stopMicMonitor m) = [] \<and> contexts (stopMicMonitor m) = []"
  by (auto simp: monitor_ok_def stopMicMonitor_def split: option.splits)

lemma monitor_stop_ok: "monitor_ok m \<Longrightarrow> monitor_ok (stopMicMonitor m)"
  by (auto simp: monitor_ok_def stopMicMonitor_def split: option.splits)

lemma monitor_start_ok:
  "monitor_ok m \<Longrightarrow> streamRef m = None \<Longrightarrow> audioCtxRef m = None \<Longrightarrow>
   monitor_ok (micMonitor_resumed granted (startMicMonitor native m))"
  by (auto simp: monitor_ok_def startMicMonitor_def micMonitor_resumed_def Let_def)

section \<open>KeyBindingCapture and JoinRoomModal\<close>

definition keyLabelOf :: "string \<Rightarrow> string" where
  "keyLabelOf k = (if k = '' '' then ''Space'' else if length k = 1 then js_upper k else k)"

definition capture_click :: "bool \<Rightarrow> bool" where
  "capture_click capturing = True"

text \<open>The key listener is there only while the control captures; so is the click listener.\<close>

definition capture_key :: "string \<Rightarrow> bool \<Rightarrow> settings \<Rightarrow> bool \<times> settings" where
  "capture_key k capturing s = (if capturing then (False, setPttKey k s) else (capturing, s))"

definition capture_mousedown :: "bool \<Rightarrow> bool \<Rightarrow> bool" where
  "capture_mousedown inside capturing = (capturing \<and> inside)"

definition capture_value :: "bool \<Rightarrow> string \<Rightarrow> string" where
  "capture_value capturing k = (if capturing then ''Press any key...'' else keyLabelOf k)"

definition handleJoin :: "string \<Rightarrow> chat_state \<Rightarrow> chat_state \<times> out_msg list" where
  "handleJoin value s =
     (let name = js_trim value
      in if name = [] then (s, [])
         else (setMenuRoute Home s, [Out ''join_room'' (JObj [(''name'', JStr name)])]))"

end
