(* ===== verification/UiProps.thy ===== *)
theory UiProps
  imports MapView LayoutUi SettingsUi StoreProps VoiceProps "HOL-Library.Multiset"
begin

text \<open>
  What the screens promise: the map shows the contacts and markers of the room, a style can always
  be built, the chat pane and the channel list show what the store holds, the mesh diagram stays on
  its canvas; and where they go wrong.
\<close>

section \<open>The map\<close>

text \<open>Between renders: the map is there once there was a render, and the controls are its own.\<close>

definition map_inv :: "map_props option \<Rightarrow> map_view \<Rightarrow> bool" where
  "map_inv old v \<longleftrightarrow> controls v = mapRef v \<and> (mapRef v = None \<longrightarrow> old = None)"

lemma self_effect_controls [simp]: "controls (self_effect p n v) = controls v"
  by (auto simp: self_effect_def split: option.splits)

lemma contacts_effect_controls [simp]: "controls (contacts_effect now n cs v) = controls v"
  by (auto simp: contacts_effect_def Let_def split: option.splits)

lemma markers_effect_controls [simp]: "controls (markers_effect ms v) = controls v"
  by (auto simp: markers_effect_def Let_def split: option.splits)

lemma map_commit_inv:
  assumes "map_inv old v"
  shows "map_inv (Some p) (map_commit now old p v) \<and> mapRef (map_commit now old p v) \<noteq> None"
proof -
  let ?v1 = "if changed style_deps old p then init_map (if old = None then v else dispose_map v) else v"
  have v1: "controls ?v1 = mapRef ?v1" "mapRef ?v1 \<noteq> None"
    using assms by (auto simp: map_inv_def init_map_def changed_def split: option.splits)
  have "controls (map_commit now old p v) = controls ?v1" "mapRef (map_commit now old p v) = mapRef ?v1"
    by (simp_all add: map_commit_def Let_def)
  with v1 show ?thesis by (simp only: map_inv_def) simp
qed

text \<open>
  C32. After a render with a new list of contacts and a new list of markers, whatever the style did,
  there is one contact marker for each contact that has a position and is not the user, at its
  position, with its name and faded when it is stale, and no other; there is a marker for each user
  marker and no other; and the map controls drive the map on the page.
\<close>

theorem map_follows_store:
  assumes "map_inv old v" and "changed (fst \<circ> p_contacts) old p" and "changed (fst \<circ> p_markers) old p"
    and "distinct (map uid (positioned_contacts (p_selfName p) (snd (p_contacts p))))"
  shows "let v' = map_commit now old p v; shown = positioned_contacts (p_selfName p) (snd (p_contacts p)) in
     mapRef v' \<noteq> None \<and> controls v' = mapRef v' \<and>
     dom (js_get (contactMarkers v')) = uid ` set shown \<and>
     (\<forall>c \<in> set shown. \<exists>k click. js_get (contactMarkers v') (uid c) = Some (k, click) \<and> contact_placed now c k) \<and>
     dom (js_get (userMarkers v')) = marker_id ` set (snd (p_markers p))"
proof -
  let ?v1 = "if changed style_deps old p then init_map (if old = None then v else dispose_map v) else v"
  let ?v2 = "if changed (\<lambda>p. (map_option fst (p_self p), p_selfName p)) old p
                then self_effect (map_option snd (p_self p)) (p_selfName p) ?v1 else ?v1"
  let ?v3 = "contacts_effect now (p_selfName p) (snd (p_contacts p)) ?v2"
  have c: "map_commit now old p v = markers_effect (snd (p_markers p)) ?v3"
    using assms(2,3) by (simp add: map_commit_def Let_def)
  have inv: "map_inv (Some p) (map_commit now old p v)" "mapRef (map_commit now old p v) \<noteq> None"
    using map_commit_inv [OF assms(1)] by blast+
  then have ref: "mapRef ?v3 \<noteq> None" "mapRef ?v2 \<noteq> None" by (simp_all add: c)
  show ?thesis
    using inv contacts_effect_keys [OF ref(2)] contacts_effect_placed [OF ref(2) assms(4)]
      markers_effect_keys [OF ref(1)]
    by (simp add: c map_inv_def Let_def)
qed

definition plain_props :: "string \<Rightarrow> cot_marker list \<Rightarrow> map_props" where
  "plain_props style ms =
     \<lparr> p_contacts = (0, []), p_markers = (1, ms), p_self = None, p_selfName = ''me'', p_apiKey = ''key'',
       p_mapStyle = style \<rparr>"

definition plain_marker :: cot_marker where
  "plain_marker =
     \<lparr> marker_id = ''m'', creator_id = ''me'', creator_name = ''Me'', marker_lat = 1, marker_lon = 2,
       marker_hae = 0, marker_ce = 0, marker_le = 0, marker_name = ''camp'', marker_icon = ''b-m-p-w'',
       marker_color = ''green'', marker_cot_type = ''b-m-p-w'', how = ''h'', created_at = 0,
       marker_stale = 0, remarks = [] \<rparr>"

lemma map_follows_store_witness:
  "dom (js_get (userMarkers (map_commit 0 None (plain_props ''dark'' [plain_marker]) init_map_view))) = {''m''}"
proof -
  have "map_inv None init_map_view" by (simp add: map_inv_def init_map_view_def)
  moreover have "changed (fst \<circ> p_contacts) None (plain_props ''dark'' [plain_marker])"
    "changed (fst \<circ> p_markers) None (plain_props ''dark'' [plain_marker])"
    by (simp_all add: changed_def)
  moreover have "distinct (map uid (positioned_contacts (p_selfName (plain_props ''dark'' [plain_marker]))
      (snd (p_contacts (plain_props ''dark'' [plain_marker])))))"
    by (simp add: plain_props_def positioned_contacts_def)
  ultimately show ?thesis
    using map_follows_store [of None init_map_view "plain_props ''dark'' [plain_marker]" 0]
    by (simp add: Let_def plain_props_def plain_marker_def)
qed

text \<open>
  A change of the map style takes every marker off the map: the effect makes a new map and
  empties the groups, and the effects that fill them do not run again until the contacts, the
  markers or the own position change.
\<close>

lemma style_change_drops_markers:
  assumes "style_deps q \<noteq> style_deps p"
    and "fst (p_contacts q) = fst (p_contacts p)" and "fst (p_markers q) = fst (p_markers p)"
    and "map_option fst (p_self q) = map_option fst (p_self p)" and "p_selfName q = p_selfName p"
  shows "contactMarkers (map_commit now (Some q) p v) = [] \<and> userMarkers (map_commit now (Some q) p v) = [] \<and>
         selfMarker (map_commit now (Some q) p v) = None \<and> mapRef (map_commit now (Some q) p v) \<noteq> None"
  using assms by (simp add: map_commit_def changed_def dispose_map_def init_map_def Let_def)

text \<open>
  Whatever the stored style name and key are, the viewer gets a style, never an exception: its
  layer ids are distinct, every source a layer names is declared, and the source that needs the key
  is declared exactly when there is one.
\<close>

lemma style_always_loads:
  "\<exists>st. buildStyle apiKey (effectiveStyle apiKey style) = Some st \<and> style_wf st \<and>
     (''protomaps'' \<in> set (source_names st)) = (apiKey \<noteq> [])"
proof (cases "effectiveStyle apiKey style = ''satellite''")
  case True
  have "(''protomaps'' \<in> set (map fst (satellite_sources apiKey))) = (apiKey \<noteq> [])"
    by (cases apiKey) (simp_all add: satellite_sources_def)
  with True show ?thesis by (simp add: buildStyle_def satellite_wf)
next
  case False
  then have key: "apiKey \<noteq> []" and "effectiveStyle apiKey style \<in> {''dark'', ''light'', ''topo''}"
    using effectiveStyle_available [of apiKey style] by (auto simp: availableStyles_def split: if_splits)
  then obtain p where "map_of palettes (effectiveStyle apiKey style) = Some p"
    by (auto simp: palettes_def)
  moreover have "''protomaps'' \<in> set (map fst (COMMON_SOURCE apiKey))"
    by (simp add: COMMON_SOURCE_def)
  ultimately show ?thesis using False key by (simp add: buildStyle_def vector_wf)
qed

section \<open>The chat pane\<close>

text \<open>
  Through any sequence of replies, edits, cancellations, room changes, typing, emoji insertions
  and sends, a reply and an edit are never both under way, and the caret stays inside the text.
\<close>

lemma composer_invariant:
  assumes "pane_reachable p"
  shows "(replyToId (fst p) = None \<or> editingId (fst p) = None) \<and>
         sel_start (snd p) \<le> sel_end (snd p) \<and> sel_end (snd p) \<le> length (box_text (snd p))"
  using pane_reachable_ok [OF assms] by (simp add: pane_ok_def)

text \<open>
  Cancelling an edit does not take the text of the edited message out of the box: what is sent
  next without touching it is that text, as a new message.
\<close>

lemma cancelled_edit_is_sent:
  assumes "editingId (fst p) = None" and "mid \<noteq> []" and "js_trim body \<noteq> []"
  shows "snd (pane_send True rid (pane_step PCancel (pane_step (PEdit mid body) p))) =
     [Out ''send_message'' (JObj [(''room_id'', JStr rid), (''content'', JStr (js_trim body))])]"
  using assms
  by (simp add: pane_send_def rerender_def handleEdit_def composer_reset_def edit_prop_def edit_effect_def
      input_handleSend_def canSend_def chat_handleSend_def Let_def)

lemma rows_nth:
  "i < length ms \<Longrightarrow> rows_from me mm prev ms ! i =
     \<lparr> rp_message = ms ! i, rp_isSelf = (sender (ms ! i) = me),
       rp_isGroupHead = is_group_head (if i = 0 then prev else Some (ms ! (i - 1))) (ms ! i),
       rp_replyParent = reply_parent mm (ms ! i) \<rparr>"
proof (induction ms arbitrary: prev i)
  case (Cons m ms)
  then show ?case by (cases i) (auto simp: nth_Cons')
qed simp

lemma reply_parent_iff:
  assumes "distinct (map msg_id ms)"
  shows "reply_parent (map_from msg_id ms) m = Some q \<longleftrightarrow>
     str_truthy (reply_to m) \<and> q \<in> set ms \<and> reply_to m = Some (msg_id q)"
proof (cases "reply_to m")
  case (Some k)
  have "map_of (map (\<lambda>v. (msg_id v, v)) ms) k = Some q \<longleftrightarrow> (k, q) \<in> set (map (\<lambda>v. (msg_id v, v)) ms)"
    using assms by (intro map_of_eq_Some_iff) (simp add: comp_def)
  with Some assms show ?thesis by (auto simp: reply_parent_def map_from_distinct)
qed (simp add: reply_parent_def)

text \<open>
  C35. The pane shows every message of the room once and in order. A row is marked as the user's own
  by the sender; it opens a group when it is the first, comes from somebody else than the row
  before, or more than five minutes after it; and it quotes exactly the message of the room it
  answers, if that is there.
\<close>

theorem chat_rows:
  assumes "rooms_wf (rooms s)" and "shown_room s = Some r" and "chat_view s c = Some pane"
  shows "map rp_message (cp_rows pane) = messages r \<and>
     (\<forall>i < length (messages r). let m = messages r ! i; row = cp_rows pane ! i in
        rp_isSelf row = (sender m = userId s) \<and>
        rp_isGroupHead row = (i = 0 \<or> sender (messages r ! (i - 1)) \<noteq> sender m \<or>
                              timestamp m - timestamp (messages r ! (i - 1)) > 300000) \<and>
        (\<forall>q. rp_replyParent row = Some q \<longleftrightarrow>
           str_truthy (reply_to m) \<and> q \<in> set (messages r) \<and> reply_to m = Some (msg_id q)))"
proof -
  have rows: "cp_rows pane = rows_from (userId s) (map_from msg_id (messages r)) None (messages r)"
    using assms(2,3) by (auto simp: chat_view_def message_rows_def Let_def)
  obtain k where "js_get (rooms s) k = Some r"
    using assms(2) by (auto simp: shown_room_def split: if_splits)
  then have d: "distinct (map msg_id (messages r))"
    using rooms_wf_get [OF assms(1)] by (auto simp: room_wf_def messages_wf_def)
  have row: "rp_isSelf (cp_rows pane ! i) = (sender (messages r ! i) = userId s) \<and>
      rp_isGroupHead (cp_rows pane ! i)
        = is_group_head (if i = 0 then None else Some (messages r ! (i - 1))) (messages r ! i) \<and>
      rp_replyParent (cp_rows pane ! i) = reply_parent (map_from msg_id (messages r)) (messages r ! i)"
    if "i < length (messages r)" for i
    by (simp add: rows rows_nth [OF that])
  have "map rp_message (cp_rows pane) = messages r" by (simp add: rows rows_messages)
  moreover have "is_group_head (if i = 0 then None else Some p) m
      = (i = 0 \<or> sender p \<noteq> sender m \<or> timestamp m - timestamp p > 300000)" for i :: nat and p m
    by (simp add: is_group_head_def)
  ultimately show ?thesis
    unfolding Let_def using row reply_parent_iff [OF d] by presburger
qed

lemma chat_rows_witness:
  "\<exists>pane. chat_view (setActiveRoom ''r'' (addMessage ''r'' (plain_message ''a'' ''me'' 1) two_rooms)) init_composer
       = Some pane \<and> map rp_message (cp_rows pane) = [plain_message ''a'' ''me'' 1] \<and> rp_isSelf (cp_rows pane ! 0)"
proof -
  let ?s = "setActiveRoom ''r'' (addMessage ''r'' (plain_message ''a'' ''me'' 1) two_rooms)"
  let ?r = "(new_room ''r'' ''general'' 1 False)\<lparr>messages := [plain_message ''a'' ''me'' 1], unread := 0\<rparr>"
  have g: "rooms ?s = [(''r'', ?r)]" "activeRoomId ?s = Some ''r''" "userId ?s = ''me''"
    by (simp_all add: setActiveRoom_def addMessage_def receive_message_def update_room_def two_rooms_def
        addRoom_def init_chat_def new_room_def clear_unread_def mergeMessages_def map_from_def keyed_merge_def keyed_step_def js_values_def Let_def
        plain_message_def)
  then have "rooms_wf (rooms ?s)" "shown_room ?s = Some ?r"
    by (simp_all add: rooms_wf_def room_wf_def messages_wf_def shown_room_def new_room_def)
  moreover obtain pane where pane: "chat_view ?s init_composer = Some pane"
    using \<open>shown_room ?s = Some ?r\<close> by (simp add: chat_view_def Let_def)
  ultimately have "map rp_message (cp_rows pane) = [plain_message ''a'' ''me'' 1]" "rp_isSelf (cp_rows pane ! 0)"
    using chat_rows [of ?s ?r init_composer pane] g(3) by (simp_all add: plain_message_def Let_def)
  with pane show ?thesis by (intro exI [of _ pane] conjI)
qed

section \<open>The channel list\<close>

text \<open>
  The channel list shows every room of the store once, as a room or as a direct message, the
  most recent first; it offers exactly the public rooms not joined yet; and the peers it offers for
  a direct message are all peers of the mesh, each once however many rooms it is in, by name.
\<close>

lemma sidebar_lists_everything:
  "mset (regularRooms s) + mset (dmRooms s) = mset (js_values (rooms s)) \<and>
   sorted_wrt (\<lambda>a b. last_time b \<le> last_time a) (regularRooms s) \<and>
   sorted_wrt (\<lambda>a b. last_time b \<le> last_time a) (dmRooms s) \<and>
   info_room_id ` set (discoverableRooms s)
     = info_room_id ` set (availableRooms s) - set (js_keys (rooms s)) \<and>
   distinct (map fst (onlinePeers collate s)) \<and>
   fst ` set (onlinePeers collate s) = peer_id ` set (concat (js_values (meshPeers s))) \<and>
   sorted (map (\<lambda>p. collate (fst (snd p))) (onlinePeers collate s))"
proof -
  have "mset (regularRooms s) + mset (dmRooms s) = mset (js_values (rooms s))"
    using multiset_partition [of "mset (js_values (rooms s))" "\<lambda>r. \<not> is_dm r"]
    by (simp add: regularRooms_def dmRooms_def)
  moreover have "info_room_id ` set (discoverableRooms s)
     = info_room_id ` set (availableRooms s) - set (js_keys (rooms s))"
    by (auto simp: discoverableRooms_def)
  ultimately show ?thesis
    using onlinePeers_facts [of collate s] by (simp add: regularRooms_def dmRooms_def sort_key_desc)
qed

section \<open>Navigation\<close>

definition dm_frame :: "string \<Rightarrow> string \<Rightarrow> string \<Rightarrow> string \<Rightarrow> jsval" where
  "dm_frame rid name peer peerName =
     JObj [(''type'', JStr ''dm_opened''),
           (''data'', JObj [(''room_id'', JStr rid), (''name'', JStr name), (''peer_id'', JStr peer),
                            (''peer_name'', JStr peerName)])]"

lemma on_dm_frame:
  "ws_onmessage V (Some (dm_frame rid name peer peerName)) s
     = stored (setActiveRoom rid (addDMRoom rid name peer peerName s))"
  by (simp add: ws_onmessage_def dm_frame_def ws_switch_def on_dm_opened_def need_str_def Let_def)

text \<open>
  A direct message that somebody opens while a room is on screen changes the room the pane
  shows but not the navigation stack: the header goes on naming the room the user chose, above the
  messages (and the composer) of the other conversation.
\<close>

lemma dm_opened_under_wrong_header:
  assumes "js_get (rooms s) a = Some ra" and "\<not> is_dm ra" and "js_get (rooms s) b = None" and "b \<noteq> []"
  shows "let s' = fst (ws_onmessage V (Some (dm_frame b name peer peerName)) (handleSelectRoom a s)) in
     \<exists>pane. context_stack collate s' bar c = ChatPage (''# '' @ room_name ra) (Some pane) \<and>
       cp_title pane = name \<and> activeRoomId s' = Some b"
proof -
  let ?s1 = "handleSelectRoom a s"
  let ?s' = "setActiveRoom b (addDMRoom b name peer peerName ?s1)"
  have ne: "a \<noteq> b" using assms(1,3) by auto
  have "js_get (rooms ?s1) b = None" "js_get (rooms ?s1) a = Some (clear_unread ra)"
    using assms(1,3) ne by (simp_all add: handleSelectRoom_def pushContextRoute_def setActiveRoom_def update_room_def)
  then have a: "js_get (rooms ?s') a = Some (clear_unread ra)"
    and b: "js_get (rooms ?s') b = Some (clear_unread (new_dm_room b name peer peerName))"
    using ne by (simp_all add: setActiveRoom_def addDMRoom_def update_room_def)
  have st: "last (contextStack ?s') = ChatRoute a" "activeRoomId ?s' = Some b"
    by (simp_all add: setActiveRoom_def addDMRoom_def update_room_def handleSelectRoom_def pushContextRoute_def
        split: option.split)
  have "stack_title ?s' a = ''# '' @ room_name ra"
    using a assms(2) by (simp add: stack_title_def is_dm_def clear_unread_def)
  moreover have "shown_room ?s' = Some (clear_unread (new_dm_room b name peer peerName))"
    using b st assms(4) by (simp add: shown_room_def)
  ultimately show ?thesis
    using st by (simp add: on_dm_frame stored_def context_stack_def chat_view_def Let_def clear_unread_def new_dm_room_def)
qed

section \<open>The mesh diagram\<close>

lemma scaled_trig:
  fixes m :: real
  assumes "0 < m" and "0 \<le> k"
  shows "\<bar>m * k * cos a\<bar> \<le> k * m" and "\<bar>m * k * sin a\<bar> \<le> k * m"
  using assms abs_cos_le_one [of a] abs_sin_le_one [of a]
  by (simp_all add: abs_mult mult.commute [of m] mult_left_le)

definition near :: "geometry \<Rightarrow> num \<Rightarrow> point \<Rightarrow> bool" where
  "near g d xy \<longleftrightarrow>
     \<bar>fst xy - g_cx g\<bar> \<le> d * min (g_cx g) (g_cy g) \<and> \<bar>snd xy - g_cy g\<bar> \<le> d * min (g_cx g) (g_cy g)"

lemma direct_point_near: "0 < min (g_cx g) (g_cy g) \<Longrightarrow> near g (55/100) (direct_point g n i)"
  using scaled_trig [of "min (g_cx g) (g_cy g)" "55/100" "direct_angle i n"]
  by (simp add: near_def direct_point_def innerRadius_def)

lemma fold_set_values:
  assumes "\<forall>d \<in> set ds. Q (snd d)" and "\<forall>j xy. js_get m j = Some xy \<longrightarrow> Q xy"
    and "js_get (fold (\<lambda>(p, xy). js_set (peer_id p) xy) ds m) i = Some xy"
  shows "Q xy"
  using assms
proof (induction ds arbitrary: m)
  case (Cons d ds)
  obtain p y where d: "d = (p, y)" by fastforce
  show ?case
    by (rule Cons.IH [of "js_set (peer_id p) y m"]) (use Cons.prems d in auto)
qed simp

lemma posById_near:
  assumes "0 < min (g_cx g) (g_cy g)" and "js_get (posById g ps) k = Some xy"
  shows "near g (55/100) xy"
proof (rule fold_set_values [where ds = "directPositions g ps" and Q = "near g (55/100)"
      and m = "[(''self'', (g_cx g, g_cy g))]" and i = k])
  show "\<forall>d \<in> set (directPositions g ps). near g (55/100) (snd d)"
    using direct_point_near [OF assms(1)] by (auto simp: directPositions_def)
  show "\<forall>j xy. js_get [(''self'', (g_cx g, g_cy g))] j = Some xy \<longrightarrow> near g (55/100) xy"
    using assms(1) by (simp add: near_def)
qed (use assms(2) in \<open>simp add: posById_def\<close>)

lemma parent_point_near: "0 < min (g_cx g) (g_cy g) \<Longrightarrow> near g (55/100) (parent_point g ps p)"
  using posById_near by (auto simp: parent_point_def near_def split: option.split)

lemma abs_sum_bound:
  fixes x c t m :: real
  shows "\<bar>x - c\<bar> \<le> 55/100 * m \<Longrightarrow> \<bar>t\<bar> \<le> 22/100 * m \<Longrightarrow> \<bar>x + t - c\<bar> \<le> 77/100 * m"
  by linarith

lemma relay_point_near:
  assumes "0 < min (g_cx g) (g_cy g)" and "near g (55/100) parent"
  shows "near g (77/100) (relay_point g parent k idx)"
proof -
  define a where "a = child_angle (js_atan2 (snd parent - g_cy g) (fst parent - g_cx g)) k idx"
  have p: "relay_point g parent k idx
      = (fst parent + outerOffset g * cos a, snd parent + outerOffset g * sin a)"
    by (simp add: relay_point_def a_def Let_def)
  have "\<bar>outerOffset g * cos a\<bar> \<le> 22/100 * min (g_cx g) (g_cy g)"
    "\<bar>outerOffset g * sin a\<bar> \<le> 22/100 * min (g_cx g) (g_cy g)"
    unfolding outerOffset_def by (rule scaled_trig [OF assms(1)], simp)+
  with assms(2) show ?thesis
    unfolding near_def p fst_conv snd_conv by (blast intro: abs_sum_bound)
qed

lemma margin_bound:
  fixes x w m :: real
  assumes "\<bar>x - w / 2\<bar> \<le> 77/100 * m" and "m \<le> w / 2"
  shows "23/100 * m \<le> x" and "x \<le> w - 23/100 * m"
  using assms by linarith+

text \<open>
  Whatever the mesh looks like, the diagram draws every peer of the room once, and every node
  has its centre inside the canvas, not closer to an edge than 23 percent of half the shorter side.
\<close>

lemma mesh_nodes_on_canvas:
  assumes "0 < w" and "0 < h"
  shows "mset (map mn_peer (mesh_nodes (w, h) ps)) = mset ps \<and>
     (\<forall>n \<in> set (mesh_nodes (w, h) ps). let margin = 23 / 100 * (min w h / 2) in
        margin \<le> fst (mn_at n) \<and> fst (mn_at n) \<le> w - margin \<and>
        margin \<le> snd (mn_at n) \<and> snd (mn_at n) \<le> h - margin)"
proof -
  let ?g = "geometry_of (w, h)"
  have pos: "0 < min (g_cx ?g) (g_cy ?g)" using assms by (simp add: geometry_of_def)
  have "map mn_peer (mesh_nodes (w, h) ps) = directPeers ps @ relayPeers ps"
    by (simp add: mesh_nodes_def Let_def node_of_def directPositions_def relayPositions_def relay_place_def
        comp_def case_prod_beta map_snd_enumerate [unfolded comp_def] map_nth)
  then have "mset (map mn_peer (mesh_nodes (w, h) ps)) = mset ps"
    using multiset_partition [of "mset ps" "\<lambda>p. \<not> str_truthy (connected_via p)"]
    by (simp add: directPeers_def relayPeers_def)
  moreover have "near ?g (77/100) (mn_at n)" if "n \<in> set (mesh_nodes (w, h) ps)" for n
  proof -
    have "near ?g (77/100) xy" if "near ?g (55/100) xy" for xy
      using that pos by (auto simp: near_def intro: order_trans mult_right_mono)
    then have "near ?g (77/100) (direct_point ?g k i)" for k i
      using direct_point_near [OF pos] by blast
    with that show ?thesis
      using relay_point_near [OF pos parent_point_near [OF pos]]
      by (auto simp: mesh_nodes_def Let_def node_of_def directPositions_def relayPositions_def relay_place_def)
  qed
  moreover have "min (w / 2) (h / 2) = min w h / 2" by (simp add: min_def)
  ultimately show ?thesis
    unfolding near_def Let_def using margin_bound [of _ w "min w h / 2"] margin_bound [of _ h "min w h / 2"]
    by (simp add: geometry_of_def)
qed

section \<open>Mute buttons and the microphone meter\<close>

text \<open>
  Two clicks on a mute button open the microphone in push-to-talk mode: after a join the
  manager is muted while the bar and the strip show a microphone that is not, so the second click
  unmutes it; nothing tells the other members, and no key is held.
\<close>

lemma mute_clicks_open_microphone:
  assumes "app_vm a = Some st" and "active st" and "gainNode st \<noteq> None" and "\<not> voiceMuted (app_chat a)"
    and "bar_app b = a" and "\<not> bar_muted b"
  shows "let a' = bar_app (toggleMute bridge (toggleMute bridge b));
             a'' = strip_mute_click (strip_mute_click a) in
     (\<exists>st'. app_vm a' = Some st' \<and> \<not> localMicMuted st' \<and> gainNode st' = Some (localInputVolume st)) \<and>
     (\<exists>st'. app_vm a'' = Some st' \<and> \<not> localMicMuted st' \<and> gainNode st' = Some (localInputVolume st)) \<and>
     app_out a' = app_out a \<and> app_out a'' = app_out a \<and>
     localSpeaking (app_chat a') = localSpeaking (app_chat a) \<and>
     app_settings a' = app_settings a"
  using assms
  by (auto simp: toggleMute_def strip_mute_click_def handleMuteToggle_def setVoiceMuted_def setMuted_def Let_def)

text \<open>
  The microphone meter of the settings leaves a stream running when the threshold is changed
  while the browser still asks for the microphone: both requests are answered, the reference holds
  the second stream only, and closing the settings stops that one. With the answer before the next
  change nothing is left.
\<close>

lemma meter_leaks_a_stream:
  assumes "monitor_ok m" and "streamRef m = None" and "audioCtxRef m = None"
    and "mode = ''noise_gate'' \<or> mode = ''auto''"
  shows "let asked = meter_rerun False mode (meter_effect False mode m);
             closed = stopMicMonitor (micMonitor_resumed True (micMonitor_resumed True asked));
             prompt = micMonitor_resumed True (meter_rerun False mode
                        (micMonitor_resumed True (meter_effect False mode m))) in
     (\<exists>k. recording closed = [k] \<and> streamRef closed = None \<and> waiting closed = []) \<and>
     recording (stopMicMonitor prompt) = [] \<and> contexts (stopMicMonitor prompt) = []"
  using assms
  by (auto simp: monitor_ok_def meter_rerun_def meter_effect_def startMicMonitor_def
      micMonitor_resumed_def stopMicMonitor_def Let_def)

end
