(* ===== verification/SettingsScreen.thy ===== *)
theory SettingsScreen
  imports SettingsUi Hooks
begin

text \<open>
  The settings screen as a whole: the forms of \<open>SettingsPage\<close> and \<open>VoiceSettings\<close>
  (\<open>web/src/components\<close>) as react-hook-form keeps them, what both components show, the actions of
  the user. The form library is outside \<open>src\<close>; what the code relies on is documented: a form takes
  its default values when it mounts, \<open>field.onChange\<close> changes the current values, \<open>isDirty\<close> compares
  them with the defaults, \<open>handleSubmit\<close> checks the current values and leaves the defaults.
\<close>

section \<open>Forms\<close>

record 'v rhf =
  rf_defaults :: 'v
  rf_values :: 'v

definition useForm :: "'v \<Rightarrow> 'v rhf" where
  "useForm d = \<lparr>rf_defaults = d, rf_values = d\<rparr>"

definition isDirty :: "'v rhf \<Rightarrow> bool" where
  "isDirty f \<longleftrightarrow> rf_values f \<noteq> rf_defaults f"

definition field_change :: "('v \<Rightarrow> 'v) \<Rightarrow> 'v rhf \<Rightarrow> 'v rhf" where
  "field_change g f = f\<lparr>rf_values := g (rf_values f)\<rparr>"

record mesh_form =
  mf_transport :: string
  mf_background :: bool

definition mesh_defaults :: "settings \<Rightarrow> mesh_form" where
  "mesh_defaults s = \<lparr> mf_transport = preferredTransport s, mf_background = backgroundMode s \<rparr>"

definition mesh_values :: "mesh_form \<Rightarrow> jsval" where
  "mesh_values f =
     JObj [(''preferredTransport'', JStr (mf_transport f)), (''backgroundMode'', JBool (mf_background f))]"

definition profile_values :: "string \<Rightarrow> jsval" where
  "profile_values name = JObj [(''displayName'', JStr name)]"

section \<open>The state of the screen\<close>

text \<open>
  \<open>isMuted\<close>, \<open>micLevel\<close> and \<open>isActive\<close> are state of \<open>VoiceSettings\<close>; \<open>native_mode\<close>,
  \<open>native_threshold\<close> and \<open>native_muted\<close> are what the Android bridge was told last.
\<close>

record settings_screen =
  sc_sys :: settings_sys
  sc_profile :: "string rhf"
  sc_mesh :: "mesh_form rhf"
  sc_voice :: "voice_form rhf"
  isMuted :: bool
  micLevel :: num
  isActive :: bool
  native_mode :: "string option"
  native_threshold :: "num option"
  native_muted :: "bool option"

text \<open>
  What \<open>window.PeatLinkVoice\<close> has: \<open>setVoiceMode\<close>, \<open>setNoiseGateThreshold\<close>, \<open>setMicMuted\<close>, and the
  bridge of the background mode.
\<close>

record native_bridge =
  has_setVoiceMode :: bool
  has_setNoiseGateThreshold :: bool
  has_setMicMuted :: bool
  has_setBackground :: bool

text \<open>The two effects on the watched fields of the voice form.\<close>

definition mode_effect :: "native_bridge \<Rightarrow> settings_screen \<Rightarrow> settings_screen" where
  "mode_effect B c =
     (if has_setVoiceMode B then c\<lparr>native_mode := Some (vf_voiceMode (rf_values (sc_voice c)))\<rparr> else c)"

definition threshold_effect :: "native_bridge \<Rightarrow> settings_screen \<Rightarrow> settings_screen" where
  "threshold_effect B c =
     (if has_setNoiseGateThreshold B
      then c\<lparr>native_threshold := Some (vf_threshold (rf_values (sc_voice c)))\<rparr> else c)"

definition mount_screen :: "native_bridge \<Rightarrow> settings_sys \<Rightarrow> settings_screen" where
  "mount_screen B y =
     threshold_effect B (mode_effect B
       \<lparr> sc_sys = y, sc_profile = useForm (displayName (sy_chat y)),
         sc_mesh = useForm (mesh_defaults (sy_settings y)),
         sc_voice = useForm (voice_defaults (sy_settings y)),
         isMuted = False, micLevel = - 96, isActive = False,
         native_mode = None, native_threshold = None, native_muted = None \<rparr>)"

text \<open>
  \<open>poll\<close>, with the refs of the monitor: the web path on the samples of the analyser, the native
  path on what the bridge says (\<open>None\<close>: the call raises).
\<close>

definition poll_web :: "monitor \<Rightarrow> num list \<Rightarrow> settings_screen \<Rightarrow> settings_screen" where
  "poll_web m samples c =
     (if analyserRef m = None then c
      else
        let db = level_db samples
        in c\<lparr>micLevel := db, isActive := (db > vf_threshold (rf_values (sc_voice c)))\<rparr>)"

definition poll_native :: "monitor \<Rightarrow> num option \<Rightarrow> bool option \<Rightarrow> settings_screen \<Rightarrow> settings_screen" where
  "poll_native m level detected c =
     (if rafRef m = 0 then c
      else case level of
             None \<Rightarrow> c
           | Some db \<Rightarrow>
               let c' = c\<lparr>micLevel := db\<rparr>
               in (case detected of None \<Rightarrow> c' | Some b \<Rightarrow> c'\<lparr>isActive := b\<rparr>))"

definition mic_mute_click :: "native_bridge \<Rightarrow> settings_screen \<Rightarrow> settings_screen" where
  "mic_mute_click B c =
     (let newMuted = \<not> isMuted c; c' = c\<lparr>isMuted := newMuted\<rparr>
      in if has_setMicMuted B then c'\<lparr>native_muted := Some newMuted\<rparr> else c')"

section \<open>Actions\<close>

datatype settings_action =
    PickMic string | PickSpeaker string | SlideVolume num
  | TypeName string | SaveName | EnterName
  | VoiceMode string | VoiceThreshold num | VoiceMic string | VoiceSpeaker string | VoiceGain num
  | SaveVoice
  | MeshTransport string | MeshBackground bool | SaveMesh
  | CaptureKey string | TypeApiKey string | LocationSwitch bool bool
  | MuteClick

definition on_sys :: "(settings_sys \<Rightarrow> settings_sys) \<Rightarrow> settings_screen \<Rightarrow> settings_screen" where
  "on_sys f c = c\<lparr>sc_sys := f (sc_sys c)\<rparr>"

definition on_voice_field :: "(voice_form \<Rightarrow> voice_form) \<Rightarrow> settings_screen \<Rightarrow> settings_screen" where
  "on_voice_field g c = c\<lparr>sc_voice := field_change g (sc_voice c)\<rparr>"

text \<open>A submit, through \<open>handleSubmit\<close> and the resolver.\<close>

definition submit_profile :: "(zod_type \<Rightarrow> jsval \<Rightarrow> bool) \<Rightarrow> settings_screen \<Rightarrow> settings_screen" where
  "submit_profile zod c =
     (let v = rf_values (sc_profile c)
      in if form_ok zod profileSchema (profile_values v) then on_sys (onProfileSubmit v) c else c)"

definition submit_mesh ::
  "(zod_type \<Rightarrow> jsval \<Rightarrow> bool) \<Rightarrow> native_bridge \<Rightarrow> settings_screen \<Rightarrow> settings_screen" where
  "submit_mesh zod B c =
     (let v = rf_values (sc_mesh c)
      in if form_ok zod meshSchema (mesh_values v)
         then on_sys (onMeshSubmit (has_setBackground B) (mf_transport v) (mf_background v)) c else c)"

definition submit_voice :: "(zod_type \<Rightarrow> jsval \<Rightarrow> bool) \<Rightarrow> settings_screen \<Rightarrow> settings_screen" where
  "submit_voice zod c = on_sys (set_settings (save_voice zod (rf_values (sc_voice c)))) c"

text \<open>
  The effects of a render after an action on a watched field are part of the action. A disabled
  Save button does nothing; the Enter key of the name field submits all the same.
\<close>

fun settings_act ::
  "(zod_type \<Rightarrow> jsval \<Rightarrow> bool) \<Rightarrow> native_bridge \<Rightarrow> settings_action \<Rightarrow> settings_screen \<Rightarrow> settings_screen" where
  "settings_act zod B (PickMic v) c = on_sys (pick_microphone v) c"
| "settings_act zod B (PickSpeaker v) c = on_sys (pick_speaker v) c"
| "settings_act zod B (SlideVolume v) c = on_sys (slide_volume v) c"
| "settings_act zod B (TypeName v) c = c\<lparr>sc_profile := field_change (\<lambda>_. v) (sc_profile c)\<rparr>"
| "settings_act zod B SaveName c = (if isDirty (sc_profile c) then submit_profile zod c else c)"
| "settings_act zod B EnterName c = submit_profile zod c"
| "settings_act zod B (VoiceMode m) c = mode_effect B (on_voice_field (\<lambda>f. f\<lparr>vf_voiceMode := m\<rparr>) c)"
| "settings_act zod B (VoiceThreshold t) c =
     threshold_effect B (on_voice_field (\<lambda>f. f\<lparr>vf_threshold := t\<rparr>) c)"
| "settings_act zod B (VoiceMic v) c = on_voice_field (\<lambda>f. f\<lparr>vf_mic := select_change v\<rparr>) c"
| "settings_act zod B (VoiceSpeaker v) c = on_voice_field (\<lambda>f. f\<lparr>vf_speaker := select_change v\<rparr>) c"
| "settings_act zod B (VoiceGain v) c = on_voice_field (\<lambda>f. f\<lparr>vf_volume := v\<rparr>) c"
| "settings_act zod B SaveVoice c = (if isDirty (sc_voice c) then submit_voice zod c else c)"
| "settings_act zod B (MeshTransport t) c = c\<lparr>sc_mesh := field_change (\<lambda>f. f\<lparr>mf_transport := t\<rparr>) (sc_mesh c)\<rparr>"
| "settings_act zod B (MeshBackground b) c = c\<lparr>sc_mesh := field_change (\<lambda>f. f\<lparr>mf_background := b\<rparr>) (sc_mesh c)\<rparr>"
| "settings_act zod B SaveMesh c = (if isDirty (sc_mesh c) then submit_mesh zod B c else c)"
| "settings_act zod B (CaptureKey k) c = on_sys (set_settings (setPttKey k)) c"
| "settings_act zod B (TypeApiKey k) c = on_sys (set_settings (setProtomapsApiKey k)) c"
| "settings_act zod B (LocationSwitch checked granted) c = on_sys (location_switch checked granted) c"
| "settings_act zod B MuteClick c = mic_mute_click B c"

definition settings_run ::
  "(zod_type \<Rightarrow> jsval \<Rightarrow> bool) \<Rightarrow> native_bridge \<Rightarrow> settings_action list \<Rightarrow> settings_screen \<Rightarrow> settings_screen" where
  "settings_run zod B as c = fold (settings_act zod B) as c"

section \<open>What is shown\<close>

record device_select =
  ds_value :: string
  ds_options :: "(string \<times> string) list"

text \<open>
  The select of a device. The two components label the default and a device without a label
  differently; the ellipsis of \<open>VoiceSettings\<close> is written with dots here.
\<close>

definition page_select :: "string \<Rightarrow> string \<Rightarrow> media_device list \<Rightarrow> string \<Rightarrow> device_select" where
  "page_select kind word devices v =
     \<lparr> ds_value = select_value v,
       ds_options = (DEFAULT_DEVICE_SENTINEL, ''System Default'') # device_options kind word devices \<rparr>"

definition voice_select :: "string \<Rightarrow> string \<Rightarrow> media_device list \<Rightarrow> string \<Rightarrow> device_select" where
  "voice_select kind word devices v =
     \<lparr> ds_value = select_value v,
       ds_options = (DEFAULT_DEVICE_SENTINEL, ''Default'') #
         map (\<lambda>d. (dev_id d,
                   if dev_label d \<noteq> [] then dev_label d
                   else word @ '' ('' @ js_slice (dev_id d) 0 8 @ ''...)''))
           (filter (\<lambda>d. dev_kind d = kind) devices) \<rparr>"

definition percent :: "num \<Rightarrow> int" where
  "percent v = js_round (v * 100)"

record gate_meter =
  gm_sensitivity :: num
  gm_level :: num
  gm_line :: num
  gm_label :: string

record voice_panel =
  vp_modes :: "(string \<times> string \<times> bool) list"
  vp_meter :: "gate_meter option"
  vp_hint :: "string option"
  vp_mic :: device_select
  vp_speaker :: device_select
  vp_gain :: int
  vp_can_save :: bool
  vp_mute :: string

definition mode_label :: "string \<Rightarrow> string" where
  "mode_label mode =
     (if mode = ''ptt'' then ''Push to Talk'' else if mode = ''noise_gate'' then ''Noise Gate'' else ''Auto'')"

definition voice_panel_of :: "media_device list \<Rightarrow> settings_screen \<Rightarrow> voice_panel" where
  "voice_panel_of devices c =
     (let f = rf_values (sc_voice c); mode = vf_voiceMode f
      in \<lparr> vp_modes = map (\<lambda>m. (m, mode_label m, mode = m)) [''ptt'', ''noise_gate'', ''auto''],
           vp_meter =
             (if mode = ''noise_gate'' \<or> mode = ''auto''
              then Some \<lparr> gm_sensitivity = vf_threshold f, gm_level = meterPercent (micLevel c),
                          gm_line = meterPercent (vf_threshold f),
                          gm_label = (if isActive c then ''Voice Detected'' else ''Silent'') \<rparr>
              else None),
           vp_hint = (if mode = ''ptt'' then Some ''Hold the mic button or press Space to talk'' else None),
           vp_mic = voice_select ''audioinput'' ''Microphone'' devices (vf_mic f),
           vp_speaker = voice_select ''audiooutput'' ''Speaker'' devices (vf_speaker f),
           vp_gain = percent (vf_volume f),
           vp_can_save = isDirty (sc_voice c),
           vp_mute = (if isMuted c then ''Mic Muted'' else ''Mic Active'') \<rparr>)"

record settings_panel =
  sp_theme :: string
  sp_themes :: "(string \<times> string) list"
  sp_name :: string
  sp_can_save_name :: bool
  sp_mic :: device_select
  sp_volume :: int
  sp_speaker :: device_select
  sp_key :: string
  sp_transport :: string
  sp_transports :: "(string \<times> string) list"
  sp_background :: bool
  sp_can_save_mesh :: bool
  sp_api_key :: string
  sp_location :: bool
  sp_location_text :: string

text \<open>The dashes of the transport names are em dashes in the source.\<close>

definition settings_panel_of :: "string \<Rightarrow> bool \<Rightarrow> media_device list \<Rightarrow> settings_screen \<Rightarrow> settings_panel" where
  "settings_panel_of current_theme capturing devices c =
     (let s = sy_settings (sc_sys c)
      in \<lparr> sp_theme = current_theme,
           sp_themes = [(''dark'', ''Dark''), (''light'', ''Light''), (''ld'', ''Low Detection'')],
           sp_name = rf_values (sc_profile c), sp_can_save_name = isDirty (sc_profile c),
           sp_mic = page_select ''audioinput'' ''Microphone'' devices (micDeviceId s),
           sp_volume = percent (inputVolume s),
           sp_speaker = page_select ''audiooutput'' ''Speaker'' devices (speakerDeviceId s),
           sp_key = capture_value capturing (pttKey s),
           sp_transport = mf_transport (rf_values (sc_mesh c)),
           sp_transports = [(''tcp'', ''TCP - stable internet connection''),
                            (''wifi-direct'', ''WiFi Direct - peer-to-peer, no internet needed''),
                            (''btle'', ''BLE - lowest power, shortest range'')],
           sp_background = mf_background (rf_values (sc_mesh c)), sp_can_save_mesh = isDirty (sc_mesh c),
           sp_api_key = protomapsApiKey s, sp_location = locationEnabled s,
           sp_location_text =
             (if locationEnabled s then ''Broadcasting position to room'' else ''Location sharing off'') \<rparr>)"

section \<open>Lemmas\<close>

text \<open>Picking a device or a volume on the page goes to the store at once, past the voice form.\<close>

fun is_pick :: "settings_action \<Rightarrow> bool" where
  "is_pick (PickMic v) = True"
| "is_pick (PickSpeaker v) = True"
| "is_pick (SlideVolume v) = True"
| "is_pick _ = False"

lemma effects_fields [simp]:
  "sc_sys (mode_effect B c) = sc_sys c" "sc_voice (mode_effect B c) = sc_voice c"
  "sc_sys (threshold_effect B c) = sc_sys c" "sc_voice (threshold_effect B c) = sc_voice c"
  by (simp_all add: mode_effect_def threshold_effect_def)

lemma settings_run_append: "settings_run zod B (as @ bs) c = settings_run zod B bs (settings_run zod B as c)"
  by (simp add: settings_run_def)

definition audio_erased :: "settings \<Rightarrow> settings" where
  "audio_erased s = s\<lparr>micDeviceId := [], speakerDeviceId := [], inputVolume := 0\<rparr>"

lemma onSubmit_erased: "onSubmit f s = onSubmit f (audio_erased s)"
  by (simp add: onSubmit_def audio_erased_def setInputVolume_def setSpeakerDevice_def setMicDevice_def
      setNoiseGateThreshold_def setVoiceMode_def)

lemma pick_past_form:
  "is_pick p \<Longrightarrow> sc_voice (settings_act zod B p c) = sc_voice c \<and>
     audio_erased (sy_settings (sc_sys (settings_act zod B p c))) = audio_erased (sy_settings (sc_sys c))"
  by (cases p) (simp_all add: on_sys_def pick_microphone_def pick_speaker_def slide_volume_def
      set_settings_def setMicDevice_def setSpeakerDevice_def setInputVolume_def audio_erased_def)

lemma picks_past_form:
  "list_all is_pick ps \<Longrightarrow>
   sc_voice (settings_run zod B ps c) = sc_voice c \<and>
   audio_erased (sy_settings (sc_sys (settings_run zod B ps c))) = audio_erased (sy_settings (sc_sys c))"
  by (induction ps arbitrary: c) (simp_all add: settings_run_def pick_past_form)

text \<open>The defaults written back change nothing but the mode.\<close>

lemma onSubmit_defaults: "onSubmit ((voice_defaults s)\<lparr>vf_voiceMode := m\<rparr>) s = s\<lparr>voiceMode := m\<rparr>"
  by (simp add: onSubmit_def voice_defaults_def setInputVolume_def setSpeakerDevice_def setMicDevice_def
      setNoiseGateThreshold_def setVoiceMode_def)

end
