(* ===== verification/SettingsProps.thy ===== *)
theory SettingsProps
  imports SettingsScreen
begin

text \<open>
  What the settings screen does to the settings: the forms keep the values they mounted with, so a
  save of the voice form undoes what was picked meanwhile, and a saved change cannot be taken back.
\<close>

text \<open>
  The voice form is stale. It keeps the values it mounted with, while the selects and the slider
  above it write to the store at once: whatever microphone, speaker and volume the user picks there,
  saving a change of the mode writes the old ones back. And since a save leaves the defaults of the
  form as they are, the Save button stays dead for the way back: choosing the first mode again and
  pressing Save changes nothing.
\<close>

lemma voice_form_is_stale:
  assumes "list_all is_pick picks" and "m \<noteq> voiceMode (sy_settings y)"
    and "form_ok zod voiceSettingsSchema (voice_values ((voice_defaults (sy_settings y))\<lparr>vf_voiceMode := m\<rparr>))"
  shows "let c = settings_run zod B (picks @ [VoiceMode m, SaveVoice]) (mount_screen B y) in
     sy_settings (sc_sys c) = (sy_settings y)\<lparr>voiceMode := m\<rparr> \<and>
     sy_settings (sc_sys (settings_run zod B [VoiceMode (voiceMode (sy_settings y)), SaveVoice] c))
       = (sy_settings y)\<lparr>voiceMode := m\<rparr>"
proof -
  let ?s = "sy_settings y" and ?c0 = "settings_run zod B picks (mount_screen B y)"
  let ?f = "(voice_defaults ?s)\<lparr>vf_voiceMode := m\<rparr>"
  have form: "sc_voice ?c0 = useForm (voice_defaults ?s)"
    and past: "audio_erased (sy_settings (sc_sys ?c0)) = audio_erased ?s"
    using picks_past_form [OF assms(1), of zod B "mount_screen B y"] by (simp_all add: mount_screen_def)
  have dirty: "?f \<noteq> voice_defaults ?s" using assms(2) by (simp add: voice_defaults_def)
  have "onSubmit ?f (sy_settings (sc_sys ?c0)) = ?s\<lparr>voiceMode := m\<rparr>"
    using onSubmit_erased [of ?f "sy_settings (sc_sys ?c0)"] onSubmit_erased [of ?f ?s] onSubmit_defaults [of m ?s]
    by (simp add: past)
  with form dirty assms(3) show ?thesis
    by (simp add: Let_def settings_run_append)
      (simp add: settings_run_def on_voice_field_def field_change_def useForm_def isDirty_def submit_voice_def
        on_sys_def set_settings_def save_voice_def voice_defaults_def)
qed

end
