(* ===== verification/Details.thy ===== *)
theory Details
  imports LayoutUi MapView SettingsScreen
begin

text \<open>
  The panels with the details of something selected, and the marker form: the popovers, the legend
  and the form of \<open>MapViewer.tsx\<close> and \<open>MarkerForm.tsx\<close>, the buttons of \<open>layout/MapRail.tsx\<close>, the
  texts and panels of \<open>MeshViewer.tsx\<close>.
\<close>

section \<open>Popovers of the map\<close>

definition position_text :: "num \<Rightarrow> num \<Rightarrow> string" where
  "position_text la lo = toFixed 5 la @ '', '' @ toFixed 5 lo"

record contact_popover =
  cpop_title :: string
  cpop_type :: string
  cpop_position :: string
  cpop_altitude :: string
  cpop_accuracy :: string
  cpop_stale :: bool
  cpop_at :: "num \<times> num"

record marker_popover =
  mpop_title :: string
  mpop_creator :: string
  mpop_type :: string
  mpop_how :: string
  mpop_position :: string
  mpop_remarks :: "string option"
  mpop_delete :: bool
  mpop_at :: "num \<times> num"

text \<open>
  The effect that follows the selected pin: \<open>project\<close> is the map's projection to the screen, at
  the moment of the effect and after every move of the map.
\<close>

definition popoverPos :: "(num \<times> num \<Rightarrow> num \<times> num) \<Rightarrow> map_view \<Rightarrow> (num \<times> num) option" where
  "popoverPos project v = map_option project (popover_anchor v)"

definition contact_popover_of ::
  "num \<Rightarrow> (num \<times> num \<Rightarrow> num \<times> num) \<Rightarrow> map_view \<Rightarrow> contact_popover option" where
  "contact_popover_of now project v =
     (case (selectedContact v, popoverPos project v) of
        (Some c, Some xy) \<Rightarrow>
          Some \<lparr> cpop_title = callsign c, cpop_type = contact_cot_type c,
                 cpop_position = position_text (contact_lat c) (contact_lon c),
                 cpop_altitude = toFixed 1 (contact_hae c) @ ''m'',
                 cpop_accuracy = toFixed 0 (contact_ce c) @ ''m CE'',
                 cpop_stale = (now > contact_stale c), cpop_at = xy \<rparr>
      | _ \<Rightarrow> None)"

definition marker_popover_of ::
  "string \<Rightarrow> (num \<times> num \<Rightarrow> num \<times> num) \<Rightarrow> map_view \<Rightarrow> marker_popover option" where
  "marker_popover_of me project v =
     (case (selectedMarker v, popoverPos project v) of
        (Some m, Some xy) \<Rightarrow>
          Some \<lparr> mpop_title = marker_name m, mpop_creator = creator_name m, mpop_type = marker_cot_type m,
                 mpop_how = how m, mpop_position = position_text (marker_lat m) (marker_lon m),
                 mpop_remarks = (if remarks m = [] then None else Some (remarks m)),
                 mpop_delete = (creator_id m = me), mpop_at = xy \<rparr>
      | _ \<Rightarrow> None)"

definition close_contact :: "map_view \<Rightarrow> map_view" where
  "close_contact v = v\<lparr>selectedContact := None\<rparr>"

definition close_marker :: "map_view \<Rightarrow> map_view" where
  "close_marker v = v\<lparr>selectedMarker := None\<rparr>"

definition map_legend :: "(string \<times> string) list" where
  "map_legend =
     [(''bg-cot-friendly'', ''Friendly''), (''bg-cot-hostile'', ''Hostile''), (''bg-cot-neutral'', ''Neutral''),
      (''bg-cot-unknown'', ''Unknown''), (''bg-fg-secondary/40'', ''Stale (>30s)'')]"

section \<open>The marker form\<close>

record marker_form_panel =
  mfp_position :: string
  mfp_name :: string
  mfp_types :: "(string \<times> string \<times> bool) list"
  mfp_affiliations :: "(string \<times> string \<times> bool) list"
  mfp_remarks :: string
  mfp_place_class :: string
  mfp_can_place :: bool

definition marker_panel_of ::
  "(zod_type \<Rightarrow> jsval \<Rightarrow> bool) \<Rightarrow> num \<Rightarrow> num \<Rightarrow> marker_input rhf \<Rightarrow> marker_form_panel" where
  "marker_panel_of zod la lo f =
     (let v = rf_values f
      in \<lparr> mfp_position = position_text la lo, mfp_name = mi_name v,
           mfp_types = map (\<lambda>t. (ct_value t, ct_label t, mi_cotType v = ct_value t)) COT_TYPES,
           mfp_affiliations = map (\<lambda>(a, label, bg, text). (a, take 1 label, mi_affiliation v = a)) AFFILIATIONS,
           mfp_remarks = (case mi_remarks v of Some r \<Rightarrow> r | None \<Rightarrow> []),
           mfp_place_class = affiliationPlaceClass (mi_affiliation v),
           mfp_can_place = form_ok zod markerSchema (marker_values v) \<rparr>)"

datatype marker_action =
    MarkerName string | MarkerType string | MarkerAffiliation string | MarkerRemarks string
  | MarkerPlace | MarkerEscape

text \<open>
  The form inside the map viewer: its fields, the submit through the resolver to
  \<open>handlePlaceMarker\<close>, and \<open>onCancel\<close>, which closes it. The form is mounted anew each time it opens.
\<close>

fun marker_act ::
  "(zod_type \<Rightarrow> jsval \<Rightarrow> bool) \<Rightarrow> string option \<Rightarrow> marker_action \<Rightarrow> marker_input rhf \<times> map_view \<Rightarrow>
     (marker_input rhf \<times> map_view) \<times> out_msg list" where
  "marker_act zod room (MarkerName t) (f, v) = ((field_change (\<lambda>m. m\<lparr>mi_name := t\<rparr>) f, v), [])"
| "marker_act zod room (MarkerType t) (f, v) = ((field_change (\<lambda>m. m\<lparr>mi_cotType := t\<rparr>) f, v), [])"
| "marker_act zod room (MarkerAffiliation a) (f, v) = ((field_change (\<lambda>m. m\<lparr>mi_affiliation := a\<rparr>) f, v), [])"
| "marker_act zod room (MarkerRemarks t) (f, v) = ((field_change (\<lambda>m. m\<lparr>mi_remarks := Some t\<rparr>) f, v), [])"
| "marker_act zod room MarkerPlace (f, v) =
     (if form_ok zod markerSchema (marker_values (rf_values f))
      then let (v', outs) = handlePlaceMarker room (marker_handleSubmit (rf_values f)) v in ((f, v'), outs)
      else ((f, v), []))"
| "marker_act zod room MarkerEscape (f, v) = ((f, v\<lparr>markerForm := None\<rparr>), [])"

definition marker_run ::
  "(zod_type \<Rightarrow> jsval \<Rightarrow> bool) \<Rightarrow> string option \<Rightarrow> marker_action list \<Rightarrow> marker_input rhf \<times> map_view \<Rightarrow>
     (marker_input rhf \<times> map_view) \<times> out_msg list" where
  "marker_run zod room as s =
     foldl (\<lambda>(s, outs) a. let (s', new) = marker_act zod room a s in (s', outs @ new)) (s, []) as"

section \<open>The map rail\<close>

datatype rail_button = ZoomIn | ZoomOut | CenterOnMe | AddPin

datatype map_command = MapZoomIn nat | MapZoomOut nat | MapFlyTo nat num num num

text \<open>
  A click on a button of the rail calls the function of \<open>mapControls\<close>, if there is one, on the map
  it closes over; \<open>zoom\<close> and \<open>centre\<close> are what that map answers.
\<close>

definition rail_click ::
  "chat_state \<Rightarrow> num \<Rightarrow> num \<times> num \<Rightarrow> rail_button \<Rightarrow> map_view \<Rightarrow> map_view \<times> map_command list" where
  "rail_click s zoom centre b v =
     (case mapControls s of
        None \<Rightarrow> (v, [])
      | Some m \<Rightarrow>
          (case b of
             ZoomIn \<Rightarrow> (v, [MapZoomIn m])
           | ZoomOut \<Rightarrow> (v, [MapZoomOut m])
           | CenterOnMe \<Rightarrow>
               (v, case centerOnSelf (selfPosition s) zoom of
                     None \<Rightarrow> [] | Some (lo, la, z) \<Rightarrow> [MapFlyTo m lo la z])
           | AddPin \<Rightarrow> (openAddMarker (fst centre) (snd centre) v, [])))"

section \<open>The mesh diagram's texts\<close>

record link_label =
  ll_at :: point
  ll_transport :: string
  ll_latency :: "num option"
  ll_relay :: bool

text \<open>\<open>None\<close> for a latency that is not known yet, printed as dots.\<close>

definition known_latency :: "mesh_peer \<Rightarrow> num option" where
  "known_latency p = (if latency_ms p > 0 then Some (latency_ms p) else None)"

definition link_label_of :: "mesh_node \<Rightarrow> link_label" where
  "link_label_of n =
     (let (fx, fy) = mn_from n; (x, y) = mn_at n
      in \<lparr> ll_at = ((fx + x) / 2, (fy + y) / 2), ll_transport = js_upper (transport (mn_peer n)),
           ll_latency = known_latency (mn_peer n), ll_relay = str_truthy (connected_via (mn_peer n)) \<rparr>)"

record node_label =
  nl_name :: string
  nl_inside :: string
  nl_pulse :: bool
  nl_selected :: bool

definition node_label_of :: "mesh_peer option \<Rightarrow> mesh_node \<Rightarrow> node_label" where
  "node_label_of selected n =
     (let p = mn_peer n
      in \<lparr> nl_name = peer_name p, nl_inside = peer_short_id p,
           nl_pulse = (peer_state p = Connected \<and> \<not> str_truthy (connected_via p)),
           nl_selected = (map_option peer_id selected = Some (peer_id p)) \<rparr>)"

definition self_label :: "string \<Rightarrow> string" where
  "self_label selfName = (if length selfName > 6 then js_slice selfName 0 6 else selfName)"

record peer_detail =
  pd_name :: string
  pd_short_id :: string
  pd_transport :: string
  pd_variant :: string
  pd_latency :: "num option"
  pd_ok :: bool
  pd_connected :: string
  pd_via :: "string option"
  pd_id :: string

definition peer_detail_of :: "num \<Rightarrow> mesh_peer \<Rightarrow> peer_detail" where
  "peer_detail_of now p =
     \<lparr> pd_name = peer_name p, pd_short_id = peer_short_id p,
       pd_transport = js_upper (transport p), pd_variant = transportBadgeVariant (transport p),
       pd_latency = known_latency p, pd_ok = (peer_state p = Connected),
       pd_connected = formatDuration (now - connected_at p),
       pd_via = (if str_truthy (connected_via p) then Some (js_slice (the (connected_via p)) 0 12 @ ''...'') else None),
       pd_id = js_slice (peer_id p) 0 24 @ ''...'' \<rparr>"

record mesh_screen =
  ms_links :: "link_label list"
  ms_nodes :: "node_label list"
  ms_self :: string
  ms_empty :: bool
  ms_detail :: "peer_detail option"
  ms_legend :: "(string \<times> string) list"
  ms_count :: string

definition mesh_screen_of ::
  "num \<Rightarrow> num \<times> num \<Rightarrow> string \<Rightarrow> mesh_peer list \<Rightarrow> mesh_peer option \<Rightarrow> mesh_screen" where
  "mesh_screen_of now dims selfName ps selected =
     \<lparr> ms_links = map link_label_of (mesh_nodes dims ps),
       ms_nodes = map (node_label_of selected) (mesh_nodes dims ps),
       ms_self = self_label selfName, ms_empty = (ps = []),
       ms_detail = map_option (peer_detail_of now) selected,
       ms_legend = map (\<lambda>t. (t, transportBadgeVariant t)) (activeTransports ps),
       ms_count = decimal (length ps) @ '' peer'' @ (if length ps \<noteq> 1 then ''s'' else []) @ '' connected'' \<rparr>"

section \<open>Lemmas\<close>

text \<open>The popover of a contact stands at the contact, whatever marker is selected too.\<close>

lemma popover_of_contact:
  "mapRef v = Some m \<Longrightarrow> selectedContact v = Some c \<Longrightarrow>
   \<exists>q. contact_popover_of now project v = Some q \<and> cpop_at q = project (contact_lon c, contact_lat c)"
  by (simp add: contact_popover_of_def popoverPos_def popover_anchor_def)

text \<open>Every link is labelled in the middle of its line.\<close>

lemma link_label_middle:
  "ll_at (link_label_of n) =
     ((fst (mn_from n) + fst (mn_at n)) / 2, (snd (mn_from n) + snd (mn_at n)) / 2)"
  by (simp add: link_label_of_def case_prod_beta Let_def)

text \<open>The effect of new markers does not look at the selection.\<close>

lemma markers_effect_selection:
  "selectedMarker (markers_effect ms v) = selectedMarker v" "mapRef (markers_effect ms v) = mapRef v"
  "selectedContact (markers_effect ms v) = selectedContact v"
  by (simp_all add: markers_effect_def Let_def split: option.split)

lemma popover_outlives_marker:
  assumes "mapRef v = Some k" and "selectedMarker v = Some m" and "selectedContact v = None"
  shows "\<exists>q. marker_popover_of me project (markers_effect [] v) = Some q \<and> mpop_title q = marker_name m"
  using assms by (simp add: marker_popover_of_def popoverPos_def popover_anchor_def markers_effect_selection)

end
