(* ===== verification/ServerRoom.thy ===== *)
theory ServerRoom
  imports Dispatch "HOL-Library.List_Lexorder"
begin

text \<open>
  The conversation of one room on the server (\<open>server/room.go\<close>, and the cases of \<open>server/client.go\<close>
  and \<open>server/hub.go\<close> that send, edit, delete, pin and react): the messages it keeps, the frames it
  sends, and what the client's casts make of those frames. Go's \<open>uint64\<close> times are naturals.
\<close>

section \<open>Data\<close>

record go_message =
  g_id :: string
  g_sender :: string
  g_name :: string
  g_time :: nat
  g_content :: string
  g_reply :: "string option"
  g_edited :: "nat option"
  g_deleted :: bool
  g_reactions :: "reaction_map option"
  g_pinned :: bool

text \<open>
  Members are the clients' identities; \<open>gr_hex\<close> is \<open>ChatIdHex\<close> of the room; \<open>gr_dm\<close> are the two
  participants of a private conversation.
\<close>

record go_room =
  gr_hex :: string
  gr_name :: string
  gr_dm :: "(string \<times> string) option"
  gr_messages :: "go_message list"
  gr_members :: "string list"
  gr_pinned :: "string set"

definition NewChatMessage :: "string \<Rightarrow> nat \<Rightarrow> string \<Rightarrow> string \<Rightarrow> string \<Rightarrow> go_message" where
  "NewChatMessage uuid now sid sname text =
     \<lparr> g_id = uuid, g_sender = sid, g_name = sname, g_time = now, g_content = text, g_reply = None,
       g_edited = None, g_deleted = False, g_reactions = None, g_pinned = False \<rparr>"

section \<open>The operations of a room\<close>

definition maxMessages :: nat where
  "maxMessages = 1000"

definition AddMessage :: "go_message \<Rightarrow> go_room \<Rightarrow> go_room" where
  "AddMessage m r =
     (if list_ex (\<lambda>x. g_id x = g_id m) (gr_messages r) then r
      else let ms = gr_messages r @ [m]
           in r\<lparr>gr_messages := (if maxMessages < length ms then drop (length ms - maxMessages) ms else ms)\<rparr>)"

text \<open>
  The loop of the operations on one message: the first message the test accepts is changed, or the
  operation fails there.
\<close>

fun first_message ::
  "(go_message \<Rightarrow> bool) \<Rightarrow> (go_message \<Rightarrow> (go_message \<times> 'a) option) \<Rightarrow> go_message list \<Rightarrow>
     (go_message list \<times> 'a) option" where
  "first_message p f [] = None"
| "first_message p f (m # ms) =
     (if p m then (case f m of None \<Rightarrow> None | Some (m', x) \<Rightarrow> Some (m' # ms, x))
      else (case first_message p f ms of None \<Rightarrow> None | Some (ms', x) \<Rightarrow> Some (m # ms', x)))"

definition in_messages ::
  "(go_message \<Rightarrow> bool) \<Rightarrow> (go_message \<Rightarrow> (go_message \<times> 'a) option) \<Rightarrow> go_room \<Rightarrow> (go_room \<times> 'a) option" where
  "in_messages p f r = map_option (\<lambda>(ms, x). (r\<lparr>gr_messages := ms\<rparr>, x)) (first_message p f (gr_messages r))"

definition EditMessage :: "nat \<Rightarrow> string \<Rightarrow> string \<Rightarrow> string \<Rightarrow> go_room \<Rightarrow> (go_room \<times> nat) option" where
  "EditMessage now mid who text =
     in_messages (\<lambda>m. g_id m = mid)
       (\<lambda>m. if g_sender m \<noteq> who then None
            else if g_deleted m then None
            else Some (m\<lparr>g_content := text, g_edited := Some now\<rparr>, now))"

definition DeleteMessage :: "string \<Rightarrow> string \<Rightarrow> go_room \<Rightarrow> (go_room \<times> unit) option" where
  "DeleteMessage mid who r =
     map_option (\<lambda>(r', x). (r'\<lparr>gr_pinned := gr_pinned r - {mid}\<rparr>, x))
       (in_messages (\<lambda>m. g_id m = mid)
         (\<lambda>m. if g_sender m \<noteq> who then None
              else Some (m\<lparr>g_content := [], g_deleted := True, g_pinned := False\<rparr>, ())) r)"

definition senders_of :: "reaction_map \<Rightarrow> string \<Rightarrow> string list" where
  "senders_of rs emoji = (case js_get rs emoji of None \<Rightarrow> [] | Some ids \<Rightarrow> ids)"

definition AddReaction :: "string \<Rightarrow> string \<Rightarrow> string \<Rightarrow> go_room \<Rightarrow> (go_room \<times> reaction_map) option" where
  "AddReaction mid who emoji =
     in_messages (\<lambda>m. g_id m = mid)
       (\<lambda>m. if g_deleted m then None
            else let rs = (case g_reactions m of None \<Rightarrow> [] | Some rs \<Rightarrow> rs);
                     rs' = (if who \<in> set (senders_of rs emoji) then rs
                            else js_set emoji (senders_of rs emoji @ [who]) rs)
                 in Some (m\<lparr>g_reactions := Some rs'\<rparr>, rs'))"

definition RemoveReaction :: "string \<Rightarrow> string \<Rightarrow> string \<Rightarrow> go_room \<Rightarrow> (go_room \<times> reaction_map) option" where
  "RemoveReaction mid who emoji =
     in_messages (\<lambda>m. g_id m = mid)
       (\<lambda>m. case g_reactions m of
              None \<Rightarrow> None
            | Some rs \<Rightarrow>
                if who \<in> set (senders_of rs emoji)
                then let ids = remove1 who (senders_of rs emoji);
                         rs' = (if ids = [] then js_delete emoji rs else js_set emoji ids rs)
                     in Some (m\<lparr>g_reactions := Some rs'\<rparr>, rs')
                else None)"

definition PinMessage :: "string \<Rightarrow> go_room \<Rightarrow> (go_room \<times> unit) option" where
  "PinMessage mid r =
     map_option (\<lambda>(r', x). (r'\<lparr>gr_pinned := insert mid (gr_pinned r)\<rparr>, x))
       (in_messages (\<lambda>m. g_id m = mid \<and> \<not> g_deleted m) (\<lambda>m. Some (m\<lparr>g_pinned := True\<rparr>, ())) r)"

definition UnpinMessage :: "string \<Rightarrow> go_room \<Rightarrow> (go_room \<times> unit) option" where
  "UnpinMessage mid r =
     map_option (\<lambda>(r', x). (r'\<lparr>gr_pinned := gr_pinned r - {mid}\<rparr>, x))
       (in_messages (\<lambda>m. g_id m = mid) (\<lambda>m. Some (m\<lparr>g_pinned := False\<rparr>, ())) r)"

section \<open>What goes over the wire\<close>

text \<open>\<open>encoding/json\<close> writes a map in the order of its keys and leaves out what is \<open>omitempty\<close> and empty.\<close>

definition by_key :: "reaction_map \<Rightarrow> reaction_map" where
  "by_key rs = sort_key (\<lambda>p. map of_char (fst p) :: nat list) rs"

definition go_reactions :: "reaction_map \<Rightarrow> jsval" where
  "go_reactions rs = JObj (map (\<lambda>(k, ids). (k, JArr (map JStr ids))) (by_key rs))"

definition go_message_json :: "go_message \<Rightarrow> jsval" where
  "go_message_json m =
     JObj ([(''id'', JStr (g_id m)), (''sender'', JStr (g_sender m)), (''sender_name'', JStr (g_name m)),
            (''timestamp'', JNum (real (g_time m))), (''content'', JStr (g_content m))] @
           (case g_reply m of None \<Rightarrow> [] | Some i \<Rightarrow> [(''reply_to'', JStr i)]) @
           (case g_edited m of None \<Rightarrow> [] | Some t \<Rightarrow> [(''edited_at'', JNum (real t))]) @
           (if g_deleted m then [(''deleted'', JBool True)] else []) @
           (case g_reactions m of None \<Rightarrow> [] | Some rs \<Rightarrow> if rs = [] then [] else [(''reactions'', go_reactions rs)]) @
           (if g_pinned m then [(''pinned'', JBool True)] else []))"

definition go_frame :: "string \<Rightarrow> (string \<times> jsval) list \<Rightarrow> jsval" where
  "go_frame t d = JObj [(''type'', JStr t), (''data'', JObj d)]"

definition go_error :: "string \<Rightarrow> jsval" where
  "go_error text = go_frame ''error'' [(''message'', JStr text)]"

text \<open>Frames are listed with the client they go to; a broadcast goes to every member.\<close>

type_synonym addressed = "(string \<times> jsval) list"

definition Broadcast :: "go_room \<Rightarrow> jsval \<Rightarrow> addressed" where
  "Broadcast r f = map (\<lambda>c. (c, f)) (gr_members r)"

section \<open>The requests\<close>

text \<open>
  Decoding a request: a property that is missing or null is the empty string, one that is no
  string fails the whole request.
\<close>

fun go_string :: "jsval \<Rightarrow> string option" where
  "go_string JUndefined = Some []"
| "go_string JNull = Some []"
| "go_string (JStr s) = Some s"
| "go_string _ = None"

fun go_pointer :: "jsval \<Rightarrow> string option option" where
  "go_pointer JUndefined = Some None"
| "go_pointer JNull = Some None"
| "go_pointer (JStr s) = Some (Some s)"
| "go_pointer _ = None"

fun go_strings :: "jsval \<Rightarrow> string list \<Rightarrow> string list option" where
  "go_strings d [] = Some []"
| "go_strings d (k # ks) =
     (case (go_string (js_prop d k), go_strings d ks) of
        (Some s, Some ss) \<Rightarrow> Some (s # ss)
      | _ \<Rightarrow> None)"

text \<open>\<open>getRoomByHex\<close> finds the room by its id or the first 16 digits of it; the client has to be a member.\<close>

definition may_use :: "go_room \<Rightarrow> string \<Rightarrow> string \<Rightarrow> bool" where
  "may_use r who hex \<longleftrightarrow> (gr_hex r = hex \<or> take 16 (gr_hex r) = hex) \<and> who \<in> set (gr_members r)"

record go_client =
  gc_id :: string
  gc_name :: string

text \<open>\<open>peers\<close> are the Bluetooth peers: their id, the client that relays them, and their name.\<close>

type_synonym ble_peers = "(string \<times> (string \<times> string)) list"

definition sent_message ::
  "ble_peers \<Rightarrow> string \<Rightarrow> nat \<Rightarrow> go_client \<Rightarrow> string \<Rightarrow> string option \<Rightarrow> string \<Rightarrow> string \<Rightarrow> string \<Rightarrow> go_message" where
  "sent_message peers uuid now c text rep mid sid sname =
     (let i = (if mid = [] then uuid else mid);
          (from_id, nm) =
            (case js_get peers sid of
               Some (relay, pname) \<Rightarrow>
                 if sid \<noteq> [] \<and> relay = gc_id c then (sid, if sname = [] then pname else sname)
                 else if sname \<noteq> [] \<and> sname \<noteq> gc_name c then (''ble-'' @ sname, sname)
                 else (gc_id c, gc_name c)
             | None \<Rightarrow>
                 if sname \<noteq> [] \<and> sname \<noteq> gc_name c then (''ble-'' @ sname, sname)
                 else (gc_id c, gc_name c))
      in (NewChatMessage i now from_id nm text)\<lparr>g_reply := rep\<rparr>)"

definition serve_send :: "ble_peers \<Rightarrow> string \<Rightarrow> nat \<Rightarrow> go_client \<Rightarrow> jsval \<Rightarrow> go_room \<Rightarrow> go_room \<times> addressed" where
  "serve_send peers uuid now c d r =
     (case (go_strings d [''room_id'', ''content'', ''message_id'', ''sender_id'', ''sender_name''],
            go_pointer (js_prop d ''reply_to'')) of
        (Some [hex, text, mid, sid, sname], Some rep) \<Rightarrow>
          if text = [] then (r, [])
          else if \<not> may_use r (gc_id c) hex then (r, [(gc_id c, go_error ''room not found'')])
          else let m = sent_message peers uuid now c text rep mid sid sname; r' = AddMessage m r
               in (r', Broadcast r' (go_frame ''message''
                          [(''room_id'', JStr (gr_hex r)), (''message'', go_message_json m)]))
      | _ \<Rightarrow> (r, []))"

definition serve_edit :: "nat \<Rightarrow> go_client \<Rightarrow> jsval \<Rightarrow> go_room \<Rightarrow> go_room \<times> addressed" where
  "serve_edit now c d r =
     (case go_strings d [''room_id'', ''message_id'', ''content''] of
        Some [hex, mid, text] \<Rightarrow>
          if mid = [] \<or> text = [] then (r, [])
          else if \<not> may_use r (gc_id c) hex then (r, [(gc_id c, go_error ''room not found'')])
          else (case EditMessage now mid (gc_id c) text r of
                  None \<Rightarrow> (r, [(gc_id c, go_error ''cannot edit message'')])
                | Some (r', t) \<Rightarrow>
                    (r', Broadcast r' (go_frame ''message_edited''
                       [(''room_id'', JStr hex), (''message_id'', JStr mid), (''content'', JStr text),
                        (''edited_at'', JNum (real t))])))
      | _ \<Rightarrow> (r, []))"

definition serve_delete :: "go_client \<Rightarrow> jsval \<Rightarrow> go_room \<Rightarrow> go_room \<times> addressed" where
  "serve_delete c d r =
     (case go_strings d [''room_id'', ''message_id''] of
        Some [hex, mid] \<Rightarrow>
          if mid = [] then (r, [])
          else if \<not> may_use r (gc_id c) hex then (r, [(gc_id c, go_error ''room not found'')])
          else (case DeleteMessage mid (gc_id c) r of
                  None \<Rightarrow> (r, [(gc_id c, go_error ''cannot delete message'')])
                | Some (r', _) \<Rightarrow>
                    (r', Broadcast r' (go_frame ''message_deleted''
                       [(''room_id'', JStr hex), (''message_id'', JStr mid)])))
      | _ \<Rightarrow> (r, []))"

text \<open>The reactions of a message that the server changed: \<open>change\<close> is adding or removing one.\<close>

definition serve_react ::
  "(string \<Rightarrow> string \<Rightarrow> string \<Rightarrow> go_room \<Rightarrow> (go_room \<times> reaction_map) option) \<Rightarrow>
     go_client \<Rightarrow> jsval \<Rightarrow> go_room \<Rightarrow> go_room \<times> addressed" where
  "serve_react change c d r =
     (case go_strings d [''room_id'', ''message_id'', ''emoji''] of
        Some [hex, mid, emoji] \<Rightarrow>
          if mid = [] \<or> emoji = [] \<or> \<not> may_use r (gc_id c) hex then (r, [])
          else (case change mid (gc_id c) emoji r of
                  None \<Rightarrow> (r, [])
                | Some (r', rs) \<Rightarrow>
                    (r', Broadcast r' (go_frame ''reaction_updated''
                       [(''room_id'', JStr hex), (''message_id'', JStr mid), (''reactions'', go_reactions rs)])))
      | _ \<Rightarrow> (r, []))"

definition serve_pin ::
  "string \<Rightarrow> (string \<Rightarrow> go_room \<Rightarrow> (go_room \<times> unit) option) \<Rightarrow> go_client \<Rightarrow> jsval \<Rightarrow> go_room \<Rightarrow> go_room \<times> addressed" where
  "serve_pin t change c d r =
     (case go_strings d [''room_id'', ''message_id''] of
        Some [hex, mid] \<Rightarrow>
          if mid = [] \<or> \<not> may_use r (gc_id c) hex then (r, [])
          else (case change mid r of
                  None \<Rightarrow> (r, [])
                | Some (r', _) \<Rightarrow>
                    (r', Broadcast r' (go_frame t [(''room_id'', JStr hex), (''message_id'', JStr mid)])))
      | _ \<Rightarrow> (r, []))"

definition serve :: "ble_peers \<Rightarrow> string \<Rightarrow> nat \<Rightarrow> go_client \<Rightarrow> out_msg \<Rightarrow> go_room \<Rightarrow> go_room \<times> addressed" where
  "serve peers uuid now c m r =
     (case m of Out t d \<Rightarrow>
        if t = ''send_message'' then serve_send peers uuid now c d r
        else if t = ''edit_message'' then serve_edit now c d r
        else if t = ''delete_message'' then serve_delete c d r
        else if t = ''add_reaction'' then serve_react AddReaction c d r
        else if t = ''remove_reaction'' then serve_react RemoveReaction c d r
        else if t = ''pin_message'' then serve_pin ''message_pinned'' PinMessage c d r
        else if t = ''unpin_message'' then serve_pin ''message_unpinned'' UnpinMessage c d r
        else (r, []))"

text \<open>
  Joining the room, as far as the conversation goes: the room is told to the client with its
  history. What else joining sends (voice, positions, peers, rooms) does not concern messages.
\<close>

definition go_history :: "go_room \<Rightarrow> jsval" where
  "go_history r =
     go_frame ''room_history'' [(''room_id'', JStr (gr_hex r)), (''messages'', JArr (map go_message_json (gr_messages r)))]"

definition go_joined :: "string \<Rightarrow> go_room \<Rightarrow> jsval" where
  "go_joined nm r =
     go_frame ''room_joined'' ([(''room_id'', JStr (gr_hex r)), (''name'', JStr nm),
        (''members'', JNum (real (length (gr_members r))))] @ (if gr_dm r = None then [] else [(''is_dm'', JBool True)]))"

definition add_member :: "string \<Rightarrow> go_room \<Rightarrow> go_room" where
  "add_member c r = r\<lparr>gr_members := List.insert c (gr_members r)\<rparr>"

definition is_participant :: "string \<Rightarrow> go_room \<Rightarrow> bool" where
  "is_participant c r \<longleftrightarrow> (case gr_dm r of None \<Rightarrow> True | Some (a, b) \<Rightarrow> c = a \<or> c = b)"

definition JoinRoom :: "string \<Rightarrow> go_room \<Rightarrow> go_room \<times> addressed" where
  "JoinRoom c r =
     (if \<not> is_participant c r then (r, [(c, go_error ''cannot join private conversation'')])
      else let r' = add_member c r in (r', [(c, go_joined (gr_name r') r'), (c, go_history r')]))"

text \<open>
  A private conversation is opened by one of the two for both, and joined again by its id.
  \<open>names\<close> are the names of the clients that are connected.
\<close>

definition go_opened :: "(string \<Rightarrow> string) \<Rightarrow> string \<Rightarrow> go_room \<Rightarrow> jsval" where
  "go_opened names peer r =
     go_frame ''dm_opened'' [(''room_id'', JStr (gr_hex r)), (''name'', JStr (names peer)),
       (''peer_id'', JStr peer), (''peer_name'', JStr (names peer))]"

definition StartDM :: "(string \<Rightarrow> string) \<Rightarrow> string \<Rightarrow> string \<Rightarrow> go_room \<Rightarrow> go_room \<times> addressed" where
  "StartDM names c target r =
     (let r' = add_member target (add_member c r)
      in (r', [(c, go_opened names target r'), (c, go_joined (names target) r'), (c, go_history r'),
               (target, go_opened names c r'), (target, go_joined (names c) r'), (target, go_history r')]))"

definition JoinDM :: "(string \<Rightarrow> string) \<Rightarrow> string \<Rightarrow> string \<Rightarrow> go_room \<Rightarrow> go_room \<times> addressed" where
  "JoinDM names c hex r =
     (if \<not> (gr_hex r = hex \<or> take 16 (gr_hex r) = hex) then (r, [(c, go_error ''DM room not found'')])
      else if gr_dm r = None then (r, [(c, go_error ''not a DM room'')])
      else if \<not> is_participant c r then (r, [(c, go_error ''cannot join private conversation'')])
      else let r' = add_member c r;
               peer = (case find (\<lambda>m. m \<noteq> c) (gr_members r') of Some m \<Rightarrow> names m | None \<Rightarrow> []);
               nm = (if peer = [] then ''DM'' else peer)
           in (r', [(c, go_joined nm r'), (c, go_history r')]))"

definition LeaveRoom :: "string \<Rightarrow> go_room \<Rightarrow> go_room" where
  "LeaveRoom c r = r\<lparr>gr_members := remove1 c (gr_members r)\<rparr>"

section \<open>What the client reads\<close>

definition web_message :: "go_message \<Rightarrow> chat_message" where
  "web_message m =
     \<lparr> msg_id = g_id m, sender = g_sender m, sender_name = g_name m, timestamp = real (g_time m),
       content = g_content m, reply_to = g_reply m, edited_at = map_option real (g_edited m),
       deleted = (if g_deleted m then Some True else None),
       reactions = (case g_reactions m of None \<Rightarrow> None | Some rs \<Rightarrow> if rs = [] then None else Some (by_key rs)),
       pinned = (if g_pinned m then Some True else None) \<rparr>"

text \<open>The casts of \<open>onmessage\<close> read back what \<open>encoding/json\<close> wrote.\<close>

definition reads_server :: "views \<Rightarrow> bool" where
  "reads_server V \<longleftrightarrow>
     (\<forall>m. as_message V (go_message_json m) = web_message m) \<and> (\<forall>rs. as_reactions V (go_reactions rs) = by_key rs)"

text \<open>Such casts exist: reading the properties of the interface.\<close>

fun json_reactions :: "jsval \<Rightarrow> reaction_map" where
  "json_reactions (JObj kvs) = map (\<lambda>(k, v). (k, map (str_or []) (arr_or_empty v))) kvs"
| "json_reactions _ = []"

definition json_message :: "jsval \<Rightarrow> chat_message" where
  "json_message v =
     \<lparr> msg_id = str_or [] (js_prop v ''id''), sender = str_or [] (js_prop v ''sender''),
       sender_name = str_or [] (js_prop v ''sender_name''), timestamp = num_or 0 (js_prop v ''timestamp''),
       content = str_or [] (js_prop v ''content''), reply_to = str_prop v ''reply_to'',
       edited_at = (case js_prop v ''edited_at'' of JNum t \<Rightarrow> Some t | _ \<Rightarrow> None),
       deleted = (case js_prop v ''deleted'' of JBool b \<Rightarrow> Some b | _ \<Rightarrow> None),
       reactions = (case js_prop v ''reactions'' of JObj kvs \<Rightarrow> Some (json_reactions (JObj kvs)) | _ \<Rightarrow> None),
       pinned = (case js_prop v ''pinned'' of JBool b \<Rightarrow> Some b | _ \<Rightarrow> None) \<rparr>"

lemma json_reactions_go [simp]: "json_reactions (go_reactions rs) = by_key rs"
  by (simp add: go_reactions_def comp_def case_prod_beta)

lemma by_key_Nil_iff [simp]: "by_key rs = [] \<longleftrightarrow> rs = []"
  by (simp add: by_key_def flip: set_empty)

lemma json_message_go: "json_message (go_message_json m) = web_message m"
  by (auto simp: json_message_def go_message_json_def web_message_def go_reactions_def
      comp_def case_prod_beta split: option.split)

lemma reads_server_ex: "reads_server (V\<lparr>as_message := json_message, as_reactions := json_reactions\<rparr>)"
  by (simp add: reads_server_def json_message_go)

end
