(* ===== verification/Conversation.thy ===== *)
theory Conversation
  imports ServerRoom WsConn "HOL-Library.Multiset"
begin

text \<open>
  The conversation of a room from end to end: the server's room (\<open>ServerRoom\<close>), the send buffer and
  the socket of every client, and the client's store, under every interleaving of requests,
  deliveries, joins and lost connections. What a client shows is, once the frames on their way to it
  have arrived, what the server has.
\<close>

section \<open>What a frame does to the messages of a room\<close>

definition deliver :: "views \<Rightarrow> jsval \<Rightarrow> chat_state \<Rightarrow> chat_state" where
  "deliver V f s = fst (ws_onmessage V (Some f) s)"

definition room_view :: "string \<Rightarrow> chat_state \<Rightarrow> chat_message list option" where
  "room_view rid s = map_option messages (js_get (rooms s) rid)"

lemma room_view_update:
  "(\<And>r. messages (f r) = g (messages r)) \<Longrightarrow>
   room_view rid (update_room k f s) = (if k = rid then map_option g (room_view rid s) else room_view rid s)"
  by (simp add: room_view_def get_update_room option.map_comp comp_def)

lemma view_other [simp]: "room_view rid (s\<lparr>activeRoomId := x\<rparr>) = room_view rid s"
  by (simp add: room_view_def)

definition patched :: "string \<Rightarrow> (chat_message \<Rightarrow> chat_message) \<Rightarrow> chat_message list \<Rightarrow> chat_message list" where
  "patched mid patch = map_where (\<lambda>m. msg_id m = mid) patch"

lemma view_active [simp]: "room_view rid (setActiveRoom k s) = room_view rid s"
  using room_view_update [of clear_unread id rid k s]
  by (simp add: setActiveRoom_def clear_unread_def option.map_id)

lemma view_messages:
  "room_view rid (setRoomHistory k ms s) =
     (if k = rid then map_option (\<lambda>xs. mergeMessages xs ms) (room_view rid s) else room_view rid s)"
  "room_view rid (addMessage k m s) =
     (if k = rid then map_option (\<lambda>xs. mergeMessages xs [m]) (room_view rid s) else room_view rid s)"
  "room_view rid (update_room k (patch_messages mid f) s) =
     (if k = rid then map_option (patched mid f) (room_view rid s) else room_view rid s)"
  unfolding setRoomHistory_def addMessage_def
  by (rule room_view_update, simp add: merge_history_def receive_message_def patch_messages_def patched_def Let_def)+

lemma view_addRoom:
  "room_view rid (addRoom k nm n dm s) =
     (if k = rid then Some (case room_view rid s of None \<Rightarrow> [] | Some ms \<Rightarrow> ms) else room_view rid s)"
  by (auto simp: addRoom_def room_view_def new_room_def set_members_def split: option.splits)

lemma view_addDMRoom:
  "room_view rid (addDMRoom k nm i pn s) =
     (if k = rid then Some (case room_view rid s of None \<Rightarrow> [] | Some ms \<Rightarrow> ms) else room_view rid s)"
  by (auto simp: addDMRoom_def room_view_def new_dm_room_def split: option.splits)

lemmas frame_eval = deliver_def go_frame_def ws_onmessage_def ws_switch_def need_str_def stored_def Let_def

lemma deliver_joining:
  "room_view rid (deliver V (go_joined nm r) s) =
     (if gr_hex r = rid then Some (case room_view rid s of None \<Rightarrow> [] | Some ms \<Rightarrow> ms) else room_view rid s)"
  "room_view rid (deliver V (go_opened names peer r) s) =
     (if gr_hex r = rid then Some (case room_view rid s of None \<Rightarrow> [] | Some ms \<Rightarrow> ms) else room_view rid s)"
  by (simp_all add: go_joined_def go_opened_def frame_eval on_room_joined_def on_dm_opened_def
      view_addRoom view_addDMRoom)

lemma deliver_history:
  assumes "reads_server V"
  shows "room_view rid (deliver V (go_history r) s) =
     (if gr_hex r = rid then map_option (\<lambda>ms. mergeMessages ms (map web_message (gr_messages r))) (room_view rid s)
      else room_view rid s)"
proof -
  have "map (as_message V) (map go_message_json ms) = map web_message ms" for ms
    using assms by (simp add: reads_server_def)
  then show ?thesis
    by (simp add: go_history_def frame_eval on_room_history_def view_messages del: map_map)
qed

lemma deliver_message:
  assumes "reads_server V"
  shows "room_view rid (deliver V (go_frame ''message'' [(''room_id'', JStr k), (''message'', go_message_json m)]) s) =
     (if k = rid then map_option (\<lambda>ms. mergeMessages ms [web_message m]) (room_view rid s) else room_view rid s)"
proof -
  have "truthy (go_message_json m)" "typeof_object (go_message_json m)" by (simp_all add: go_message_json_def)
  then show ?thesis
    using assms by (simp add: frame_eval on_message_def view_messages reads_server_def)
qed

text \<open>The frames that patch one message.\<close>

lemma deliver_patches:
  "room_view rid (deliver V (go_frame ''message_edited''
       [(''room_id'', JStr k), (''message_id'', JStr mid), (''content'', JStr text), (''edited_at'', JNum t)]) s) =
     (if k = rid then map_option (patched mid (edit_patch text t)) (room_view rid s) else room_view rid s)"
  "room_view rid (deliver V (go_frame ''message_deleted'' [(''room_id'', JStr k), (''message_id'', JStr mid)]) s) =
     (if k = rid then map_option (patched mid delete_patch) (room_view rid s) else room_view rid s)"
  "room_view rid (deliver V (go_frame ''message_pinned'' [(''room_id'', JStr k), (''message_id'', JStr mid)]) s) =
     (if k = rid then map_option (patched mid (pin_patch True)) (room_view rid s) else room_view rid s)"
  "room_view rid (deliver V (go_frame ''message_unpinned'' [(''room_id'', JStr k), (''message_id'', JStr mid)]) s) =
     (if k = rid then map_option (patched mid (pin_patch False)) (room_view rid s) else room_view rid s)"
  by (simp_all add: frame_eval on_message_edited_def on_message_deleted_def on_message_pinned_def
      on_message_unpinned_def editMessage_def deleteMessage_def pinMessage_def unpinMessage_def view_messages)

lemma deliver_reactions:
  assumes "reads_server V"
  shows "room_view rid (deliver V (go_frame ''reaction_updated''
       [(''room_id'', JStr k), (''message_id'', JStr mid), (''reactions'', go_reactions rs)]) s) =
     (if k = rid then map_option (patched mid (reactions_patch (by_key rs))) (room_view rid s) else room_view rid s)"
proof -
  have "truthy (go_reactions rs)" "typeof_object (go_reactions rs)" by (simp_all add: go_reactions_def)
  then show ?thesis
    using assms by (simp add: frame_eval on_reaction_updated_def updateReactions_def reads_server_def view_messages)
qed

lemma deliver_error: "room_view rid (deliver V (go_error text) s) = room_view rid s"
  by (simp add: go_error_def frame_eval)

text \<open>
  Every other frame leaves the messages alone, and so does every frame about another room. These are
  all the cases of \<open>onmessage\<close>.
\<close>

definition conversation_frames :: "string list" where
  "conversation_frames =
     [''room_joined'', ''room_history'', ''message'', ''message_edited'', ''message_deleted'', ''reaction_updated'',
      ''message_pinned'', ''message_unpinned'', ''dm_opened'']"

lemma view_need_str:
  "(\<And>x. js_prop d key = JStr x \<Longrightarrow> room_view rid (fst (k x)) = room_view rid s) \<Longrightarrow>
   room_view rid (fst (need_str d key k s)) = room_view rid s"
  by (simp add: need_str_def stored_def split: option.split jsval.split)

lemma view_members [simp]: "room_view rid (updateRoomMembers k n s) = room_view rid s"
  using room_view_update [of "set_members n" id rid k s]
  by (simp add: updateRoomMembers_def set_members_def option.map_id)

lemma view_elsewhere [simp]:
  "room_view rid (setIdentity i sh s) = room_view rid s"
  "room_view rid (setDisplayName nm s) = room_view rid s"
  "room_view rid (setAvailableRooms infos s) = room_view rid s"
  "room_view rid (setMeshPeers k ps s) = room_view rid s"
  "room_view rid (mergeMeshPeers k ps s) = room_view rid s"
  "room_view rid (setVoiceState k chs s) = room_view rid s"
  "room_view rid (addVoiceChannel k cid nm s) = room_view rid s"
  "room_view rid (addVoicePeer k cid p s) = room_view rid s"
  "room_view rid (removeVoicePeer k cid peer s) = room_view rid s"
  "room_view rid (updateSpeaking k cid peer b s) = room_view rid s"
  "room_view rid (setCotContacts k cs s) = room_view rid s"
  "room_view rid (setCotMarkers k ms s) = room_view rid s"
  "room_view rid (addCotMarker k m s) = room_view rid s"
  "room_view rid (removeCotMarker k mid s) = room_view rid s"
  by (auto simp: room_view_def setIdentity_def setDisplayName_def setAvailableRooms_def setMeshPeers_def
      mergeMeshPeers_def setVoiceState_def addVoiceChannel_def addVoicePeer_def removeVoicePeer_def updateSpeaking_def
      setCotContacts_def setCotMarkers_def addCotMarker_def removeCotMarker_def update_channel_def Let_def
      split: option.split)

lemmas quiet_defs = on_identity_def on_name_assigned_def on_room_list_def on_peer_update_def on_mesh_state_def
  on_ble_mesh_state_def on_voice_state_def on_voice_channel_created_def on_voice_peer_joined_def
  on_voice_peer_left_def on_voice_offer_relay_def on_voice_answer_relay_def on_voice_ice_relay_def
  on_voice_speaking_def on_cot_state_def on_marker_created_def on_marker_deleted_def

lemma quiet_handler:
  assumes "(t, h) \<in> set ws_switch" and "t \<notin> set conversation_frames"
  shows "room_view rid (fst (h V d s)) = room_view rid s"
proof -
  have "h \<in> {on_identity, on_name_assigned, on_room_list, on_peer_update, on_mesh_state, on_ble_mesh_state,
      on_voice_state, on_voice_channel_created, on_voice_peer_joined, on_voice_peer_left,
      on_voice_offer_relay, on_voice_answer_relay, on_voice_ice_relay, on_voice_speaking,
      on_cot_state, on_marker_created, on_marker_deleted}"
    using assms unfolding ws_switch_def conversation_frames_def by auto
  moreover have "room_view rid (fst (on_identity V d s)) = room_view rid s"
    "room_view rid (fst (on_name_assigned V d s)) = room_view rid s"
    "room_view rid (fst (on_room_list V d s)) = room_view rid s"
    "room_view rid (fst (on_peer_update V d s)) = room_view rid s"
    "room_view rid (fst (on_mesh_state V d s)) = room_view rid s"
    "room_view rid (fst (on_ble_mesh_state V d s)) = room_view rid s"
    "room_view rid (fst (on_voice_state V d s)) = room_view rid s"
    "room_view rid (fst (on_voice_channel_created V d s)) = room_view rid s"
    "room_view rid (fst (on_voice_peer_joined V d s)) = room_view rid s"
    "room_view rid (fst (on_voice_peer_left V d s)) = room_view rid s"
    "room_view rid (fst (on_voice_offer_relay V d s)) = room_view rid s"
    "room_view rid (fst (on_voice_answer_relay V d s)) = room_view rid s"
    "room_view rid (fst (on_voice_ice_relay V d s)) = room_view rid s"
    "room_view rid (fst (on_voice_speaking V d s)) = room_view rid s"
    "room_view rid (fst (on_cot_state V d s)) = room_view rid s"
    "room_view rid (fst (on_marker_created V d s)) = room_view rid s"
    "room_view rid (fst (on_marker_deleted V d s)) = room_view rid s"
    unfolding quiet_defs by (simp_all add: need_str_def stored_def Let_def split: option.split jsval.split)
  ultimately show ?thesis by blast
qed

lemma view_other_room [simp]:
  assumes "k \<noteq> rid"
  shows "room_view rid (addRoom k nm n dm s) = room_view rid s"
    and "room_view rid (addDMRoom k nm i pn s) = room_view rid s"
    and "room_view rid (setRoomHistory k ms s) = room_view rid s"
    and "room_view rid (addMessage k m s) = room_view rid s"
    and "room_view rid (editMessage k mid txt' t s) = room_view rid s"
    and "room_view rid (deleteMessage k mid s) = room_view rid s"
    and "room_view rid (updateReactions k mid rs s) = room_view rid s"
    and "room_view rid (pinMessage k mid s) = room_view rid s"
    and "room_view rid (unpinMessage k mid s) = room_view rid s"
  using assms
  by (simp_all add: view_messages view_addRoom view_addDMRoom editMessage_def deleteMessage_def updateReactions_def
      pinMessage_def unpinMessage_def)

lemma view_other_str:
  "str_prop d ''room_id'' \<noteq> Some rid \<Longrightarrow> (\<And>x. x \<noteq> rid \<Longrightarrow> room_view rid (fst (k x)) = room_view rid s) \<Longrightarrow>
   room_view rid (fst (need_str d ''room_id'' k s)) = room_view rid s"
  by (auto simp: need_str_def stored_def split: option.split)

lemma other_room_handler:
  assumes "(t, h) \<in> set ws_switch" and "t \<in> set conversation_frames" and rid: "str_prop d ''room_id'' \<noteq> Some rid"
  shows "room_view rid (fst (h V d s)) = room_view rid s"
proof -
  have "h \<in> {on_room_joined, on_room_history, on_message, on_message_edited, on_message_deleted,
      on_reaction_updated, on_message_pinned, on_message_unpinned, on_dm_opened}"
    using assms(1,2) unfolding ws_switch_def conversation_frames_def by auto
  moreover have "room_view rid (fst (on_room_joined V d s)) = room_view rid s"
    "room_view rid (fst (on_room_history V d s)) = room_view rid s"
    "room_view rid (fst (on_message V d s)) = room_view rid s"
    "room_view rid (fst (on_message_edited V d s)) = room_view rid s"
    "room_view rid (fst (on_message_deleted V d s)) = room_view rid s"
    "room_view rid (fst (on_reaction_updated V d s)) = room_view rid s"
    "room_view rid (fst (on_message_pinned V d s)) = room_view rid s"
    "room_view rid (fst (on_message_unpinned V d s)) = room_view rid s"
    "room_view rid (fst (on_dm_opened V d s)) = room_view rid s"
    unfolding on_room_joined_def on_room_history_def on_message_def on_message_edited_def on_message_deleted_def
      on_reaction_updated_def on_message_pinned_def on_message_unpinned_def on_dm_opened_def
    by (rule view_other_str [OF rid], simp add: need_str_def stored_def Let_def split: option.split)+
  ultimately show ?thesis by blast
qed

section \<open>The same conversation on both sides\<close>

text \<open>
  What the interface shows of a message: an absent flag is a false one, no reactions are the same
  as an empty map of them.
\<close>

definition as_shown :: "chat_message \<Rightarrow> chat_message" where
  "as_shown m =
     m\<lparr>deleted := (if deleted m = Some True then Some True else None),
       reactions := (if reactions m = Some [] then None else reactions m),
       pinned := (if pinned m = Some True then Some True else None)\<rparr>"

lemma as_shown_fields [simp]:
  "msg_id (as_shown m) = msg_id m" "timestamp (as_shown m) = timestamp m"
  "as_shown (as_shown m) = as_shown m" "as_shown (web_message g) = web_message g"
  by (simp_all add: as_shown_def web_message_def split: option.split)

lemma web_fields [simp]: "msg_id (web_message m) = g_id m" "timestamp (web_message m) = real (g_time m)"
  by (simp_all add: web_message_def)

text \<open>
  The client's messages \<open>ms\<close> show the server's, in the order of their times, after those the
  server has forgotten (\<open>old\<close>) because a room keeps a thousand.
\<close>

definition agrees :: "go_message list \<Rightarrow> go_room \<Rightarrow> chat_message list \<Rightarrow> bool" where
  "agrees old r ms \<longleftrightarrow>
     map as_shown ms = map web_message (sort_key g_time (old @ gr_messages r)) \<and>
     distinct (map g_id (old @ gr_messages r))"

lemma sort_key_map:
  "(\<And>x y. x \<in> set xs \<Longrightarrow> y \<in> set xs \<Longrightarrow> g (h x) \<le> g (h y) \<longleftrightarrow> f x \<le> f y) \<Longrightarrow>
   sort_key g (map h xs) = map h (sort_key f xs)"
proof (induction xs)
  case (Cons x xs)
  have ins: "insort_key g (h x) (map h ys) = map h (insort_key f x ys)" if "set ys \<subseteq> set xs" for ys
    using that Cons.prems by (induction ys) auto
  have "sort_key g (map h xs) = map h (sort_key f xs)" by (rule Cons.IH) (simp add: Cons.prems)
  then show ?case using ins [of "sort_key f xs"] by simp
qed simp

lemma sort_key_again: "sort_key f (sort_key f xs @ ys) = sort_key f (xs @ ys)"
proof (rule properties_for_sort_key)
  show "mset (sort_key f (xs @ ys)) = mset (sort_key f xs @ ys)" by simp
  show "filter (\<lambda>y. f k = f y) (sort_key f (xs @ ys)) = filter (\<lambda>y. f k = f y) (sort_key f xs @ ys)"
    if "k \<in> set (sort_key f (xs @ ys))" for k
    using sort_key_stable [of f "f k"] by (simp add: eq_commute [of "f k"])
qed simp

lemma agrees_ids:
  assumes "agrees old r ms"
  shows "map msg_id ms = map g_id (sort_key g_time (old @ gr_messages r))"
    and "distinct (map msg_id ms)" and "msg_id ` set ms = g_id ` set (old @ gr_messages r)"
proof -
  have "map (msg_id \<circ> as_shown) ms = map (msg_id \<circ> web_message) (sort_key g_time (old @ gr_messages r))"
    using assms unfolding agrees_def by (metis map_map)
  then show ids: "map msg_id ms = map g_id (sort_key g_time (old @ gr_messages r))" by (simp add: comp_def)
  show "distinct (map msg_id ms)" unfolding ids using assms by (simp only: distinct_map_sort_key agrees_def)
  have "set (map msg_id ms) = set (map g_id (sort_key g_time (old @ gr_messages r)))" unfolding ids ..
  then show "msg_id ` set ms = g_id ` set (old @ gr_messages r)" by simp
qed

subsection \<open>A new message\<close>

lemma merge_new:
  assumes "distinct (map msg_id ms)" and "msg_id m \<notin> msg_id ` set ms"
  shows "mergeMessages ms [m] = sort_key timestamp (ms @ [m])"
proof -
  have "js_get (map (\<lambda>v. (msg_id v, v)) ms) (msg_id m) = None"
    using assms(2) by (auto simp: map_of_eq_None_iff image_iff)
  moreover have "js_values (map (\<lambda>v. (msg_id v, v)) ms @ [(msg_id m, m)]) = ms @ [m]"
    by (simp add: js_values_def comp_def)
  ultimately show ?thesis
    using assms by (simp add: mergeMessages_def map_from_distinct keyed_merge_def keyed_step_def js_set_append_new)
qed

lemma agrees_add:
  assumes "agrees old r ms" and "g_id m \<notin> g_id ` set (old @ gr_messages r)"
  shows "\<exists>old'. agrees old' (AddMessage m r) (mergeMessages ms [web_message m]) \<and>
     set (old' @ gr_messages (AddMessage m r)) = insert m (set (old @ gr_messages r))"
proof -
  let ?X = "old @ gr_messages r"
  have new: "\<not> list_ex (\<lambda>x. g_id x = g_id m) (gr_messages r)"
  proof
    assume "list_ex (\<lambda>x. g_id x = g_id m) (gr_messages r)"
    then obtain x where "x \<in> set (gr_messages r)" "g_id m = g_id x" by (auto simp: list_ex_iff)
    with assms(2) show False by auto
  qed
  define n where "n = length (gr_messages r @ [m]) - maxMessages"
  define gone where "gone = take n (gr_messages r @ [m])"
  have "gr_messages (AddMessage m r) = drop n (gr_messages r @ [m])"
    using new by (simp add: AddMessage_def Let_def n_def del: drop_append)
  then have gone: "gone @ gr_messages (AddMessage m r) = gr_messages r @ [m]"
    unfolding gone_def by (simp only: append_take_drop_id)
  have all: "(old @ gone) @ gr_messages (AddMessage m r) = ?X @ [m]" using gone by simp
  have "map as_shown (mergeMessages ms [web_message m]) = map as_shown (sort_key timestamp (ms @ [web_message m]))"
    using assms agrees_ids [OF assms(1)] by (subst merge_new) auto
  also have "\<dots> = sort_key timestamp (map as_shown (ms @ [web_message m]))"
    by (rule sort_key_map [symmetric]) simp
  also have "\<dots> = sort_key timestamp (map web_message (sort_key g_time ?X @ [m]))"
    using assms(1) by (simp add: agrees_def)
  also have "\<dots> = map web_message (sort_key g_time (sort_key g_time ?X @ [m]))"
    by (rule sort_key_map) simp
  also have "\<dots> = map web_message (sort_key g_time (?X @ [m]))" by (simp only: sort_key_again)
  finally have "agrees (old @ gone) (AddMessage m r) (mergeMessages ms [web_message m])"
    using assms unfolding agrees_def all by (simp add: image_Un)
  then show ?thesis using all by (intro exI [of _ "old @ gone"]) auto
qed

subsection \<open>A change of one message\<close>

lemma first_message_Some:
  "first_message p f ms = Some (ms', x) \<Longrightarrow>
   \<exists>m m' ps qs. ms = ps @ m # qs \<and> ms' = ps @ m' # qs \<and> p m \<and> f m = Some (m', x)"
proof (induction ms arbitrary: ms')
  case (Cons a ms)
  show ?case
  proof (cases "p a")
    case True
    with Cons.prems obtain a' where "f a = Some (a', x)" "ms' = a' # ms" by (auto split: option.splits)
    with True show ?thesis by (intro exI [of _ a] exI [of _ a'] exI [of _ "[]"] exI [of _ ms]) simp
  next
    case False
    with Cons.prems obtain ms'' where ms'': "first_message p f ms = Some (ms'', x)" "ms' = a # ms''"
      by (auto split: option.splits)
    from Cons.IH [OF ms''(1)] obtain m m' ps qs where
      "ms = ps @ m # qs" "ms'' = ps @ m' # qs" "p m" "f m = Some (m', x)" by blast
    with ms''(2) show ?thesis by (intro exI [of _ m] exI [of _ m'] exI [of _ "a # ps"] exI [of _ qs]) simp
  qed
qed simp

text \<open>
  The server changes the message it finds under the id, and the client patches its own: they agree
  again when the patched message shows what the server's new one does.
\<close>

lemma agrees_patch:
  assumes ag: "agrees old r ms"
    and found: "first_message p f (gr_messages r) = Some (ms', x)"
    and r': "gr_messages r' = ms'"
    and p: "\<And>m. p m \<Longrightarrow> g_id m = mid"
    and f: "\<And>m m'. p m \<Longrightarrow> f m = Some (m', x) \<Longrightarrow> g_id m' = g_id m \<and> g_time m' = g_time m \<and>
              as_shown (patch (web_message m)) = web_message m'"
    and patch: "\<And>c. as_shown (patch (as_shown c)) = as_shown (patch c)"
  shows "agrees old r' (patched mid patch ms) \<and> g_id ` set (gr_messages r') = g_id ` set (gr_messages r)"
proof -
  let ?X = "old @ gr_messages r" and ?Y = "old @ ms'"
  obtain m m' ps qs where split: "gr_messages r = ps @ m # qs" "ms' = ps @ m' # qs" and m: "p m" "f m = Some (m', x)"
    using first_message_Some [OF found] by blast
  have new: "g_id m' = mid" "g_time m' = g_time m" "as_shown (patch (web_message m)) = web_message m'" "g_id m = mid"
    using f [OF m] p [OF m(1)] by auto
  define h where "h = (\<lambda>g. if g_id g = mid then m' else g)"
  have dist: "distinct (map g_id ?X)" using ag by (simp add: agrees_def)
  have only: "g = m" if "g \<in> set ?X" "g_id g = mid" for g
    using dist that new(4) split(1) by (auto simp: distinct_map inj_on_def)
  have Y: "?Y = map h ?X"
  proof -
    have "mid \<notin> g_id ` set old" "mid \<notin> g_id ` set ps" "mid \<notin> g_id ` set qs"
      using dist new(4) by (auto simp: split(1))
    then have "map h old = old" "map h ps = ps" "map h qs = qs" by (auto intro!: map_idI simp: h_def)
    then show ?thesis using new(4) by (simp add: split h_def)
  qed
  have time: "g_time (h g) = g_time g" if "g \<in> set ?X" for g
    using only [OF that] new(2) by (auto simp: h_def)
  have sorted: "sort_key g_time ?Y = map h (sort_key g_time ?X)"
    unfolding Y by (rule sort_key_map) (simp add: time)
  have one: "as_shown (if msg_id c = mid then patch c else c) = web_message (h g)"
    if "g \<in> set ?X" "as_shown c = web_message g" for c g
  proof -
    have i: "msg_id c = g_id g" using that(2) by (metis as_shown_fields(1) web_fields(1))
    show ?thesis
    proof (cases "g_id g = mid")
      case True
      with only that(1) have "g = m" by blast
      with that(2) have "as_shown (patch c) = web_message m'" using new(3) patch [of c] by simp
      with True i show ?thesis by (simp add: h_def)
    next
      case False
      with i that(2) show ?thesis by (simp add: h_def)
    qed
  qed
  have "map as_shown (patched mid patch cs) = map (web_message \<circ> h) gs"
    if "set gs \<subseteq> set ?X" "map as_shown cs = map web_message gs" for cs gs
    using that
  proof (induction cs arbitrary: gs)
    case (Cons c cs)
    then obtain g gs' where gs: "gs = g # gs'" "as_shown c = web_message g" "map as_shown cs = map web_message gs'"
      by (cases gs) auto
    with Cons.prems one [of g c] have "as_shown (if msg_id c = mid then patch c else c) = web_message (h g)" by simp
    moreover have "map as_shown (patched mid patch cs) = map (web_message \<circ> h) gs'"
      by (rule Cons.IH) (use Cons.prems gs in auto)
    ultimately show ?case by (simp add: patched_def gs(1))
  qed (simp add: patched_def)
  from this [of "sort_key g_time ?X" ms] ag
  have "map as_shown (patched mid patch ms) = map web_message (sort_key g_time ?Y)"
    unfolding sorted by (simp add: agrees_def)
  moreover have "map g_id ?Y = map g_id ?X" using new by (simp add: split)
  moreover have "g_id ` set ms' = g_id ` set (gr_messages r)" using new by (simp add: split)
  ultimately show ?thesis using dist by (simp add: agrees_def r')
qed

subsection \<open>A request\<close>

definition acts :: "views \<Rightarrow> string \<Rightarrow> jsval \<Rightarrow> (chat_message list \<Rightarrow> chat_message list) \<Rightarrow> bool" where
  "acts V rid f G \<longleftrightarrow> (\<forall>s. room_view rid (deliver V f s) = map_option G (room_view rid s))"

text \<open>Every frame of the server that is not about the messages of this room.\<close>

lemma quiet_frames:
  assumes "t \<notin> set conversation_frames \<or> str_prop (JObj d) ''room_id'' \<noteq> Some rid"
  shows "acts V rid (go_frame t d) id"
proof -
  have d: "deliver V (go_frame t d) s = (case map_of ws_switch t of None \<Rightarrow> s | Some h \<Rightarrow> fst (h V (JObj d) s))" for s
    by (simp add: deliver_def go_frame_def ws_onmessage_def stored_def Let_def split: option.split)
  have "room_view rid (fst (h V (JObj d) s)) = room_view rid s" if "map_of ws_switch t = Some h" for h s
    using assms quiet_handler [OF map_of_SomeD [OF that]] other_room_handler [OF map_of_SomeD [OF that]] by metis
  then show ?thesis unfolding acts_def d by (simp add: option.map_id split: option.split)
qed

text \<open>
  A change of the room and the frame that tells it: whatever showed the room before shows it after
  the frame. \<open>K\<close> is a set of ids that holds all ids of the room, before, and \<open>K'\<close> after.
\<close>

definition told_by ::
  "views \<Rightarrow> string set \<Rightarrow> string set \<Rightarrow> go_room \<Rightarrow> go_room \<Rightarrow> jsval \<Rightarrow> bool" where
  "told_by V K K' r r' f \<longleftrightarrow>
     gr_hex r' = gr_hex r \<and> gr_members r' = gr_members r \<and>
     (\<exists>G. acts V (gr_hex r) f G \<and>
       (\<forall>old ms. agrees old r ms \<and> g_id ` set (old @ gr_messages r) \<subseteq> K \<longrightarrow>
          (\<exists>old'. agrees old' r' (G ms) \<and> g_id ` set (old' @ gr_messages r') \<subseteq> K')))"

text \<open>A request is refused, or changes the room and tells every member.\<close>

definition answered ::
  "views \<Rightarrow> string set \<Rightarrow> string set \<Rightarrow> string \<Rightarrow> go_room \<Rightarrow> go_room \<times> addressed \<Rightarrow> bool" where
  "answered V K K' c r res \<longleftrightarrow>
     res = (r, []) \<or> (\<exists>text. res = (r, [(c, go_error text)])) \<or>
     (\<exists>r' f. res = (r', Broadcast r' f) \<and> told_by V K K' r r' f)"

lemma answered_simps [simp]: "answered V K K' c r (r, [])" "answered V K K' c r (r, [(c, go_error text)])"
  by (auto simp: answered_def)

lemma in_messages_told:
  assumes "in_messages p f r = Some (r0, x)" and "gr_messages r' = gr_messages r0"
    and "gr_hex r' = gr_hex r" and "gr_members r' = gr_members r"
    and "acts V (gr_hex r) fr (patched mid patch)"
    and "\<And>m. p m \<Longrightarrow> g_id m = mid"
    and "\<And>m m'. p m \<Longrightarrow> f m = Some (m', x) \<Longrightarrow> g_id m' = g_id m \<and> g_time m' = g_time m \<and>
              as_shown (patch (web_message m)) = web_message m'"
    and "\<And>c. as_shown (patch (as_shown c)) = as_shown (patch c)" and "K \<subseteq> K'"
  shows "told_by V K K' r r' fr"
proof -
  from assms(1) obtain ms' where ms': "first_message p f (gr_messages r) = Some (ms', x)" "gr_messages r0 = ms'"
    by (auto simp: in_messages_def)
  have r': "gr_messages r' = ms'" using assms(2) ms'(2) by simp
  have "agrees old r' (patched mid patch ms) \<and> g_id ` set (old @ gr_messages r') \<subseteq> K'"
    if "agrees old r ms" "g_id ` set (old @ gr_messages r) \<subseteq> K" for old ms
  proof -
    have "agrees old r' (patched mid patch ms) \<and> g_id ` set (gr_messages r') = g_id ` set (gr_messages r)"
      by (rule agrees_patch [OF that(1) ms'(1) r' assms(6-8)])
    with that(2) assms(9) show ?thesis by (auto simp: image_Un)
  qed
  with assms(3-5) show ?thesis unfolding told_by_def by blast
qed

lemma Broadcast_answered: "told_by V K K' r r' f \<Longrightarrow> answered V K K' c r (r', Broadcast r' f)"
  by (auto simp: answered_def)

lemma shown_patches:
  "as_shown (edit_patch text t (as_shown c)) = as_shown (edit_patch text t c)"
  "as_shown (delete_patch (as_shown c)) = as_shown (delete_patch c)"
  "as_shown (pin_patch b (as_shown c)) = as_shown (pin_patch b c)"
  "as_shown (reactions_patch rs (as_shown c)) = as_shown (reactions_patch rs c)"
  by (simp_all add: as_shown_def edit_patch_def delete_patch_def pin_patch_def reactions_patch_def)

lemma web_patches:
  "as_shown (edit_patch text (real t) (web_message m)) = web_message (m\<lparr>g_content := text, g_edited := Some t\<rparr>)"
  "as_shown (delete_patch (web_message m)) = web_message (m\<lparr>g_content := [], g_deleted := True, g_pinned := False\<rparr>)"
  "as_shown (pin_patch b (web_message m)) = web_message (m\<lparr>g_pinned := b\<rparr>)"
  "as_shown (reactions_patch (by_key rs) (web_message m)) = web_message (m\<lparr>g_reactions := Some rs\<rparr>)"
  by (cases "g_reactions m"; simp add: as_shown_def edit_patch_def delete_patch_def pin_patch_def
      reactions_patch_def web_message_def)+

lemma serve_edit_answered:
  assumes "go_string (js_prop d ''room_id'') = Some (gr_hex r)"
  shows "answered V K K (gc_id c) r (serve_edit now c d r)"
proof -
  have "told_by V K K r r' (go_frame ''message_edited''
      [(''room_id'', JStr (gr_hex r)), (''message_id'', JStr mid), (''content'', JStr body), (''edited_at'', JNum (real t))])"
    if "EditMessage now mid who body r = Some (r', t)" for mid who body r' t
    using that unfolding EditMessage_def
    by (rule in_messages_told [where patch = "edit_patch body (real t)"])
      (use that in \<open>auto simp: acts_def deliver_patches shown_patches web_patches EditMessage_def in_messages_def
        split: if_splits\<close>)
  then show ?thesis
    using assms by (auto simp: serve_edit_def split: option.splits list.splits intro: Broadcast_answered)
qed

text \<open>The same for an operation that also keeps the list of pinned ids.\<close>

lemma pinned_told:
  assumes "map_option (\<lambda>(r', x). (r'\<lparr>gr_pinned := h (gr_pinned r')\<rparr>, x)) (in_messages p f r) = Some (r', x)"
    and "acts V (gr_hex r) fr (patched mid patch)"
    and "\<And>m. p m \<Longrightarrow> g_id m = mid"
    and "\<And>m m'. p m \<Longrightarrow> f m = Some (m', x) \<Longrightarrow> g_id m' = g_id m \<and> g_time m' = g_time m \<and>
              as_shown (patch (web_message m)) = web_message m'"
    and "\<And>c. as_shown (patch (as_shown c)) = as_shown (patch c)" and "K \<subseteq> K'"
  shows "told_by V K K' r r' fr"
proof -
  from assms(1) obtain r0 where r0: "in_messages p f r = Some (r0, x)" "r' = r0\<lparr>gr_pinned := h (gr_pinned r0)\<rparr>"
    by auto
  then have "gr_hex r0 = gr_hex r" "gr_members r0 = gr_members r" by (auto simp: in_messages_def)
  then show ?thesis using r0(2) by (intro in_messages_told [OF r0(1) _ _ _ assms(2-6)]) simp_all
qed

lemma serve_delete_answered:
  assumes "go_string (js_prop d ''room_id'') = Some (gr_hex r)"
  shows "answered V K K (gc_id c) r (serve_delete c d r)"
proof -
  have "told_by V K K r r' (go_frame ''message_deleted'' [(''room_id'', JStr (gr_hex r)), (''message_id'', JStr mid)])"
    if "DeleteMessage mid who r = Some (r', u)" for mid who r' u
    using that unfolding DeleteMessage_def
    by (rule pinned_told [where patch = delete_patch])
      (auto simp: acts_def deliver_patches shown_patches web_patches split: if_splits)
  then show ?thesis
    using assms by (auto simp: serve_delete_def split: option.splits list.splits intro: Broadcast_answered)
qed

lemma serve_pin_answered:
  assumes "go_string (js_prop d ''room_id'') = Some (gr_hex r)"
  shows "answered V K K (gc_id c) r (serve_pin ''message_pinned'' PinMessage c d r)"
    and "answered V K K (gc_id c) r (serve_pin ''message_unpinned'' UnpinMessage c d r)"
proof -
  have "told_by V K K r r' (go_frame ''message_pinned'' [(''room_id'', JStr (gr_hex r)), (''message_id'', JStr mid)])"
    if "PinMessage mid r = Some (r', u)" for mid r' u
    using that unfolding PinMessage_def
    by (rule pinned_told [where patch = "pin_patch True"])
      (auto simp: acts_def deliver_patches shown_patches web_patches)
  then show "answered V K K (gc_id c) r (serve_pin ''message_pinned'' PinMessage c d r)"
    using assms by (auto simp: serve_pin_def split: option.splits list.splits intro: Broadcast_answered)
  have "told_by V K K r r' (go_frame ''message_unpinned'' [(''room_id'', JStr (gr_hex r)), (''message_id'', JStr mid)])"
    if "UnpinMessage mid r = Some (r', u)" for mid r' u
    using that unfolding UnpinMessage_def
    by (rule pinned_told [where patch = "pin_patch False"])
      (auto simp: acts_def deliver_patches shown_patches web_patches)
  then show "answered V K K (gc_id c) r (serve_pin ''message_unpinned'' UnpinMessage c d r)"
    using assms by (auto simp: serve_pin_def split: option.splits list.splits intro: Broadcast_answered)
qed

lemma serve_react_answered:
  assumes "go_string (js_prop d ''room_id'') = Some (gr_hex r)" and V: "reads_server V"
  shows "answered V K K (gc_id c) r (serve_react AddReaction c d r)"
    and "answered V K K (gc_id c) r (serve_react RemoveReaction c d r)"
proof -
  let ?f = "\<lambda>mid rs. go_frame ''reaction_updated''
      [(''room_id'', JStr (gr_hex r)), (''message_id'', JStr mid), (''reactions'', go_reactions rs)]"
  have "told_by V K K r r' (?f mid rs)" if "AddReaction mid who emoji r = Some (r', rs)" for mid who emoji r' rs
    using that unfolding AddReaction_def
    by (rule in_messages_told [where patch = "reactions_patch (by_key rs)"])
      (use that in \<open>auto simp: acts_def deliver_reactions [OF V] shown_patches web_patches AddReaction_def
         in_messages_def Let_def split: if_splits\<close>)
  then show "answered V K K (gc_id c) r (serve_react AddReaction c d r)"
    using assms by (auto simp: serve_react_def split: option.splits list.splits intro: Broadcast_answered)
  have "told_by V K K r r' (?f mid rs)" if "RemoveReaction mid who emoji r = Some (r', rs)" for mid who emoji r' rs
    using that unfolding RemoveReaction_def
    by (rule in_messages_told [where patch = "reactions_patch (by_key rs)"])
      (use that in \<open>auto simp: acts_def deliver_reactions [OF V] shown_patches web_patches RemoveReaction_def
         in_messages_def Let_def split: option.splits if_splits\<close>)
  then show "answered V K K (gc_id c) r (serve_react RemoveReaction c d r)"
    using assms by (auto simp: serve_react_def split: option.splits list.splits intro: Broadcast_answered)
qed

text \<open>The id of the message a request makes.\<close>

definition new_id :: "string \<Rightarrow> out_msg \<Rightarrow> string option" where
  "new_id uuid m =
     (case m of Out t d \<Rightarrow>
        if t = ''send_message''
        then Some (case go_string (js_prop d ''message_id'') of
                     Some mid \<Rightarrow> if mid = [] then uuid else mid
                   | None \<Rightarrow> uuid)
        else None)"

lemma sent_message_id [simp]: "g_id (sent_message peers uuid now c body rep mid sid sname) = (if mid = [] then uuid else mid)"
  by (simp add: sent_message_def NewChatMessage_def Let_def split: option.split)

lemma serve_send_answered:
  assumes "go_string (js_prop d ''room_id'') = Some (gr_hex r)" and V: "reads_server V"
    and new: "\<And>i. new_id uuid (Out ''send_message'' d) = Some i \<Longrightarrow> i \<notin> K"
  shows "answered V K (K \<union> set_option (new_id uuid (Out ''send_message'' d))) (gc_id c) r
           (serve_send peers uuid now c d r)"
proof -
  have "told_by V K (insert (g_id m) K) r (AddMessage m r)
      (go_frame ''message'' [(''room_id'', JStr (gr_hex r)), (''message'', go_message_json m)])"
    if "g_id m \<notin> K" for m
  proof -
    have "\<exists>old'. agrees old' (AddMessage m r) (mergeMessages ms [web_message m]) \<and>
        g_id ` set (old' @ gr_messages (AddMessage m r)) \<subseteq> insert (g_id m) K"
      if ag: "agrees old r ms" "g_id ` set (old @ gr_messages r) \<subseteq> K" for old ms
    proof -
      have "g_id m \<notin> g_id ` set (old @ gr_messages r)" using ag(2) \<open>g_id m \<notin> K\<close> by blast
      from agrees_add [OF ag(1) this] obtain old' where
        "agrees old' (AddMessage m r) (mergeMessages ms [web_message m])"
        "set (old' @ gr_messages (AddMessage m r)) = insert m (set (old @ gr_messages r))" by blast
      with ag(2) show ?thesis by (intro exI [of _ old']) auto
    qed
    moreover have "acts V (gr_hex r) (go_frame ''message'' [(''room_id'', JStr (gr_hex r)), (''message'', go_message_json m)])
        (\<lambda>ms. mergeMessages ms [web_message m])"
      by (simp add: acts_def deliver_message [OF V])
    ultimately show ?thesis unfolding told_by_def by (auto simp: AddMessage_def Let_def)
  qed
  note told = this
  have ans: "answered V K (insert i K) (gc_id c) r
      (AddMessage m r, Broadcast (AddMessage m r) (go_frame ''message''
         [(''room_id'', JStr (gr_hex r)), (''message'', go_message_json m)]))" if "g_id m = i" "i \<notin> K" for m i
    using Broadcast_answered [OF told [of m]] that by simp
  with assms(1) new show ?thesis
    by (auto simp: serve_send_def new_id_def Let_def split: option.splits list.splits intro!: ans)
qed

lemma serve_answered:
  assumes "go_string (js_prop d ''room_id'') = Some (gr_hex r)" and "reads_server V"
    and "\<And>i. new_id uuid (Out t d) = Some i \<Longrightarrow> i \<notin> K"
  shows "answered V K (K \<union> set_option (new_id uuid (Out t d))) (gc_id c) r (serve peers uuid now c (Out t d) r)"
proof (cases "t = ''send_message''")
  case True
  with assms show ?thesis using serve_send_answered [OF assms(1,2), of uuid K c peers now] by (simp add: serve_def)
next
  case False
  then have "new_id uuid (Out t d) = None" by (simp add: new_id_def)
  with assms(1,2) False show ?thesis
    by (simp add: serve_def serve_edit_answered serve_delete_answered serve_pin_answered serve_react_answered)
qed

end
