(* ===== verification/Convergence.thy ===== *)
theory Convergence
  imports Conversation
begin

text \<open>
  The server's room with the send buffers, the sockets and the stores of its clients, as a step
  relation, and its invariant: the frames on their way to a client turn what it shows into what the
  server has.
\<close>

section \<open>Receiving the history\<close>

lemma shown_spread: "as_shown prev = as_shown x \<Longrightarrow> as_shown (spread_message prev x) = as_shown x"
  by (cases prev; cases x) (auto simp: as_shown_def spread_message_def or_else_def split: option.splits if_splits)

lemma shown_set:
  "js_get M k = Some prev \<Longrightarrow> as_shown v = as_shown prev \<Longrightarrow>
   map as_shown (js_values (js_set k v M)) = map as_shown (js_values M)"
  by (induction M) (auto split: if_splits)

lemma merge_known:
  "(\<And>x. x \<in> set inc \<Longrightarrow> \<exists>prev. js_get M (msg_id x) = Some prev \<and> as_shown prev = as_shown x) \<Longrightarrow>
   map as_shown (js_values (keyed_merge msg_id spread_message inc M)) = map as_shown (js_values M)"
proof (induction inc arbitrary: M)
  case (Cons x inc)
  from Cons.prems obtain prev where prev: "js_get M (msg_id x) = Some prev" "as_shown prev = as_shown x" by force
  let ?M = "keyed_step msg_id spread_message x M"
  have M: "?M = js_set (msg_id x) (spread_message prev x) M" using prev(1) by (simp add: keyed_step_def)
  have v: "as_shown (spread_message prev x) = as_shown prev" using shown_spread [OF prev(2)] prev(2) by simp
  have "\<exists>p. js_get ?M (msg_id y) = Some p \<and> as_shown p = as_shown y" if "y \<in> set inc" for y
  proof -
    from that have "y \<in> set (x # inc)" by simp
    from Cons.prems [OF this] obtain p where p: "js_get M (msg_id y) = Some p" "as_shown p = as_shown y" by blast
    then show ?thesis using prev v by (cases "msg_id y = msg_id x") (auto simp: M)
  qed
  from Cons.IH [OF this] shown_set [OF prev(1) v] show ?case by (simp add: keyed_merge_def M)
qed (simp add: keyed_merge_def)

lemma agrees_history:
  assumes "agrees old r xs"
  shows "agrees old r (mergeMessages xs (map web_message (gr_messages r)))"
proof -
  let ?X = "old @ gr_messages r"
  have d: "distinct (map msg_id xs)" by (rule agrees_ids [OF assms])
  have known: "\<exists>prev. js_get (map_from msg_id xs) (msg_id x) = Some prev \<and> as_shown prev = as_shown x"
    if x: "x \<in> set (map web_message (gr_messages r))" for x
  proof -
    obtain m where m: "m \<in> set ?X" "x = web_message m" using x by auto
    then have "web_message m \<in> set (map as_shown xs)" using assms by (auto simp: agrees_def)
    then obtain c where c: "c \<in> set xs" "as_shown c = web_message m" by auto
    then have "msg_id c = msg_id x" using m(2) by (metis as_shown_fields(1))
    with c m(2) d show ?thesis
      using js_get_of_list [OF d c(1)] by (simp add: map_from_distinct)
  qed
  have "map as_shown (mergeMessages xs (map web_message (gr_messages r)))
      = sort_key timestamp (map as_shown (js_values (keyed_merge msg_id spread_message
          (map web_message (gr_messages r)) (map_from msg_id xs))))"
    unfolding mergeMessages_def by (rule sort_key_map [symmetric]) simp
  also have "\<dots> = sort_key timestamp (map as_shown (js_values (map_from msg_id xs)))"
    by (subst merge_known) (use known in auto)
  also have "\<dots> = sort_key timestamp (map web_message (sort_key g_time ?X))"
    using assms d by (simp add: map_from_distinct agrees_def)
  also have "\<dots> = map web_message (sort_key g_time (sort_key g_time ?X))" by (rule sort_key_map) simp
  also have "\<dots> = map web_message (sort_key g_time ?X)" using sort_key_again [of g_time ?X "[]"] by simp
  finally show ?thesis using assms by (simp add: agrees_def)
qed

lemma agrees_first:
  assumes "distinct (map g_id (gr_messages r))"
  shows "agrees [] r (mergeMessages [] (map web_message (gr_messages r)))"
proof -
  let ?ms = "map web_message (gr_messages r)"
  have d: "distinct (map msg_id ?ms)" using assms by (simp add: comp_def)
  have "mergeMessages [] ?ms = sort_key timestamp ?ms"
    using merge_all_new [of "[]" msg_id ?ms] d by (simp add: mergeMessages_def map_from_def del: map_map)
  also have "\<dots> = map web_message (sort_key g_time (gr_messages r))" by (rule sort_key_map) simp
  finally show ?thesis using assms by (simp add: agrees_def)
qed

section \<open>The server's room and its clients\<close>

text \<open>
  A client of the room: the buffer of its connection (\<open>client.send\<close>), the frames in the socket and
  the store of the page. \<open>cc_sync\<close> is no state of the program: it says whether the client has
  joined the room and has been sent every frame for it since.
\<close>

datatype sync_state = NotYet | Synced | Broken

record conv_client =
  cc_send :: "jsval list"
  cc_wire :: "jsval list"
  cc_store :: chat_state
  cc_sync :: sync_state

text \<open>\<open>cv_ids\<close> are all the ids messages of the room have had.\<close>

record conv =
  cv_room :: go_room
  cv_clients :: "string \<Rightarrow> conv_client"
  cv_ids :: "string set"

definition sendBuffer :: nat where
  "sendBuffer = 256"

text \<open>A send to a client whose buffer is full is dropped.\<close>

definition go_send :: "string \<times> jsval \<Rightarrow> (string \<Rightarrow> conv_client) \<Rightarrow> string \<Rightarrow> conv_client" where
  "go_send p cl =
     (let k = cl (fst p)
      in cl(fst p := if length (cc_send k) < sendBuffer then k\<lparr>cc_send := cc_send k @ [snd p]\<rparr>
                     else k\<lparr>cc_sync := Broken\<rparr>))"

definition post :: "addressed \<Rightarrow> (string \<Rightarrow> conv_client) \<Rightarrow> string \<Rightarrow> conv_client" where
  "post outs cl = fold go_send outs cl"

definition on_client :: "string \<Rightarrow> (conv_client \<Rightarrow> conv_client) \<Rightarrow> conv \<Rightarrow> conv" where
  "on_client c f \<sigma> = \<sigma>\<lparr>cv_clients := (cv_clients \<sigma>)(c := f (cv_clients \<sigma> c))\<rparr>"

text \<open>Those who became members are told everything from now on.\<close>

definition greet :: "go_room \<Rightarrow> (string \<Rightarrow> conv_client) \<Rightarrow> string \<Rightarrow> conv_client" where
  "greet r cl =
     (\<lambda>c. if c \<in> set (gr_members r) \<and> cc_sync (cl c) = NotYet then (cl c)\<lparr>cc_sync := Synced\<rparr> else cl c)"

definition entered :: "go_room \<times> addressed \<Rightarrow> conv \<Rightarrow> conv" where
  "entered res \<sigma> = \<sigma>\<lparr>cv_room := fst res, cv_clients := post (snd res) (greet (fst res) (cv_clients \<sigma>))\<rparr>"

text \<open>
  One step: a request for the conversation, answered under the lock of the room; a client joins; any
  other frame, one that does not concern the messages; the write pump; the page takes a frame from
  the socket; the user works on the page; a client leaves or loses its connection.
\<close>

inductive conv_step :: "views \<Rightarrow> conv \<Rightarrow> conv \<Rightarrow> bool" for V where
  request: "conv_step V \<sigma>
     (\<sigma>\<lparr>cv_room := fst (serve peers uuid now k (Out t d) (cv_room \<sigma>)),
        cv_clients := post (snd (serve peers uuid now k (Out t d) (cv_room \<sigma>))) (cv_clients \<sigma>),
        cv_ids := cv_ids \<sigma> \<union> set_option (new_id uuid (Out t d))\<rparr>)"
  if "go_string (js_prop d ''room_id'') = Some (gr_hex (cv_room \<sigma>))"
    and "\<And>i. new_id uuid (Out t d) = Some i \<Longrightarrow> i \<notin> cv_ids \<sigma>"
| join_room: "conv_step V \<sigma> (entered (JoinRoom c (cv_room \<sigma>)) \<sigma>)"
| join_dm: "conv_step V \<sigma> (entered (JoinDM names c hex (cv_room \<sigma>)) \<sigma>)"
| start_dm: "conv_step V \<sigma> (entered (StartDM names c target (cv_room \<sigma>)) \<sigma>)"
| other: "conv_step V \<sigma> (\<sigma>\<lparr>cv_clients := go_send (c, f) (cv_clients \<sigma>)\<rparr>)"
  if "acts V (gr_hex (cv_room \<sigma>)) f id"
| write_pump: "conv_step V \<sigma> (on_client c (\<lambda>k. k\<lparr>cc_send := fs, cc_wire := cc_wire k @ [f]\<rparr>) \<sigma>)"
  if "cc_send (cv_clients \<sigma> c) = f # fs"
| receive: "conv_step V \<sigma> (on_client c (\<lambda>k. k\<lparr>cc_wire := fs, cc_store := deliver V f (cc_store k)\<rparr>) \<sigma>)"
  if "cc_wire (cv_clients \<sigma> c) = f # fs"
| works: "conv_step V \<sigma> (on_client c (\<lambda>k. k\<lparr>cc_store := ui_step a (cc_store k)\<rparr>) \<sigma>)"
| leaves: "conv_step V \<sigma>
     (on_client c (\<lambda>k. k\<lparr>cc_sync := Broken\<rparr>) (\<sigma>\<lparr>cv_room := LeaveRoom c (cv_room \<sigma>)\<rparr>))"

text \<open>The room is made; the clients are connected and do not know it.\<close>

definition conv_start :: "conv \<Rightarrow> bool" where
  "conv_start \<sigma> \<longleftrightarrow>
     gr_messages (cv_room \<sigma>) = [] \<and> gr_members (cv_room \<sigma>) = [] \<and> cv_ids \<sigma> = {} \<and>
     (\<forall>c. cc_send (cv_clients \<sigma> c) = [] \<and> cc_wire (cv_clients \<sigma> c) = [] \<and> cc_sync (cv_clients \<sigma> c) = NotYet \<and>
          room_view (gr_hex (cv_room \<sigma>)) (cc_store (cv_clients \<sigma> c)) = None)"

inductive conv_reach :: "views \<Rightarrow> conv \<Rightarrow> bool" for V where
  start: "conv_start \<sigma> \<Longrightarrow> conv_reach V \<sigma>"
| step: "conv_reach V \<sigma> \<Longrightarrow> conv_step V \<sigma> \<sigma>' \<Longrightarrow> conv_reach V \<sigma>'"

section \<open>Sending\<close>

definition frames_to :: "string \<Rightarrow> addressed \<Rightarrow> jsval list" where
  "frames_to c outs = map snd (filter (\<lambda>p. fst p = c) outs)"

lemma post_simps [simp]: "post [] cl = cl" "post (p # outs) cl = post outs (go_send p cl)"
  by (simp_all add: post_def)

lemma go_send_broken: "cc_sync (go_send p cl c) = Broken \<or> cc_sync (go_send p cl c) = cc_sync (cl c)"
  by (simp add: go_send_def Let_def)

lemma post_broken: "cc_sync (post outs cl c) = Broken \<or> cc_sync (post outs cl c) = cc_sync (cl c)"
proof (induction outs arbitrary: cl)
  case (Cons p outs)
  show ?case using Cons.IH [of "go_send p cl"] go_send_broken [of p cl c] by (metis post_simps(2))
qed simp

text \<open>Who has missed nothing has the frames at the end of the buffer.\<close>

lemma post_at:
  "cc_sync (post outs cl c) \<noteq> Broken \<Longrightarrow>
   post outs cl c = (cl c)\<lparr>cc_send := cc_send (cl c) @ frames_to c outs\<rparr>"
proof (induction outs arbitrary: cl)
  case (Cons p outs)
  from Cons.prems have "cc_sync (post outs (go_send p cl) c) \<noteq> Broken" by simp
  with post_broken [of outs "go_send p cl" c] have "cc_sync (go_send p cl c) \<noteq> Broken" by auto
  then have "go_send p cl c = (cl c)\<lparr>cc_send := cc_send (cl c) @ (if fst p = c then [snd p] else [])\<rparr>"
    by (auto simp: go_send_def Let_def split: if_splits)
  with Cons.IH [of "go_send p cl"] Cons.prems show ?case by (simp add: frames_to_def)
qed (simp add: frames_to_def)

lemma frames_to_Broadcast:
  assumes "distinct (gr_members r)"
  shows "frames_to c (Broadcast r f) = (if c \<in> set (gr_members r) then [f] else [])"
  using assms
proof -
  have "map snd (filter (\<lambda>p. fst p = c) (map (\<lambda>c. (c, f)) cs)) = (if c \<in> set cs then [f] else [])"
    if "distinct cs" for cs :: "string list"
    using that by (induction cs) auto
  with assms show ?thesis by (simp add: frames_to_def Broadcast_def)
qed

section \<open>The invariant\<close>

text \<open>What a client will have once everything on its way has arrived.\<close>

definition settled :: "views \<Rightarrow> conv_client \<Rightarrow> chat_state" where
  "settled V k = fold (deliver V) (cc_wire k @ cc_send k) (cc_store k)"

text \<open>A frame whose effect on the messages of the room depends on those messages only.\<close>

definition determined :: "views \<Rightarrow> string \<Rightarrow> jsval \<Rightarrow> bool" where
  "determined V rid f \<longleftrightarrow> (\<exists>F. \<forall>s. room_view rid (deliver V f s) = F (room_view rid s))"

definition sound :: "views \<Rightarrow> go_room \<Rightarrow> string set \<Rightarrow> string \<Rightarrow> conv_client \<Rightarrow> bool" where
  "sound V r ids c k \<longleftrightarrow>
     (cc_sync k \<noteq> Broken \<longrightarrow> list_all (determined V (gr_hex r)) (cc_wire k @ cc_send k)) \<and>
     (cc_sync k = NotYet \<longrightarrow> c \<notin> set (gr_members r) \<and> room_view (gr_hex r) (settled V k) = None) \<and>
     (cc_sync k = Synced \<longrightarrow> c \<in> set (gr_members r) \<and>
        (\<exists>old ms. room_view (gr_hex r) (settled V k) = Some ms \<and> agrees old r ms \<and>
           g_id ` set (old @ gr_messages r) \<subseteq> ids))"

definition conv_inv :: "views \<Rightarrow> conv \<Rightarrow> bool" where
  "conv_inv V \<sigma> \<longleftrightarrow>
     distinct (gr_members (cv_room \<sigma>)) \<and> distinct (map g_id (gr_messages (cv_room \<sigma>))) \<and>
     g_id ` set (gr_messages (cv_room \<sigma>)) \<subseteq> cv_ids \<sigma> \<and>
     (\<forall>c. sound V (cv_room \<sigma>) (cv_ids \<sigma>) c (cv_clients \<sigma> c))"

lemma determined_fold:
  assumes "list_all (determined V rid) fs" and "room_view rid s = room_view rid s'"
  shows "room_view rid (fold (deliver V) fs s) = room_view rid (fold (deliver V) fs s')"
  using assms
proof (induction fs arbitrary: s s')
  case (Cons f fs)
  then have "determined V rid f" and fs: "list_all (determined V rid) fs" by simp_all
  then obtain F where F: "\<forall>s. room_view rid (deliver V f s) = F (room_view rid s)" unfolding determined_def by blast
  have "room_view rid (deliver V f s) = room_view rid (deliver V f s')"
    unfolding F [rule_format] Cons.prems(2) ..
  from Cons.IH [OF fs this] show ?case by simp
qed simp

lemma acts_determined [intro]: "acts V rid f G \<Longrightarrow> determined V rid f"
  unfolding acts_def determined_def by (intro exI [of _ "map_option G"])

lemma joining_determined:
  assumes "reads_server V"
  shows "determined V rid (go_joined nm r)" and "determined V rid (go_opened names peer r)"
    and "determined V rid (go_history r)" and "determined V rid (go_error text)"
proof -
  show "determined V rid (go_joined nm r)" "determined V rid (go_opened names peer r)"
    unfolding determined_def deliver_joining
    by (intro exI [of _ "\<lambda>v. if gr_hex r = rid then Some (case v of None \<Rightarrow> [] | Some ms \<Rightarrow> ms) else v"] allI refl)+
  show "determined V rid (go_history r)" unfolding determined_def deliver_history [OF assms]
    by (rule exI [of _ "\<lambda>v. if gr_hex r = rid then map_option (\<lambda>ms. mergeMessages ms (map web_message (gr_messages r))) v else v"]) (intro allI refl)
  show "determined V rid (go_error text)" unfolding determined_def deliver_error by (intro exI [of _ "\<lambda>v. v"] allI refl)
qed

lemma view_ui_step [simp]: "room_view rid (ui_step a s) = room_view rid s"
proof -
  have nav: "room_view rid (pushContextRoute k s') = room_view rid s'" "room_view rid (popContextRoute s) = room_view rid s"
    "room_view rid (resetContextStack s) = room_view rid s" "room_view rid (setDisplayName n s) = room_view rid s"
    "room_view rid (toggleMenu s) = room_view rid s" for k n s'
    by (simp_all add: room_view_def pushContextRoute_def popContextRoute_def resetContextStack_def
        setDisplayName_def toggleMenu_def Let_def)
  have "room_view rid (s\<lparr>activeVoice := v, localSpeaking := sp, voiceMuted := m, voiceError := e\<rparr>) = room_view rid s"
    for v sp m e by (simp add: room_view_def)
  with nav show ?thesis by (cases a) simp_all
qed

text \<open>What keeps the view of the room keeps the client sound, and so does anything that is as far along.\<close>

lemma sound_same:
  assumes "sound V r ids c k" and "cc_sync k' = cc_sync k"
    and "cc_sync k \<noteq> Broken \<Longrightarrow> set (cc_wire k' @ cc_send k') \<subseteq> set (cc_wire k @ cc_send k)"
    and "cc_sync k \<noteq> Broken \<Longrightarrow> list_all (determined V (gr_hex r)) (cc_wire k @ cc_send k) \<Longrightarrow>
           room_view (gr_hex r) (settled V k') = room_view (gr_hex r) (settled V k)"
  shows "sound V r ids c k'"
proof (cases "cc_sync k = Broken")
  case False
  with assms(1) have d: "list_all (determined V (gr_hex r)) (cc_wire k @ cc_send k)" by (simp add: sound_def)
  then have "list_all (determined V (gr_hex r)) (cc_wire k' @ cc_send k')"
    using assms(3) [OF False] by (auto simp: list_all_iff)
  with assms(1,2) assms(4) [OF False d] show ?thesis by (simp add: sound_def)
qed (use assms(2) in \<open>simp add: sound_def\<close>)

lemma settled_post:
  "cc_sync (post outs cl c) \<noteq> Broken \<Longrightarrow>
   settled V (post outs cl c) = fold (deliver V) (frames_to c outs) (settled V (cl c))"
  by (simp add: settled_def post_at)

section \<open>Every step keeps it\<close>

text \<open>Frames sent in one step, the room unchanged or not: what each client's view becomes.\<close>

lemma sound_post:
  assumes "sound V r ids c (cl c)" and "gr_hex r' = gr_hex r"
    and "list_all (determined V (gr_hex r)) (frames_to c outs)"
    and "cc_sync (cl c) = NotYet \<Longrightarrow> room_view (gr_hex r) (settled V (cl c)) = None \<Longrightarrow> c \<notin> set (gr_members r) \<Longrightarrow>
           c \<notin> set (gr_members r') \<and> room_view (gr_hex r) (fold (deliver V) (frames_to c outs) (settled V (cl c))) = None"
    and "\<And>old ms. cc_sync (cl c) = Synced \<Longrightarrow> room_view (gr_hex r) (settled V (cl c)) = Some ms \<Longrightarrow>
           agrees old r ms \<Longrightarrow> g_id ` set (old @ gr_messages r) \<subseteq> ids \<Longrightarrow> c \<in> set (gr_members r) \<Longrightarrow>
           c \<in> set (gr_members r') \<and>
           (\<exists>old' ms'. room_view (gr_hex r) (fold (deliver V) (frames_to c outs) (settled V (cl c))) = Some ms' \<and>
              agrees old' r' ms' \<and> g_id ` set (old' @ gr_messages r') \<subseteq> ids')"
  shows "sound V r' ids' c (post outs cl c)"
proof (cases "cc_sync (post outs cl c) = Broken")
  case False
  then have s: "settled V (post outs cl c) = fold (deliver V) (frames_to c outs) (settled V (cl c))"
    by (rule settled_post)
  have same: "cc_sync (post outs cl c) = cc_sync (cl c)"
    "cc_wire (post outs cl c) @ cc_send (post outs cl c) = (cc_wire (cl c) @ cc_send (cl c)) @ frames_to c outs"
    unfolding post_at [OF False] by simp_all
  from assms(1) False same(1) have d: "list_all (determined V (gr_hex r)) (cc_wire (cl c) @ cc_send (cl c))"
    by (simp add: sound_def)
  show ?thesis
  proof (cases "cc_sync (cl c)")
    case NotYet
    with assms(1) have "c \<notin> set (gr_members r)" "room_view (gr_hex r) (settled V (cl c)) = None"
      by (simp_all add: sound_def)
    with assms(4) NotYet d assms(2,3) show ?thesis unfolding sound_def same s by simp
  next
    case Synced
    with assms(1) obtain old ms where "c \<in> set (gr_members r)" "room_view (gr_hex r) (settled V (cl c)) = Some ms"
      "agrees old r ms" "g_id ` set (old @ gr_messages r) \<subseteq> ids" by (auto simp: sound_def)
    with assms(5) Synced d assms(2,3) show ?thesis unfolding sound_def same s by simp
  next
    case Broken
    with False same(1) show ?thesis by simp
  qed
qed (simp add: sound_def)

text \<open>A frame that does not concern the messages.\<close>

lemma quiet_frame:
  assumes "sound V r ids c' (cl c')" and "acts V (gr_hex r) f id"
  shows "sound V r ids c' (post [(c, f)] cl c')"
proof -
  have v: "room_view (gr_hex r) (fold (deliver V) (frames_to c' [(c, f)]) s) = room_view (gr_hex r) s" for s
    using assms(2) by (simp add: frames_to_def acts_def option.map_id)
  have "list_all (determined V (gr_hex r)) (frames_to c' [(c, f)])"
    using assms(2) by (auto simp: frames_to_def)
  then show ?thesis
    by (rule sound_post [where cl = cl, OF assms(1) refl]) (auto simp: v)
qed

lemma error_quiet: "acts V rid (go_error text) id"
  by (simp add: acts_def deliver_error option.map_id)

text \<open>The frames that tell a client the room: who did not know it shows it, who knew it still does.\<close>

definition arrives :: "views \<Rightarrow> go_room \<Rightarrow> jsval list \<Rightarrow> bool" where
  "arrives V r fs \<longleftrightarrow>
     list_all (determined V (gr_hex r)) fs \<and>
     (\<forall>s. room_view (gr_hex r) s = None \<longrightarrow>
        (\<exists>ms. room_view (gr_hex r) (fold (deliver V) fs s) = Some ms \<and> agrees [] r ms)) \<and>
     (\<forall>s old ms. room_view (gr_hex r) s = Some ms \<longrightarrow> agrees old r ms \<longrightarrow>
        (\<exists>ms'. room_view (gr_hex r) (fold (deliver V) fs s) = Some ms' \<and> agrees old r ms'))"

lemma arrives_append: "arrives V r fs \<Longrightarrow> arrives V r gs \<Longrightarrow> arrives V r (fs @ gs)"
  unfolding arrives_def by (simp add: list_all_append) metis

lemma arrives_joined:
  assumes V: "reads_server V" and d: "distinct (map g_id (gr_messages r))"
  shows "arrives V r [go_joined nm r, go_history r]"
    and "arrives V r [go_opened names peer r, go_joined nm r, go_history r]"
  using agrees_first [OF d] agrees_history
  by (auto simp: arrives_def deliver_joining deliver_history [OF V] joining_determined [OF V])

text \<open>Who is told the room when somebody enters it, and that nobody else is.\<close>

definition admits :: "views \<Rightarrow> go_room \<Rightarrow> go_room \<times> addressed \<Rightarrow> bool" where
  "admits V r res \<longleftrightarrow>
     (\<exists>c text. res = (r, [(c, go_error text)])) \<or>
     (gr_hex (fst res) = gr_hex r \<and> gr_messages (fst res) = gr_messages r \<and> distinct (gr_members (fst res)) \<and>
      (\<forall>c. (frames_to c (snd res) = [] \<and> (c \<in> set (gr_members (fst res)) \<longleftrightarrow> c \<in> set (gr_members r))) \<or>
           (arrives V (fst res) (frames_to c (snd res)) \<and> c \<in> set (gr_members (fst res)))))"

lemma add_member_simps [simp]:
  "gr_hex (add_member c r) = gr_hex r" "gr_messages (add_member c r) = gr_messages r"
  "gr_dm (add_member c r) = gr_dm r" "gr_name (add_member c r) = gr_name r"
  "set (gr_members (add_member c r)) = insert c (set (gr_members r))"
  "distinct (gr_members r) \<Longrightarrow> distinct (gr_members (add_member c r))"
  by (simp_all add: add_member_def)

lemma JoinRoom_admits:
  assumes V: "reads_server V" and d: "distinct (map g_id (gr_messages r))" "distinct (gr_members r)"
  shows "admits V r (JoinRoom c r)"
  using arrives_joined [OF V, of "add_member c r"] d
  by (auto simp: admits_def JoinRoom_def Let_def frames_to_def)

lemma JoinDM_admits:
  assumes V: "reads_server V" and d: "distinct (map g_id (gr_messages r))" "distinct (gr_members r)"
  shows "admits V r (JoinDM names c hex r)"
  using arrives_joined [OF V, of "add_member c r"] d
  by (auto simp: admits_def JoinDM_def Let_def frames_to_def)

lemma StartDM_admits:
  assumes V: "reads_server V" and d: "distinct (map g_id (gr_messages r))" "distinct (gr_members r)"
  shows "admits V r (StartDM names c target r)"
proof -
  let ?r = "add_member target (add_member c r)"
  have a: "arrives V ?r [go_opened names peer ?r, go_joined nm ?r, go_history ?r]" for peer nm
    by (rule arrives_joined [OF V]) (use d in simp)
  have "arrives V ?r ([go_opened names target ?r, go_joined (names target) ?r, go_history ?r] @
      [go_opened names c ?r, go_joined (names c) ?r, go_history ?r])"
    by (rule arrives_append [OF a a])
  with a d show ?thesis by (auto simp: admits_def StartDM_def Let_def frames_to_def)
qed

lemma agrees_same: "gr_messages r' = gr_messages r \<Longrightarrow> agrees old r' ms = agrees old r ms"
  by (simp add: agrees_def)

lemma inv_entered:
  assumes inv: "conv_inv V \<sigma>" and "admits V (cv_room \<sigma>) res"
  shows "conv_inv V (entered res \<sigma>)"
proof -
  let ?r = "cv_room \<sigma>" and ?cl = "cv_clients \<sigma>"
  from inv have s: "sound V ?r (cv_ids \<sigma>) c (?cl c)" for c by (simp add: conv_inv_def)
  have here: "greet ?r ?cl = ?cl" using s unfolding greet_def sound_def by fastforce
  from assms(2) consider
      c e where "res = (?r, [(c, go_error e)])"
    | "gr_hex (fst res) = gr_hex ?r" "gr_messages (fst res) = gr_messages ?r" "distinct (gr_members (fst res))"
      "\<And>c. (frames_to c (snd res) = [] \<and> (c \<in> set (gr_members (fst res)) \<longleftrightarrow> c \<in> set (gr_members ?r))) \<or>
           (arrives V (fst res) (frames_to c (snd res)) \<and> c \<in> set (gr_members (fst res)))"
    unfolding admits_def by blast
  then show ?thesis
  proof cases
    case 1
    have "sound V ?r (cv_ids \<sigma>) c' (post [(c, go_error e)] ?cl c')" for c'
      by (rule quiet_frame [where cl = ?cl, OF s error_quiet])
    with 1 inv show ?thesis
      by (simp add: conv_inv_def entered_def here)
  next
    case 2
    let ?r' = "fst res" and ?cl' = "greet (fst res) ?cl"
    have "sound V ?r' (cv_ids \<sigma>) c (post (snd res) ?cl' c)" for c
    proof (cases "frames_to c (snd res) = [] \<and> (c \<in> set (gr_members ?r') \<longleftrightarrow> c \<in> set (gr_members ?r))")
      case True
      then have "?cl' c = ?cl c" using s [of c] by (auto simp: greet_def sound_def)
      with s [of c] True 2(1,2) show ?thesis
        by (intro sound_post [where r = ?r and cl = ?cl']) (auto simp: agrees_same [OF 2(2)])
    next
      case False
      with 2(4) [of c] have a: "arrives V ?r' (frames_to c (snd res))" "c \<in> set (gr_members ?r')" by auto
      show ?thesis
      proof (cases "cc_sync (post (snd res) ?cl' c) = Broken")
        case unbroken: False
        have g: "settled V (?cl' c) = settled V (?cl c)" "cc_wire (?cl' c) = cc_wire (?cl c)"
          "cc_send (?cl' c) = cc_send (?cl c)"
          "cc_sync (?cl' c) = (if cc_sync (?cl c) = NotYet then Synced else cc_sync (?cl c))"
          using a(2) by (simp_all add: greet_def settled_def)
        have sync: "cc_sync (?cl' c) \<noteq> Broken" "cc_sync (?cl c) \<noteq> Broken"
          using post_broken [of "snd res" ?cl' c] unbroken by (auto simp: g(4) split: if_splits)
        then have now: "cc_sync (?cl' c) = Synced" using g(4) by (cases "cc_sync (?cl c)") auto
        have dets: "list_all (determined V (gr_hex ?r)) (cc_wire (?cl c) @ cc_send (?cl c) @ frames_to c (snd res))"
          using s [of c] sync(2) a(1) by (simp add: sound_def arrives_def 2(1))
        have "\<exists>old ms. room_view (gr_hex ?r) (fold (deliver V) (frames_to c (snd res)) (settled V (?cl c))) = Some ms \<and>
            agrees old ?r' ms \<and> g_id ` set (old @ gr_messages ?r) \<subseteq> cv_ids \<sigma>"
        proof (cases "cc_sync (?cl c)")
          case NotYet
          with s [of c] have "room_view (gr_hex ?r') (settled V (?cl c)) = None" by (simp add: sound_def 2(1))
          with a(1) obtain ms where "room_view (gr_hex ?r') (fold (deliver V) (frames_to c (snd res)) (settled V (?cl c))) = Some ms"
            "agrees [] ?r' ms" unfolding arrives_def by blast
          moreover have "g_id ` set ([] @ gr_messages ?r) \<subseteq> cv_ids \<sigma>" using inv by (simp add: conv_inv_def)
          ultimately show ?thesis unfolding 2(1) by blast
        next
          case Synced
          with s [of c] obtain old ms where "room_view (gr_hex ?r') (settled V (?cl c)) = Some ms"
            "agrees old ?r' ms" "g_id ` set (old @ gr_messages ?r) \<subseteq> cv_ids \<sigma>"
            by (auto simp: sound_def 2(1) agrees_same [OF 2(2)])
          with a(1) show ?thesis unfolding arrives_def 2(1) by blast
        qed (use sync(2) in simp)
        then show ?thesis
          using dets a(2) settled_post [OF unbroken]
          by (simp add: sound_def post_at [OF unbroken] now g 2(1,2))
      qed (simp add: sound_def)
    qed
    with inv 2 show ?thesis by (simp add: conv_inv_def entered_def)
  qed
qed

text \<open>A request that is answered.\<close>

lemma inv_request:
  assumes inv: "conv_inv V \<sigma>" and ans: "answered V (cv_ids \<sigma>) K' c (cv_room \<sigma>) res" and "cv_ids \<sigma> \<subseteq> K'"
  shows "conv_inv V (\<sigma>\<lparr>cv_room := fst res, cv_clients := post (snd res) (cv_clients \<sigma>), cv_ids := K'\<rparr>)"
proof -
  let ?r = "cv_room \<sigma>" and ?cl = "cv_clients \<sigma>"
  from inv have s: "sound V ?r (cv_ids \<sigma>) c' (?cl c')" for c' by (simp add: conv_inv_def)
  have s': "sound V ?r K' c' (?cl c')" for c'
    using s [of c'] assms(3) unfolding sound_def by (meson order_trans)
  from ans consider
      "res = (?r, [])" | e where "res = (?r, [(c, go_error e)])"
    | r' f where "res = (r', Broadcast r' f)" "told_by V (cv_ids \<sigma>) K' ?r r' f"
    unfolding answered_def by blast
  then show ?thesis
  proof cases
    case 1
    with inv assms(3) s' show ?thesis by (auto simp: conv_inv_def)
  next
    case 2
    have "sound V ?r K' c' (post [(c, go_error e)] ?cl c')" for c'
      by (rule quiet_frame [where cl = ?cl, OF s' error_quiet])
    with 2 inv assms(3) show ?thesis by (auto simp: conv_inv_def)
  next
    case 3
    from 3(2) obtain G where hex: "gr_hex r' = gr_hex ?r" "gr_members r' = gr_members ?r"
      and G: "acts V (gr_hex ?r) f G"
      and told: "\<And>old ms. agrees old ?r ms \<Longrightarrow> g_id ` set (old @ gr_messages ?r) \<subseteq> cv_ids \<sigma> \<Longrightarrow>
          \<exists>old'. agrees old' r' (G ms) \<and> g_id ` set (old' @ gr_messages r') \<subseteq> K'"
      unfolding told_by_def by blast
    have d: "distinct (gr_members r')" using inv hex by (simp add: conv_inv_def)
    note to = frames_to_Broadcast [OF d]
    from inv have room: "distinct (map g_id (gr_messages ?r))" "g_id ` set ([] @ gr_messages ?r) \<subseteq> cv_ids \<sigma>"
      by (simp_all add: conv_inv_def)
    from told [OF agrees_first [OF room(1)] room(2)] obtain old' where
      "agrees old' r' (G (mergeMessages [] (map web_message (gr_messages ?r))))"
      "g_id ` set (old' @ gr_messages r') \<subseteq> K'" by blast
    then have room': "distinct (map g_id (gr_messages r'))" "g_id ` set (gr_messages r') \<subseteq> K'"
      by (auto simp: agrees_def)
    have "sound V r' K' c' (post (Broadcast r' f) ?cl c')" for c'
    proof (rule sound_post [where cl = ?cl, OF s hex(1)])
      show "list_all (determined V (gr_hex ?r)) (frames_to c' (Broadcast r' f))" using G by (auto simp: to)
      show "c' \<notin> set (gr_members r') \<and>
          room_view (gr_hex ?r) (fold (deliver V) (frames_to c' (Broadcast r' f)) (settled V (?cl c'))) = None"
        if "room_view (gr_hex ?r) (settled V (?cl c')) = None" "c' \<notin> set (gr_members ?r)"
        using that by (simp add: to hex)
      show "c' \<in> set (gr_members r') \<and>
          (\<exists>old' ms'. room_view (gr_hex ?r) (fold (deliver V) (frames_to c' (Broadcast r' f)) (settled V (?cl c'))) = Some ms' \<and>
             agrees old' r' ms' \<and> g_id ` set (old' @ gr_messages r') \<subseteq> K')"
        if "room_view (gr_hex ?r) (settled V (?cl c')) = Some ms" "agrees old ?r ms"
          "g_id ` set (old @ gr_messages ?r) \<subseteq> cv_ids \<sigma>" "c' \<in> set (gr_members ?r)" for old ms
      proof -
        have "room_view (gr_hex ?r) (deliver V f (settled V (?cl c'))) = Some (G ms)"
          using G that(1) by (simp add: acts_def)
        with told [OF that(2,3)] that(4) show ?thesis by (auto simp: to hex)
      qed
    qed
    with d room' 3(1) show ?thesis by (simp add: conv_inv_def)
  qed
qed

lemma inv_client:
  assumes "conv_inv V \<sigma>" and "sound V (cv_room \<sigma>) (cv_ids \<sigma>) c (f (cv_clients \<sigma> c))"
  shows "conv_inv V (on_client c f \<sigma>)"
  using assms by (simp add: conv_inv_def on_client_def)

lemma settled_determined:
  assumes "list_all (determined V rid) (cc_wire k @ cc_send k)" and "room_view rid s = room_view rid (cc_store k)"
  shows "room_view rid (settled V (k\<lparr>cc_store := s\<rparr>)) = room_view rid (settled V k)"
  using determined_fold [OF assms] by (simp add: settled_def)

lemma inv_step:
  assumes V: "reads_server V" and "conv_step V \<sigma> \<sigma>'" and inv: "conv_inv V \<sigma>"
  shows "conv_inv V \<sigma>'"
proof -
  have d: "distinct (map g_id (gr_messages (cv_room \<sigma>)))" "distinct (gr_members (cv_room \<sigma>))"
    using inv by (simp_all add: conv_inv_def)
  from assms(2) show ?thesis
  proof cases
    case (request d uuid t peers now k)
    show ?thesis unfolding request(1)
      by (rule inv_request [OF inv serve_answered [OF request(2) V request(3)]]) simp_all
  next
    case (join_room c)
    show ?thesis unfolding join_room by (rule inv_entered [OF inv JoinRoom_admits [OF V d]])
  next
    case (join_dm names c hex)
    show ?thesis unfolding join_dm by (rule inv_entered [OF inv JoinDM_admits [OF V d]])
  next
    case (start_dm names c target)
    show ?thesis unfolding start_dm by (rule inv_entered [OF inv StartDM_admits [OF V d]])
  next
    case (other f c)
    from inv have "sound V (cv_room \<sigma>) (cv_ids \<sigma>) c' (cv_clients \<sigma> c')" for c' by (simp add: conv_inv_def)
    from quiet_frame [where cl = "cv_clients \<sigma>", OF this other(2), of _ c] inv show ?thesis
      by (simp add: other(1) conv_inv_def)
  next
    case (write_pump c f fs)
    from inv have "sound V (cv_room \<sigma>) (cv_ids \<sigma>) c (cv_clients \<sigma> c)" by (simp add: conv_inv_def)
    then show ?thesis unfolding write_pump(1)
      by (intro inv_client [OF inv] sound_same [OF \<open>sound V _ _ _ _\<close>]) (auto simp: settled_def write_pump(2))
  next
    case (receive c f fs)
    from inv have "sound V (cv_room \<sigma>) (cv_ids \<sigma>) c (cv_clients \<sigma> c)" by (simp add: conv_inv_def)
    then show ?thesis unfolding receive(1)
      by (intro inv_client [OF inv] sound_same [OF \<open>sound V _ _ _ _\<close>]) (auto simp: settled_def receive(2))
  next
    case (works c a)
    from inv have "sound V (cv_room \<sigma>) (cv_ids \<sigma>) c (cv_clients \<sigma> c)" by (simp add: conv_inv_def)
    then show ?thesis unfolding works
      by (intro inv_client [OF inv] sound_same [OF \<open>sound V _ _ _ _\<close>]) (auto simp: settled_determined)
  next
    case (leaves c)
    let ?r = "LeaveRoom c (cv_room \<sigma>)"
    have m: "set (gr_members ?r) = set (gr_members (cv_room \<sigma>)) - {c}" "distinct (gr_members ?r)"
      "gr_hex ?r = gr_hex (cv_room \<sigma>)" "gr_messages ?r = gr_messages (cv_room \<sigma>)"
      using inv by (simp_all add: conv_inv_def LeaveRoom_def)
    have "sound V ?r (cv_ids \<sigma>) c' (cv_clients \<sigma> c')" if "c' \<noteq> c" for c'
      using inv that m by (auto simp: conv_inv_def sound_def agrees_same [OF m(4)])
    with inv m show ?thesis by (auto simp: leaves conv_inv_def on_client_def sound_def)
  qed
qed

lemma inv_reach: "conv_reach V \<sigma> \<Longrightarrow> reads_server V \<Longrightarrow> conv_inv V \<sigma>"
proof (induction rule: conv_reach.induct)
  case (start \<sigma>)
  then show ?case by (simp add: conv_start_def conv_inv_def sound_def settled_def)
qed (rule inv_step)

section \<open>What the invariant says when nothing is under way\<close>

text \<open>The store shows the server's messages, as the server has them, in the order of their times.\<close>

definition shows_room :: "go_room \<Rightarrow> chat_state \<Rightarrow> bool" where
  "shows_room r s \<longleftrightarrow>
     (case room_view (gr_hex r) s of
        None \<Rightarrow> False
      | Some ms \<Rightarrow>
          map as_shown (filter (\<lambda>m. msg_id m \<in> g_id ` set (gr_messages r)) ms)
          = map web_message (sort_key g_time (gr_messages r)))"

lemma agrees_shows:
  assumes "room_view (gr_hex r) s = Some ms" and "agrees old r ms"
  shows "shows_room r s"
proof -
  let ?P = "\<lambda>i. i \<in> g_id ` set (gr_messages r)"
  have sel: "map f (filter (\<lambda>x. Q (f x)) xs) = filter Q (map f xs)" for f :: "'a \<Rightarrow> 'b" and Q xs
    by (simp add: filter_map comp_def)
  have P: "?P (msg_id m) = ?P (msg_id (as_shown m))" "?P (g_id g) = ?P (msg_id (web_message g))" for m g by simp_all
  have "map as_shown (filter (\<lambda>m. ?P (msg_id m)) ms) = filter (\<lambda>m. ?P (msg_id m)) (map as_shown ms)"
    by (subst P(1)) (rule sel)
  also have "\<dots> = filter (\<lambda>m. ?P (msg_id m)) (map web_message (sort_key g_time (old @ gr_messages r)))"
    using assms(2) by (simp add: agrees_def)
  also have "\<dots> = map web_message (filter (\<lambda>g. ?P (g_id g)) (sort_key g_time (old @ gr_messages r)))"
    by (subst P(2)) (rule sel [symmetric])
  also have "filter (\<lambda>g. ?P (g_id g)) (sort_key g_time (old @ gr_messages r))
      = sort_key g_time (filter (\<lambda>g. ?P (g_id g)) (old @ gr_messages r))"
    by (simp only: filter_sort)
  also have "filter (\<lambda>g. ?P (g_id g)) (old @ gr_messages r) = gr_messages r"
  proof -
    have "filter (\<lambda>g. ?P (g_id g)) old = []"
      using assms(2) by (auto simp: agrees_def filter_empty_conv)
    moreover have "filter (\<lambda>g. ?P (g_id g)) (gr_messages r) = gr_messages r" by (simp add: filter_id_conv)
    ultimately show ?thesis by simp
  qed
  finally show ?thesis using assms(1) by (simp add: shows_room_def)
qed

lemma settled_shows:
  assumes "conv_reach V \<sigma>" and "reads_server V" and "cc_sync (cv_clients \<sigma> c) = Synced"
  shows "shows_room (cv_room \<sigma>) (settled V (cv_clients \<sigma> c))"
  using inv_reach [OF assms(1,2)] assms(3) agrees_shows by (fastforce simp: conv_inv_def sound_def)

section \<open>What is under way arrives\<close>

lemma drains:
  "\<exists>\<sigma>'. (conv_step V)\<^sup>*\<^sup>* \<sigma> \<sigma>' \<and> cv_room \<sigma>' = cv_room \<sigma> \<and> cc_sync (cv_clients \<sigma>' c) = cc_sync (cv_clients \<sigma> c) \<and>
     cc_send (cv_clients \<sigma>' c) = [] \<and> cc_wire (cv_clients \<sigma>' c) = [] \<and>
     cc_store (cv_clients \<sigma>' c) = settled V (cv_clients \<sigma> c)"
proof (induction "2 * length (cc_send (cv_clients \<sigma> c)) + length (cc_wire (cv_clients \<sigma> c))"
    arbitrary: \<sigma> rule: less_induct)
  case less
  let ?k = "cv_clients \<sigma> c"
  have more: ?case
    if "conv_step V \<sigma> (on_client c f \<sigma>)" and "settled V (f ?k) = settled V ?k" and "cc_sync (f ?k) = cc_sync ?k"
      and "2 * length (cc_send (f ?k)) + length (cc_wire (f ?k)) < 2 * length (cc_send ?k) + length (cc_wire ?k)" for f
    using less [of "on_client c f \<sigma>"] that
    by (auto simp: on_client_def intro: converse_rtranclp_into_rtranclp)
  show ?case
  proof (cases "cc_wire ?k")
    case (Cons f fs)
    show ?thesis by (rule more [OF receive [OF Cons]]) (simp_all add: settled_def Cons)
  next
    case wire: Nil
    show ?thesis
    proof (cases "cc_send ?k")
      case (Cons f fs)
      show ?thesis by (rule more [OF write_pump [OF Cons]]) (simp_all add: settled_def Cons wire)
    next
      case Nil
      then show ?thesis using wire by (intro exI [of _ \<sigma>]) (simp add: settled_def)
    qed
  qed
qed

end
