(* ===== verification/ServerProps.thy ===== *)
theory ServerProps
  imports Convergence
begin

text \<open>
  The properties of the conversation between the server and its clients: what the clients show
  becomes what the server has, and what a request may change of the messages of others.
\<close>

section \<open>Convergence\<close>


text \<open>The first client of a room sends the first message.\<close>

definition first_room :: go_room where
  "first_room = \<lparr>gr_hex = ''r1'', gr_name = ''General'', gr_dm = None, gr_messages = [], gr_members = [], gr_pinned = {}\<rparr>"

definition nobody_yet :: conv where
  "nobody_yet =
     \<lparr>cv_room = first_room,
      cv_clients = (\<lambda>_. \<lparr>cc_send = [], cc_wire = [], cc_store = init_chat, cc_sync = NotYet\<rparr>), cv_ids = {}\<rparr>"

definition one_joined :: conv where
  "one_joined = entered (JoinRoom ''a'' first_room) nobody_yet"

definition hello :: jsval where
  "hello = JObj [(''room_id'', JStr ''r1''), (''content'', JStr ''hello''), (''message_id'', JStr ''m1'')]"

definition one_sent :: conv where
  "one_sent =
     (let res = serve [] ''u1'' 5 \<lparr>gc_id = ''a'', gc_name = ''Ann''\<rparr> (Out ''send_message'' hello) (cv_room one_joined)
      in one_joined\<lparr>cv_room := fst res, cv_clients := post (snd res) (cv_clients one_joined), cv_ids := {''m1''}\<rparr>)"

lemma one_joined_room: "cv_room one_joined = first_room\<lparr>gr_members := [''a'']\<rparr>"
  by (simp add: one_joined_def entered_def JoinRoom_def is_participant_def add_member_def first_room_def
      List.insert_def Let_def)

lemma one_joined_ids: "cv_ids one_joined = {}"
  by (simp add: one_joined_def entered_def nobody_yet_def)

lemma hello_id: "new_id u (Out ''send_message'' hello) = Some ''m1''"
  by (simp add: new_id_def hello_def)

lemma one_joined_reached: "conv_reach V one_joined"
proof -
  have "conv_start nobody_yet"
    by (simp add: conv_start_def nobody_yet_def first_room_def room_view_def init_chat_def)
  moreover have "conv_step V nobody_yet one_joined"
    using join_room [of V nobody_yet "''a''"] by (simp add: one_joined_def nobody_yet_def)
  ultimately show ?thesis by (meson conv_reach.intros)
qed

lemma one_sent_reached: "conv_reach V one_sent"
proof -
  have "conv_step V one_joined one_sent"
    using request [of hello one_joined "''u1''" "''send_message''" V "[]" 5 "\<lparr>gc_id = ''a'', gc_name = ''Ann''\<rparr>"]
    by (simp add: one_joined_ids hello_id one_sent_def Let_def) (simp add: one_joined_room first_room_def hello_def)
  with one_joined_reached show ?thesis by (rule conv_reach.step)
qed

lemma one_joined_client:
  "cc_sync (cv_clients one_joined ''a'') = Synced"
  "cc_send (cv_clients one_joined ''a'') = [go_joined ''General'' (cv_room one_joined), go_history (cv_room one_joined)]"
  unfolding one_joined_room
  by (simp_all add: one_joined_def entered_def JoinRoom_def is_participant_def nobody_yet_def first_room_def greet_def
      go_send_def sendBuffer_def add_member_def List.insert_def Let_def)

lemma one_sent_synced: "cc_sync (cv_clients one_sent ''a'') = Synced"
  using one_joined_client
  by (simp add: one_sent_def one_joined_room first_room_def hello_def serve_def serve_send_def may_use_def
      AddMessage_def Broadcast_def go_send_def sendBuffer_def maxMessages_def Let_def)


section \<open>What a request may change\<close>

lemma first_message_keeps:
  assumes "first_message p f ms = Some (ms', y)" and "x \<in> set ms" and "\<not> Q x"
    and "\<And>m m'. p m \<Longrightarrow> f m = Some (m', y) \<Longrightarrow> Q m \<or> g m' = g m"
  shows "\<exists>x' \<in> set ms'. g x' = g x"
proof -
  from first_message_Some [OF assms(1)] obtain m m' ps qs where
    s: "ms = ps @ m # qs" "ms' = ps @ m' # qs" "p m" "f m = Some (m', y)" by blast
  with assms(2-4) show ?thesis by fastforce
qed

text \<open>The text of a message, with its author and its marks as edited or deleted.\<close>

definition gist :: "go_message \<Rightarrow> string \<times> string \<times> string \<times> string option \<times> nat \<times> nat option \<times> bool" where
  "gist m = (g_id m, g_sender m, g_content m, g_reply m, g_time m, g_edited m, g_deleted m)"

definition keeps_others :: "string \<Rightarrow> go_room \<Rightarrow> go_room \<Rightarrow> bool" where
  "keeps_others who r r' \<longleftrightarrow>
     (\<forall>x \<in> set (gr_messages r). g_sender x \<noteq> who \<longrightarrow> (\<exists>x' \<in> set (gr_messages r'). gist x' = gist x))"

lemma keeps_refl [simp]: "keeps_others who r r"
  by (auto simp: keeps_others_def)

lemma in_messages_keeps:
  assumes "in_messages p f r = Some (r', y)"
    and "\<And>m m'. p m \<Longrightarrow> f m = Some (m', y) \<Longrightarrow> g_sender m = who \<or> gist m' = gist m"
  shows "keeps_others who r r'"
proof -
  from assms(1) have f: "first_message p f (gr_messages r) = Some (gr_messages r', y)"
    by (auto simp: in_messages_def)
  show ?thesis unfolding keeps_others_def
    using first_message_keeps [OF f, where Q = "\<lambda>m. g_sender m = who" and g = gist] assms(2) by blast
qed

lemma keeps_pinned [simp]: "keeps_others who r (r'\<lparr>gr_pinned := P\<rparr>) = keeps_others who r r'"
  by (simp add: keeps_others_def)

lemma edits_keep:
  "EditMessage now mid who txt r = Some (r', t) \<Longrightarrow> keeps_others who r r'"
  "DeleteMessage mid who r = Some (r', u) \<Longrightarrow> keeps_others who r r'"
  "AddReaction mid k emoji r = Some (r', rs) \<Longrightarrow> keeps_others who r r'"
  "RemoveReaction mid k emoji r = Some (r', rs) \<Longrightarrow> keeps_others who r r'"
  "PinMessage mid r = Some (r', u) \<Longrightarrow> keeps_others who r r'"
  "UnpinMessage mid r = Some (r', u) \<Longrightarrow> keeps_others who r r'"
proof -
  show "EditMessage now mid who txt r = Some (r', t) \<Longrightarrow> keeps_others who r r'"
    unfolding EditMessage_def by (erule in_messages_keeps) (auto split: if_splits)
  show "DeleteMessage mid who r = Some (r', u) \<Longrightarrow> keeps_others who r r'"
    unfolding DeleteMessage_def by (auto elim!: in_messages_keeps split: if_splits)
  show "AddReaction mid k emoji r = Some (r', rs) \<Longrightarrow> keeps_others who r r'"
    unfolding AddReaction_def by (erule in_messages_keeps) (auto simp: gist_def Let_def split: if_splits)
  show "RemoveReaction mid k emoji r = Some (r', rs) \<Longrightarrow> keeps_others who r r'"
    unfolding RemoveReaction_def
    by (erule in_messages_keeps) (auto simp: gist_def Let_def split: if_splits option.splits)
  show "PinMessage mid r = Some (r', u) \<Longrightarrow> keeps_others who r r'"
    unfolding PinMessage_def by (auto elim!: in_messages_keeps simp: gist_def)
  show "UnpinMessage mid r = Some (r', u) \<Longrightarrow> keeps_others who r r'"
    unfolding UnpinMessage_def by (auto elim!: in_messages_keeps simp: gist_def)
qed

lemma AddMessage_keeps: "length (gr_messages r) < maxMessages \<Longrightarrow> keeps_others who r (AddMessage m r)"
  by (auto simp: keeps_others_def AddMessage_def Let_def)

text \<open>What every handler does, as one predicate of its result.\<close>

definition spares :: "string \<Rightarrow> go_room \<Rightarrow> go_room \<times> addressed \<Rightarrow> bool" where
  "spares who r res \<longleftrightarrow>
     keeps_others who r (fst res) \<and>
     (who \<notin> set (gr_members r) \<longrightarrow> fst res = r \<and> (\<forall>p \<in> set (snd res). \<exists>e. p = (who, go_error e)))"

lemma spares_simps [simp]:
  "spares who r (r, [])" "spares who r (r, [(who, go_error e)])"
  "who \<in> set (gr_members r) \<Longrightarrow> spares who r res = keeps_others who r (fst res)"
  by (auto simp: spares_def)

lemma spares_handlers:
  "spares (gc_id c) r (serve_edit now c d r)"
  "spares (gc_id c) r (serve_delete c d r)"
  "spares (gc_id c) r (serve_react AddReaction c d r)"
  "spares (gc_id c) r (serve_react RemoveReaction c d r)"
  "spares (gc_id c) r (serve_pin t PinMessage c d r)"
  "spares (gc_id c) r (serve_pin t UnpinMessage c d r)"
  unfolding serve_edit_def serve_delete_def serve_react_def serve_pin_def
  by (auto simp: may_use_def intro: edits_keep split: option.split list.split)

lemma spares_send:
  assumes "length (gr_messages r) < maxMessages"
  shows "spares (gc_id c) r (serve_send peers uuid now c d r)"
  unfolding serve_send_def
  by (auto simp: may_use_def Let_def AddMessage_keeps [OF assms] split: option.split list.split)

text \<open>
  C11. A request changes nobody else's messages: whatever a client sends, every message of another
  sender is in the room afterwards with the same text, time and marks (while the room is not full),
  and a client that is no member of the room changes nothing and hears of nothing but an error.
\<close>

theorem requests_spare_others:
  assumes "length (gr_messages r) < maxMessages"
  shows "keeps_others (gc_id c) r (fst (serve peers uuid now c m r)) \<and>
         (gc_id c \<notin> set (gr_members r) \<longrightarrow>
            (\<exists>outs. serve peers uuid now c m r = (r, outs) \<and> (\<forall>p \<in> set outs. \<exists>e. p = (gc_id c, go_error e))))"
proof -
  have "spares (gc_id c) r (serve peers uuid now c m r)"
    by (cases m) (simp add: serve_def spares_handlers spares_send [OF assms])
  then show ?thesis by (cases "serve peers uuid now c m r") (auto simp: spares_def)
qed

text \<open>Two members and a message of the first.\<close>

definition ann_and_ben :: go_room where
  "ann_and_ben = first_room\<lparr>gr_members := [''a'', ''b''], gr_messages := [NewChatMessage ''m1'' 5 ''a'' ''Ann'' ''hello'']\<rparr>"

lemma ann_and_ben_simps:
  "gr_hex ann_and_ben = ''r1''" "gr_members ann_and_ben = [''a'', ''b'']"
  "gr_messages ann_and_ben = [NewChatMessage ''m1'' 5 ''a'' ''Ann'' ''hello'']"
  by (simp_all add: ann_and_ben_def first_room_def)

definition change_m1 :: jsval where
  "change_m1 = JObj [(''room_id'', JStr ''r1''), (''message_id'', JStr ''m1''), (''content'', JStr ''changed'')]"

theorem requests_spare_others_witness:
  "keeps_others ''b'' ann_and_ben
     (fst (serve [] ''u1'' 9 \<lparr>gc_id = ''b'', gc_name = ''Ben''\<rparr> (Out ''edit_message'' change_m1) ann_and_ben)) \<and>
   map g_content (gr_messages
     (fst (serve [] ''u1'' 9 \<lparr>gc_id = ''a'', gc_name = ''Ann''\<rparr> (Out ''edit_message'' change_m1) ann_and_ben)))
   = [''changed'']"
proof -
  have "length (gr_messages ann_and_ben) < maxMessages" by (simp add: ann_and_ben_simps maxMessages_def)
  from requests_spare_others [OF this, of "\<lparr>gc_id = ''b'', gc_name = ''Ben''\<rparr>" "[]" "''u1''" 9
      "Out ''edit_message'' change_m1"]
  show ?thesis
    by (simp add: serve_def serve_edit_def may_use_def EditMessage_def in_messages_def
        NewChatMessage_def ann_and_ben_simps change_m1_def)
qed

section \<open>An id used again\<close>

lemma merge_one:
  "\<exists>x \<in> set (mergeMessages ms [m]). msg_id x = msg_id m \<and> content x = content m \<and> sender x = sender m"
proof -
  let ?M = "map_from msg_id ms"
  obtain v where v: "keyed_step msg_id spread_message m ?M = js_set (msg_id m) v ?M" "msg_id v = msg_id m"
    "content v = content m" "sender v = sender m"
    by (cases "js_get ?M (msg_id m)") (auto simp: keyed_step_def spread_message_def)
  have "js_get (js_set (msg_id m) v ?M) (msg_id m) = Some v" by simp
  then have "(msg_id m, v) \<in> set (js_set (msg_id m) v ?M)" by (rule map_of_SomeD)
  then have "v \<in> set (js_values (js_set (msg_id m) v ?M))" by (force simp: js_values_def)
  with v show ?thesis by (auto simp: mergeMessages_def keyed_merge_def)
qed

text \<open>
  C40. The client chooses the ids of its messages. When a member sends a text under the id of a message
  that is there, whoever wrote it, the server keeps the message it has and still tells every member
  the new one: every client that receives it shows the text of the second sender in its place, and
  a client that joins later shows the first.
\<close>

theorem repeated_id_replaces:
  assumes V: "reads_server V"
    and "go_strings d [''room_id'', ''content'', ''message_id'', ''sender_id'', ''sender_name''] = Some [gr_hex r, txt, mid, [], []]"
    and "go_pointer (js_prop d ''reply_to'') = Some rep"
    and "gc_id c \<in> set (gr_members r)" and "txt \<noteq> []" and "mid \<noteq> []" and "mid \<in> g_id ` set (gr_messages r)"
  shows "\<exists>f. serve peers uuid now c (Out ''send_message'' d) r = (r, Broadcast r f) \<and>
     (\<forall>s ms. room_view (gr_hex r) s = Some ms \<longrightarrow>
        (\<exists>ms'. room_view (gr_hex r) (deliver V f s) = Some ms' \<and>
           (\<exists>x \<in> set ms'. msg_id x = mid \<and> content x = txt \<and> sender x = gc_id c)))"
proof -
  let ?m = "sent_message peers uuid now c txt rep mid [] []"
  let ?f = "go_frame ''message'' [(''room_id'', JStr (gr_hex r)), (''message'', go_message_json ?m)]"
  have m: "g_id ?m = mid" "g_content ?m = txt" "g_sender ?m = gc_id c"
    using assms(6) by (auto simp: sent_message_def NewChatMessage_def split: option.split)
  have "AddMessage ?m r = r" using assms(7) m(1) by (auto simp: AddMessage_def list_ex_iff)
  with assms(2-5) have "serve peers uuid now c (Out ''send_message'' d) r = (r, Broadcast r ?f)"
    by (simp add: serve_def serve_send_def may_use_def Let_def)
  moreover have "\<exists>x \<in> set (mergeMessages ms [web_message ?m]). msg_id x = mid \<and> content x = txt \<and> sender x = gc_id c" for ms
    using merge_one [where ms = ms and m = "web_message ?m"] m by (simp add: web_message_def)
  ultimately show ?thesis by (intro exI [of _ ?f]) (simp add: deliver_message [OF V])
qed

theorem repeated_id_replaces_witness:
  "\<forall>V. \<exists>f. serve [] ''u1'' 9 \<lparr>gc_id = ''b'', gc_name = ''Ben''\<rparr> (Out ''send_message'' hello) ann_and_ben
     = (ann_and_ben, Broadcast ann_and_ben f) \<and>
     (\<exists>x \<in> set (case room_view ''r1'' (deliver (V\<lparr>as_message := json_message, as_reactions := json_reactions\<rparr>) f
         (addRoom ''r1'' ''General'' 2 False init_chat)) of Some ms \<Rightarrow> ms). content x = ''hello'' \<and> sender x = ''b'')"
  (is "\<forall>V. ?P V")
proof
  fix V
  have "room_view ''r1'' init_chat = None" by (simp add: room_view_def init_chat_def)
  then have view: "room_view ''r1'' (addRoom ''r1'' ''General'' 2 False init_chat) = Some []"
    by (simp add: view_addRoom)
  have "go_strings hello [''room_id'', ''content'', ''message_id'', ''sender_id'', ''sender_name''] =
      Some [gr_hex ann_and_ben, ''hello'', ''m1'', [], []]" "go_pointer (js_prop hello ''reply_to'') = Some None"
    by (simp_all add: hello_def ann_and_ben_simps)
  from repeated_id_replaces [OF reads_server_ex this, of "\<lparr>gc_id = ''b'', gc_name = ''Ben''\<rparr>" "[]" "''u1''" 9 V] view
  show "?P V" by (fastforce simp: ann_and_ben_simps NewChatMessage_def)
qed

section \<open>Private conversations\<close>

text \<open>
  Every connection has an identity of its own (\<open>NewIdentity\<close>), and the participants of a private
  conversation are two of them: whoever connects again is a stranger to it.
\<close>

lemma dm_rejoin_refused:
  assumes "gr_dm r = Some (a, b)" and "c \<noteq> a" and "c \<noteq> b"
  shows "JoinDM names c (gr_hex r) r = (r, [(c, go_error ''cannot join private conversation'')])"
  using assms by (simp add: JoinDM_def is_participant_def)

end
