(* ===== verification/EndToEnd.thy ===== *)
theory EndToEnd
  imports ServerProps ChatUi
begin

text \<open>
  The conversation joined to its two ends: the frames the chat pane sends are requests the server
  answers, and taking a frame from the socket is the frame step of the connection; so a text that is
  sent reaches the screen of every member.
\<close>

section \<open>The ends of the relation\<close>

lemma receive_is_ws_frame: "chat (ws_frame V k (Some f) c) = deliver V f (chat c)"
  by (simp add: ws_frame_def deliver_def case_prod_beta Let_def)

text \<open>Every frame of the chat pane names its room, as the requests of \<open>conv_step\<close> do.\<close>

lemma pane_frames_name_room:
  "m \<in> set (snd (chat_handleSend rid body co)) \<union>
     {handleDelete rid mid, handleReact rid mid e, handleRemoveReact rid mid e, handlePin rid mid, handleUnpin rid mid} \<Longrightarrow>
   \<exists>t d. m = Out t d \<and> go_string (js_prop d ''room_id'') = Some rid"
  by (auto simp: chat_handleSend_def handleDelete_def handleReact_def handleRemoveReact_def handlePin_def handleUnpin_def
      message_frame_def split: if_splits)

section \<open>A broadcast that is not dropped\<close>

lemma post_others: "k \<notin> fst ` set outs \<Longrightarrow> post outs cl k = cl k"
proof (induction outs arbitrary: cl)
  case (Cons p outs)
  then show ?case using Cons.IH [of "go_send p cl"] by (simp add: go_send_def Let_def)
qed simp

lemma Broadcast_kept:
  assumes "distinct (gr_members r)" and "length (cc_send (cl k)) < sendBuffer"
  shows "cc_sync (post (Broadcast r f) cl k) = cc_sync (cl k)"
proof -
  have "cc_sync (post (map (\<lambda>c. (c, f)) cs) cl k) = cc_sync (cl k)"
    if "distinct cs" "length (cc_send (cl k)) < sendBuffer" for cs cl
    using that
  proof (induction cs arbitrary: cl)
    case (Cons c cs)
    let ?cl = "go_send (c, f) cl"
    show ?case
    proof (cases "c = k")
      case True
      with Cons.prems have "post (map (\<lambda>c. (c, f)) cs) ?cl k = ?cl k" by (intro post_others) auto
      with True Cons.prems show ?thesis by (simp add: go_send_def Let_def)
    next
      case False
      then have "?cl k = cl k" by (simp add: go_send_def Let_def)
      with Cons show ?thesis by simp
    qed
  qed simp
  with assms show ?thesis by (simp add: Broadcast_def)
qed

section \<open>From the composer to the rows\<close>

lemma shown_member:
  assumes "shows_room r s" and "g \<in> set (gr_messages r)"
  shows "\<exists>ms m. room_view (gr_hex r) s = Some ms \<and> m \<in> set ms \<and> as_shown m = web_message g"
proof -
  from assms(1) obtain ms where ms: "room_view (gr_hex r) s = Some ms"
    "map as_shown (filter (\<lambda>m. msg_id m \<in> g_id ` set (gr_messages r)) ms) = map web_message (sort_key g_time (gr_messages r))"
    by (auto simp: shows_room_def split: option.splits)
  have "web_message g \<in> set (map web_message (sort_key g_time (gr_messages r)))" using assms(2) by simp
  with ms show ?thesis unfolding ms(2) [symmetric] by auto
qed

lemma AddMessage_last:
  assumes "g_id m \<notin> g_id ` set (gr_messages r)"
  shows "m \<in> set (gr_messages (AddMessage m r))"
proof -
  have "\<not> list_ex (\<lambda>x. g_id x = g_id m) (gr_messages r)" using assms by (auto simp: list_ex_iff image_iff)
  moreover have "m \<in> set (drop n (xs @ [m]))" if "n \<le> length xs" for n xs
    using that by simp
  ultimately show ?thesis by (simp add: AddMessage_def Let_def maxMessages_def)
qed

lemma row_of_message:
  "m \<in> set ms \<Longrightarrow> \<exists>row \<in> set (rows_from me mm prev ms). rp_message row = m \<and> rp_isSelf row = (sender m = me)"
  by (induction ms arbitrary: prev) auto

text \<open>The message the server makes of what the composer sends, and its answer.\<close>

lemma serve_composed:
  assumes "gc_id c \<in> set (gr_members r)" and "body \<noteq> []" and "\<not> str_truthy (editingId co)"
    and "snd (chat_handleSend (gr_hex r) body co) = [Out t d]" and "uuid \<notin> g_id ` set (gr_messages r)"
  shows "new_id uuid (Out t d) = Some uuid" and "go_string (js_prop d ''room_id'') = Some (gr_hex r)"
    and "\<exists>g f. serve peers uuid now c (Out t d) r = (AddMessage g r, Broadcast (AddMessage g r) f) \<and>
       g \<in> set (gr_messages (AddMessage g r)) \<and> g_id g = uuid \<and> g_content g = body \<and> g_sender g = gc_id c \<and>
       g_name g = gc_name c"
proof -
  from assms(3,4) have d: "t = ''send_message''" "d = JObj ([(''room_id'', JStr (gr_hex r)), (''content'', JStr body)] @
      (if str_truthy (replyToId co) then [(''reply_to'', JStr (the (replyToId co)))] else []))"
    by (auto simp: chat_handleSend_def)
  then show "new_id uuid (Out t d) = Some uuid" "go_string (js_prop d ''room_id'') = Some (gr_hex r)"
    by (simp_all add: new_id_def)
  let ?rep = "if str_truthy (replyToId co) then replyToId co else None"
  let ?g = "sent_message peers uuid now c body ?rep [] [] []"
  have g: "g_id ?g = uuid" "g_content ?g = body" "g_sender ?g = gc_id c" "g_name ?g = gc_name c"
    by (auto simp: sent_message_def NewChatMessage_def split: option.split)
  have "js_prop d ''reply_to'' = (if str_truthy (replyToId co) then JStr (the (replyToId co)) else JUndefined)"
    by (simp add: d)
  then have "go_pointer (js_prop d ''reply_to'') = Some ?rep"
    by (cases "replyToId co") auto
  moreover have "go_strings d [''room_id'', ''content'', ''message_id'', ''sender_id'', ''sender_name'']
      = Some [gr_hex r, body, [], [], []]" by (simp add: d)
  ultimately have "serve peers uuid now c (Out t d) r = (AddMessage ?g r, Broadcast (AddMessage ?g r)
      (go_frame ''message'' [(''room_id'', JStr (gr_hex r)), (''message'', go_message_json ?g)]))"
    using assms(1,2) by (simp add: serve_def serve_send_def may_use_def d(1) Let_def)
  moreover have "?g \<in> set (gr_messages (AddMessage ?g r))" using assms(5) by (intro AddMessage_last) (simp add: g)
  ultimately show "\<exists>g f. serve peers uuid now c (Out t d) r = (AddMessage g r, Broadcast (AddMessage g r) f) \<and>
       g \<in> set (gr_messages (AddMessage g r)) \<and> g_id g = uuid \<and> g_content g = body \<and> g_sender g = gc_id c \<and>
       g_name g = gc_name c" using g by blast
qed



end
