(* ===== verification/VoiceRoom.thy ===== *)
theory VoiceRoom
  imports Convergence Calls
begin

text \<open>
  The voice channels of a room on the server (\<open>server/room.go\<close>, and the methods of \<open>server/hub.go\<close>
  that make, join and leave one and tell who speaks): its state, the frames it sends, and the state
  its relay of offers, answers and candidates reads (\<open>hub\<close> of \<open>Signalling\<close>). Requests a client makes
  for a Bluetooth peer (those with a \<open>sender_id\<close>) go to other methods and are not here.
\<close>

section \<open>State\<close>

text \<open>A channel lists the ids of its clients and of its Bluetooth peers, and who of them speaks.\<close>

record go_channel =
  gh_id :: string
  gh_name :: string
  gh_members :: "string list"
  gh_ble :: "string list"
  gh_speaking :: "string set"

record voice_room =
  vr_hex :: string
  vr_members :: "string list"
  vr_channels :: "go_channel list"

definition NewVoiceChannel :: "string \<Rightarrow> string \<Rightarrow> go_channel" where
  "NewVoiceChannel uuid name = \<lparr> gh_id = uuid, gh_name = name, gh_members = [], gh_ble = [], gh_speaking = {} \<rparr>"

definition find_channel :: "string \<Rightarrow> voice_room \<Rightarrow> go_channel option" where
  "find_channel cid r = find (\<lambda>ch. gh_id ch = cid) (vr_channels r)"

definition on_channel :: "string \<Rightarrow> (go_channel \<Rightarrow> go_channel) \<Rightarrow> voice_room \<Rightarrow> voice_room" where
  "on_channel cid f r = r\<lparr>vr_channels := map (\<lambda>ch. if gh_id ch = cid then f ch else ch) (vr_channels r)\<rparr>"

definition go_channel_members :: "string \<Rightarrow> voice_room \<Rightarrow> string list" where
  "go_channel_members cid r = (case find_channel cid r of Some ch \<Rightarrow> gh_members ch | None \<Rightarrow> [])"

definition VoiceChannelHasMember :: "string \<Rightarrow> string \<Rightarrow> voice_room \<Rightarrow> bool" where
  "VoiceChannelHasMember cid c r \<longleftrightarrow> c \<in> set (go_channel_members cid r)"

definition voice_may_use :: "voice_room \<Rightarrow> string \<Rightarrow> string \<Rightarrow> bool" where
  "voice_may_use r who hex \<longleftrightarrow> (vr_hex r = hex \<or> take 16 (vr_hex r) = hex) \<and> who \<in> set (vr_members r)"

section \<open>Frames\<close>

text \<open>\<open>names\<close> gives the name of a client or a Bluetooth peer; a short id is the first twelve digits.\<close>

definition go_voice_member :: "(string \<Rightarrow> string) \<Rightarrow> go_channel \<Rightarrow> string \<Rightarrow> jsval" where
  "go_voice_member names ch i =
     JObj [(''id'', JStr i), (''name'', JStr (names i)), (''short_id'', JStr (take 12 i)),
           (''speaking'', JBool (i \<in> gh_speaking ch))]"

definition go_voice_channel :: "(string \<Rightarrow> string) \<Rightarrow> go_channel \<Rightarrow> jsval" where
  "go_voice_channel names ch =
     JObj [(''id'', JStr (gh_id ch)), (''name'', JStr (gh_name ch)),
           (''members'', JArr (map (go_voice_member names ch) (gh_members ch @ gh_ble ch)))]"

definition GetVoiceState :: "(string \<Rightarrow> string) \<Rightarrow> voice_room \<Rightarrow> jsval" where
  "GetVoiceState names r = JArr (map (go_voice_channel names) (vr_channels r))"

definition go_voice_state :: "(string \<Rightarrow> string) \<Rightarrow> voice_room \<Rightarrow> jsval" where
  "go_voice_state names r = go_frame ''voice_state'' [(''room_id'', JStr (vr_hex r)), (''channels'', GetVoiceState names r)]"

definition broadcastVoiceState :: "(string \<Rightarrow> string) \<Rightarrow> voice_room \<Rightarrow> addressed" where
  "broadcastVoiceState names r = map (\<lambda>c. (c, go_voice_state names r)) (vr_members r)"

text \<open>A notice names the room by its id, one of speaking as the request spelled it.\<close>

definition voice_notice :: "string \<Rightarrow> string \<Rightarrow> string \<Rightarrow> string \<Rightarrow> (string \<times> jsval) list \<Rightarrow> jsval" where
  "voice_notice t hex cid who extra =
     go_frame t ([(''room_id'', JStr hex), (''channel_id'', JStr cid), (''peer_id'', JStr who)] @ extra)"

section \<open>Operations\<close>

definition CreateVoiceChannel ::
  "(string \<Rightarrow> string) \<Rightarrow> string \<Rightarrow> string \<Rightarrow> string \<Rightarrow> string \<Rightarrow> voice_room \<Rightarrow> voice_room \<times> addressed" where
  "CreateVoiceChannel names uuid c hex name r =
     (if \<not> voice_may_use r c hex then (r, [(c, go_error ''room not found'')])
      else let r' = r\<lparr>vr_channels := vr_channels r @ [NewVoiceChannel uuid name]\<rparr>
           in (r', map (\<lambda>m. (m, go_frame ''voice_channel_created''
                       [(''room_id'', JStr (vr_hex r)), (''channel_id'', JStr uuid), (''name'', JStr name)])) (vr_members r') @
                   broadcastVoiceState names r'))"

definition JoinVoice :: "(string \<Rightarrow> string) \<Rightarrow> string \<Rightarrow> string \<Rightarrow> string \<Rightarrow> voice_room \<Rightarrow> voice_room \<times> addressed" where
  "JoinVoice names c hex cid r =
     (if \<not> voice_may_use r c hex then (r, [(c, go_error ''room not found'')])
      else if find_channel cid r = None then (r, [(c, go_error ''voice channel not found'')])
      else let r' = on_channel cid (\<lambda>ch. ch\<lparr>gh_members := List.insert c (gh_members ch)\<rparr>) r
           in (r', map (\<lambda>m. (m, voice_notice ''voice_peer_joined'' (vr_hex r') cid c [(''name'', JStr (names c))]))
                     (filter (\<lambda>m. m \<noteq> c) (go_channel_members cid r')) @ broadcastVoiceState names r'))"

text \<open>Leaving asks for the room, not for being in it.\<close>

definition LeaveVoice :: "(string \<Rightarrow> string) \<Rightarrow> string \<Rightarrow> string \<Rightarrow> string \<Rightarrow> voice_room \<Rightarrow> voice_room \<times> addressed" where
  "LeaveVoice names c hex cid r =
     (if \<not> (vr_hex r = hex \<or> take 16 (vr_hex r) = hex) \<or> \<not> VoiceChannelHasMember cid c r then (r, [])
      else let r' = on_channel cid (\<lambda>ch. ch\<lparr>gh_members := removeAll c (gh_members ch), gh_speaking := gh_speaking ch - {c}\<rparr>) r
           in (r', map (\<lambda>m. (m, voice_notice ''voice_peer_left'' (vr_hex r') cid c [])) (go_channel_members cid r') @
                   broadcastVoiceState names r'))"

definition BroadcastVoiceSpeaking :: "string \<Rightarrow> string \<Rightarrow> string \<Rightarrow> bool \<Rightarrow> voice_room \<Rightarrow> voice_room \<times> addressed" where
  "BroadcastVoiceSpeaking c hex cid talks r =
     (if \<not> voice_may_use r c hex \<or> \<not> VoiceChannelHasMember cid c r then (r, [])
      else let r' = on_channel cid (\<lambda>ch. ch\<lparr>gh_speaking := (if talks then insert c (gh_speaking ch) else gh_speaking ch - {c})\<rparr>) r
           in (r', map (\<lambda>m. (m, voice_notice ''voice_speaking_broadcast'' hex cid c [(''speaking'', JBool talks)]))
                     (go_channel_members cid r')))"

text \<open>
  A client is gone: it leaves every channel, the others are told of each, and it leaves the room.
\<close>

definition LeaveAllVoiceChannels :: "string \<Rightarrow> voice_room \<Rightarrow> voice_room \<times> string list" where
  "LeaveAllVoiceChannels c r =
     (r\<lparr>vr_channels := map (\<lambda>ch. if c \<in> set (gh_members ch)
                              then ch\<lparr>gh_members := removeAll c (gh_members ch), gh_speaking := gh_speaking ch - {c}\<rparr>
                              else ch) (vr_channels r)\<rparr>,
      map gh_id (filter (\<lambda>ch. c \<in> set (gh_members ch)) (vr_channels r)))"

definition removeFromRoom :: "(string \<Rightarrow> string) \<Rightarrow> string \<Rightarrow> voice_room \<Rightarrow> voice_room \<times> addressed" where
  "removeFromRoom names c r =
     (let (r1, left) = LeaveAllVoiceChannels c r
      in (r1\<lparr>vr_members := removeAll c (vr_members r1)\<rparr>,
          concat (map (\<lambda>cid. map (\<lambda>m. (m, voice_notice ''voice_peer_left'' (vr_hex r1) cid c []))
                               (filter (\<lambda>m. m \<noteq> c) (vr_members r1))) left) @
          (if left = [] then [] else broadcastVoiceState names r1)))"

text \<open>The requests; one with a \<open>sender_id\<close>, or of another type, is none of these.\<close>

fun go_bool :: "jsval \<Rightarrow> bool option" where
  "go_bool JUndefined = Some False"
| "go_bool JNull = Some False"
| "go_bool (JBool b) = Some b"
| "go_bool _ = None"

definition hub_of :: "(string \<Rightarrow> bool) \<Rightarrow> voice_room \<Rightarrow> hub" where
  "hub_of onl r =
     \<lparr> in_room = (\<lambda>rid c. voice_may_use r c rid),
       in_channel = (\<lambda>rid cid c. (vr_hex r = rid \<or> take 16 (vr_hex r) = rid) \<and> VoiceChannelHasMember cid c r),
       online = onl \<rparr>"

definition serve_voice ::
  "(string \<Rightarrow> string) \<Rightarrow> (string \<Rightarrow> bool) \<Rightarrow> string \<Rightarrow> string \<Rightarrow> out_msg \<Rightarrow> voice_room \<Rightarrow> (voice_room \<times> addressed) option" where
  "serve_voice names onl uuid c m r =
     (case m of Out t d \<Rightarrow>
        if t \<in> fst ` set relay_table then
          Some (r, case relay (hub_of onl r) c m of None \<Rightarrow> [] | Some p \<Rightarrow> [p])
        else if t = ''create_voice_channel'' then
          Some (case go_strings d [''room_id'', ''name''] of
                  Some [hex, name] \<Rightarrow> if name = [] then (r, []) else CreateVoiceChannel names uuid c hex name r
                | _ \<Rightarrow> (r, []))
        else if t = ''join_voice'' then
          (case go_strings d [''room_id'', ''channel_id'', ''sender_id'', ''sender_name''] of
             Some [hex, cid, sid, sname] \<Rightarrow>
               if cid = [] then Some (r, []) else if sid \<noteq> [] then None else Some (JoinVoice names c hex cid r)
           | _ \<Rightarrow> Some (r, []))
        else if t = ''leave_voice'' then
          (case go_strings d [''room_id'', ''channel_id'', ''sender_id''] of
             Some [hex, cid, sid] \<Rightarrow>
               if cid = [] then Some (r, []) else if sid \<noteq> [] then None else Some (LeaveVoice names c hex cid r)
           | _ \<Rightarrow> Some (r, []))
        else if t = ''voice_speaking'' then
          (case (go_strings d [''room_id'', ''channel_id'', ''sender_id''], go_bool (js_prop d ''speaking'')) of
             (Some [hex, cid, sid], Some b) \<Rightarrow>
               if cid = [] then Some (r, []) else if sid \<noteq> [] then None
               else Some (BroadcastVoiceSpeaking c hex cid b r)
           | _ \<Rightarrow> Some (r, []))
        else None)"

section \<open>Well-formed rooms\<close>

definition id_ok :: "string \<Rightarrow> bool" where
  "id_ok i \<longleftrightarrow> i \<noteq> [] \<and> js_trim i = i"

definition go_channel_wf :: "go_channel \<Rightarrow> bool" where
  "go_channel_wf ch \<longleftrightarrow>
     id_ok (gh_id ch) \<and> distinct (gh_members ch @ gh_ble ch) \<and> list_all id_ok (gh_members ch @ gh_ble ch)"

definition voice_room_wf :: "voice_room \<Rightarrow> bool" where
  "voice_room_wf r \<longleftrightarrow>
     distinct (vr_members r) \<and> distinct (map gh_id (vr_channels r)) \<and> list_all go_channel_wf (vr_channels r)"

text \<open>Who is where, on the server and in the store.\<close>

definition go_roster :: "voice_room \<Rightarrow> (string \<times> string list) list" where
  "go_roster r = map (\<lambda>ch. (gh_id ch, gh_members ch @ gh_ble ch)) (vr_channels r)"

definition roster :: "voice_channel list \<Rightarrow> (string \<times> string list) list" where
  "roster chs = map (\<lambda>c. (vc_id c, map vm_id (vc_members c))) chs"

section \<open>What the client makes of the state\<close>

lemma map_filter_map_Some:
  assumes "\<And>x. x \<in> set xs \<Longrightarrow> f (g x) = Some (h x)"
  shows "List.map_filter f (map g xs) = map h xs"
  using assms by (induction xs) (simp_all add: List.map_filter_simps)

definition shown_voice_member :: "(string \<Rightarrow> string) \<Rightarrow> go_channel \<Rightarrow> string \<Rightarrow> voice_member" where
  "shown_voice_member names ch i =
     (let short = (if js_trim (take 12 i) \<noteq> [] then js_trim (take 12 i) else js_slice i 0 12)
      in \<lparr> vm_id = i,
           vm_name = (if js_trim (names i) \<noteq> [] then js_trim (names i) else if short \<noteq> [] then short else ''Unknown''),
           vm_short_id = short, speaking = (i \<in> gh_speaking ch), muted = None \<rparr>)"

lemma normalize_go_member:
  "id_ok i \<Longrightarrow> normalizeVoiceMember (go_voice_member names ch i) = Some (shown_voice_member names ch i)"
  by (simp add: normalizeVoiceMember_def go_voice_member_def trimmed_prop_def id_ok_def shown_voice_member_def Let_def)

lemma shown_member_id [simp]: "vm_id (shown_voice_member names ch i) = i"
  by (simp add: shown_voice_member_def Let_def)

lemma normalize_go_members:
  assumes "go_channel_wf ch"
  shows "normalize_members (map (go_voice_member names ch) (gh_members ch @ gh_ble ch))
    = map (shown_voice_member names ch) (gh_members ch @ gh_ble ch)"
proof -
  let ?is = "gh_members ch @ gh_ble ch"
  have "List.map_filter normalizeVoiceMember (map (go_voice_member names ch) ?is) = map (shown_voice_member names ch) ?is"
    using assms by (intro map_filter_map_Some normalize_go_member) (auto simp: go_channel_wf_def list_all_iff)
  moreover have "distinct (map vm_id (map (shown_voice_member names ch) ?is))"
    using assms by (simp add: go_channel_wf_def comp_def)
  ultimately show ?thesis
    using merge_all_new [of "[]" vm_id "map (shown_voice_member names ch) ?is" replace_with]
    by (simp add: normalize_members_def del: map_append map_map)
qed

definition shown_channel :: "(string \<Rightarrow> string) \<Rightarrow> go_channel \<Rightarrow> voice_channel" where
  "shown_channel names ch =
     \<lparr> vc_id = gh_id ch, vc_name = (if js_trim (gh_name ch) \<noteq> [] then js_trim (gh_name ch) else ''Voice''),
       vc_members = map (shown_voice_member names ch) (gh_members ch @ gh_ble ch) \<rparr>"

lemma normalize_go_channel:
  "go_channel_wf ch \<Longrightarrow> normalizeVoiceChannel (go_voice_channel names ch) = Some (shown_channel names ch)"
  using normalize_go_members [of ch names]
  by (simp add: normalizeVoiceChannel_def go_voice_channel_def trimmed_prop_def shown_channel_def go_channel_wf_def
      id_ok_def Let_def del: map_append)

lemma normalize_go_state:
  assumes "voice_room_wf r"
  shows "normalizeVoiceChannels (GetVoiceState names r) = map (shown_channel names) (vr_channels r)"
proof -
  have "List.map_filter normalizeVoiceChannel (map (go_voice_channel names) (vr_channels r))
      = map (shown_channel names) (vr_channels r)"
    using assms by (intro map_filter_map_Some normalize_go_channel) (auto simp: voice_room_wf_def list_all_iff)
  moreover have "distinct (map vc_id (map (shown_channel names) (vr_channels r)))"
    using assms by (simp add: voice_room_wf_def shown_channel_def comp_def)
  ultimately show ?thesis
    using merge_all_new [of "[]" vc_id "map (shown_channel names) (vr_channels r)" replace_with]
    by (simp add: normalizeVoiceChannels_def GetVoiceState_def del: map_map)
qed

lemma roster_shown: "roster (map (shown_channel names) (vr_channels r)) = go_roster r"
  by (simp add: roster_def go_roster_def shown_channel_def comp_def)

section \<open>The client hears of every change\<close>

lemma deliver_voice_state:
  assumes "voice_room_wf r"
  shows "js_get (voiceState (deliver V (go_voice_state names r) s)) (vr_hex r)
    = Some (map (shown_channel names) (vr_channels r))"
proof -
  have "arr_or_empty (GetVoiceState names r) = map (go_voice_channel names) (vr_channels r)"
    by (simp add: GetVoiceState_def)
  then show ?thesis using normalize_go_state [OF assms, of names]
    by (simp add: go_voice_state_def frame_eval on_voice_state_def setVoiceState_def GetVoiceState_def)
qed

text \<open>The result of a request that changes who is where ends with the new state for every member.\<close>

definition tells_roster :: "(string \<Rightarrow> string) \<Rightarrow> voice_room \<Rightarrow> voice_room \<times> addressed \<Rightarrow> bool" where
  "tells_roster names r res \<longleftrightarrow>
     vr_hex (fst res) = vr_hex r \<and> vr_members (fst res) = vr_members r \<and>
     (go_roster (fst res) = go_roster r \<or> (\<exists>pre. snd res = pre @ broadcastVoiceState names (fst res)))"

lemma on_channel_simps [simp]:
  "vr_hex (on_channel cid f r) = vr_hex r" "vr_members (on_channel cid f r) = vr_members r"
  "vr_channels (on_channel cid f r) = map (\<lambda>ch. if gh_id ch = cid then f ch else ch) (vr_channels r)"
  by (simp_all add: on_channel_def)

lemma find_on_channel:
  "find_channel cid r = Some ch \<Longrightarrow> (\<And>x. gh_id (f x) = gh_id x) \<Longrightarrow> find_channel cid (on_channel cid f r) = Some (f ch)"
proof -
  assume a: "find_channel cid r = Some ch" "\<And>x. gh_id (f x) = gh_id x"
  have "find (\<lambda>c. gh_id c = cid) (map (\<lambda>c. if gh_id c = cid then f c else c) cs) = Some (f ch)"
    if "find (\<lambda>c. gh_id c = cid) cs = Some ch" for cs
    using that by (induction cs) (auto simp: a(2) split: if_splits)
  with a(1) show ?thesis by (simp add: find_channel_def)
qed

lemma tells_roster_same [simp]: "tells_roster names r (r, outs)"
  by (simp add: tells_roster_def)

lemma operations_tell:
  "tells_roster names r (CreateVoiceChannel names uuid c hex name r)"
  "tells_roster names r (JoinVoice names c hex cid r)"
  "tells_roster names r (LeaveVoice names c hex cid r)"
  "tells_roster names r (BroadcastVoiceSpeaking c hex cid b r)"
  by (auto simp: tells_roster_def CreateVoiceChannel_def JoinVoice_def LeaveVoice_def BroadcastVoiceSpeaking_def
      go_roster_def Let_def)

lemma serve_voice_tells:
  "serve_voice names onl uuid c m r = Some res \<Longrightarrow> tells_roster names r res"
  by (cases m) (auto simp: serve_voice_def operations_tell split: if_splits option.splits list.splits)

text \<open>And keeps the room well formed, for a client that is no Bluetooth peer and a new id.\<close>

definition may_be_member :: "string \<Rightarrow> voice_room \<Rightarrow> bool" where
  "may_be_member c r \<longleftrightarrow> id_ok c \<and> (\<forall>ch \<in> set (vr_channels r). c \<notin> set (gh_ble ch))"

lemma wf_on_channel:
  assumes "voice_room_wf r" and "\<And>ch. ch \<in> set (vr_channels r) \<Longrightarrow> go_channel_wf ch \<Longrightarrow> go_channel_wf (f ch)"
    and "\<And>ch. gh_id (f ch) = gh_id ch"
  shows "voice_room_wf (on_channel cid f r)"
proof -
  have "gh_id \<circ> (\<lambda>ch. if gh_id ch = cid then f ch else ch) = gh_id" by (auto simp: fun_eq_iff assms(3))
  then show ?thesis using assms(1,2) by (auto simp: voice_room_wf_def list_all_iff)
qed

lemma operations_wf:
  assumes wf: "voice_room_wf r"
  shows "id_ok uuid \<Longrightarrow> uuid \<notin> gh_id ` set (vr_channels r) \<Longrightarrow>
           voice_room_wf (fst (CreateVoiceChannel names uuid c hex name r))"
    and "may_be_member c r \<Longrightarrow> voice_room_wf (fst (JoinVoice names c hex cid r))"
    and "voice_room_wf (fst (LeaveVoice names c hex cid r))"
    and "voice_room_wf (fst (BroadcastVoiceSpeaking c hex cid b r))"
proof -
  show "voice_room_wf (fst (CreateVoiceChannel names uuid c hex name r))"
    if "id_ok uuid" "uuid \<notin> gh_id ` set (vr_channels r)"
    using wf that
    by (auto simp: CreateVoiceChannel_def voice_room_wf_def NewVoiceChannel_def go_channel_wf_def Let_def)
  show "voice_room_wf (fst (JoinVoice names c hex cid r))" if "may_be_member c r"
    unfolding JoinVoice_def Let_def using wf that
    by (auto intro!: wf_on_channel simp: may_be_member_def go_channel_wf_def list_all_iff)
  show "voice_room_wf (fst (LeaveVoice names c hex cid r))"
    unfolding LeaveVoice_def Let_def using wf
    by (auto intro!: wf_on_channel simp: go_channel_wf_def list_all_iff distinct_removeAll)
  show "voice_room_wf (fst (BroadcastVoiceSpeaking c hex cid b r))"
    unfolding BroadcastVoiceSpeaking_def Let_def using wf by (auto intro!: wf_on_channel simp: go_channel_wf_def)
qed

lemma serve_voice_wf:
  assumes "voice_room_wf r" and "may_be_member c r" and "id_ok uuid" and "uuid \<notin> gh_id ` set (vr_channels r)"
    and "serve_voice names onl uuid c m r = Some res"
  shows "voice_room_wf (fst res)"
  using assms(5) operations_wf [OF assms(1)] assms(1-4)
  by (cases m) (auto simp: serve_voice_def split: if_splits option.splits list.splits)

lemma told_last:
  assumes "tells_roster names r res" and "go_roster (fst res) \<noteq> go_roster r" and "voice_room_wf (fst res)"
    and "k \<in> set (vr_members r)"
  shows "\<exists>fs. frames_to k (snd res) = fs @ [go_voice_state names (fst res)]"
proof -
  from assms(1,2) obtain pre where pre: "snd res = pre @ broadcastVoiceState names (fst res)"
    "vr_members (fst res) = vr_members r" by (auto simp: tells_roster_def)
  have "map snd (filter (\<lambda>p. fst p = k) (map (\<lambda>c. (c, f)) cs)) = [f]" if "distinct cs" "k \<in> set cs" for cs and f :: jsval
  proof -
    have "filter (\<lambda>c. c = k) cs = [k]"
      using that by (induction cs) (auto simp: filter_empty_conv)
    then show ?thesis by (simp add: filter_map comp_def)
  qed
  moreover have "distinct (vr_members r)" using assms(3) pre(2) by (simp add: voice_room_wf_def)
  ultimately show ?thesis using assms(4) by (simp add: frames_to_def pre broadcastVoiceState_def)
qed

text \<open>
  C13. Who is in which voice channel is the same on the server and on the screens: whatever request
  changes it, a member of the room that is sent all of the answer has, once everything on its way to
  it has arrived, exactly the server's channels with exactly the server's members in them, and the
  room stays well formed.
\<close>

theorem voice_rosters_agree:
  assumes "voice_room_wf r" and "may_be_member c r" and "id_ok uuid" and "uuid \<notin> gh_id ` set (vr_channels r)"
    and "serve_voice names onl uuid c m r = Some (r', outs)" and "go_roster r' \<noteq> go_roster r"
    and "k \<in> set (vr_members r)" and "cc_sync (post outs cl k) \<noteq> Broken"
  shows "voice_room_wf r' \<and> vr_members r' = vr_members r \<and>
     (\<exists>chs. js_get (voiceState (settled V (post outs cl k))) (vr_hex r) = Some chs \<and> roster chs = go_roster r')"
proof -
  have wf: "voice_room_wf r'" using serve_voice_wf [OF assms(1-5)] by simp
  have tells: "tells_roster names r (r', outs)" using assms(5) by (rule serve_voice_tells)
  obtain fs where fs: "frames_to k outs = fs @ [go_voice_state names r']"
    using told_last [OF tells _ _ assms(7)] assms(6) wf by auto
  have "js_get (voiceState (settled V (post outs cl k))) (vr_hex r') = Some (map (shown_channel names) (vr_channels r'))"
    unfolding settled_post [OF assms(8)] fs by (simp add: deliver_voice_state [OF wf])
  moreover have "vr_hex r' = vr_hex r" "vr_members r' = vr_members r" using tells by (simp_all add: tells_roster_def)
  ultimately show ?thesis using wf roster_shown by auto
qed

definition quiet_voice_room :: voice_room where
  "quiet_voice_room = \<lparr>vr_hex = ''r'', vr_members = [''a'', ''b''], vr_channels = [NewVoiceChannel ''c'' ''Ops'']\<rparr>"

definition fresh_client :: conv_client where
  "fresh_client = \<lparr>cc_send = [], cc_wire = [], cc_store = init_chat, cc_sync = NotYet\<rparr>"

lemma voice_rosters_agree_witness:
  "\<forall>V. \<exists>r' outs chs. serve_voice id (\<lambda>_. True) ''u'' ''a'' (Out ''join_voice'' (channel_frame ''r'' ''c'')) quiet_voice_room = Some (r', outs) \<and>
     js_get (voiceState (settled V (post outs (\<lambda>_. fresh_client) ''b''))) ''r'' = Some chs \<and> roster chs = [(''c'', [''a''])]"
proof
  fix V
  let ?r' = "quiet_voice_room\<lparr>vr_channels := [\<lparr>gh_id = ''c'', gh_name = ''Ops'', gh_members = [''a''], gh_ble = [], gh_speaking = {}\<rparr>]\<rparr>"
  let ?outs = "[(''a'', go_voice_state id ?r'), (''b'', go_voice_state id ?r')]"
  have wf: "voice_room_wf quiet_voice_room" "may_be_member ''a'' quiet_voice_room" "id_ok ''u''"
    "''u'' \<notin> gh_id ` set (vr_channels quiet_voice_room)" "''b'' \<in> set (vr_members quiet_voice_room)"
    by (simp_all add: quiet_voice_room_def voice_room_wf_def go_channel_wf_def id_ok_def NewVoiceChannel_def
        may_be_member_def js_trim_def js_space_def)
  have served: "serve_voice id (\<lambda>_. True) ''u'' ''a'' (Out ''join_voice'' (channel_frame ''r'' ''c'')) quiet_voice_room = Some (?r', ?outs)"
    by (simp add: serve_voice_def relay_table_def channel_frame_def JoinVoice_def voice_may_use_def quiet_voice_room_def
        NewVoiceChannel_def find_channel_def on_channel_def go_channel_members_def broadcastVoiceState_def List.insert_def Let_def)
  have rosters: "go_roster ?r' = [(''c'', [''a''])]" "go_roster quiet_voice_room = [(''c'', [])]"
    by (simp_all add: go_roster_def quiet_voice_room_def NewVoiceChannel_def)
  have "cc_sync (post ?outs (\<lambda>_. fresh_client) ''b'') \<noteq> Broken"
    by (simp add: go_send_def fresh_client_def sendBuffer_def Let_def)
  from voice_rosters_agree [OF wf(1-4) served _ wf(5) this, of V] rosters
  show "\<exists>r' outs chs. serve_voice id (\<lambda>_. True) ''u'' ''a'' (Out ''join_voice'' (channel_frame ''r'' ''c'')) quiet_voice_room = Some (r', outs) \<and>
     js_get (voiceState (settled V (post outs (\<lambda>_. fresh_client) ''b''))) ''r'' = Some chs \<and> roster chs = [(''c'', [''a''])]"
    using served by (auto simp: quiet_voice_room_def)
qed

end
