(* ===== verification/VoiceCalls.thy ===== *)
theory VoiceCalls
  imports VoiceRoom PageProps
begin

text \<open>
  Voice channels between the pages and the server: who is listed where, and that the offers of a
  client that joins get through.
\<close>

section \<open>A run of requests\<close>

fun serve_all ::
  "(string \<Rightarrow> string) \<Rightarrow> (string \<Rightarrow> bool) \<Rightarrow> string \<Rightarrow> string \<Rightarrow> out_msg list \<Rightarrow> voice_room \<Rightarrow> voice_room \<times> addressed" where
  "serve_all names onl uuid c [] r = (r, [])"
| "serve_all names onl uuid c (m # ms) r =
     (case serve_voice names onl uuid c m r of
        None \<Rightarrow> serve_all names onl uuid c ms r
      | Some (r', outs) \<Rightarrow> (case serve_all names onl uuid c ms r' of (r'', outs') \<Rightarrow> (r'', outs @ outs')))"

text \<open>Joining makes the client a member of the channel, and nobody else leaves it.\<close>

lemma JoinVoice_joins:
  assumes "find_channel cid r = Some ch" and "me \<in> set (vr_members r)"
  shows "\<exists>r' pre. JoinVoice names me (vr_hex r) cid r = (r', pre) \<and> vr_hex r' = vr_hex r \<and> vr_members r' = vr_members r \<and>
     (\<forall>i. VoiceChannelHasMember cid i r' \<longleftrightarrow> i = me \<or> VoiceChannelHasMember cid i r)"
proof -
  let ?r = "on_channel cid (\<lambda>ch. ch\<lparr>gh_members := List.insert me (gh_members ch)\<rparr>) r"
  have "find_channel cid ?r = Some (ch\<lparr>gh_members := List.insert me (gh_members ch)\<rparr>)"
    by (rule find_on_channel [OF assms(1)]) simp
  with assms show ?thesis
    by (auto simp: JoinVoice_def voice_may_use_def VoiceChannelHasMember_def go_channel_members_def Let_def)
qed

text \<open>The offers of a member to members are relayed, each to its target.\<close>

lemma serve_offer:
  assumes "in_call (hub_of onl r) (vr_hex r) cid me" and "in_call (hub_of onl r) (vr_hex r) cid i"
  shows "serve_voice names onl uuid me (offer_msg (vr_hex r) cid sdp i) r
     = Some (r, [(i, relay_frame ''voice_offer_relay'' (vr_hex r) cid me ''sdp'' (sdp i))])"
  using assms by (simp add: serve_voice_def offer_msg_def relay_def relay_table_def in_call_def Let_def)

lemma serve_offers:
  assumes "in_call (hub_of onl r) (vr_hex r) cid me" and "\<forall>i \<in> set is. in_call (hub_of onl r) (vr_hex r) cid i"
  shows "serve_all names onl uuid me (map (offer_msg (vr_hex r) cid sdp) is) r
     = (r, map (\<lambda>i. (i, relay_frame ''voice_offer_relay'' (vr_hex r) cid me ''sdp'' (sdp i))) is)"
  using assms(2) by (induction "is") (simp_all add: serve_offer [OF assms(1)])

text \<open>
  C19. A call is taken up with everybody who is there: when a user joins a voice channel, the frames
  the page sends, served in order, make the user a member of the channel on the server, and every
  offer is relayed to its member; then the user and each of them are in the call, as the exchange of
  offer and answer between two pages requires.
\<close>

theorem joined_call_is_offered:
  assumes "vm_ref p = Some i" and "ws_ref (net p) = Some k" and "status (socket_of (net p) k) = Open"
    and "rtc_ok P" and "offers_answered answer sdp" and "length ms + 2 \<le> n"
    and "\<not> is_gate_mode (voiceMode (page_settings p))" and "\<not> active (manager_of p i)"
    and "find_channel cid r = Some ch" and "cid \<noteq> []" and "me \<noteq> []" and "me \<in> set (vr_members r)" and "onl me"
    and "\<forall>x \<in> set (webrtc_ids ms). x \<noteq> [] \<and> onl x \<and> x \<in> set (vr_members r) \<and> VoiceChannelHasMember cid x r"
  shows "let q = page_settle P answer (length (waiting p)) n (page_join P (vr_hex r) cid ms p);
             (r', outs) = serve_all names onl uuid me (map snd (drop (length (sent (net p))) (sent (net q)))) r in
     (\<forall>x \<in> set (me # webrtc_ids ms). in_call (hub_of onl r') (vr_hex r) cid x) \<and>
     (\<exists>pre. outs = pre @ map (\<lambda>x. (x, relay_frame ''voice_offer_relay'' (vr_hex r) cid me ''sdp'' (sdp x))) (webrtc_ids ms))"
proof -
  let ?q = "page_settle P answer (length (waiting p)) n (page_join P (vr_hex r) cid ms p)"
  let ?frames = "Out ''join_voice'' (channel_frame (vr_hex r) cid) # map (offer_msg (vr_hex r) cid sdp) (webrtc_ids ms)"
  from page_join_run [OF assms(1,4-7), of "vr_hex r" cid] obtain s st where
    "?q = p\<lparr>net := (forward ?frames (net p))\<lparr>chat := s\<rparr>, manager_of := (manager_of p)(i := st)\<rparr>"
    using assms(8) by (auto simp: leave_msgs_def)
  then have sent: "map snd (drop (length (sent (net p))) (sent (net ?q))) = ?frames"
    by (simp add: forward_open [OF assms(2,3)] comp_def)
  from JoinVoice_joins [OF assms(9,12)] obtain r' pre where join: "JoinVoice names me (vr_hex r) cid r = (r', pre)"
    and r': "vr_hex r' = vr_hex r" "vr_members r' = vr_members r"
      "\<And>x. VoiceChannelHasMember cid x r' \<longleftrightarrow> x = me \<or> VoiceChannelHasMember cid x r" by blast
  have served: "serve_voice names onl uuid me (Out ''join_voice'' (channel_frame (vr_hex r) cid)) r = Some (r', pre)"
    using assms(10) join by (simp add: serve_voice_def relay_table_def channel_frame_def)
  have calls: "in_call (hub_of onl r') (vr_hex r') cid x" if "x \<in> set (me # webrtc_ids ms)" for x
    using that assms(11-14) r' by (auto simp: in_call_def hub_of_def voice_may_use_def)
  have "serve_all names onl uuid me ?frames r = (r', pre @
      map (\<lambda>x. (x, relay_frame ''voice_offer_relay'' (vr_hex r) cid me ''sdp'' (sdp x))) (webrtc_ids ms))"
    using serve_offers [of onl r' cid me "webrtc_ids ms" names uuid sdp] calls served by (simp add: r'(1))
  then show ?thesis using calls unfolding Let_def sent r'(1) by auto
qed

lemma joined_call_is_offered_witness:
  "\<exists>r pre. vr_hex r = ''r'' \<and> snd (serve_all id (\<lambda>_. True) ''u'' ''a''
     (map snd (drop (length (sent (net listing_page)))
       (sent (net (page_settle desktop answer_all 0 4 (page_join desktop ''r'' ''c'' [plain_member ''b''] listing_page)))))) r)
     = pre @ [(''b'', relay_frame ''voice_offer_relay'' ''r'' ''c'' ''a'' ''sdp'' ''b'')]"
proof -
  let ?r = "\<lparr>vr_hex = ''r'', vr_members = [''a'', ''b''],
    vr_channels = [\<lparr>gh_id = ''c'', gh_name = ''C'', gh_members = [''b''], gh_ble = [], gh_speaking = {}\<rparr>]\<rparr>"
  have page: "vm_ref listing_page = Some 0" "ws_ref (net listing_page) = Some 0" "waiting listing_page = []"
    "status (socket_of (net listing_page) 0) = Open" "voiceMode (page_settings listing_page) = ''ptt''"
    "\<not> active (manager_of listing_page 0)"
    by (simp_all add: listing_page_def page_mount_def init_page_def ws_mount_def ws_connect_def detach_current_def
        init_ws_def ws_opened_def init_chat_def init_settings_def new_voice_manager_def Let_def case_prod_beta)
  have ids: "webrtc_ids [plain_member ''b''] = [''b'']" by (simp add: webrtc_ids_def plain_member_def is_ble_id_def js_starts_with_def)
  have server: "find_channel ''c'' ?r = Some \<lparr>gh_id = ''c'', gh_name = ''C'', gh_members = [''b''], gh_ble = [], gh_speaking = {}\<rparr>"
    "VoiceChannelHasMember ''c'' ''b'' ?r"
    by (simp_all add: VoiceChannelHasMember_def go_channel_members_def find_channel_def)
  have "offers_answered answer_all id" "rtc_ok desktop" by (simp_all add: offers_answered_def answer_all_def desktop_def)
  then show ?thesis
    using joined_call_is_offered [where p = listing_page and r = ?r and cid = "''c''" and ms = "[plain_member ''b'']" and i = 0
        and k = 0 and P = desktop and answer = answer_all and sdp = id and n = 4 and me = "''a''" and onl = "\<lambda>_. True"
        and names = id and uuid = "''u''", OF page(1,2,4)] page(3,5,6) server ids
    by (intro exI [of _ ?r]) (auto simp: Let_def is_gate_mode_def split: prod.splits)
qed

section \<open>A connection that fails\<close>

text \<open>
  C38. The server does not read the \<open>peer_id\<close> of a \<open>voice_speaking\<close> request: when the connection to one
  peer fails, the frame that is meant to say that this peer is silent makes the server take the
  sender for silent, and say so to everybody in the channel, while the sender talks on.
\<close>

theorem failed_peer_silences_sender:
  assumes "find_channel cid r = Some ch" and "me \<in> set (gh_members ch)" and "me \<in> set (vr_members r)" and "cid \<noteq> []"
    and "vm_roomId st = vr_hex r" and "vm_channelId st = cid"
  shows "\<exists>m r' outs ch'. out_log (pc_onconnectionstatechange peer ''failed'' st) = out_log st @ [m] \<and>
     localMicMuted (pc_onconnectionstatechange peer ''failed'' st) = localMicMuted st \<and>
     serve_voice names onl uuid me m r = Some (r', outs) \<and>
     find_channel cid r' = Some ch' \<and> gh_speaking ch' = gh_speaking ch - {me} \<and>
     outs = map (\<lambda>x. (x, voice_notice ''voice_speaking_broadcast'' (vr_hex r) cid me [(''speaking'', JBool False)])) (gh_members ch)"
proof -
  let ?m = "Out ''voice_speaking'' (JObj [(''room_id'', JStr (vr_hex r)), (''channel_id'', JStr cid),
      (''peer_id'', JStr peer), (''speaking'', JBool False)])"
  let ?f = "\<lambda>ch :: go_channel. ch\<lparr>gh_speaking := gh_speaking ch - {me}\<rparr>"
  have found: "find_channel cid (on_channel cid ?f r) = Some (?f ch)" by (rule find_on_channel [OF assms(1)]) simp
  have "VoiceChannelHasMember cid me r" using assms(1,2) by (simp add: VoiceChannelHasMember_def go_channel_members_def)
  then have "BroadcastVoiceSpeaking me (vr_hex r) cid False r = (on_channel cid ?f r,
      map (\<lambda>x. (x, voice_notice ''voice_speaking_broadcast'' (vr_hex r) cid me [(''speaking'', JBool False)])) (gh_members ch))"
    using assms(3) found
    by (simp add: BroadcastVoiceSpeaking_def voice_may_use_def go_channel_members_def voice_notice_def Let_def)
  then have "serve_voice names onl uuid me ?m r = Some (on_channel cid ?f r,
      map (\<lambda>x. (x, voice_notice ''voice_speaking_broadcast'' (vr_hex r) cid me [(''speaking'', JBool False)])) (gh_members ch))"
    using assms(4) by (simp add: serve_voice_def relay_table_def)
  moreover have "out_log (pc_onconnectionstatechange peer ''failed'' st) = out_log st @ [?m]"
    "localMicMuted (pc_onconnectionstatechange peer ''failed'' st) = localMicMuted st"
    using assms(5,6)
    by (simp_all add: pc_onconnectionstatechange_def detachRemoteBleRelay_def drop_audio_element_def vm_send_def Let_def
        split: option.split)
  ultimately show ?thesis using found by (intro exI [of _ ?m] exI conjI) (auto simp: found)
qed

lemma failed_peer_silences_sender_witness:
  "\<exists>m r' outs ch'. out_log (pc_onconnectionstatechange ''b'' ''failed'' (live_vm\<lparr>vm_roomId := ''r'', vm_channelId := ''c''\<rparr>))
       = out_log live_vm @ [m] \<and>
     serve_voice id (\<lambda>_. True) ''u'' ''a'' m
       (quiet_voice_room\<lparr>vr_channels := [\<lparr>gh_id = ''c'', gh_name = ''C'', gh_members = [''a'', ''b''], gh_ble = [], gh_speaking = {''a''}\<rparr>]\<rparr>)
       = Some (r', outs) \<and> find_channel ''c'' r' = Some ch' \<and> gh_speaking ch' = {} \<and> length outs = 2"
proof -
  let ?ch = "\<lparr>gh_id = ''c'', gh_name = ''C'', gh_members = [''a'', ''b''], gh_ble = [], gh_speaking = {''a''}\<rparr>"
  let ?r = "quiet_voice_room\<lparr>vr_channels := [?ch]\<rparr>" and ?st = "live_vm\<lparr>vm_roomId := ''r'', vm_channelId := ''c''\<rparr>"
  have "find_channel ''c'' ?r = Some ?ch" "''a'' \<in> set (gh_members ?ch)" "''a'' \<in> set (vr_members ?r)" "''c'' \<noteq> []"
    "vm_roomId ?st = vr_hex ?r" "vm_channelId ?st = ''c''"
    by (simp_all add: find_channel_def quiet_voice_room_def)
  from failed_peer_silences_sender [OF this, of "''b''" id "\<lambda>_. True" "''u''"] show ?thesis by auto
qed

end
