(* ===== verification/Widgets.thy ===== *)
theory Widgets
  imports Lib SettingsUi ChatUi
begin

text \<open>
  The small components with state or logic of their own: the form primitives of
  \<open>components/ui/form.tsx\<close> and the form that joins a room on them, the two menus of the composer, the
  standalone CoT marker, and the two contexts of \<open>lib\<close> that hand \<open>send\<close> and the actions down.
  \<open>cn\<close> merges class names (clsx and tailwind-merge), and is a parameter.
\<close>

section \<open>Elements\<close>

datatype element =
    Element (el_tag: string) (el_attrs: "(string \<times> jsval) list") (el_children: "element list")
  | TextNode string

text \<open>\<open>{...props}\<close> after the attributes: what the caller gives wins.\<close>

definition spread_props :: "(string \<times> jsval) list \<Rightarrow> (string \<times> jsval) list \<Rightarrow> (string \<times> jsval) list" where
  "spread_props base props = fold (\<lambda>(k, v). js_set k v) props base"

fun attr :: "string \<Rightarrow> element \<Rightarrow> jsval option" where
  "attr k (Element t as es) = js_get as k"
| "attr k (TextNode s) = None"

section \<open>Contexts\<close>

text \<open>A hook on a context throws outside its provider.\<close>

definition useSend :: "'f option \<Rightarrow> string + 'f" where
  "useSend ctx =
     (case ctx of None \<Rightarrow> Inl ''useSend must be used within a WebSocketContext.Provider'' | Some f \<Rightarrow> Inr f)"

definition useAppActions :: "'a option \<Rightarrow> string + 'a" where
  "useAppActions ctx =
     (case ctx of None \<Rightarrow> Inl ''useAppActions must be used inside <AppActionsProvider>'' | Some a \<Rightarrow> Inr a)"

section \<open>The form primitives\<close>

text \<open>
  The form of react-hook-form gives the error of a field, which may have a message;
  \<open>FormField\<close> provides the name of the field and \<open>FormItem\<close> an id.
\<close>

type_synonym field_error = "string option"
type_synonym form_context = "string \<Rightarrow> field_error option"

record form_field =
  ff_id :: string
  ff_name :: string
  ff_formItemId :: string
  ff_formDescriptionId :: string
  ff_formMessageId :: string
  ff_error :: "field_error option"

definition useFormField :: "form_context option \<Rightarrow> string option \<Rightarrow> string option \<Rightarrow> string + form_field" where
  "useFormField form fieldContext itemContext =
     (case form of
        None \<Rightarrow> Inl ''TypeError''
      | Some getFieldState \<Rightarrow>
          (case fieldContext of
             None \<Rightarrow> Inl ''useFormField should be used within <FormField>''
           | Some name \<Rightarrow>
               (case itemContext of
                  None \<Rightarrow> Inl ''useFormField should be used within <FormItem>''
                | Some i \<Rightarrow>
                    Inr \<lparr> ff_id = i, ff_name = name, ff_formItemId = i @ ''-form-item'',
                          ff_formDescriptionId = i @ ''-form-item-description'',
                          ff_formMessageId = i @ ''-form-item-message'', ff_error = getFieldState name \<rparr>)))"

text \<open>Class names as \<open>cn\<close> gets them; \<open>None\<close> is a condition that is false or an absent class name.\<close>

type_synonym class_names = "string option list \<Rightarrow> string"

definition FormItem :: "class_names \<Rightarrow> string option \<Rightarrow> (string \<times> jsval) list \<Rightarrow> element list \<Rightarrow> element" where
  "FormItem cn className props children =
     Element ''div'' (spread_props [(''className'', JStr (cn [Some ''space-y-2'', className]))] props) children"

definition FormLabel :: "class_names \<Rightarrow> form_field \<Rightarrow> string option \<Rightarrow> (string \<times> jsval) list \<Rightarrow> element list \<Rightarrow> element" where
  "FormLabel cn f className props children =
     Element ''Label''
       (spread_props
          [(''className'', JStr (cn [if ff_error f \<noteq> None then Some ''text-destructive'' else None, className])),
           (''htmlFor'', JStr (ff_formItemId f))] props) children"

definition FormControl :: "form_field \<Rightarrow> (string \<times> jsval) list \<Rightarrow> element list \<Rightarrow> element" where
  "FormControl f props children =
     Element ''Slot''
       (spread_props
          [(''id'', JStr (ff_formItemId f)),
           (''aria-describedby'',
            JStr (if ff_error f = None then ff_formDescriptionId f
                  else ff_formDescriptionId f @ '' '' @ ff_formMessageId f)),
           (''aria-invalid'', JBool (ff_error f \<noteq> None))] props) children"

definition FormDescription :: "class_names \<Rightarrow> form_field \<Rightarrow> string option \<Rightarrow> (string \<times> jsval) list \<Rightarrow> element list \<Rightarrow> element" where
  "FormDescription cn f className props children =
     Element ''p''
       (spread_props
          [(''id'', JStr (ff_formDescriptionId f)),
           (''className'', JStr (cn [Some ''text-sm text-muted-foreground'', className]))] props) children"

text \<open>The body of the message is a text here; an empty one shows nothing.\<close>

definition FormMessage :: "class_names \<Rightarrow> form_field \<Rightarrow> string option \<Rightarrow> (string \<times> jsval) list \<Rightarrow> string \<Rightarrow> element option" where
  "FormMessage cn f className props children =
     (let body = (case ff_error f of
                    Some e \<Rightarrow> (case e of Some m \<Rightarrow> m | None \<Rightarrow> [])
                  | None \<Rightarrow> children)
      in if body = [] then None
         else Some (Element ''p''
           (spread_props
              [(''id'', JStr (ff_formMessageId f)),
               (''className'', JStr (cn [Some ''text-sm font-medium text-destructive'', className]))] props)
           [TextNode body]))"

lemma spread_none [simp]: "spread_props base [] = base"
  by (simp add: spread_props_def)

lemma spread_keeps: "k \<notin> fst ` set props \<Longrightarrow> js_get (spread_props base props) k = js_get base k"
  unfolding spread_props_def by (induction props arbitrary: base) auto

text \<open>The three parts of an item refer to each other, whatever other properties they are given.\<close>

lemma form_item_linked:
  assumes "useFormField form fc ic = Inr f" and "''htmlFor'' \<notin> fst ` set lp"
    and "''id'' \<notin> fst ` set cp" and "''aria-describedby'' \<notin> fst ` set cp" and "''id'' \<notin> fst ` set mp"
    and "FormMessage cn f mcn mp body = Some msg" and "ff_error f \<noteq> None"
  shows "attr ''htmlFor'' (FormLabel cn f lcn lp ls) = attr ''id'' (FormControl f cp cs)"
    and "attr ''aria-describedby'' (FormControl f cp cs)
           = Some (JStr (ff_formDescriptionId f @ '' '' @ (case attr ''id'' msg of Some (JStr i) \<Rightarrow> i | _ \<Rightarrow> [])))"
  using assms
  by (auto simp: FormLabel_def FormControl_def FormMessage_def Let_def spread_keeps split: if_splits)

section \<open>Joining a room\<close>

text \<open>
  \<open>JoinRoomModal\<close>. The form checks its schema at every change (mode \<open>onChange\<close>); the error of the
  field is what zod says of the first rule that fails (\<open>why\<close>), and \<open>isValid\<close> is the check of the
  values it has. \<open>handleSubmit\<close> calls the handler for values the schema accepts.
\<close>

record join_modal =
  jm_name :: string
  jm_error :: "field_error option"

definition init_join :: join_modal where
  "init_join = \<lparr> jm_name = [], jm_error = None \<rparr>"

definition join_values :: "join_modal \<Rightarrow> jsval" where
  "join_values m = JObj [(''name'', JStr (jm_name m))]"

definition join_valid :: "(zod_type \<Rightarrow> jsval \<Rightarrow> bool) \<Rightarrow> join_modal \<Rightarrow> bool" where
  "join_valid zod m = form_ok zod joinRoomSchema (join_values m)"

definition join_check :: "(zod_type \<Rightarrow> jsval \<Rightarrow> bool) \<Rightarrow> (string \<Rightarrow> string) \<Rightarrow> join_modal \<Rightarrow> join_modal" where
  "join_check zod why m = m\<lparr>jm_error := (if join_valid zod m then None else Some (Some (why (jm_name m))))\<rparr>"

definition join_type :: "(zod_type \<Rightarrow> jsval \<Rightarrow> bool) \<Rightarrow> (string \<Rightarrow> string) \<Rightarrow> string \<Rightarrow> join_modal \<Rightarrow> join_modal" where
  "join_type zod why name m = join_check zod why (m\<lparr>jm_name := name\<rparr>)"

definition join_submit ::
  "(zod_type \<Rightarrow> jsval \<Rightarrow> bool) \<Rightarrow> (string \<Rightarrow> string) \<Rightarrow> join_modal \<times> chat_state \<Rightarrow> (join_modal \<times> chat_state) \<times> out_msg list" where
  "join_submit zod why ms =
     (let m = join_check zod why (fst ms)
      in if join_valid zod m then (case handleJoin (jm_name m) (snd ms) of (s, out) \<Rightarrow> ((m, s), out))
         else ((m, snd ms), []))"

definition join_cancel :: "join_modal \<times> chat_state \<Rightarrow> join_modal \<times> chat_state" where
  "join_cancel ms = (fst ms, setMenuRoute Home (snd ms))"

text \<open>What the dialog shows: the item of its field, and whether Join can be pressed.\<close>

definition join_item :: "class_names \<Rightarrow> string \<Rightarrow> join_modal \<Rightarrow> string + element" where
  "join_item cn i m =
     (case useFormField (Some (\<lambda>k. if k = ''name'' then jm_error m else None)) (Some ''name'') (Some i) of
        Inl e \<Rightarrow> Inl e
      | Inr f \<Rightarrow>
          Inr (FormItem cn None []
            ([FormLabel cn f None [] [TextNode ''Room name''],
              FormControl f [] [Element ''Input'' [(''value'', JStr (jm_name m)), (''placeholder'', JStr ''Room name'')] []]] @
             (case FormMessage cn f None [] [] of None \<Rightarrow> [] | Some e \<Rightarrow> [e]))))"

definition join_enabled :: "(zod_type \<Rightarrow> jsval \<Rightarrow> bool) \<Rightarrow> join_modal \<Rightarrow> bool" where
  "join_enabled zod m = join_valid zod m"

lemma join_valid_iff:
  "zod_laws zod \<Longrightarrow> join_valid zod m \<longleftrightarrow> 1 \<le> length (jm_name m) \<and> length (jm_name m) \<le> 64"
  by (auto simp: join_valid_def form_ok_def joinRoomSchema_def join_values_def zod_laws_def)

text \<open>Join can be pressed for a name of blanks; nothing is sent then, nothing is said, and the menu stays.\<close>

lemma blank_join:
  assumes "zod_laws zod" and "1 \<le> length name" and "length name \<le> 64" and "js_trim name = []"
  shows "let m = join_type zod why name init_join
         in join_enabled zod m \<and> jm_error m = None \<and> join_submit zod why (m, s) = ((m, s), [])"
  using assms join_valid_iff [OF assms(1)]
  by (simp add: join_type_def join_check_def join_enabled_def join_submit_def handleJoin_def Let_def)

text \<open>Any other name that is not too long is asked for once, without its outer blanks, and closes the menu.\<close>

lemma name_join:
  assumes "zod_laws zod" and "js_trim name \<noteq> []"
  shows "join_submit zod why (join_type zod why name m, s) =
     (if length name \<le> 64
      then ((join_type zod why name m, setMenuRoute Home s), [Out ''join_room'' (JObj [(''name'', JStr (js_trim name))])])
      else ((join_type zod why name m, s), []))"
proof -
  have "name \<noteq> []" using assms(2) by (auto simp: js_trim_def)
  then have "1 \<le> length name" by (cases name) auto
  with assms join_valid_iff [OF assms(1)] show ?thesis
    by (simp add: join_type_def join_check_def join_submit_def handleJoin_def Let_def)
qed

text \<open>
  The label names the input, and an error is shown and described. The description the input always
  refers to is not in the form: there is no \<open>FormDescription\<close>.
\<close>

fun element_ids :: "element \<Rightarrow> string list" where
  "element_ids (Element t as es) =
     (case js_get as ''id'' of Some (JStr i) \<Rightarrow> [i] | _ \<Rightarrow> []) @ concat (map element_ids es)"
| "element_ids (TextNode s) = []"

lemma join_item_ids:
  "\<exists>e. join_item cn i m = Inr e \<and>
     element_ids e = (i @ ''-form-item'') #
       (case jm_error m of Some (Some w) \<Rightarrow> if w = [] then [] else [i @ ''-form-item-message''] | _ \<Rightarrow> [])"
  by (auto simp: join_item_def useFormField_def FormItem_def FormLabel_def FormControl_def FormMessage_def Let_def
      split: option.split)

section \<open>The menus of the composer\<close>

text \<open>An emoji as its code points; \<open>glyph\<close> gives the string.\<close>

definition COMPOSER_EMOJIS :: "nat list list" where
  "COMPOSER_EMOJIS =
     [[0x1F44D], [0x1F44E], [0x2705], [0x274C], [0x1F525], [0x1F440], [0x1F64F], [0x1F602], [0x1F389], [0x2764, 0xFE0F]]"

text \<open>A click on an emoji hands it to the composer and closes the popover.\<close>

definition emoji_click :: "(nat list \<Rightarrow> string) \<Rightarrow> nat \<Rightarrow> bool \<times> input_box \<Rightarrow> bool \<times> input_box" where
  "emoji_click glyph k ob =
     (if fst ob \<and> k < length COMPOSER_EMOJIS then (False, insertEmoji (glyph (COMPOSER_EMOJIS ! k)) (snd ob)) else ob)"

definition emoji_trigger :: "bool \<Rightarrow> bool \<Rightarrow> bool" where
  "emoji_trigger disabled open' = (if disabled then open' else \<not> open')"

datatype attach_kind = AttachImage | AttachFile | AttachVoice | AttachLocation

definition ATTACH_ITEMS :: "(attach_kind \<times> string) list" where
  "ATTACH_ITEMS =
     [(AttachImage, ''Image''), (AttachFile, ''File''), (AttachVoice, ''Voice message''), (AttachLocation, ''Location'')]"

section \<open>The reaction picker of a message\<close>

text \<open>
  \<open>MessageRow\<close> keeps whether its picker is shown; while it is, an effect listens to \<open>mousedown\<close> on the
  document and closes it when the target is outside (\<open>pickerRef\<close>, which a deleted message does not
  have, as it renders none of it). \<open>rk_listeners\<close> counts the handlers the row has on the document.
\<close>

record row_picker =
  rk_shown :: bool
  rk_listeners :: nat
  rk_ref :: bool

definition QUICK_EMOJIS :: "nat list list" where
  "QUICK_EMOJIS = [[0x1F44D], [0x1F44E], [0x2705], [0x274C], [0x1F525], [0x1F440]]"

text \<open>\<open>setShowReactions\<close> and the rerun of the effect when the flag has changed: clean up, then set up.\<close>

definition setShowReactions :: "bool \<Rightarrow> row_picker \<Rightarrow> row_picker" where
  "setShowReactions v k =
     (if v = rk_shown k then k
      else k\<lparr>rk_shown := v,
             rk_listeners := rk_listeners k - (if rk_shown k then 1 else 0) + (if v then 1 else 0)\<rparr>)"

definition picker_toggle :: "row_picker \<Rightarrow> row_picker" where
  "picker_toggle k = (if rk_ref k then setShowReactions (\<not> rk_shown k) k else k)"

definition picker_mousedown :: "bool \<Rightarrow> row_picker \<Rightarrow> row_picker" where
  "picker_mousedown inside k = (if 0 < rk_listeners k \<and> rk_ref k \<and> \<not> inside then setShowReactions False k else k)"

definition picker_pick :: "string \<Rightarrow> string \<Rightarrow> string \<Rightarrow> chat_message \<Rightarrow> row_picker \<Rightarrow> row_picker \<times> out_msg list" where
  "picker_pick rid me emoji m k =
     (if rk_ref k \<and> rk_shown k then (setShowReactions False k, [pick_reaction rid me emoji m]) else (k, []))"

definition picker_deleted :: "row_picker \<Rightarrow> row_picker" where
  "picker_deleted k = k\<lparr>rk_ref := False\<rparr>"

definition picker_unmount :: "row_picker \<Rightarrow> row_picker" where
  "picker_unmount k = k\<lparr>rk_listeners := rk_listeners k - (if rk_shown k then 1 else 0), rk_ref := False\<rparr>"

text \<open>One handler exactly while the picker is open, through every event.\<close>

definition picker_ok :: "row_picker \<Rightarrow> bool" where
  "picker_ok k \<longleftrightarrow> rk_listeners k = (if rk_shown k then 1 else 0)"

lemma picker_keeps_ok:
  assumes "picker_ok k"
  shows "picker_ok (picker_toggle k)" and "picker_ok (picker_mousedown inside k)"
    and "picker_ok (fst (picker_pick rid me emoji m k))" and "picker_ok (picker_deleted k)"
    and "rk_listeners (picker_unmount k) = 0"
  using assms
  by (simp_all add: picker_ok_def picker_toggle_def picker_mousedown_def picker_pick_def picker_deleted_def
      picker_unmount_def setShowReactions_def)

text \<open>A pick sends one frame and closes; a press outside closes; neither does anything to a deleted message.\<close>

lemma picker_closes:
  assumes "picker_ok k" and "rk_shown k" and "rk_ref k"
  shows "snd (picker_pick rid me emoji m k) = [pick_reaction rid me emoji m]"
    and "\<not> rk_shown (fst (picker_pick rid me emoji m k))" and "\<not> rk_shown (picker_mousedown False k)"
    and "picker_mousedown False (picker_deleted k) = picker_deleted k"
    and "rk_listeners (picker_deleted k) = 1"
  using assms
  by (simp_all add: picker_ok_def picker_mousedown_def picker_pick_def setShowReactions_def picker_deleted_def)

section \<open>The standalone marker\<close>

datatype marker_affiliation = Friendly | Hostile | Neutral | Unknown

fun affiliation_text :: "marker_affiliation \<Rightarrow> string" where
  "affiliation_text Friendly = ''friendly''"
| "affiliation_text Hostile = ''hostile''"
| "affiliation_text Neutral = ''neutral''"
| "affiliation_text Unknown = ''unknown''"

definition aff_class :: "marker_affiliation \<Rightarrow> string" where
  "aff_class a = ''bg-cot-'' @ affiliation_text a"

definition marker_element :: "marker_affiliation \<Rightarrow> string option \<Rightarrow> string \<Rightarrow> element" where
  "marker_element a note className =
     (let label = (case note of Some r \<Rightarrow> if r = [] then affiliation_text a else affiliation_text a @ '': '' @ r
                   | None \<Rightarrow> affiliation_text a)
      in Element ''span''
           [(''role'', JStr ''img''), (''aria-label'', JStr label), (''title'', JStr label),
            (''className'', JStr (''inline-block w-4 h-4 rounded-tl-full rounded-tr-full rounded-br-full '' @
              ''-rotate-45 border-2 border-fg-primary '' @ aff_class a @ '' '' @ className))] [])"

end
