(* ===== verification/ListPane.thy ===== *)
theory ListPane
  imports SidebarUi
begin

text \<open>
  The channel list as a whole under the user's clicks and keys: \<open>SidebarBody\<close> with the
  \<open>VoiceChannelList\<close> of the active room, whose form has state of its own and lives as long as the
  list is shown, while the store changes under them. What it sends, in order.
\<close>

section \<open>State and events\<close>

record list_pane =
  pane_bar :: sidebar
  pane_form :: channel_form
  pane_store :: chat_state
  pane_out :: "out_msg list"

definition empty_form :: channel_form where
  "empty_form = (False, [])"

definition mount_pane :: "chat_state \<Rightarrow> list_pane" where
  "mount_pane s = \<lparr> pane_bar = init_sidebar, pane_form = empty_form, pane_store = s, pane_out = [] \<rparr>"

text \<open>The room whose voice channels are listed: the active one, if it is no DM and has channels.\<close>

definition listed_room :: "chat_state \<Rightarrow> string option" where
  "listed_room s =
     (case find (\<lambda>r. Some (room_id r) = activeRoomId s \<and> js_get (voiceState s) (room_id r) \<noteq> None) (regularRooms s) of
        Some r \<Rightarrow> Some (room_id r)
      | None \<Rightarrow> None)"

text \<open>After a change of the store a list that is not the same room's has a new form.\<close>

definition put_store :: "chat_state \<Rightarrow> list_pane \<Rightarrow> list_pane" where
  "put_store s p =
     p\<lparr>pane_store := s,
       pane_form := (if listed_room s = listed_room (pane_store p) then pane_form p else empty_form)\<rparr>"

datatype list_event =
    StoreNow chat_state
  | ToggleCreateRoom | RoomNameText string | RoomNameKey string | RoomPublic bool | CreateRoomClick | CancelCreateClick
  | TogglePicker | PickPeer string
  | RoomClick string | DiscoverClick string
  | ToggleChannelForm | ChannelNameText string | ChannelNameKey string | AddChannelClick

definition say :: "out_msg list \<Rightarrow> list_pane \<Rightarrow> list_pane" where
  "say ms p = p\<lparr>pane_out := pane_out p @ ms\<rparr>"

definition on_bar :: "(sidebar \<Rightarrow> sidebar \<times> out_msg list) \<Rightarrow> list_pane \<Rightarrow> list_pane" where
  "on_bar f p = (let (b, out) = f (pane_bar p) in say out (p\<lparr>pane_bar := b\<rparr>))"

text \<open>The form of the list, when it is shown; a name it makes goes to \<open>onCreateChannel\<close> of its room.\<close>

definition on_form :: "(channel_form \<Rightarrow> channel_form \<times> string option) \<Rightarrow> list_pane \<Rightarrow> list_pane" where
  "on_form f p =
     (case listed_room (pane_store p) of
        None \<Rightarrow> p
      | Some rid \<Rightarrow>
          (case f (pane_form p) of
             (fm, made) \<Rightarrow>
               say (case made of None \<Rightarrow> [] | Some nm \<Rightarrow> [onCreateChannel rid nm]) (p\<lparr>pane_form := fm\<rparr>)))"

text \<open>A control that is not shown gets no event.\<close>

fun list_step :: "list_event \<Rightarrow> list_pane \<Rightarrow> list_pane" where
  "list_step (StoreNow s) p = put_store s p"
| "list_step ToggleCreateRoom p = on_bar (\<lambda>b. (b\<lparr>showCreateRoom := \<not> showCreateRoom b\<rparr>, [])) p"
| "list_step (RoomNameText t) p =
     (if showCreateRoom (pane_bar p) then on_bar (\<lambda>b. (b\<lparr>newRoomName := t\<rparr>, [])) p else p)"
| "list_step (RoomNameKey key) p =
     (if showCreateRoom (pane_bar p) \<and> key = ''Enter'' then on_bar handleCreateRoom p else p)"
| "list_step (RoomPublic v) p =
     (if showCreateRoom (pane_bar p) then on_bar (\<lambda>b. (b\<lparr>newRoomPublic := v\<rparr>, [])) p else p)"
| "list_step CreateRoomClick p =
     (if showCreateRoom (pane_bar p) \<and> js_trim (newRoomName (pane_bar p)) \<noteq> [] then on_bar handleCreateRoom p else p)"
| "list_step CancelCreateClick p =
     (if showCreateRoom (pane_bar p) then on_bar (\<lambda>b. (cancelCreateRoom b, [])) p else p)"
| "list_step TogglePicker p = on_bar (\<lambda>b. (b\<lparr>showDMPicker := \<not> showDMPicker b\<rparr>, [])) p"
| "list_step (PickPeer i) p =
     (if showDMPicker (pane_bar p) \<and> i \<in> peer_id ` set (concat (js_values (meshPeers (pane_store p))))
      then on_bar (handleStartDM i) p else p)"
| "list_step (RoomClick rid) p =
     (if rid \<in> room_id ` set (js_values (rooms (pane_store p))) then put_store (handleSelectRoom rid (pane_store p)) p else p)"
| "list_step (DiscoverClick nm) p =
     (if nm \<in> info_name ` set (discoverableRooms (pane_store p)) then say [handleJoinDiscoveredRoom nm] p else p)"
| "list_step ToggleChannelForm p = on_form (\<lambda>(open', t). ((\<not> open', t), None)) p"
| "list_step (ChannelNameText t) p = (if fst (pane_form p) then on_form (\<lambda>(open', _). ((open', t), None)) p else p)"
| "list_step (ChannelNameKey key) p = (if fst (pane_form p) then on_form (channel_form_key key) p else p)"
| "list_step AddChannelClick p = (if fst (pane_form p) then on_form handleCreateChannel p else p)"

definition pane_run :: "list_event list \<Rightarrow> list_pane \<Rightarrow> list_pane" where
  "pane_run es p = fold list_step es p"

section \<open>What the list sends\<close>

text \<open>A frame the list may send while the store is \<open>s\<close>.\<close>

definition proper_request :: "chat_state \<Rightarrow> out_msg \<Rightarrow> bool" where
  "proper_request s m \<longleftrightarrow>
     (\<exists>i \<in> peer_id ` set (concat (js_values (meshPeers s))). m = Out ''start_dm'' (JObj [(''target_id'', JStr i)])) \<or>
     (\<exists>nm pub. nm \<noteq> [] \<and> js_trim nm = nm \<and>
        m = Out ''create_room'' (JObj [(''name'', JStr nm), (''is_public'', JBool pub)])) \<or>
     (\<exists>r \<in> set (availableRooms s). info_room_id r \<notin> set (js_keys (rooms s)) \<and>
        m = Out ''join_room'' (JObj [(''name'', JStr (info_name r))])) \<or>
     (\<exists>rid nm. listed_room s = Some rid \<and> nm \<noteq> [] \<and> js_trim nm = nm \<and> m = onCreateChannel rid nm)"

lemma handleCreateRoom_out:
  assumes "handleCreateRoom b = (b', out)"
  shows "out = [] \<or> (js_trim (newRoomName b) \<noteq> [] \<and>
     out = [Out ''create_room'' (JObj [(''name'', JStr (js_trim (newRoomName b))), (''is_public'', JBool (newRoomPublic b))])])"
  using assms by (auto simp: handleCreateRoom_def Let_def split: if_splits)

lemma handleCreateChannel_out:
  "handleCreateChannel f = (f', made) \<Longrightarrow> made = None \<or> (made = Some (js_trim (snd f)) \<and> js_trim (snd f) \<noteq> [] \<and> f' = (False, []))"
  "channel_form_key key f = (f', made) \<Longrightarrow> made = None \<or> (made = Some (js_trim (snd f)) \<and> js_trim (snd f) \<noteq> [] \<and> f' = (False, []))"
  by (auto simp: handleCreateChannel_def channel_form_key_def Let_def split: if_splits)

text \<open>One event sends at most one frame, and a proper one.\<close>

definition sends_properly :: "list_pane \<Rightarrow> list_pane \<Rightarrow> bool" where
  "sends_properly p q \<longleftrightarrow>
     pane_out q = pane_out p \<or> (\<exists>m. pane_out q = pane_out p @ [m] \<and> proper_request (pane_store p) m)"

lemma sends_same [simp]: "pane_out q = pane_out p \<Longrightarrow> sends_properly p q"
  by (simp add: sends_properly_def)

lemma on_bar_sends:
  assumes "\<And>b' out. f (pane_bar p) = (b', out) \<Longrightarrow> out = [] \<or> (\<exists>m. out = [m] \<and> proper_request (pane_store p) m)"
  shows "sends_properly p (on_bar f p)"
  using assms by (cases "f (pane_bar p)") (auto simp: on_bar_def say_def sends_properly_def)

lemma on_form_sends:
  assumes "\<And>fm nm. f (pane_form p) = (fm, Some nm) \<Longrightarrow> nm \<noteq> [] \<and> js_trim nm = nm"
  shows "sends_properly p (on_form f p)"
proof (cases "listed_room (pane_store p)")
  case (Some rid)
  obtain fm made where f: "f (pane_form p) = (fm, made)" by fastforce
  show ?thesis
  proof (cases made)
    case None
    with f Some show ?thesis by (simp add: on_form_def say_def)
  next
    case made: (Some nm)
    with assms f have "nm \<noteq> [] \<and> js_trim nm = nm" by blast
    with Some have "proper_request (pane_store p) (onCreateChannel rid nm)" by (auto simp: proper_request_def)
    with f Some made show ?thesis by (simp add: on_form_def say_def sends_properly_def)
  qed
qed (simp add: on_form_def)

lemma proper_start_dm:
  "i \<in> peer_id ` set (concat (js_values (meshPeers s))) \<Longrightarrow>
   proper_request s (Out ''start_dm'' (JObj [(''target_id'', JStr i)]))"
  unfolding proper_request_def by blast

lemma creates_properly:
  "handleCreateRoom b = (b', out) \<Longrightarrow> out = [] \<or> (\<exists>m. out = [m] \<and> proper_request s m)"
  using handleCreateRoom_out by (fastforce simp: proper_request_def)

lemma list_step_sends: "sends_properly p (list_step e p)"
proof (cases e)
  case (RoomNameKey key)
  then show ?thesis by (auto intro!: on_bar_sends dest: creates_properly)
next
  case CreateRoomClick
  then show ?thesis by (auto intro!: on_bar_sends dest: creates_properly)
next
  case (PickPeer i)
  have "sends_properly p (on_bar (handleStartDM i) p)"
    if "i \<in> peer_id ` set (concat (js_values (meshPeers (pane_store p))))"
    using proper_start_dm [OF that] by (intro on_bar_sends) (auto simp: handleStartDM_def)
  then show ?thesis unfolding PickPeer list_step.simps by (simp del: set_concat)
next
  case (DiscoverClick nm)
  then show ?thesis
    by (auto simp: say_def sends_properly_def proper_request_def handleJoinDiscoveredRoom_def discoverableRooms_def)
next
  case (ChannelNameKey key)
  then show ?thesis by (auto intro!: on_form_sends dest: handleCreateChannel_out)
next
  case AddChannelClick
  then show ?thesis by (auto intro!: on_form_sends dest: handleCreateChannel_out)
next
  case (ChannelNameText t)
  then show ?thesis by (auto intro!: on_form_sends split: prod.splits)
next
  case ToggleChannelForm
  then show ?thesis by (auto intro!: on_form_sends split: prod.splits)
qed (auto intro!: on_bar_sends simp: put_store_def)


definition make_ops :: "list_event list" where
  "make_ops = [ToggleCreateRoom, RoomNameText '' ops'', RoomNameKey ''Enter'']"


end
