(* ===== verification/ServerMap.thy ===== *)
theory ServerMap
  imports VoiceRoom
begin

text \<open>
  The map of a room on the server (\<open>server/room.go\<close>, \<open>server/client.go\<close> and the marker methods of
  \<open>server/hub.go\<close>): the positions its members and their Bluetooth peers share, the contacts of the
  ATAK bridge, and the markers. Sending them on to the bridge itself is not modelled. Times are
  milliseconds as naturals, coordinates exact reals.
\<close>

section \<open>State\<close>

record hub_client =
  hc_id :: string
  hc_name :: string
  hc_transport :: string
  hc_preferred :: string
  hc_latency :: int
  hc_since :: nat
  hc_cot :: string

text \<open>The client objects by their ids; the short id of one is the first twelve digits.\<close>

type_synonym directory = "string \<Rightarrow> hub_client"

definition directory_ok :: "directory \<Rightarrow> bool" where
  "directory_ok who \<longleftrightarrow> (\<forall>i. hc_id (who i) = i)"

definition NewClient :: "string \<Rightarrow> nat \<Rightarrow> string \<Rightarrow> hub_client" where
  "NewClient key now name =
     \<lparr> hc_id = key, hc_name = (if name = [] then ''anon-'' @ take 12 key else name), hc_transport = ''tcp'',
       hc_preferred = [], hc_latency = 0, hc_since = now, hc_cot = ''a-f-G-U-C'' \<rparr>"

record go_position =
  ps_lat :: num
  ps_lon :: num
  ps_hae :: num
  ps_ce :: num
  ps_time :: nat

record ble_contact =
  bl_id :: string
  bl_name :: string
  bl_position :: go_position

record atak_contact =
  ak_uid :: string
  ak_callsign :: string
  ak_type :: string
  ak_position :: go_position

record go_contact =
  gk_uid :: string
  gk_callsign :: string
  gk_short :: string
  gk_type :: string
  gk_lat :: num
  gk_lon :: num
  gk_hae :: num
  gk_ce :: num
  gk_time :: nat
  gk_stale :: nat

record go_marker =
  gm_id :: string
  gm_creator :: string
  gm_creator_name :: string
  gm_lat :: num
  gm_lon :: num
  gm_name :: string
  gm_icon :: string
  gm_color :: string
  gm_type :: string
  gm_time :: nat
  gm_remarks :: string

text \<open>
  A room without its conversation, which is \<open>go_room\<close>. The maps of positions and markers list their
  entries in the order of insertion; Go walks a map in any order, and nothing below rests on it.
  \<open>Hae\<close>, \<open>Ce\<close>, \<open>Le\<close>, \<open>How\<close> and \<open>Stale\<close> of a marker are the same for all and are written out where
  a marker is sent.
\<close>

record hub_room =
  hr_name :: string
  hr_public :: bool
  hr_dm :: "(string \<times> string) option"
  hr_voice :: voice_room
  hr_positions :: "(string \<times> go_position) list"
  hr_ble :: "(string \<times> ble_contact) list"
  hr_atak :: "(string \<times> atak_contact) list"
  hr_markers :: "(string \<times> go_marker) list"

abbreviation hr_hex :: "hub_room \<Rightarrow> string" where
  "hr_hex r \<equiv> vr_hex (hr_voice r)"

abbreviation hr_members :: "hub_room \<Rightarrow> string list" where
  "hr_members r \<equiv> vr_members (hr_voice r)"

definition NewRoom :: "string \<Rightarrow> string \<Rightarrow> string \<Rightarrow> hub_room" where
  "NewRoom hex uuid name =
     \<lparr> hr_name = name, hr_public = True, hr_dm = None,
       hr_voice = \<lparr>vr_hex = hex, vr_members = [], vr_channels = [NewVoiceChannel uuid ''General'']\<rparr>,
       hr_positions = [], hr_ble = [], hr_atak = [], hr_markers = [] \<rparr>"

section \<open>Positions and contacts\<close>

definition SetCotPosition :: "string \<Rightarrow> go_position \<Rightarrow> hub_room \<Rightarrow> hub_room" where
  "SetCotPosition c pos r = r\<lparr>hr_positions := js_set c pos (hr_positions r)\<rparr>"

definition SetBleCotPosition :: "string \<Rightarrow> string \<Rightarrow> go_position \<Rightarrow> hub_room \<Rightarrow> hub_room" where
  "SetBleCotPosition sid sname pos r =
     r\<lparr>hr_ble := js_set sid \<lparr>bl_id = sid, bl_name = sname, bl_position = pos\<rparr> (hr_ble r)\<rparr>"

definition ClearBleCotPosition :: "string \<Rightarrow> hub_room \<Rightarrow> hub_room" where
  "ClearBleCotPosition sid r = r\<lparr>hr_ble := js_delete sid (hr_ble r)\<rparr>"

definition SetExternalCotPosition :: "string \<Rightarrow> string \<Rightarrow> string \<Rightarrow> go_position \<Rightarrow> hub_room \<Rightarrow> hub_room" where
  "SetExternalCotPosition i sign t pos r =
     r\<lparr>hr_atak := js_set i \<lparr>ak_uid = i, ak_callsign = sign, ak_type = t, ak_position = pos\<rparr> (hr_atak r)\<rparr>"

definition at_position :: "string \<Rightarrow> string \<Rightarrow> string \<Rightarrow> nat \<Rightarrow> go_position \<Rightarrow> go_contact" where
  "at_position i sign t life pos =
     \<lparr> gk_uid = i, gk_callsign = sign, gk_short = take 12 i, gk_type = t, gk_lat = ps_lat pos, gk_lon = ps_lon pos,
       gk_hae = ps_hae pos, gk_ce = ps_ce pos, gk_time = ps_time pos, gk_stale = ps_time pos + life \<rparr>"

definition toCotContact :: "hub_client \<Rightarrow> go_position option \<Rightarrow> go_contact" where
  "toCotContact c pos =
     (case pos of
        None \<Rightarrow> \<lparr> gk_uid = hc_id c, gk_callsign = hc_name c, gk_short = take 12 (hc_id c), gk_type = hc_cot c,
                  gk_lat = 0, gk_lon = 0, gk_hae = 0, gk_ce = 0,
                  gk_time = hc_since c, gk_stale = hc_since c + 86400000 \<rparr>
      | Some p \<Rightarrow> at_position (hc_id c) (hc_name c) (hc_cot c) 30000 p)"

definition GetCotContacts :: "directory \<Rightarrow> string option \<Rightarrow> hub_room \<Rightarrow> go_contact list" where
  "GetCotContacts who exclude r =
     map (\<lambda>c. toCotContact (who c) (js_get (hr_positions r) c)) (filter (\<lambda>c. Some c \<noteq> exclude) (hr_members r)) @
     map (\<lambda>b. at_position (bl_id b) (bl_name b) ''a-f-G-U-C'' 30000 (bl_position b)) (js_values (hr_ble r)) @
     map (\<lambda>x. at_position (ak_uid x) (ak_callsign x) (ak_type x) 60000 (ak_position x)) (js_values (hr_atak r))"

section \<open>Markers\<close>

definition AddMarker :: "go_marker \<Rightarrow> hub_room \<Rightarrow> hub_room" where
  "AddMarker m r = r\<lparr>hr_markers := js_set (gm_id m) m (hr_markers r)\<rparr>"

definition DeleteMarker :: "string \<Rightarrow> hub_room \<Rightarrow> hub_room option" where
  "DeleteMarker i r =
     (case js_get (hr_markers r) i of
        None \<Rightarrow> None
      | Some _ \<Rightarrow> Some (r\<lparr>hr_markers := js_delete i (hr_markers r)\<rparr>))"

definition GetMarkers :: "hub_room \<Rightarrow> go_marker list" where
  "GetMarkers r = js_values (hr_markers r)"

definition marker_cot_type_of :: "string \<Rightarrow> string \<Rightarrow> string" where
  "marker_cot_type_of t icon =
     (if t \<noteq> [] then t
      else if icon = ''rally'' then ''b-m-p-s-m''
      else if icon = ''objective'' then ''b-m-p-s-p-i''
      else if icon = ''hazard'' then ''b-m-p-s-m''
      else if icon = ''waypoint'' then ''b-m-p-w''
      else if icon = ''info'' then ''b-m-p-s-p-i''
      else ''b-m-p-s-m'')"

section \<open>Frames\<close>

definition go_contact_json :: "go_contact \<Rightarrow> jsval" where
  "go_contact_json k =
     JObj [(''uid'', JStr (gk_uid k)), (''callsign'', JStr (gk_callsign k)), (''short_id'', JStr (gk_short k)),
           (''cot_type'', JStr (gk_type k)), (''lat'', JNum (gk_lat k)), (''lon'', JNum (gk_lon k)),
           (''hae'', JNum (gk_hae k)), (''ce'', JNum (gk_ce k)), (''time'', JNum (real (gk_time k))),
           (''stale'', JNum (real (gk_stale k)))]"

definition go_marker_json :: "go_marker \<Rightarrow> jsval" where
  "go_marker_json m =
     JObj [(''id'', JStr (gm_id m)), (''creator_id'', JStr (gm_creator m)), (''creator_name'', JStr (gm_creator_name m)),
           (''lat'', JNum (gm_lat m)), (''lon'', JNum (gm_lon m)), (''hae'', JNum 0), (''ce'', JNum 999999),
           (''le'', JNum 999999), (''name'', JStr (gm_name m)), (''icon'', JStr (gm_icon m)), (''color'', JStr (gm_color m)),
           (''cot_type'', JStr (gm_type m)), (''how'', JStr ''h-e''), (''created_at'', JNum (real (gm_time m))),
           (''stale'', JNum (real (gm_time m + 86400000))), (''remarks'', JStr (gm_remarks m))]"

text \<open>A slice that was only declared is nil when nothing was appended, and nil is written as null.\<close>

definition go_slice :: "jsval list \<Rightarrow> jsval" where
  "go_slice xs = (if xs = [] then JNull else JArr xs)"

definition go_cot_state :: "directory \<Rightarrow> string \<Rightarrow> hub_room \<Rightarrow> jsval" where
  "go_cot_state who c r =
     go_frame ''cot_state'' [(''room_id'', JStr (hr_hex r)), (''self_id'', JStr c),
       (''contacts'', go_slice (map go_contact_json (GetCotContacts who (Some c) r))),
       (''markers'', JArr (map go_marker_json (GetMarkers r)))]"

definition broadcastCotState :: "directory \<Rightarrow> hub_room \<Rightarrow> addressed" where
  "broadcastCotState who r = map (\<lambda>c. (c, go_cot_state who c r)) (hr_members r)"

section \<open>Requests\<close>

text \<open>A number that is missing or null is 0, anything else fails the request.\<close>

fun go_num :: "jsval \<Rightarrow> num option" where
  "go_num JUndefined = Some 0"
| "go_num JNull = Some 0"
| "go_num (JNum x) = Some x"
| "go_num _ = None"

fun go_nums :: "jsval \<Rightarrow> string list \<Rightarrow> num list option" where
  "go_nums d [] = Some []"
| "go_nums d (k # ks) =
     (case (go_num (js_prop d k), go_nums d ks) of (Some x, Some xs) \<Rightarrow> Some (x # xs) | _ \<Rightarrow> None)"

record marker_request =
  rq_hex :: string
  rq_name :: string
  rq_icon :: string
  rq_color :: string
  rq_type :: string
  rq_remarks :: string
  rq_sender :: string
  rq_sender_name :: string
  rq_lat :: num
  rq_lon :: num

definition read_marker_request :: "jsval \<Rightarrow> marker_request option" where
  "read_marker_request d =
     (case (go_strings d [''room_id'', ''name'', ''icon'', ''color'', ''cot_type'', ''remarks'', ''sender_id'', ''sender_name''],
            go_nums d [''lat'', ''lon'']) of
        (Some [hex, name, icon, color, t, rem, sid, sname], Some [la, lo]) \<Rightarrow>
          Some \<lparr> rq_hex = hex, rq_name = name, rq_icon = icon, rq_color = color, rq_type = t, rq_remarks = rem,
                 rq_sender = sid, rq_sender_name = sname, rq_lat = la, rq_lon = lo \<rparr>
      | _ \<Rightarrow> None)"

definition requested_marker :: "string \<Rightarrow> nat \<Rightarrow> string \<Rightarrow> string \<Rightarrow> marker_request \<Rightarrow> go_marker" where
  "requested_marker uuid now creator cname q =
     \<lparr> gm_id = uuid, gm_creator = creator, gm_creator_name = cname, gm_lat = rq_lat q, gm_lon = rq_lon q,
       gm_name = rq_name q, gm_icon = rq_icon q, gm_color = rq_color q, gm_type = marker_cot_type_of (rq_type q) (rq_icon q),
       gm_time = now, gm_remarks = rq_remarks q \<rparr>"

definition tell_room :: "hub_room \<Rightarrow> jsval \<Rightarrow> addressed" where
  "tell_room r f = map (\<lambda>c. (c, f)) (hr_members r)"

definition marker_created_frame :: "string \<Rightarrow> go_marker \<Rightarrow> jsval" where
  "marker_created_frame hex m = go_frame ''marker_created'' [(''room_id'', JStr hex), (''marker'', go_marker_json m)]"

definition CreateMapMarker :: "string \<Rightarrow> nat \<Rightarrow> hub_client \<Rightarrow> marker_request \<Rightarrow> hub_room \<Rightarrow> hub_room \<times> addressed" where
  "CreateMapMarker uuid now c q r =
     (if \<not> voice_may_use (hr_voice r) (hc_id c) (rq_hex q) then (r, [(hc_id c, go_error ''room not found'')])
      else let m = requested_marker uuid now (hc_id c) (hc_name c) q; r' = AddMarker m r
           in (r', tell_room r' (marker_created_frame (rq_hex q) m)))"

text \<open>The peer a relay makes a marker for is who the request says; nothing is looked up.\<close>

definition CreateMapMarkerFromRelay ::
  "string \<Rightarrow> nat \<Rightarrow> hub_client \<Rightarrow> marker_request \<Rightarrow> hub_room \<Rightarrow> (hub_room \<times> addressed) option" where
  "CreateMapMarkerFromRelay uuid now rl q r =
     (if \<not> voice_may_use (hr_voice r) (hc_id rl) (rq_hex q) \<or> rq_sender q = [] then None
      else let m = requested_marker uuid now (rq_sender q)
                     (if rq_sender_name q = [] then ''BLE Peer'' else rq_sender_name q) q;
               r' = AddMarker m r
           in Some (r', tell_room r' (marker_created_frame (rq_hex q) m)))"

definition serve_create_marker :: "string \<Rightarrow> nat \<Rightarrow> hub_client \<Rightarrow> jsval \<Rightarrow> hub_room \<Rightarrow> hub_room \<times> addressed" where
  "serve_create_marker uuid now c d r =
     (case read_marker_request d of
        None \<Rightarrow> (r, [])
      | Some q \<Rightarrow>
          if rq_name q = [] then (r, [])
          else if rq_sender q \<noteq> [] then
            (case CreateMapMarkerFromRelay uuid now c q r of
               Some res \<Rightarrow> res
             | None \<Rightarrow> (r, [(hc_id c, go_error ''BLE peer not found'')]))
          else CreateMapMarker uuid now c q r)"

definition DeleteMapMarker :: "string \<Rightarrow> string \<Rightarrow> string \<Rightarrow> hub_room \<Rightarrow> hub_room \<times> addressed" where
  "DeleteMapMarker c hex mid r =
     (if \<not> voice_may_use (hr_voice r) c hex then (r, [])
      else (case js_get (hr_markers r) mid of
              None \<Rightarrow> (r, [])
            | Some m \<Rightarrow>
                if gm_creator m \<noteq> c then (r, [(c, go_error ''only the marker creator can delete it'')])
                else (case DeleteMarker mid r of
                        None \<Rightarrow> (r, [])
                      | Some r' \<Rightarrow>
                          (r', tell_room r' (go_frame ''marker_deleted'' [(''room_id'', JStr hex), (''marker_id'', JStr mid)])))))"

definition serve_delete_marker :: "hub_client \<Rightarrow> jsval \<Rightarrow> hub_room \<Rightarrow> hub_room \<times> addressed" where
  "serve_delete_marker c d r =
     (case go_strings d [''room_id'', ''marker_id''] of
        Some [hex, mid] \<Rightarrow> if mid = [] then (r, []) else DeleteMapMarker (hc_id c) hex mid r
      | _ \<Rightarrow> (r, []))"

text \<open>
  A position: it may carry a new type for the client, and is that of a Bluetooth peer when the
  request names one. Nothing is sent; the next broadcast of the state tells it.
\<close>

definition serve_position :: "nat \<Rightarrow> hub_client \<Rightarrow> jsval \<Rightarrow> hub_room \<Rightarrow> hub_room \<times> hub_client" where
  "serve_position now c d r =
     (case (go_strings d [''room_id'', ''cot_type'', ''sender_id'', ''sender_name''],
            go_nums d [''lat'', ''lon'', ''hae'', ''ce'']) of
        (Some [hex, t, sid, sname], Some [la, lo, ha, acc]) \<Rightarrow>
          if \<not> voice_may_use (hr_voice r) (hc_id c) hex then (r, c)
          else let c' = (if t \<noteq> [] then c\<lparr>hc_cot := t\<rparr> else c);
                   pos = \<lparr>ps_lat = la, ps_lon = lo, ps_hae = ha, ps_ce = acc, ps_time = now\<rparr>
               in (if sid \<noteq> [] \<and> sname \<noteq> [] then SetBleCotPosition sid sname pos r
                   else SetCotPosition (hc_id c) pos r, c')
      | _ \<Rightarrow> (r, c))"

section \<open>What the client reads\<close>

definition web_contact :: "go_contact \<Rightarrow> cot_contact" where
  "web_contact k =
     \<lparr> contact_sender_id = None, uid = gk_uid k, callsign = gk_callsign k, contact_short_id = gk_short k,
       contact_cot_type = gk_type k, contact_lat = gk_lat k, contact_lon = gk_lon k, contact_hae = gk_hae k,
       contact_ce = gk_ce k, contact_time = real (gk_time k), contact_stale = real (gk_stale k) \<rparr>"

definition web_marker :: "go_marker \<Rightarrow> cot_marker" where
  "web_marker m =
     \<lparr> marker_id = gm_id m, creator_id = gm_creator m, creator_name = gm_creator_name m, marker_lat = gm_lat m,
       marker_lon = gm_lon m, marker_hae = 0, marker_ce = 999999, marker_le = 999999, marker_name = gm_name m,
       marker_icon = gm_icon m, marker_color = gm_color m, marker_cot_type = gm_type m, how = ''h-e'',
       created_at = real (gm_time m), marker_stale = real (gm_time m + 86400000), remarks = gm_remarks m \<rparr>"

definition reads_map :: "views \<Rightarrow> bool" where
  "reads_map V \<longleftrightarrow>
     (\<forall>k. as_contact V (go_contact_json k) = web_contact k) \<and> (\<forall>m. as_marker V (go_marker_json m) = web_marker m)"

definition json_contact :: "jsval \<Rightarrow> cot_contact" where
  "json_contact v =
     \<lparr> contact_sender_id = str_prop v ''sender_id'', uid = str_or [] (js_prop v ''uid''),
       callsign = str_or [] (js_prop v ''callsign''), contact_short_id = str_or [] (js_prop v ''short_id''),
       contact_cot_type = str_or [] (js_prop v ''cot_type''), contact_lat = num_or 0 (js_prop v ''lat''),
       contact_lon = num_or 0 (js_prop v ''lon''), contact_hae = num_or 0 (js_prop v ''hae''),
       contact_ce = num_or 0 (js_prop v ''ce''), contact_time = num_or 0 (js_prop v ''time''),
       contact_stale = num_or 0 (js_prop v ''stale'') \<rparr>"

definition json_marker :: "jsval \<Rightarrow> cot_marker" where
  "json_marker v =
     \<lparr> marker_id = str_or [] (js_prop v ''id''), creator_id = str_or [] (js_prop v ''creator_id''),
       creator_name = str_or [] (js_prop v ''creator_name''), marker_lat = num_or 0 (js_prop v ''lat''),
       marker_lon = num_or 0 (js_prop v ''lon''), marker_hae = num_or 0 (js_prop v ''hae''),
       marker_ce = num_or 0 (js_prop v ''ce''), marker_le = num_or 0 (js_prop v ''le''),
       marker_name = str_or [] (js_prop v ''name''), marker_icon = str_or [] (js_prop v ''icon''),
       marker_color = str_or [] (js_prop v ''color''), marker_cot_type = str_or [] (js_prop v ''cot_type''),
       how = str_or [] (js_prop v ''how''), created_at = num_or 0 (js_prop v ''created_at''),
       marker_stale = num_or 0 (js_prop v ''stale''), remarks = str_or [] (js_prop v ''remarks'') \<rparr>"

lemma json_contact_go: "json_contact (go_contact_json k) = web_contact k"
  by (simp add: json_contact_def go_contact_json_def web_contact_def)

lemma json_marker_go: "json_marker (go_marker_json m) = web_marker m"
  by (simp add: json_marker_def go_marker_json_def web_marker_def)

lemma reads_map_ex: "reads_map (V\<lparr>as_contact := json_contact, as_marker := json_marker\<rparr>)"
  by (simp add: reads_map_def json_contact_go json_marker_go)

end
