(* ===== verification/ServerHub.thy ===== *)
theory ServerHub
  imports ServerMap
begin

text \<open>
  The hub of the server (\<open>server/hub.go\<close>): the list of rooms, the mesh each member is told of, and
  the Bluetooth and WiFi Direct peers that clients register as relays, over all rooms. One request,
  one lost connection or one tick is one step. What the methods do to the messages of a room is in
  \<open>ServerRoom\<close>, to its channels in \<open>VoiceRoom\<close>, to its map in \<open>ServerMap\<close>.
\<close>

section \<open>The mesh\<close>

record ble_peer =
  bp_id :: string
  bp_name :: string
  bp_relay :: string
  bp_transport :: string

type_synonym ble_registry = "(string \<times> ble_peer) list"

record go_peer =
  gp_id :: string
  gp_name :: string
  gp_short :: string
  gp_transport :: string
  gp_latency :: int
  gp_state :: string
  gp_since :: nat
  gp_via :: string

definition toMeshPeer :: "hub_client \<Rightarrow> go_peer" where
  "toMeshPeer c =
     \<lparr> gp_id = hc_id c, gp_name = hc_name c, gp_short = take 12 (hc_id c), gp_transport = hc_transport c,
       gp_latency = hc_latency c, gp_state = (if 2000 < hc_latency c then ''degraded'' else ''connected''),
       gp_since = hc_since c, gp_via = [] \<rparr>"

definition GetMeshPeers :: "directory \<Rightarrow> string \<Rightarrow> hub_room \<Rightarrow> go_peer list" where
  "GetMeshPeers who exclude r = map (\<lambda>c. toMeshPeer (who c)) (filter (\<lambda>c. c \<noteq> exclude) (hr_members r))"

definition getBlePeerMeshData :: "ble_registry \<Rightarrow> go_peer list" where
  "getBlePeerMeshData reg =
     map (\<lambda>b. \<lparr> gp_id = bp_id b, gp_name = bp_name b, gp_short = take 12 (bp_id b),
                 gp_transport = (if bp_transport b = [] then ''btle'' else bp_transport b), gp_latency = 0,
                 gp_state = ''connected'', gp_since = 0, gp_via = bp_relay b \<rparr>) (js_values reg)"

definition transportPriority :: "string \<Rightarrow> string \<Rightarrow> nat" where
  "transportPriority t preferred =
     (if t = preferred then 0
      else if t = ''tcp'' then 1
      else if t = ''wifi-direct'' then 2
      else if t = ''btle'' then 3
      else 4)"

text \<open>One round of the loop of \<open>deduplicatePeers\<close>, on the maps \<open>best\<close> and \<open>bestPrio\<close>.\<close>

definition keep_best ::
  "string \<Rightarrow> go_peer \<Rightarrow> (string \<times> go_peer) list \<times> (string \<times> nat) list \<Rightarrow>
     (string \<times> go_peer) list \<times> (string \<times> nat) list" where
  "keep_best preferred p m =
     (case m of (best, bestPrio) \<Rightarrow>
        let prio = transportPriority (gp_transport p) preferred
        in if (case js_get bestPrio (gp_id p) of None \<Rightarrow> True | Some existing \<Rightarrow> prio < existing)
           then (js_set (gp_id p) p best, js_set (gp_id p) prio bestPrio)
           else (best, bestPrio))"

definition deduplicatePeers :: "go_peer list \<Rightarrow> string \<Rightarrow> go_peer list" where
  "deduplicatePeers ps preferred = js_values (fst (fold (keep_best preferred) ps ([], [])))"

definition go_peer_json :: "go_peer \<Rightarrow> jsval" where
  "go_peer_json p =
     JObj ([(''id'', JStr (gp_id p)), (''name'', JStr (gp_name p)), (''short_id'', JStr (gp_short p)),
            (''transport'', JStr (gp_transport p)), (''latency_ms'', JNum (of_int (gp_latency p))),
            (''state'', JStr (gp_state p)), (''connected_at'', JNum (real (gp_since p)))] @
           (if gp_via p = [] then [] else [(''connected_via'', JStr (gp_via p))]))"

definition mesh_peers_for :: "directory \<Rightarrow> ble_registry \<Rightarrow> hub_room \<Rightarrow> string \<Rightarrow> go_peer list" where
  "mesh_peers_for who reg r c =
     deduplicatePeers (GetMeshPeers who c r @ getBlePeerMeshData reg) (hc_preferred (who c))"

definition go_mesh_state :: "directory \<Rightarrow> ble_registry \<Rightarrow> hub_room \<Rightarrow> string \<Rightarrow> jsval" where
  "go_mesh_state who reg r c =
     go_frame ''mesh_state'' [(''room_id'', JStr (hr_hex r)), (''self_id'', JStr c),
       (''peers'', JArr (map go_peer_json (mesh_peers_for who reg r c)))]"

definition broadcastMeshState :: "directory \<Rightarrow> ble_registry \<Rightarrow> hub_room \<Rightarrow> addressed" where
  "broadcastMeshState who reg r = map (\<lambda>c. (c, go_mesh_state who reg r c)) (hr_members r)"

section \<open>The hub\<close>

record server_hub =
  sh_who :: directory
  sh_clients :: "string list"
  sh_peers :: ble_registry
  sh_rooms :: "hub_room list"

definition NewHub :: "directory \<Rightarrow> server_hub" where
  "NewHub who = \<lparr>sh_who = who, sh_clients = [], sh_peers = [], sh_rooms = []\<rparr>"

definition resolveBlePeer :: "string \<Rightarrow> string \<Rightarrow> server_hub \<Rightarrow> ble_peer option" where
  "resolveBlePeer rl pid h =
     (if pid = [] then None
      else (case js_get (sh_peers h) pid of
              None \<Rightarrow> None
            | Some b \<Rightarrow> if bp_relay b = rl then Some b else None))"

definition relayed_by :: "string \<Rightarrow> ble_registry \<Rightarrow> string list" where
  "relayed_by rl reg = map fst (filter (\<lambda>(i, b). bp_relay b = rl) reg)"

definition on_rooms_of :: "string \<Rightarrow> (hub_room \<Rightarrow> hub_room) \<Rightarrow> server_hub \<Rightarrow> server_hub" where
  "on_rooms_of c f h = h\<lparr>sh_rooms := map (\<lambda>r. if c \<in> set (hr_members r) then f r else r) (sh_rooms h)\<rparr>"

definition rooms_of :: "string \<Rightarrow> server_hub \<Rightarrow> hub_room list" where
  "rooms_of c h = filter (\<lambda>r. c \<in> set (hr_members r)) (sh_rooms h)"

section \<open>Bluetooth peers in a room\<close>

text \<open>
  A channel holds the ids of its Bluetooth peers; the name shown for one is that of the object it
  joined with, which frames take from their argument \<open>names\<close>. Ids of peers are not ids of clients.
\<close>

definition on_channels :: "(go_channel \<Rightarrow> go_channel) \<Rightarrow> hub_room \<Rightarrow> hub_room" where
  "on_channels f r = r\<lparr>hr_voice := (hr_voice r)\<lparr>vr_channels := map f (vr_channels (hr_voice r))\<rparr>\<rparr>"

definition leave_ble :: "string \<Rightarrow> go_channel \<Rightarrow> go_channel" where
  "leave_ble pid ch = ch\<lparr>gh_ble := removeAll pid (gh_ble ch), gh_speaking := gh_speaking ch - {pid}\<rparr>"

definition promote_channel :: "string \<Rightarrow> string \<Rightarrow> go_channel \<Rightarrow> go_channel" where
  "promote_channel old pid ch =
     ch\<lparr>gh_ble := (if old \<in> set (gh_ble ch) then List.insert pid (removeAll old (gh_ble ch)) else gh_ble ch),
        gh_speaking := (if old \<in> gh_speaking ch then insert pid (gh_speaking ch - {old}) else gh_speaking ch)\<rparr>"

text \<open>
  \<open>PromoteBlePeer\<close>. A new peer without a name takes the one of the old peer where that sits in a
  channel (\<open>seat\<close>), so the name is threaded through; \<open>UpdateBlePeerName\<close> afterwards only sets names.
\<close>

definition PromoteBlePeer :: "(string \<Rightarrow> string) \<Rightarrow> string \<Rightarrow> string \<Rightarrow> hub_room \<times> string \<Rightarrow> hub_room \<times> string" where
  "PromoteBlePeer seat pid old rp =
     (case rp of (r, pname) \<Rightarrow>
        if old = [] \<or> old = pid then (r, pname)
        else let pname' = (if pname = [] \<and> (\<exists>ch \<in> set (vr_channels (hr_voice r)). old \<in> set (gh_ble ch)) then seat old else pname);
                 r' = on_channels (promote_channel old pid) r
             in (case js_get (hr_ble r') old of
                   None \<Rightarrow> (r', pname')
                 | Some k \<Rightarrow>
                     (r'\<lparr>hr_ble := js_set pid (k\<lparr>bl_id := pid, bl_name := (if pname' = [] then bl_name k else pname')\<rparr>)
                                     (js_delete old (hr_ble r'))\<rparr>, pname')))"

definition RegisterBlePeer ::
  "(string \<Rightarrow> string) \<Rightarrow> (string \<Rightarrow> string) \<Rightarrow> string \<Rightarrow> string \<Rightarrow> string \<Rightarrow> string \<Rightarrow> server_hub \<Rightarrow> server_hub \<times> addressed" where
  "RegisterBlePeer seat names rl pid pname t h =
     (let stale = filter (\<lambda>i. i \<noteq> pid) (relayed_by rl (sh_peers h));
          b = \<lparr>bp_id = pid, bp_name = pname, bp_relay = rl, bp_transport = (if t = [] then ''btle'' else t)\<rparr>;
          reg = js_set pid b (fold js_delete stale (sh_peers h));
          h' = (on_rooms_of rl (\<lambda>r. fst (fold (PromoteBlePeer seat pid) stale (r, pname))) h)\<lparr>sh_peers := reg\<rparr>
      in (h', concat (map (\<lambda>r. broadcastMeshState (sh_who h') reg r @ broadcastVoiceState names (hr_voice r))
                        (rooms_of rl h'))))"

definition UnregisterBlePeer :: "(string \<Rightarrow> string) \<Rightarrow> string \<Rightarrow> string \<Rightarrow> server_hub \<Rightarrow> server_hub \<times> addressed" where
  "UnregisterBlePeer names rl pid h =
     (if resolveBlePeer rl pid h = None then (h, [])
      else let reg = js_delete pid (sh_peers h);
               h' = (on_rooms_of rl (\<lambda>r. ClearBleCotPosition pid (on_channels (leave_ble pid) r)) h)\<lparr>sh_peers := reg\<rparr>
           in (h', concat (map (\<lambda>r. broadcastVoiceState names (hr_voice r) @ broadcastCotState (sh_who h') r @
                                     broadcastMeshState (sh_who h') reg r) (rooms_of rl h'))))"

section \<open>A client is gone\<close>

text \<open>
  First its Bluetooth peers leave the registry and the channels of every room (\<open>LeaveAllBleVoiceChannels\<close>);
  a room that had one in a channel is told. Then it leaves its own rooms.
\<close>

definition drop_ble :: "string list \<Rightarrow> hub_room \<Rightarrow> hub_room" where
  "drop_ble stale = on_channels (\<lambda>ch. fold leave_ble (filter (\<lambda>i. i \<in> set (gh_ble ch)) stale) ch)"

definition had_ble :: "string list \<Rightarrow> hub_room \<Rightarrow> bool" where
  "had_ble stale r \<longleftrightarrow> list_ex (\<lambda>ch. list_ex (\<lambda>i. i \<in> set (gh_ble ch)) stale) (vr_channels (hr_voice r))"

definition peer_update :: "directory \<Rightarrow> string \<Rightarrow> string \<Rightarrow> hub_room \<Rightarrow> jsval" where
  "peer_update who c event r =
     go_frame ''peer_update'' [(''room_id'', JStr (hr_hex r)), (''peer_id'', JStr c), (''name'', JStr (hc_name (who c))),
       (''event'', JStr event), (''members'', JNum (real (length (hr_members r))))]"

definition leave_hub_room :: "directory \<Rightarrow> (string \<Rightarrow> string) \<Rightarrow> ble_registry \<Rightarrow> string \<Rightarrow> hub_room \<Rightarrow> hub_room \<times> addressed" where
  "leave_hub_room who names reg c r =
     (let (v, outs) = removeFromRoom names c (hr_voice r); r' = r\<lparr>hr_voice := v\<rparr>
      in (r', outs @ tell_room r' (peer_update who c ''left'' r') @ broadcastMeshState who reg r'))"

definition client_gone :: "(string \<Rightarrow> string) \<Rightarrow> string \<Rightarrow> server_hub \<Rightarrow> server_hub \<times> addressed" where
  "client_gone names c h =
     (let stale = relayed_by c (sh_peers h);
          reg = fold js_delete stale (sh_peers h);
          told = (if stale = [] then []
                  else concat (map (\<lambda>r. if had_ble stale r then broadcastVoiceState names (hr_voice (drop_ble stale r)) else [])
                                 (sh_rooms h)));
          rooms1 = (if stale = [] then sh_rooms h else map (drop_ble stale) (sh_rooms h));
          left = map (\<lambda>r. if c \<in> set (hr_members r) then leave_hub_room (sh_who h) names reg c r else (r, [])) rooms1
      in (h\<lparr>sh_peers := reg, sh_rooms := map fst left, sh_clients := removeAll c (sh_clients h)\<rparr>,
          told @ concat (map snd left)))"

section \<open>The list of rooms\<close>

definition buildRoomList :: "server_hub \<Rightarrow> jsval" where
  "buildRoomList h =
     go_slice (map (\<lambda>r. JObj [(''room_id'', JStr (hr_hex r)), (''name'', JStr (hr_name r)),
                             (''members'', JNum (real (length (hr_members r)))), (''is_public'', JBool True)])
                 (filter (\<lambda>r. hr_public r \<and> hr_dm r = None) (sh_rooms h)))"

definition room_list_frame :: "server_hub \<Rightarrow> jsval" where
  "room_list_frame h = go_frame ''room_list'' [(''rooms'', buildRoomList h)]"

definition broadcastRoomList :: "server_hub \<Rightarrow> addressed" where
  "broadcastRoomList h = map (\<lambda>c. (c, room_list_frame h)) (sh_clients h)"

text \<open>\<open>hash\<close> is BLAKE3 of the name in hexadecimal; a room that is made gets one channel.\<close>

definition getOrCreateRoom :: "(string \<Rightarrow> string) \<Rightarrow> string \<Rightarrow> string \<Rightarrow> server_hub \<Rightarrow> server_hub" where
  "getOrCreateRoom hash uuid name h =
     (if list_ex (\<lambda>r. hr_hex r = hash name) (sh_rooms h) then h
      else h\<lparr>sh_rooms := sh_rooms h @ [NewRoom (hash name) uuid name]\<rparr>)"

definition on_room :: "string \<Rightarrow> (hub_room \<Rightarrow> hub_room) \<Rightarrow> server_hub \<Rightarrow> server_hub" where
  "on_room hex f h = h\<lparr>sh_rooms := map (\<lambda>r. if hr_hex r = hex then f r else r) (sh_rooms h)\<rparr>"

definition hub_room_at :: "string \<Rightarrow> server_hub \<Rightarrow> hub_room option" where
  "hub_room_at hex h = find (\<lambda>r. hr_hex r = hex) (sh_rooms h)"

text \<open>
  Joining a room: the new member is told of its channels and of its map if there is anything on it,
  the others of the new member, all of the mesh, and every client of the rooms. The two frames about
  the conversation, sent first, are those of \<open>ServerRoom\<close>.
\<close>

definition enter_room :: "string \<Rightarrow> hub_room \<Rightarrow> hub_room" where
  "enter_room c r = r\<lparr>hr_voice := (hr_voice r)\<lparr>vr_members := List.insert c (hr_members r)\<rparr>\<rparr>"

definition may_enter :: "string \<Rightarrow> hub_room \<Rightarrow> bool" where
  "may_enter c r \<longleftrightarrow> (case hr_dm r of None \<Rightarrow> True | Some (a, b) \<Rightarrow> c = a \<or> c = b)"

definition welcome_frames :: "(string \<Rightarrow> string) \<Rightarrow> string \<Rightarrow> hub_room \<Rightarrow> server_hub \<Rightarrow> addressed" where
  "welcome_frames names c r h =
     (c, go_voice_state names (hr_voice r)) #
     (if GetCotContacts (sh_who h) (Some c) r \<noteq> [] \<or> GetMarkers r \<noteq> [] then [(c, go_cot_state (sh_who h) c r)] else []) @
     map (\<lambda>k. (k, peer_update (sh_who h) c ''joined'' r)) (filter (\<lambda>k. k \<noteq> c) (hr_members r)) @
     broadcastMeshState (sh_who h) (sh_peers h) r @ broadcastRoomList h"

definition hub_join ::
  "(string \<Rightarrow> string) \<Rightarrow> (string \<Rightarrow> string) \<Rightarrow> string \<Rightarrow> string \<Rightarrow> string \<Rightarrow> server_hub \<Rightarrow> server_hub \<times> addressed" where
  "hub_join hash names uuid c name h =
     (let h1 = getOrCreateRoom hash uuid name h
      in (case hub_room_at (hash name) h1 of
            None \<Rightarrow> (h1, [])
          | Some r \<Rightarrow>
              if \<not> may_enter c r then (h1, [(c, go_error ''cannot join private conversation'')])
              else let h2 = on_room (hash name) (enter_room c) h1
                   in (h2, welcome_frames names c (enter_room c r) h2)))"

text \<open>\<open>create_room\<close> sets whether the room is public also when the room is there already.\<close>

definition hub_create ::
  "(string \<Rightarrow> string) \<Rightarrow> (string \<Rightarrow> string) \<Rightarrow> string \<Rightarrow> string \<Rightarrow> string \<Rightarrow> bool \<Rightarrow> server_hub \<Rightarrow> server_hub \<times> addressed" where
  "hub_create hash names uuid c name public h =
     (if name = [] then (h, [])
      else let h1 = on_room (hash name) (\<lambda>r. r\<lparr>hr_public := public\<rparr>) (getOrCreateRoom hash uuid name h);
               (h2, outs) = hub_join hash names uuid c name h1
           in (h2, outs @ (if public then broadcastRoomList h2 else [])))"

section \<open>The ticker\<close>

definition mesh_tick :: "(string \<Rightarrow> string) \<Rightarrow> server_hub \<Rightarrow> addressed" where
  "mesh_tick names h =
     concat (map (\<lambda>r. broadcastMeshState (sh_who h) (sh_peers h) r @ broadcastVoiceState names (hr_voice r) @
                       broadcastCotState (sh_who h) r) (sh_rooms h))"

section \<open>What the client reads\<close>

definition web_peer :: "go_peer \<Rightarrow> mesh_peer" where
  "web_peer p =
     \<lparr> peer_id = gp_id p, peer_name = gp_name p, peer_short_id = gp_short p, transport = gp_transport p,
       latency_ms = of_int (gp_latency p), peer_state = (if gp_state p = ''degraded'' then Degraded else Connected),
       connected_at = real (gp_since p), connected_via = (if gp_via p = [] then None else Some (gp_via p)) \<rparr>"

definition reads_mesh :: "views \<Rightarrow> bool" where
  "reads_mesh V \<longleftrightarrow> (\<forall>p. as_mesh_peer V (go_peer_json p) = web_peer p)"

definition json_peer :: "jsval \<Rightarrow> mesh_peer" where
  "json_peer v =
     \<lparr> peer_id = str_or [] (js_prop v ''id''), peer_name = str_or [] (js_prop v ''name''),
       peer_short_id = str_or [] (js_prop v ''short_id''), transport = str_or [] (js_prop v ''transport''),
       latency_ms = num_or 0 (js_prop v ''latency_ms''),
       peer_state = (if js_prop v ''state'' = JStr ''degraded'' then Degraded else Connected),
       connected_at = num_or 0 (js_prop v ''connected_at''), connected_via = str_prop v ''connected_via'' \<rparr>"

lemma json_peer_go: "json_peer (go_peer_json p) = web_peer p"
  by (simp add: json_peer_def go_peer_json_def web_peer_def)

lemma reads_mesh_ex: "reads_mesh (V\<lparr>as_mesh_peer := json_peer\<rparr>)"
  by (simp add: reads_mesh_def json_peer_go)

end
