(* ===== verification/RelayVoice.thy ===== *)
theory RelayVoice
  imports ServerHub
begin

text \<open>
  Requests about a voice channel that a client makes for a Bluetooth peer (the \<open>FromRelay\<close> methods of
  \<open>server/hub.go\<close>): the requests with a \<open>sender_id\<close> that \<open>serve_voice\<close> of \<open>VoiceRoom\<close> leaves to them.
\<close>

section \<open>The methods\<close>

definition resolve_in :: "ble_registry \<Rightarrow> string \<Rightarrow> string \<Rightarrow> ble_peer option" where
  "resolve_in reg rl pid =
     (if pid = [] then None
      else (case js_get reg pid of None \<Rightarrow> None | Some b \<Rightarrow> if bp_relay b = rl then Some b else None))"

definition has_ble :: "string \<Rightarrow> string \<Rightarrow> voice_room \<Rightarrow> bool" where
  "has_ble cid pid r \<longleftrightarrow> (case find_channel cid r of None \<Rightarrow> False | Some ch \<Rightarrow> pid \<in> set (gh_ble ch))"

definition named_so :: "voice_room \<Rightarrow> string \<Rightarrow> bool" where
  "named_so r hex \<longleftrightarrow> vr_hex r = hex \<or> take 16 (vr_hex r) = hex"

text \<open>The others in the channel are told, but not the relay.\<close>

definition tell_channel :: "string \<Rightarrow> string \<Rightarrow> voice_room \<Rightarrow> jsval \<Rightarrow> addressed" where
  "tell_channel rl cid r f = map (\<lambda>m. (m, f)) (filter (\<lambda>m. m \<noteq> rl) (go_channel_members cid r))"

definition JoinVoiceFromRelay ::
  "(string \<Rightarrow> string) \<Rightarrow> string \<Rightarrow> string \<Rightarrow> string \<Rightarrow> string \<Rightarrow> string \<Rightarrow> ble_registry \<Rightarrow> voice_room \<Rightarrow>
     ble_registry \<times> voice_room \<times> addressed" where
  "JoinVoiceFromRelay names rl hex cid pid pname reg r =
     (if \<not> voice_may_use r rl hex then (reg, r, [])
      else (case resolve_in reg rl pid of
              None \<Rightarrow> (reg, r, [])
            | Some b \<Rightarrow>
                let b' = (if pname = [] then b else b\<lparr>bp_name := pname\<rparr>); reg' = js_set pid b' reg
                in if find_channel cid r = None then (reg', r, [])
                   else let r' = on_channel cid (\<lambda>ch. ch\<lparr>gh_ble := List.insert (bp_id b') (gh_ble ch)\<rparr>) r
                        in (reg', r', tell_channel rl cid r' (voice_notice ''voice_peer_joined'' (vr_hex r') cid (bp_id b')
                                         [(''name'', JStr (bp_name b'))]) @
                                      broadcastVoiceState names r')))"

text \<open>Leaving and speaking look for the peer in the channel only, not for whose it is.\<close>

definition LeaveVoiceFromRelay ::
  "(string \<Rightarrow> string) \<Rightarrow> string \<Rightarrow> string \<Rightarrow> string \<Rightarrow> string \<Rightarrow> voice_room \<Rightarrow> voice_room \<times> addressed" where
  "LeaveVoiceFromRelay names rl hex cid pid r =
     (if \<not> named_so r hex \<or> \<not> has_ble cid pid r then (r, [])
      else let r' = on_channel cid (leave_ble pid) r
           in (r', tell_channel rl cid r' (voice_notice ''voice_peer_left'' hex cid pid []) @ broadcastVoiceState names r'))"

definition BroadcastVoiceSpeakingFromRelay ::
  "string \<Rightarrow> string \<Rightarrow> string \<Rightarrow> string \<Rightarrow> bool \<Rightarrow> voice_room \<Rightarrow> voice_room \<times> addressed" where
  "BroadcastVoiceSpeakingFromRelay rl hex cid pid talks r =
     (if \<not> voice_may_use r rl hex \<or> \<not> has_ble cid pid r then (r, [])
      else let r' = on_channel cid (\<lambda>ch. ch\<lparr>gh_speaking := (if talks then insert pid (gh_speaking ch) else gh_speaking ch - {pid})\<rparr>) r
           in (r', tell_channel rl cid r' (voice_notice ''voice_speaking_broadcast'' hex cid pid [(''speaking'', JBool talks)])))"

text \<open>The requests that come here: those for a channel with a sender.\<close>

definition serve_for_peer ::
  "(string \<Rightarrow> string) \<Rightarrow> string \<Rightarrow> out_msg \<Rightarrow> ble_registry \<Rightarrow> voice_room \<Rightarrow> (ble_registry \<times> voice_room \<times> addressed) option" where
  "serve_for_peer names rl m reg r =
     (case m of Out t d \<Rightarrow>
        (case go_strings d [''room_id'', ''channel_id'', ''sender_id''] of
           Some [hex, cid, sid] \<Rightarrow>
             if cid = [] \<or> sid = [] then None
             else if t = ''join_voice'' then
               (case go_string (js_prop d ''sender_name'') of
                  None \<Rightarrow> None
                | Some sname \<Rightarrow> Some (JoinVoiceFromRelay names rl hex cid sid sname reg r))
             else if t = ''leave_voice'' then Some (reg, LeaveVoiceFromRelay names rl hex cid sid r)
             else if t = ''voice_speaking'' then
               (case go_bool (js_prop d ''speaking'') of
                  None \<Rightarrow> None
                | Some b \<Rightarrow> Some (reg, BroadcastVoiceSpeakingFromRelay rl hex cid sid b r))
             else None
         | _ \<Rightarrow> None))"

section \<open>Every voice request has exactly one handler\<close>

lemma prod_cases3_ex: "\<exists>a b c. x = (a, b, c)"
  by (cases x) auto

text \<open>Every request that \<open>serve_voice\<close> leaves is served here, and no request is served by both.\<close>

lemma voice_requests_split:
  assumes "t \<in> {''join_voice'', ''leave_voice'', ''voice_speaking''}"
  shows "serve_voice names onl uuid c (Out t d) r = None \<longleftrightarrow> serve_for_peer names c (Out t d) reg r \<noteq> None"
proof -
  have types: "t \<notin> fst ` set relay_table" "t \<noteq> ''create_voice_channel''" using assms by (auto simp: relay_table_def)
  let ?k = "[''room_id'', ''channel_id'', ''sender_id'']" and ?n = "go_string (js_prop d ''sender_name'')"
  have four: "go_strings d [''room_id'', ''channel_id'', ''sender_id'', ''sender_name''] =
      (case go_strings d ?k of None \<Rightarrow> None | Some ks \<Rightarrow> map_option (\<lambda>n. ks @ [n]) ?n)"
    by (simp split: option.split)
  have three: "go_strings d ?k = None \<or> (\<exists>hex cid sid. go_strings d ?k = Some [hex, cid, sid])"
    by (simp split: option.split)
  have "t = ''join_voice'' \<or> t = ''leave_voice'' \<or> t = ''voice_speaking''" using assms by simp
  then show ?thesis using three types
    by (elim disjE exE)
      (simp_all add: serve_voice_def serve_for_peer_def four prod_cases3_ex del: go_strings.simps split: option.split)
qed

section \<open>What they keep\<close>

definition may_be_peer :: "string \<Rightarrow> voice_room \<Rightarrow> bool" where
  "may_be_peer i r \<longleftrightarrow> id_ok i \<and> (\<forall>ch \<in> set (vr_channels r). i \<notin> set (gh_members ch))"

definition registry_ok :: "ble_registry \<Rightarrow> bool" where
  "registry_ok reg \<longleftrightarrow> well_keyed bp_id reg"

lemma resolve_in_id: "registry_ok reg \<Longrightarrow> resolve_in reg rl pid = Some b \<Longrightarrow> bp_id b = pid \<and> bp_relay b = rl \<and> js_get reg pid = Some b"
  by (auto simp: resolve_in_def registry_ok_def dest: well_keyed_get split: if_splits option.splits)

lemma leave_ble_id [simp]: "gh_id (leave_ble pid ch) = gh_id ch"
  by (simp add: leave_ble_def)

lemma leave_ble_wf: "go_channel_wf ch \<Longrightarrow> go_channel_wf (leave_ble pid ch)"
  by (auto simp: leave_ble_def go_channel_wf_def list_all_iff distinct_removeAll)

lemma relay_methods_wf:
  assumes wf: "voice_room_wf r" and reg: "registry_ok reg"
  shows "may_be_peer pid r \<Longrightarrow> voice_room_wf (fst (snd (JoinVoiceFromRelay names rl hex cid pid pname reg r))) \<and>
           registry_ok (fst (JoinVoiceFromRelay names rl hex cid pid pname reg r))"
    and "voice_room_wf (fst (LeaveVoiceFromRelay names rl hex cid pid r))"
    and "voice_room_wf (fst (BroadcastVoiceSpeakingFromRelay rl hex cid pid b r))"
proof -
  show "voice_room_wf (fst (LeaveVoiceFromRelay names rl hex cid pid r))"
    unfolding LeaveVoiceFromRelay_def Let_def using wf by (auto intro!: wf_on_channel leave_ble_wf)
  show "voice_room_wf (fst (BroadcastVoiceSpeakingFromRelay rl hex cid pid b r))"
    unfolding BroadcastVoiceSpeakingFromRelay_def Let_def using wf by (auto intro!: wf_on_channel simp: go_channel_wf_def)
  show "voice_room_wf (fst (snd (JoinVoiceFromRelay names rl hex cid pid pname reg r))) \<and>
      registry_ok (fst (JoinVoiceFromRelay names rl hex cid pid pname reg r))" if p: "may_be_peer pid r"
  proof (cases "resolve_in reg rl pid")
    case (Some b)
    have id: "bp_id b = pid" using resolve_in_id [OF reg Some] by simp
    have "voice_room_wf (on_channel cid (\<lambda>ch. ch\<lparr>gh_ble := List.insert pid (gh_ble ch)\<rparr>) r)"
      using wf p by (auto intro!: wf_on_channel simp: may_be_peer_def go_channel_wf_def list_all_iff)
    moreover have "registry_ok (js_set pid b reg)" "registry_ok (js_set pid (b\<lparr>bp_name := pname\<rparr>) reg)"
      using reg id by (auto simp: registry_ok_def intro!: well_keyed_set)
    ultimately show ?thesis using wf reg id by (simp add: JoinVoiceFromRelay_def Some Let_def)
  qed (use wf reg in \<open>simp add: JoinVoiceFromRelay_def\<close>)
qed

lemma relay_methods_tell:
  "tells_roster names r (snd (JoinVoiceFromRelay names rl hex cid pid pname reg r))"
  "tells_roster names r (LeaveVoiceFromRelay names rl hex cid pid r)"
  "tells_roster names r (BroadcastVoiceSpeakingFromRelay rl hex cid pid b r)"
  by (auto simp: tells_roster_def JoinVoiceFromRelay_def LeaveVoiceFromRelay_def BroadcastVoiceSpeakingFromRelay_def
      go_roster_def Let_def split: option.split)

lemma serve_for_peer_cases:
  assumes "serve_for_peer names rl m reg r = Some (reg', res)"
  obtains (join) hex cid sid sname d where "m = Out ''join_voice'' d" "js_prop d ''sender_id'' = JStr sid"
      "JoinVoiceFromRelay names rl hex cid sid sname reg r = (reg', res)"
    | (leave) hex cid sid where "reg' = reg" "LeaveVoiceFromRelay names rl hex cid sid r = res"
    | (speak) hex cid sid b where "reg' = reg" "BroadcastVoiceSpeakingFromRelay rl hex cid sid b r = res"
proof -
  obtain t d where m: "m = Out t d" by (cases m)
  from assms obtain hex cid sid where
    strs: "go_strings d [''room_id'', ''channel_id'', ''sender_id''] = Some [hex, cid, sid]" and ne: "sid \<noteq> []"
    by (auto simp: serve_for_peer_def m split: option.splits list.splits if_splits)
  from strs have "go_string (js_prop d ''sender_id'') = Some sid" by (auto split: option.splits)
  then have sid: "js_prop d ''sender_id'' = JStr sid" using ne by (cases "js_prop d ''sender_id''") auto
  from assms strs have "(\<exists>sname. t = ''join_voice'' \<and> JoinVoiceFromRelay names rl hex cid sid sname reg r = (reg', res)) \<or>
      reg' = reg \<and> LeaveVoiceFromRelay names rl hex cid sid r = res \<or>
      (\<exists>b. reg' = reg \<and> BroadcastVoiceSpeakingFromRelay rl hex cid sid b r = res)"
    by (auto simp: serve_for_peer_def m split: option.splits if_splits)
  then show ?thesis using m sid join leave speak by blast
qed

lemma serve_for_peer_keeps:
  assumes "voice_room_wf r" and "registry_ok reg" and "serve_for_peer names rl m reg r = Some (reg', res)"
    and "\<And>d sid. m = Out ''join_voice'' d \<Longrightarrow> js_prop d ''sender_id'' = JStr sid \<Longrightarrow> may_be_peer sid r"
  shows "voice_room_wf (fst res) \<and> registry_ok reg' \<and> tells_roster names r res"
  using assms(3)
proof (cases rule: serve_for_peer_cases)
  case (join hex cid sid sname d)
  show ?thesis
    using relay_methods_wf(1) [OF assms(1,2) assms(4) [OF join(1,2)], of names rl hex cid sname]
      relay_methods_tell(1) [of names r rl hex cid sid sname reg] by (simp add: join(3))
next
  case leave
  then show ?thesis using relay_methods_wf(2) [OF assms(1,2)] relay_methods_tell(2) assms(2) by auto
next
  case speak
  then show ?thesis using relay_methods_wf(3) [OF assms(1,2)] relay_methods_tell(3) assms(2) by auto
qed

text \<open>Who sits where, and that a seat that is taken belongs to a peer of the relay that asks.\<close>

definition ble_seats :: "voice_room \<Rightarrow> (string \<times> string) set" where
  "ble_seats r = {(gh_id ch, i) | ch i. ch \<in> set (vr_channels r) \<and> i \<in> set (gh_ble ch)}"

lemma seats_on_channel:
  assumes "\<And>ch. gh_id (f ch) = gh_id ch" and "\<And>ch i. i \<in> set (gh_ble (f ch)) \<Longrightarrow> i \<in> set (gh_ble ch) \<or> P i"
  shows "(c, i) \<in> ble_seats (on_channel cid f r) \<Longrightarrow> (c, i) \<in> ble_seats r \<or> P i"
  using assms by (fastforce simp: ble_seats_def split: if_splits)

lemma serve_for_peer_seats:
  assumes "registry_ok reg" and "serve_for_peer names rl m reg r = Some (reg', res)"
    and "(c, i) \<in> ble_seats (fst res)" and "(c, i) \<notin> ble_seats r"
  shows "\<exists>b. js_get reg i = Some b \<and> bp_relay b = rl"
proof -
  have leave: "ble_seats (fst (LeaveVoiceFromRelay names rl hex cid pid r)) \<subseteq> ble_seats r" for hex cid pid
    using seats_on_channel [of "leave_ble pid" "\<lambda>_. False" _ _ cid r]
    by (auto simp: LeaveVoiceFromRelay_def Let_def leave_ble_def)
  have speak: "ble_seats (fst (BroadcastVoiceSpeakingFromRelay rl hex cid pid b r)) \<subseteq> ble_seats r" for hex cid pid b
    using seats_on_channel [of "\<lambda>ch. ch\<lparr>gh_speaking := (if b then insert pid (gh_speaking ch) else gh_speaking ch - {pid})\<rparr>" "\<lambda>_. False" _ _ cid r]
    by (auto simp: BroadcastVoiceSpeakingFromRelay_def Let_def)
  have taken: "\<exists>b. js_get reg i = Some b \<and> bp_relay b = rl"
    if "(c, i) \<in> ble_seats (fst (snd (JoinVoiceFromRelay names rl hex cid pid pname reg r)))" for hex cid pid pname
  proof (cases "resolve_in reg rl pid")
    case (Some b)
    note b = resolve_in_id [OF assms(1) Some]
    from seats_on_channel [of "\<lambda>ch. ch\<lparr>gh_ble := List.insert pid (gh_ble ch)\<rparr>" "\<lambda>i. i = pid" c i cid r]
    have "i = pid" using that assms(4) b by (auto simp: JoinVoiceFromRelay_def Some Let_def split: if_splits)
    with b show ?thesis by auto
  qed (use that assms(4) in \<open>simp add: JoinVoiceFromRelay_def split: if_splits\<close>)
  from assms(2) show ?thesis
  proof (cases rule: serve_for_peer_cases)
    case (join hex cid sid sname d)
    show ?thesis by (rule taken [of hex cid sid sname]) (use join(3) assms(3) in simp)
  qed (use leave speak assms(3,4) in blast)+
qed

section \<open>Properties\<close>

text \<open>
  C14. A Bluetooth peer is in a voice channel on every screen exactly when it is there on the server:
  a request made for a peer keeps room and registry well formed, and if it changes who is where, a
  member that is sent the answer has, once everything has arrived, exactly the channels and members
  of the server, peers included. And a peer comes into a channel only when its own relay asks for it.
\<close>

theorem relay_rosters_agree:
  assumes "voice_room_wf r" and "registry_ok reg"
    and "\<And>d sid. m = Out ''join_voice'' d \<Longrightarrow> js_prop d ''sender_id'' = JStr sid \<Longrightarrow> may_be_peer sid r"
    and "serve_for_peer names rl m reg r = Some (reg', r', outs)" and "go_roster r' \<noteq> go_roster r"
    and "k \<in> set (vr_members r)" and "cc_sync (post outs cl k) \<noteq> Broken"
  shows "voice_room_wf r' \<and> registry_ok reg' \<and>
     (\<exists>chs. js_get (voiceState (settled V (post outs cl k))) (vr_hex r) = Some chs \<and> roster chs = go_roster r') \<and>
     (\<forall>(ch, i) \<in> ble_seats r' - ble_seats r. \<exists>b. js_get reg i = Some b \<and> bp_relay b = rl)"
proof -
  have "\<forall>(ch, i) \<in> ble_seats r' - ble_seats r. \<exists>b. js_get reg i = Some b \<and> bp_relay b = rl"
    using serve_for_peer_seats [OF assms(2,4)] by auto
  moreover have keeps: "voice_room_wf r' \<and> registry_ok reg' \<and> tells_roster names r (r', outs)"
    using serve_for_peer_keeps [OF assms(1,2,4)] assms(3) by simp
  obtain fs where fs: "frames_to k outs = fs @ [go_voice_state names r']"
    using told_last [of names r "(r', outs)" k] keeps assms(5,6) by auto
  have "js_get (voiceState (settled V (post outs cl k))) (vr_hex r') = Some (map (shown_channel names) (vr_channels r'))"
    unfolding settled_post [OF assms(7)] fs using keeps by (simp add: deliver_voice_state)
  ultimately show ?thesis using keeps by (auto simp: tells_roster_def roster_shown)
qed

lemma relay_rosters_agree_witness:
  "\<forall>V. \<exists>reg' r' outs chs. serve_for_peer id ''a'' (Out ''join_voice'' (JObj [(''room_id'', JStr ''r''), (''channel_id'', JStr ''c''), (''sender_id'', JStr ''p1'')]))
       [(''p1'', \<lparr>bp_id = ''p1'', bp_name = ''Tab'', bp_relay = ''a'', bp_transport = ''btle''\<rparr>)] quiet_voice_room = Some (reg', r', outs) \<and>
     js_get (voiceState (settled V (post outs (\<lambda>_. fresh_client) ''b''))) ''r'' = Some chs \<and> roster chs = [(''c'', [''p1''])]"
proof
  fix V
  let ?reg = "[(''p1'', \<lparr>bp_id = ''p1'', bp_name = ''Tab'', bp_relay = ''a'', bp_transport = ''btle''\<rparr>)]"
  let ?m = "Out ''join_voice'' (JObj [(''room_id'', JStr ''r''), (''channel_id'', JStr ''c''), (''sender_id'', JStr ''p1'')])"
  let ?r' = "quiet_voice_room\<lparr>vr_channels := [\<lparr>gh_id = ''c'', gh_name = ''Ops'', gh_members = [], gh_ble = [''p1''], gh_speaking = {}\<rparr>]\<rparr>"
  let ?outs = "[(''a'', go_voice_state id ?r'), (''b'', go_voice_state id ?r')]"
  have ok: "voice_room_wf quiet_voice_room" "registry_ok ?reg" "may_be_peer ''p1'' quiet_voice_room"
    "''b'' \<in> set (vr_members quiet_voice_room)"
    by (simp_all add: quiet_voice_room_def voice_room_wf_def go_channel_wf_def id_ok_def NewVoiceChannel_def registry_ok_def
        well_keyed_def may_be_peer_def js_trim_def js_space_def)
  have served: "serve_for_peer id ''a'' ?m ?reg quiet_voice_room = Some (?reg, ?r', ?outs)"
    by (simp add: serve_for_peer_def JoinVoiceFromRelay_def voice_may_use_def quiet_voice_room_def resolve_in_def
        NewVoiceChannel_def find_channel_def on_channel_def go_channel_members_def tell_channel_def broadcastVoiceState_def
        List.insert_def Let_def)
  have rosters: "go_roster ?r' = [(''c'', [''p1''])]" "go_roster quiet_voice_room = [(''c'', [])]"
    by (simp_all add: go_roster_def quiet_voice_room_def NewVoiceChannel_def)
  have sync: "cc_sync (post ?outs (\<lambda>_. fresh_client) ''b'') \<noteq> Broken"
    by (simp add: go_send_def fresh_client_def sendBuffer_def Let_def)
  have "\<exists>chs. js_get (voiceState (settled V (post ?outs (\<lambda>_. fresh_client) ''b''))) (vr_hex quiet_voice_room) = Some chs \<and> roster chs = go_roster ?r'"
  proof -
    have "may_be_peer sid quiet_voice_room" if "?m = Out ''join_voice'' d" "js_prop d ''sender_id'' = JStr sid" for d sid
      using that ok(3) by auto
    moreover have "go_roster ?r' \<noteq> go_roster quiet_voice_room" using rosters by simp
    ultimately show ?thesis using relay_rosters_agree [OF ok(1,2) _ served _ ok(4) sync, of V] by blast
  qed
  then show "\<exists>reg' r' outs chs. serve_for_peer id ''a'' ?m ?reg quiet_voice_room = Some (reg', r', outs) \<and>
     js_get (voiceState (settled V (post outs (\<lambda>_. fresh_client) ''b''))) ''r'' = Some chs \<and> roster chs = [(''c'', [''p1''])]"
    unfolding rosters using served by (auto simp: quiet_voice_room_def)
qed

text \<open>Leaving is not checked: anybody connected can take a peer out of a channel of any room.\<close>

lemma peer_removed_by_anybody:
  assumes "named_so r hex" and "has_ble cid pid r" and "distinct (map gh_id (vr_channels r))"
  shows "\<not> has_ble cid pid (fst (LeaveVoiceFromRelay names rl hex cid pid r))"
  using assms by (auto simp: LeaveVoiceFromRelay_def has_ble_def find_on_channel leave_ble_def Let_def split: option.splits)

end
