(* ===== verification/MapProps.thy ===== *)
theory MapProps
  imports ServerMap StoreProps
begin

text \<open>
  The map of a room from end to end: what a client's store holds of markers and contacts after the
  frames of \<open>ServerMap\<close>, and whom the server believes.
\<close>

section \<open>Markers\<close>

definition markers_keyed :: "hub_room \<Rightarrow> bool" where
  "markers_keyed r \<longleftrightarrow> well_keyed gm_id (hr_markers r)"

text \<open>A store shows the markers of the server: each once, and no other.\<close>

definition shows_markers :: "hub_room \<Rightarrow> chat_state \<Rightarrow> bool" where
  "shows_markers r s \<longleftrightarrow>
     (let ms = room_entries (cotMarkers s) (hr_hex r)
      in distinct (map marker_id ms) \<and> set ms = web_marker ` set (GetMarkers r))"

lemma web_marker_id [simp]: "marker_id (web_marker m) = gm_id m"
  by (simp add: web_marker_def)

lemma markers_distinct: "markers_keyed r \<Longrightarrow> distinct (map gm_id (GetMarkers r))"
  by (simp add: markers_keyed_def GetMarkers_def well_keyed_values well_keyed_distinct)

lemma set_values_of:
  assumes "well_keyed key m"
  shows "v \<in> set (js_values m) \<longleftrightarrow> js_get m (key v) = Some v"
proof -
  have "(key v, v) \<in> set m \<longleftrightarrow> v \<in> set (js_values m)"
    using assms by (force simp: well_keyed_def list_all_iff js_values_def)
  then show ?thesis using js_get_Some_iff [OF well_keyed_distinct [OF assms]] by simp
qed

lemma GetMarkers_add:
  "markers_keyed r \<Longrightarrow> js_get (hr_markers r) (gm_id m) = None \<Longrightarrow>
   markers_keyed (AddMarker m r) \<and> set (GetMarkers (AddMarker m r)) = insert m (set (GetMarkers r))"
  using well_keyed_set [of gm_id "hr_markers r" m "gm_id m"]
  by (simp add: markers_keyed_def AddMarker_def GetMarkers_def js_get_keys) (simp add: js_set_append_new js_values_def)

lemma well_keyed_delete: "well_keyed key m \<Longrightarrow> well_keyed key (js_delete k m)"
  by (auto simp: well_keyed_def js_delete_def list_all_iff js_keys_def distinct_map inj_on_def)

lemma GetMarkers_delete:
  assumes "markers_keyed r" and "DeleteMarker i r = Some r'"
  shows "markers_keyed r' \<and> set (GetMarkers r') = {m \<in> set (GetMarkers r). gm_id m \<noteq> i}"
proof -
  have r': "r' = r\<lparr>hr_markers := js_delete i (hr_markers r)\<rparr>"
    using assms(2) by (auto simp: DeleteMarker_def split: option.splits)
  have keyed: "well_keyed gm_id (hr_markers r')" using assms(1) by (simp add: r' markers_keyed_def well_keyed_delete)
  have "m \<in> set (GetMarkers r') \<longleftrightarrow> m \<in> set (GetMarkers r) \<and> gm_id m \<noteq> i" for m
    using keyed assms(1) by (simp add: GetMarkers_def set_values_of markers_keyed_def) (simp add: r')
  with keyed show ?thesis by (auto simp: markers_keyed_def)
qed

lemma deliver_frame:
  "deliver V (go_frame t d) s =
     fst (case map_of ws_switch t of None \<Rightarrow> stored s | Some h \<Rightarrow> h V (JObj d) s)"
  by (simp add: deliver_def go_frame_def ws_onmessage_def Let_def)

lemma deliver_marker_created:
  assumes "reads_map V"
  shows "deliver V (marker_created_frame hex m) s = addCotMarker hex (web_marker m) s"
proof -
  have "truthy (go_marker_json m)" "typeof_object (go_marker_json m)" by (simp_all add: go_marker_json_def)
  then show ?thesis
    using assms by (simp add: marker_created_frame_def deliver_frame ws_switch_def on_marker_created_def need_str_def stored_def
        reads_map_def Let_def)
qed

lemma deliver_marker_deleted:
  "deliver V (go_frame ''marker_deleted'' [(''room_id'', JStr hex), (''marker_id'', JStr mid)]) s = removeCotMarker hex mid s"
  by (simp add: deliver_frame ws_switch_def on_marker_deleted_def need_str_def stored_def)

lemma deliver_go_error: "deliver V (go_error text) s = s"
  by (simp add: go_error_def deliver_frame ws_switch_def stored_def)

lemma arr_go_slice [simp]: "arr_or_empty (go_slice xs) = xs"
  by (simp add: go_slice_def)

lemma deliver_cot_state:
  assumes "reads_map V"
  shows "deliver V (go_cot_state who k r) s =
     setCotMarkers (hr_hex r) (map web_marker (GetMarkers r))
       (setCotContacts (hr_hex r) (map web_contact (GetCotContacts who (Some k) r)) s)"
proof -
  have "map (as_marker V) (map go_marker_json ms) = map web_marker ms"
    "map (as_contact V) (map go_contact_json cs) = map web_contact cs" for ms cs
    using assms by (simp_all add: reads_map_def)
  then show ?thesis
    by (simp add: go_cot_state_def deliver_frame ws_switch_def on_cot_state_def need_str_def stored_def del: map_map)
qed

lemma shows_added:
  assumes "markers_keyed r" and "js_get (hr_markers r) (gm_id m) = None" and "shows_markers r s"
  shows "shows_markers (AddMarker m r) (addCotMarker (hr_hex r) (web_marker m) s)"
proof -
  have new: "gm_id m \<notin> gm_id ` set (GetMarkers r)"
    using assms(1,2) by (auto simp: markers_keyed_def GetMarkers_def set_values_of)
  let ?ms = "room_entries (cotMarkers s) (hr_hex r)"
  have ms: "distinct (map marker_id ?ms)" "set ?ms = web_marker ` set (GetMarkers r)"
    using assms(3) by (simp_all add: shows_markers_def Let_def)
  have fresh: "gm_id m \<notin> marker_id ` set ?ms" using new unfolding ms(2) by (simp add: image_image)
  then have "room_entries (cotMarkers (addCotMarker (hr_hex r) (web_marker m) s)) (hr_hex r) = ?ms @ [web_marker m]"
    by (auto simp: addCotMarker_def Let_def list_ex_iff image_iff)
  moreover have "hr_hex (AddMarker m r) = hr_hex r" by (simp add: AddMarker_def)
  ultimately show ?thesis using GetMarkers_add [OF assms(1,2)] ms fresh by (simp add: shows_markers_def Let_def)
qed

lemma shows_deleted:
  assumes "markers_keyed r" and "DeleteMarker i r = Some r'" and "shows_markers r s"
  shows "shows_markers r' (removeCotMarker (hr_hex r) i s)"
proof -
  have hex: "hr_hex r' = hr_hex r" using assms(2) by (auto simp: DeleteMarker_def split: option.splits)
  have "room_entries (cotMarkers (removeCotMarker (hr_hex r) i s)) (hr_hex r)
      = filter (\<lambda>m. marker_id m \<noteq> i) (room_entries (cotMarkers s) (hr_hex r))"
    by (auto simp: removeCotMarker_def room_entries_def split: option.splits)
  then show ?thesis using GetMarkers_delete [OF assms(1,2)] assms(3) hex
    by (simp add: shows_markers_def Let_def distinct_map_filter) force
qed

text \<open>The requests that change markers, and what they do to the room of the server.\<close>

definition serve_marker :: "string \<Rightarrow> nat \<Rightarrow> hub_client \<Rightarrow> out_msg \<Rightarrow> hub_room \<Rightarrow> hub_room \<times> addressed" where
  "serve_marker uuid now c m r =
     (case m of Out t d \<Rightarrow>
        if t = ''create_marker'' then serve_create_marker uuid now c d r
        else if t = ''delete_marker'' then serve_delete_marker c d r
        else (r, []))"

text \<open>The client names the room by its id, as the pages do.\<close>

definition names_room :: "out_msg \<Rightarrow> string \<Rightarrow> bool" where
  "names_room m hex \<longleftrightarrow> (case m of Out t d \<Rightarrow> js_prop d ''room_id'' = JStr hex)"

inductive marker_change :: "hub_room \<Rightarrow> (hub_room \<times> addressed) \<Rightarrow> bool" for r where
  nothing: "marker_change r (r, [])"
| refused: "marker_change r (r, [(i, go_error text)])"
| made: "js_get (hr_markers r) (gm_id m) = None \<Longrightarrow>
    marker_change r (AddMarker m r, tell_room r (marker_created_frame (hr_hex r) m))"
| gone: "DeleteMarker i r = Some r' \<Longrightarrow>
    marker_change r (r', tell_room r (go_frame ''marker_deleted'' [(''room_id'', JStr (hr_hex r)), (''marker_id'', JStr i)]))"

lemma tell_AddMarker [simp]: "tell_room (AddMarker m r) f = tell_room r f"
  by (simp add: tell_room_def AddMarker_def)

lemma serve_marker_changes:
  assumes "names_room m (hr_hex r)" and "js_get (hr_markers r) uuid = None"
  shows "marker_change r (serve_marker uuid now c m r)"
proof (cases m)
  case (Out t d)
  have new: "js_get (hr_markers r) (gm_id (requested_marker uuid now i n q)) = None" for i n q
    using assms(2) by (simp add: requested_marker_def)
  have hex: "rq_hex q = hr_hex r" if "read_marker_request d = Some q" for q
    using that assms(1) by (auto simp: read_marker_request_def Out names_room_def split: option.splits list.splits)
  have create: "marker_change r (serve_create_marker uuid now c d r)"
    by (auto simp: serve_create_marker_def CreateMapMarkerFromRelay_def CreateMapMarker_def Let_def hex new
        intro: marker_change.intros split: option.split)
  have tell: "tell_room r' f = tell_room r f" if "DeleteMarker i r = Some r'" for i r' f
    using that by (auto simp: DeleteMarker_def tell_room_def split: option.splits)
  have del: "marker_change r (DeleteMapMarker i (hr_hex r) mid r)" for i mid
    by (auto simp: DeleteMapMarker_def tell intro: marker_change.intros split: option.split)
  have "marker_change r (serve_delete_marker c d r)"
    using assms(1) del
    by (auto simp: serve_delete_marker_def Out names_room_def intro: marker_change.intros split: option.splits list.splits)
  with create show ?thesis by (simp add: serve_marker_def Out marker_change.nothing)
qed

lemma frames_to_room:
  assumes "distinct (hr_members r)"
  shows "frames_to k (tell_room r f) = (if k \<in> set (hr_members r) then [f] else [])"
proof -
  have "map snd (filter (\<lambda>p. fst p = k) (map (\<lambda>c. (c, f)) cs)) = (if k \<in> set cs then [f] else [])"
    if "distinct cs" for cs
    using that by (induction cs) auto
  with assms show ?thesis by (simp add: frames_to_def tell_room_def)
qed

lemma marker_change_shown:
  assumes "marker_change r res" and "reads_map V" and "markers_keyed r" and "distinct (hr_members r)"
    and "k \<in> set (hr_members r)" and "shows_markers r s"
  shows "markers_keyed (fst res) \<and> shows_markers (fst res) (fold (deliver V) (frames_to k (snd res)) s)"
  using assms(1)
proof cases
  case (made m)
  then show ?thesis using assms(2-6) GetMarkers_add shows_added by (simp add: frames_to_room deliver_marker_created)
next
  case (gone i r')
  then show ?thesis using assms(2-6) GetMarkers_delete shows_deleted by (simp add: frames_to_room deliver_marker_deleted)
qed (use assms in \<open>simp_all add: frames_to_def deliver_go_error\<close>)


definition ops_room :: hub_room where
  "ops_room = (NewRoom ''r'' ''c'' ''ops'')\<lparr>hr_voice := \<lparr>vr_hex = ''r'', vr_members = [''a'', ''b''], vr_channels = []\<rparr>\<rparr>"

lemma ops_room_simps [simp]:
  "hr_voice ops_room = \<lparr>vr_hex = ''r'', vr_members = [''a'', ''b''], vr_channels = []\<rparr>"
  "hr_markers ops_room = []" "hr_positions ops_room = []" "hr_ble ops_room = []" "hr_atak ops_room = []"
  by (simp_all add: ops_room_def NewRoom_def)


section \<open>Contacts\<close>

text \<open>Of incoming contacts with the same id the last one wins.\<close>

lemma replace_step: "js_get (keyed_step key replace_with x m) = (js_get m)(key x \<mapsto> x)"
  by (simp add: keyed_step_def replace_with_def split: option.split)

lemma replace_last:
  "filter (\<lambda>x. key x = k) xs \<noteq> [] \<Longrightarrow>
   js_get (keyed_merge key replace_with xs m) k = Some (last (filter (\<lambda>x. key x = k) xs))"
proof (induction xs rule: rev_induct)
  case (snoc x xs)
  have step: "keyed_merge key replace_with (xs @ [x]) m = keyed_step key replace_with x (keyed_merge key replace_with xs m)"
    by (simp add: keyed_merge_def)
  show ?case using snoc unfolding step replace_step by auto
qed simp

lemma merge_contacts_last:
  assumes "k \<noteq> []" and "filter (\<lambda>c. contact_key c = k) cs \<noteq> []"
  shows "{d \<in> set (merge_contacts old cs). contact_key d = k} = {last (filter (\<lambda>c. contact_key c = k) cs)}"
proof -
  let ?m = "keyed_merge contact_key replace_with (filter (\<lambda>c. contact_key c \<noteq> []) old) []"
  let ?use = "filter (\<lambda>c. contact_key c \<noteq> []) cs"
  let ?w = "keyed_merge contact_key replace_with ?use ?m" and ?l = "last (filter (\<lambda>c. contact_key c = k) cs)"
  have same: "filter (\<lambda>c. contact_key c = k) ?use = filter (\<lambda>c. contact_key c = k) cs"
    using assms(1) by (simp add: filter_filter cong: conj_cong) (rule filter_cong, auto)
  have wk: "well_keyed contact_key ?w" by (simp add: contacts.merge_well_keyed)
  have l: "contact_key ?l = k" using last_in_set [OF assms(2)] by simp
  have get: "js_get ?w k = Some ?l" using replace_last [of contact_key k ?use ?m] assms(2) unfolding same by simp
  have "d \<in> set (js_values ?w) \<and> contact_key d = k \<longleftrightarrow> d = ?l" for d
    using set_values_of [OF wk, of d] get l by auto
  then show ?thesis by (auto simp: merge_contacts_def Let_def)
qed

definition contact_entries :: "chat_state \<Rightarrow> string \<Rightarrow> string \<Rightarrow> cot_contact set" where
  "contact_entries s rid i = {d \<in> set (room_entries (cotContacts s) rid). contact_key d = i}"

lemma web_contact_key [simp]: "contact_key (web_contact g) = gk_uid g"
  by (simp add: contact_key_def web_contact_def)

lemma told_contact:
  assumes "reads_map V" and "i \<noteq> []" and "filter (\<lambda>g. gk_uid g = i) (GetCotContacts who (Some k) r) \<noteq> []"
  shows "contact_entries (deliver V (go_cot_state who k r) s) (hr_hex r) i
     = {web_contact (last (filter (\<lambda>g. gk_uid g = i) (GetCotContacts who (Some k) r)))}"
proof -
  let ?cs = "GetCotContacts who (Some k) r"
  have f: "filter (\<lambda>c. contact_key c = i) (map web_contact ?cs) = map web_contact (filter (\<lambda>g. gk_uid g = i) ?cs)"
    by (simp add: filter_map comp_def)
  have "{d \<in> set (merge_contacts (room_entries (cotContacts s) (hr_hex r)) (map web_contact ?cs)). contact_key d = i}
      = {last (filter (\<lambda>c. contact_key c = i) (map web_contact ?cs))}"
    by (rule merge_contacts_last [OF assms(2)]) (use assms(3) f in simp)
  then show ?thesis using assms(3)
    by (simp add: contact_entries_def deliver_cot_state [OF assms(1)] setCotMarkers_def setCotContacts_def f last_map)
qed

lemma at_position_uid [simp]: "gk_uid (at_position i sign t life pos) = i"
  by (simp add: at_position_def)

lemma toCotContact_uid [simp]: "gk_uid (toCotContact c pos) = hc_id c"
  by (simp add: toCotContact_def split: option.split)

definition hub_keys_ok :: "hub_room \<Rightarrow> bool" where
  "hub_keys_ok r \<longleftrightarrow> well_keyed bl_id (hr_ble r) \<and> well_keyed ak_uid (hr_atak r) \<and> distinct (hr_members r)"

lemma no_such_value: "well_keyed key m \<Longrightarrow> js_get m i = None \<Longrightarrow> filter (\<lambda>v. key v = i) (js_values m) = []"
  by (auto simp: filter_empty_conv set_values_of)

lemma value_only: "well_keyed key m \<Longrightarrow> js_get m i = Some v \<Longrightarrow> filter (\<lambda>x. key x = i) (js_values m) = [v]"
proof (induction m)
  case (Cons p m)
  have wk: "well_keyed key m" and p: "key (snd p) = fst p" "fst p \<notin> set (js_keys m)"
    using Cons.prems(1) by (auto simp: well_keyed_def case_prod_beta)
  show ?case
  proof (cases "fst p = i")
    case True
    with p have "js_get m i = None" by (simp add: js_get_keys)
    with True p Cons.prems(2) no_such_value [OF wk, of i] show ?thesis by (cases p) simp
  next
    case False
    with Cons.IH [OF wk] Cons.prems(2) p show ?thesis by (cases p) simp
  qed
qed simp

text \<open>A position told for a Bluetooth peer comes after those of the members, and wins.\<close>

lemma ble_contact_wins:
  assumes "well_keyed bl_id (hr_ble r)" and "js_get (hr_ble r) i = Some b"
    and "well_keyed ak_uid (hr_atak r)" and "js_get (hr_atak r) i = None"
  shows "\<exists>gs. filter (\<lambda>g. gk_uid g = i) (GetCotContacts who ex r)
     = gs @ [at_position (bl_id b) (bl_name b) ''a-f-G-U-C'' 30000 (bl_position b)]"
  using value_only [OF assms(1,2)] no_such_value [OF assms(3,4)]
  by (simp add: GetCotContacts_def filter_map comp_def)

lemma filter_only: "distinct cs \<Longrightarrow> c \<in> set cs \<Longrightarrow> filter (\<lambda>x. x = c) cs = [c]"
  by (induction cs) (auto simp: filter_empty_conv)


definition crew :: directory where
  "crew i = NewClient i 0 ''Ann''"

lemma crew_ok [simp]: "directory_ok crew" "hc_id (NewClient i t n) = i"
  by (simp_all add: directory_ok_def crew_def NewClient_def)

lemma ops_room_keys [simp]: "hub_keys_ok ops_room"
  by (simp add: hub_keys_ok_def)


definition forged_position :: "string \<Rightarrow> string \<Rightarrow> num \<Rightarrow> num \<Rightarrow> string \<Rightarrow> jsval" where
  "forged_position victim nm la lo hex =
     JObj [(''room_id'', JStr hex), (''lat'', JNum la), (''lon'', JNum lo), (''sender_id'', JStr victim), (''sender_name'', JStr nm)]"

definition forged_marker :: "string \<Rightarrow> string \<Rightarrow> string \<Rightarrow> jsval" where
  "forged_marker victim nm hex = JObj [(''room_id'', JStr hex), (''name'', JStr nm), (''sender_id'', JStr victim)]"

text \<open>
  C27. Whom a relay speaks for is not checked. Any member can put any position under any id, also that
  of another member, and every map that is sent the state then shows that id there; and any member
  can make a marker in the name of another, which from then on it cannot delete itself.
\<close>

theorem relay_identity_unchecked:
  assumes "reads_map V" and "directory_ok who" and "hub_keys_ok r" and "hc_id c \<in> set (hr_members r)"
    and "victim \<noteq> []" and "nm \<noteq> []" and "hc_id c \<noteq> victim" and "js_get (hr_atak r) victim = None"
  shows "(\<exists>d. contact_entries (deliver V (go_cot_state who k
                  (fst (serve_position now c (forged_position victim nm la lo (hr_hex r)) r))) s) (hr_hex r) victim = {d} \<and>
              contact_lat d = la \<and> contact_lon d = lo \<and> callsign d = nm) \<and>
     (let r' = fst (serve_create_marker uuid now c (forged_marker victim nm (hr_hex r)) r)
      in (\<exists>m. js_get (hr_markers r') uuid = Some m \<and> gm_creator m = victim) \<and>
         DeleteMapMarker (hc_id c) (hr_hex r') uuid r' = (r', [(hc_id c, go_error ''only the marker creator can delete it'')]))"
proof (rule conjI)
  have use: "voice_may_use (hr_voice r) (hc_id c) (hr_hex r)" using assms(4) by (simp add: voice_may_use_def)
  define pos where "pos = \<lparr>ps_lat = la, ps_lon = lo, ps_hae = 0, ps_ce = 0, ps_time = now\<rparr>"
  define b where "b = \<lparr>bl_id = victim, bl_name = nm, bl_position = pos\<rparr>"
  let ?r = "fst (serve_position now c (forged_position victim nm la lo (hr_hex r)) r)"
  let ?at = "\<lambda>b. at_position (bl_id b) (bl_name b) ''a-f-G-U-C'' 30000 (bl_position b)"
  have r: "?r = SetBleCotPosition victim nm pos r"
    using use assms(5,6) by (simp add: serve_position_def forged_position_def pos_def)
  have wk: "well_keyed bl_id (hr_ble ?r)" and none: "js_get (hr_atak ?r) victim = None"
    and atak: "well_keyed ak_uid (hr_atak ?r)" and hex: "hr_hex ?r = hr_hex r"
    using assms(3,8) by (simp_all add: r SetBleCotPosition_def hub_keys_ok_def well_keyed_set)
  have b: "js_get (hr_ble ?r) victim = Some b" by (simp add: r SetBleCotPosition_def b_def)
  obtain gs where "filter (\<lambda>g. gk_uid g = victim) (GetCotContacts who (Some k) ?r) = gs @ [?at b]"
    using ble_contact_wins [OF wk b atak none] by blast
  with told_contact [OF assms(1,5), of who k ?r s]
  have "contact_entries (deliver V (go_cot_state who k ?r) s) (hr_hex r) victim = {web_contact (?at b)}"
    unfolding hex by simp
  then show "\<exists>d. contact_entries (deliver V (go_cot_state who k ?r) s) (hr_hex r) victim = {d} \<and>
      contact_lat d = la \<and> contact_lon d = lo \<and> callsign d = nm"
    by (simp add: web_contact_def at_position_def b_def pos_def)
  show "let r' = fst (serve_create_marker uuid now c (forged_marker victim nm (hr_hex r)) r)
      in (\<exists>m. js_get (hr_markers r') uuid = Some m \<and> gm_creator m = victim) \<and>
         DeleteMapMarker (hc_id c) (hr_hex r') uuid r' = (r', [(hc_id c, go_error ''only the marker creator can delete it'')])"
    using use assms(4-7)
    by (simp add: serve_create_marker_def forged_marker_def read_marker_request_def CreateMapMarkerFromRelay_def
        requested_marker_def AddMarker_def DeleteMapMarker_def voice_may_use_def Let_def)
qed

lemma relay_identity_unchecked_witness:
  "\<forall>V s. \<exists>d. contact_entries (deliver (V\<lparr>as_contact := json_contact, as_marker := json_marker\<rparr>) (go_cot_state crew ''b''
       (fst (serve_position 9 (NewClient ''a'' 0 ''Ann'') (forged_position ''b'' ''Ben'' 1 2 ''r'') ops_room))) s) ''r'' ''b'' = {d} \<and>
     contact_lat d = 1 \<and> contact_lon d = 2"
proof (intro allI)
  fix V :: views and s
  show "\<exists>d. contact_entries (deliver (V\<lparr>as_contact := json_contact, as_marker := json_marker\<rparr>) (go_cot_state crew ''b''
       (fst (serve_position 9 (NewClient ''a'' 0 ''Ann'') (forged_position ''b'' ''Ben'' 1 2 ''r'') ops_room))) s) ''r'' ''b'' = {d} \<and>
     contact_lat d = 1 \<and> contact_lon d = 2"
    using relay_identity_unchecked [OF reads_map_ex [of V], of crew ops_room "NewClient ''a'' 0 ''Ann''" "''b''" "''Ben''" "''b''" 9 1 2 s "''m''"]
    by auto
qed

section \<open>Nothing is forgotten\<close>

definition contact_ids :: "chat_state \<Rightarrow> string \<Rightarrow> string set" where
  "contact_ids s rid = contact_key ` set (room_entries (cotContacts s) rid) - {[]}"

lemma contacts_grow: "contact_ids s rid \<subseteq> contact_ids (setCotContacts k cs s) rid"
  by (auto simp: contact_ids_def setCotContacts_def merge_contacts_keys)

text \<open>Every other operation of the store that a frame calls leaves the contacts as they are.\<close>

lemma contacts_elsewhere [simp]:
  "cotContacts (setIdentity i sh s) = cotContacts s"
  "cotContacts (setDisplayName nm s) = cotContacts s"
  "cotContacts (setAvailableRooms infos s) = cotContacts s"
  "cotContacts (setMeshPeers k ps s) = cotContacts s"
  "cotContacts (mergeMeshPeers k ps s) = cotContacts s"
  "cotContacts (setVoiceState k chs s) = cotContacts s"
  "cotContacts (addVoiceChannel k cid nm s) = cotContacts s"
  "cotContacts (addVoicePeer k cid p s) = cotContacts s"
  "cotContacts (removeVoicePeer k cid peer s) = cotContacts s"
  "cotContacts (updateSpeaking k cid peer b s) = cotContacts s"
  "cotContacts (setCotMarkers k ms s) = cotContacts s"
  "cotContacts (addCotMarker k m s) = cotContacts s"
  "cotContacts (removeCotMarker k mid s) = cotContacts s"
  by (auto simp: setIdentity_def setDisplayName_def setAvailableRooms_def setMeshPeers_def mergeMeshPeers_def
      setVoiceState_def addVoiceChannel_def addVoicePeer_def removeVoicePeer_def updateSpeaking_def setCotMarkers_def
      addCotMarker_def removeCotMarker_def update_channel_def Let_def split: option.split)

lemma need_str_contacts:
  "(\<And>x. cotContacts (fst (k x)) = cotContacts s) \<Longrightarrow> cotContacts (fst (need_str d key k s)) = cotContacts s"
  by (simp add: need_str_def stored_def split: option.split)

lemma handlers_keep_contacts:
  "cotContacts (fst (on_identity V d s)) = cotContacts s" "cotContacts (fst (on_name_assigned V d s)) = cotContacts s"
  "cotContacts (fst (on_room_list V d s)) = cotContacts s" "cotContacts (fst (on_room_joined V d s)) = cotContacts s"
  "cotContacts (fst (on_room_history V d s)) = cotContacts s" "cotContacts (fst (on_message V d s)) = cotContacts s"
  "cotContacts (fst (on_peer_update V d s)) = cotContacts s" "cotContacts (fst (on_message_edited V d s)) = cotContacts s"
  "cotContacts (fst (on_message_deleted V d s)) = cotContacts s" "cotContacts (fst (on_reaction_updated V d s)) = cotContacts s"
  "cotContacts (fst (on_message_pinned V d s)) = cotContacts s" "cotContacts (fst (on_message_unpinned V d s)) = cotContacts s"
  "cotContacts (fst (on_dm_opened V d s)) = cotContacts s" "cotContacts (fst (on_mesh_state V d s)) = cotContacts s"
  "cotContacts (fst (on_ble_mesh_state V d s)) = cotContacts s" "cotContacts (fst (on_voice_state V d s)) = cotContacts s"
  "cotContacts (fst (on_voice_channel_created V d s)) = cotContacts s" "cotContacts (fst (on_voice_peer_joined V d s)) = cotContacts s"
  "cotContacts (fst (on_voice_peer_left V d s)) = cotContacts s" "cotContacts (fst (on_voice_offer_relay V d s)) = cotContacts s"
  "cotContacts (fst (on_voice_answer_relay V d s)) = cotContacts s" "cotContacts (fst (on_voice_ice_relay V d s)) = cotContacts s"
  "cotContacts (fst (on_voice_speaking V d s)) = cotContacts s" "cotContacts (fst (on_marker_created V d s)) = cotContacts s"
  "cotContacts (fst (on_marker_deleted V d s)) = cotContacts s"
  unfolding quiet_defs on_room_joined_def on_room_history_def on_message_def on_message_edited_def on_message_deleted_def
    on_reaction_updated_def on_message_pinned_def on_message_unpinned_def on_dm_opened_def
  by (simp_all add: stored_def Let_def frame_simps need_str_contacts split: jsval.split)

text \<open>
  C33. No frame whatever takes a contact from the map: once a room has shown somebody, it shows somebody
  under that id until the connection is lost, also after the member has left and the server no longer
  lists it.
\<close>

theorem contacts_never_leave:
  "contact_ids s rid \<subseteq> contact_ids (fold (deliver V) fs s) rid"
proof (induction fs arbitrary: s)
  case (Cons f fs)
  have "contact_ids s rid \<subseteq> contact_ids (fst (h V d s)) rid" if "(t, h) \<in> set ws_switch" for t h d
  proof (cases "h = on_cot_state")
    case True
    have "contact_ids s rid \<subseteq> contact_ids (fst (on_cot_state V d s)) rid"
      using contacts_grow [of s rid]
      by (auto simp: on_cot_state_def need_str_def stored_def contact_ids_def split: option.split)
    with True show ?thesis by simp
  next
    case False
    with that have "cotContacts (fst (h V d s)) = cotContacts s"
      unfolding ws_switch_def using handlers_keep_contacts [of V d s] by auto
    then show ?thesis by (simp add: contact_ids_def)
  qed
  then have "contact_ids s rid \<subseteq> contact_ids (deliver V f s) rid"
    by (auto simp: deliver_def ws_onmessage_def stored_def Let_def dest: map_of_SomeD split: jsval.split option.split)
  with Cons.IH [of "deliver V f s"] show ?case by simp
qed simp

end
