(* ===== verification/HubProps.thy ===== *)
theory HubProps
  imports RelayVoice MapProps
begin

text \<open>
  The hub of the server and the screens of its clients: which peers a client is told of and shows,
  what becomes of the peers behind a relay, and the list of rooms.
\<close>

section \<open>Removing duplicates\<close>

text \<open>The first entry of a list that no other beats.\<close>

definition first_least :: "('a \<Rightarrow> nat) \<Rightarrow> 'a \<Rightarrow> 'a list \<Rightarrow> bool" where
  "first_least f p ps \<longleftrightarrow> (\<exists>ys zs. ps = ys @ p # zs \<and> (\<forall>y \<in> set ys. f p < f y) \<and> (\<forall>z \<in> set zs. f p \<le> f z))"

lemma first_least_mem: "first_least f p ps \<Longrightarrow> p \<in> set ps"
  by (auto simp: first_least_def)

lemma first_least_Nil [simp]: "\<not> first_least f p []"
  by (simp add: first_least_def)

lemma first_least_snoc:
  "first_least f p ps \<Longrightarrow> f p \<le> f q \<Longrightarrow> first_least f p (ps @ [q])"
  "first_least f p ps \<Longrightarrow> f q < f p \<Longrightarrow> first_least f q (ps @ [q])"
proof -
  assume "first_least f p ps"
  then obtain ys zs where d: "ps = ys @ p # zs" "\<forall>y \<in> set ys. f p < f y" "\<forall>z \<in> set zs. f p \<le> f z"
    unfolding first_least_def by blast
  show "first_least f p (ps @ [q])" if "f p \<le> f q"
    unfolding first_least_def by (rule exI [of _ ys], rule exI [of _ "zs @ [q]"]) (use d that in auto)
  show "first_least f q (ps @ [q])" if "f q < f p"
    unfolding first_least_def by (rule exI [of _ ps], rule exI [of _ "[]"]) (use d that in force)
qed

lemma first_least_unique:
  assumes "first_least f p ps" and "first_least f q ps"
  shows "p = q"
proof -
  obtain ys zs where p: "ps = ys @ p # zs" "\<forall>y \<in> set ys. f p < f y" "\<forall>z \<in> set zs. f p \<le> f z"
    using assms(1) unfolding first_least_def by blast
  obtain ys' zs' where q: "ps = ys' @ q # zs'" "\<forall>y \<in> set ys'. f q < f y" "\<forall>z \<in> set zs'. f q \<le> f z"
    using assms(2) unfolding first_least_def by blast
  from p(1) q(1) have "ys @ p # zs = ys' @ q # zs'" by simp
  then consider "p = q" | "p \<in> set ys'" "q \<in> set zs" | "q \<in> set ys" "p \<in> set zs'"
    by (auto simp: append_eq_append_conv2 Cons_eq_append_conv append_eq_Cons_conv)
  then show ?thesis using p q by cases force+
qed

definition best_at :: "string \<Rightarrow> go_peer list \<Rightarrow> string \<Rightarrow> go_peer option \<Rightarrow> bool" where
  "best_at pref ps i b \<longleftrightarrow>
     (case b of
        None \<Rightarrow> filter (\<lambda>q. gp_id q = i) ps = []
      | Some p \<Rightarrow> first_least (\<lambda>q. transportPriority (gp_transport q) pref) p (filter (\<lambda>q. gp_id q = i) ps))"

lemma best_at_other: "gp_id p \<noteq> i \<Longrightarrow> best_at pref (ps @ [p]) i b = best_at pref ps i b"
  by (cases b) (simp_all add: best_at_def)

definition dedup_ok :: "string \<Rightarrow> go_peer list \<Rightarrow> (string \<times> go_peer) list \<times> (string \<times> nat) list \<Rightarrow> bool" where
  "dedup_ok pref ps m \<longleftrightarrow>
     well_keyed gp_id (fst m) \<and>
     (\<forall>i. js_get (snd m) i = map_option (\<lambda>p. transportPriority (gp_transport p) pref) (js_get (fst m) i)) \<and>
     (\<forall>i. best_at pref ps i (js_get (fst m) i))"

lemma dedup_step:
  assumes "dedup_ok pref ps m"
  shows "dedup_ok pref (ps @ [p]) (keep_best pref p m)"
proof -
  let ?f = "\<lambda>q. transportPriority (gp_transport q) pref"
  obtain best prio where m: "m = (best, prio)" by (cases m)
  have wk: "well_keyed gp_id best" and pr: "\<And>i. js_get prio i = map_option ?f (js_get best i)"
    and fl: "\<And>i. best_at pref ps i (js_get best i)"
    using assms by (auto simp: dedup_ok_def m)
  have one: "first_least ?f p [p]" unfolding first_least_def by (rule exI [of _ "[]"], rule exI [of _ "[]"]) simp
  have set_p: "dedup_ok pref (ps @ [p]) (js_set (gp_id p) p best, js_set (gp_id p) (?f p) prio)"
    if "first_least ?f p (filter (\<lambda>q. gp_id q = gp_id p) ps @ [p])"
  proof -
    have "best_at pref (ps @ [p]) i (js_get (js_set (gp_id p) p best) i)" for i
      using that fl [of i] by (cases "i = gp_id p") (simp_all add: best_at_other, simp add: best_at_def)
    then show ?thesis using wk pr by (simp add: dedup_ok_def well_keyed_set)
  qed
  show ?thesis
  proof (cases "js_get best (gp_id p)")
    case None
    then have "filter (\<lambda>q. gp_id q = gp_id p) ps = []" using fl [of "gp_id p"] by (simp add: best_at_def)
    then show ?thesis using None set_p one pr by (simp add: m keep_best_def Let_def)
  next
    case (Some q)
    then have q: "first_least ?f q (filter (\<lambda>x. gp_id x = gp_id p) ps)" using fl [of "gp_id p"] by (simp add: best_at_def)
    show ?thesis
    proof (cases "?f p < ?f q")
      case True
      then show ?thesis using Some set_p pr first_least_snoc(2) [OF q True] by (simp add: m keep_best_def Let_def)
    next
      case False
      then have "first_least ?f q (filter (\<lambda>x. gp_id x = gp_id p) ps @ [p])" using first_least_snoc(1) [OF q, of p] by simp
      then have "best_at pref (ps @ [p]) i (js_get best i)" for i
        using Some fl [of i] by (cases "i = gp_id p") (simp_all add: best_at_other, simp add: best_at_def)
      then show ?thesis using False Some wk pr by (simp add: dedup_ok_def m keep_best_def Let_def)
    qed
  qed
qed

lemma dedup_fold: "dedup_ok pref ps (fold (keep_best pref) ps ([], []))"
proof (induction ps rule: rev_induct)
  case (snoc p ps)
  then show ?case using dedup_step by simp
qed (simp add: dedup_ok_def best_at_def)

text \<open>
  \<open>deduplicatePeers\<close> keeps one entry per id, and it is the one of the best transport for the
  client (the preferred one before tcp, WiFi Direct, Bluetooth and all others), the first of them if
  several are as good.
\<close>

lemma dedup_keeps_best:
  "distinct (map gp_id (deduplicatePeers ps pref)) \<and>
   gp_id ` set (deduplicatePeers ps pref) = gp_id ` set ps \<and>
   (\<forall>p. p \<in> set (deduplicatePeers ps pref) \<longleftrightarrow>
      first_least (\<lambda>q. transportPriority (gp_transport q) pref) p (filter (\<lambda>q. gp_id q = gp_id p) ps))"
proof -
  let ?f = "\<lambda>q. transportPriority (gp_transport q) pref"
  define best where "best = fst (fold (keep_best pref) ps ([], []))"
  have wk: "well_keyed gp_id best" and fl: "\<And>i. case js_get best i of None \<Rightarrow> filter (\<lambda>q. gp_id q = i) ps = []
                 | Some p \<Rightarrow> first_least ?f p (filter (\<lambda>q. gp_id q = i) ps)"
    using dedup_fold [of pref ps] by (auto simp: dedup_ok_def best_def best_at_def)
  have vals: "deduplicatePeers ps pref = js_values best" by (simp add: deduplicatePeers_def best_def)
  have iff: "p \<in> set (js_values best) \<longleftrightarrow> first_least ?f p (filter (\<lambda>q. gp_id q = gp_id p) ps)" for p
    using fl [of "gp_id p"] first_least_unique by (auto simp: set_values_of [OF wk] split: option.splits)
  moreover have "gp_id ` set (js_values best) = gp_id ` set ps"
  proof
    show "gp_id ` set (js_values best) \<subseteq> gp_id ` set ps"
      using iff first_least_mem by (force dest: first_least_mem)
    show "gp_id ` set ps \<subseteq> gp_id ` set (js_values best)"
    proof (rule image_subsetI)
      fix p assume "p \<in> set ps"
      then have "filter (\<lambda>q. gp_id q = gp_id p) ps \<noteq> []" by (auto simp: filter_empty_conv)
      then obtain q where "js_get best (gp_id p) = Some q" using fl [of "gp_id p"] by (auto split: option.splits)
      then show "gp_id p \<in> gp_id ` set (js_values best)"
        using well_keyed_get [OF wk, of "gp_id p" q] set_values_of [OF wk, of q] by (metis image_eqI)
    qed
  qed
  ultimately show ?thesis using vals well_keyed_values [OF wk] well_keyed_distinct [OF wk] by simp
qed

section \<open>The mesh on the screen\<close>

lemma web_peer_simps [simp]:
  "peer_id (web_peer p) = gp_id p" "peer_name (web_peer p) = gp_name p" "transport (web_peer p) = gp_transport p"
  by (simp_all add: web_peer_def)

lemma deliver_mesh_state:
  assumes "reads_mesh V"
  shows "deliver V (go_mesh_state who reg r k) s = setMeshPeers (hr_hex r) (map web_peer (mesh_peers_for who reg r k)) s"
proof -
  have "map (as_mesh_peer V) (map go_peer_json ps) = map web_peer ps" for ps
    using assms by (simp add: reads_mesh_def)
  then show ?thesis
    by (simp add: go_mesh_state_def deliver_frame ws_switch_def on_mesh_state_def need_str_def stored_def del: map_map)
qed

lemma told_ids:
  assumes "directory_ok who" and "registry_ok reg"
  shows "gp_id ` set (GetMeshPeers who k r @ getBlePeerMeshData reg) = (set (hr_members r) - {k}) \<union> set (js_keys reg)"
proof -
  have "gp_id ` set (GetMeshPeers who k r) = set (hr_members r) - {k}"
    using assms(1) by (auto simp: GetMeshPeers_def toMeshPeer_def directory_ok_def image_image)
  moreover have "gp_id ` set (getBlePeerMeshData reg) = bp_id ` set (js_values reg)"
    by (simp add: getBlePeerMeshData_def image_image)
  moreover have "bp_id ` set (js_values reg) = set (js_keys reg)"
    using assms(2) well_keyed_values [of bp_id reg] by (metis list.set_map registry_ok_def)
  ultimately show ?thesis by (simp add: image_Un)
qed

text \<open>
  C15. The mesh a member is shown: after the frame of the mesh there is, for every other member of the
  room and every peer of the registry (whatever room its relay is in) that has a name and is no
  scanner, exactly one entry under its id, of the transport that is best for this client.
\<close>

theorem mesh_shown:
  assumes "reads_mesh V" and "directory_ok who" and "registry_ok reg"
  shows "(\<forall>i \<in> (set (hr_members r) - {k}) \<union> set (js_keys reg).
     \<exists>q. gp_id q = i \<and>
       first_least (\<lambda>p. transportPriority (gp_transport p) (hc_preferred (who k))) q
         (filter (\<lambda>p. gp_id p = i) (GetMeshPeers who k r @ getBlePeerMeshData reg)) \<and>
       {p \<in> set (room_entries (meshPeers (deliver V (go_mesh_state who reg r k) s)) (hr_hex r)). peer_id p = i}
         = (if shown_peer (web_peer q) then {web_peer q} else {}))"
proof
  let ?ps = "GetMeshPeers who k r @ getBlePeerMeshData reg" and ?L = "mesh_peers_for who reg r k"
  fix i assume "i \<in> (set (hr_members r) - {k}) \<union> set (js_keys reg)"
  then have "i \<in> gp_id ` set ?L"
    using told_ids [OF assms(2,3), of k r] dedup_keeps_best [of ?ps "hc_preferred (who k)"] by (simp add: mesh_peers_for_def)
  then obtain q where q: "q \<in> set ?L" "gp_id q = i" by auto
  have dist: "distinct (map gp_id ?L)" and least: "first_least (\<lambda>p. transportPriority (gp_transport p) (hc_preferred (who k))) q
      (filter (\<lambda>p. gp_id p = i) ?ps)"
    using dedup_keeps_best [of ?ps "hc_preferred (who k)"] q by (auto simp: mesh_peers_for_def)
  have only: "q' = q" if "q' \<in> set ?L" "gp_id q' = i" for q'
    using dist q that by (auto simp: distinct_map inj_on_def)
  let ?old = "room_entries (meshPeers s) (hr_hex r)"
  define L where "L = ?L"
  have told: "i \<in> peer_id ` set (map web_peer L)" using q by (simp add: L_def image_image) (metis imageI)
  have new: "p \<in> set (map web_peer L) \<and> peer_id p = i \<longleftrightarrow> p = web_peer q" for p
  proof
    assume "p \<in> set (map web_peer L) \<and> peer_id p = i"
    then obtain q' where q': "q' \<in> set ?L" "gp_id q' = i" and p: "p = web_peer q'" by (auto simp: L_def)
    show "p = web_peer q" unfolding p only [OF q'] ..
  qed (use q in \<open>simp add: L_def\<close>)
  have "p \<in> set (server_and_bridge_peers ?old (map web_peer L)) \<and> peer_id p = i
      \<longleftrightarrow> p = web_peer q \<and> shown_peer (web_peer q)" for p
    using told new [of p] unfolding server_and_bridge_set mem_Collect_eq by blast
  then have "{p \<in> set (server_and_bridge_peers ?old (map web_peer ?L)). peer_id p = i}
      = (if shown_peer (web_peer q) then {web_peer q} else {})" unfolding L_def by auto
  then have "{p \<in> set (room_entries (meshPeers (deliver V (go_mesh_state who reg r k) s)) (hr_hex r)). peer_id p = i}
      = (if shown_peer (web_peer q) then {web_peer q} else {})"
    by (simp add: deliver_mesh_state [OF assms(1)] setMeshPeers_entries)
  with q(2) least show "\<exists>q. gp_id q = i \<and> first_least (\<lambda>p. transportPriority (gp_transport p) (hc_preferred (who k))) q
         (filter (\<lambda>p. gp_id p = i) ?ps) \<and>
       {p \<in> set (room_entries (meshPeers (deliver V (go_mesh_state who reg r k) s)) (hr_hex r)). peer_id p = i}
         = (if shown_peer (web_peer q) then {web_peer q} else {})" by blast
qed

lemma mesh_shown_witness:
  "\<forall>V s. \<exists>q. gp_id q = ''p1'' \<and>
     {p \<in> set (room_entries (meshPeers (deliver (V\<lparr>as_mesh_peer := json_peer\<rparr>)
         (go_mesh_state (\<lambda>i. NewClient i 0 ''Ann'') [(''p1'', \<lparr>bp_id = ''p1'', bp_name = ''Tab'', bp_relay = ''a'', bp_transport = ''btle''\<rparr>)]
            (NewRoom ''r'' ''c'' ''ops'') ''b'') s)) ''r''). peer_id p = ''p1''}
       = (if shown_peer (web_peer q) then {web_peer q} else {})"
proof (intro allI)
  fix V :: views and s
  let ?reg = "[(''p1'', \<lparr>bp_id = ''p1'', bp_name = ''Tab'', bp_relay = ''a'', bp_transport = ''btle''\<rparr>)]"
  have "directory_ok (\<lambda>i. NewClient i 0 ''Ann'')" "registry_ok ?reg"
    by (simp_all add: directory_ok_def NewClient_def registry_ok_def well_keyed_def)
  note shown = mesh_shown [OF reads_mesh_ex [of V] this, of "NewRoom ''r'' ''c'' ''ops''" "''b''" s]
  have hex: "hr_hex (NewRoom ''r'' ''c'' ''ops'') = ''r''" by (simp add: NewRoom_def)
  have "''p1'' \<in> (set (hr_members (NewRoom ''r'' ''c'' ''ops'')) - {''b''}) \<union> set (js_keys ?reg)" by simp
  from bspec [OF shown this] show "\<exists>q. gp_id q = ''p1'' \<and>
     {p \<in> set (room_entries (meshPeers (deliver (V\<lparr>as_mesh_peer := json_peer\<rparr>)
         (go_mesh_state (\<lambda>i. NewClient i 0 ''Ann'') ?reg (NewRoom ''r'' ''c'' ''ops'') ''b'') s)) ''r''). peer_id p = ''p1''}
       = (if shown_peer (web_peer q) then {web_peer q} else {})"
    unfolding hex by blast
qed

section \<open>The hub in every reachable state\<close>

text \<open>
  Steps of the hub: a client connects, changes what it is called or how it is reached, joins or makes
  a room, registers or unregisters a peer, asks for something in a room, or is gone.
\<close>

inductive hub_step :: "(string \<Rightarrow> string) \<Rightarrow> server_hub \<Rightarrow> server_hub \<Rightarrow> bool" for hash where
  connect: "c \<notin> set (sh_clients h) \<Longrightarrow> hub_step hash h (h\<lparr>sh_clients := sh_clients h @ [c]\<rparr>)"
| rename: "directory_ok who \<Longrightarrow> hub_step hash h (h\<lparr>sh_who := who\<rparr>)"
| join: "c \<in> set (sh_clients h) \<Longrightarrow> hub_step hash h (fst (hub_join hash names uuid c name h))"
| create: "c \<in> set (sh_clients h) \<Longrightarrow> hub_step hash h (fst (hub_create hash names uuid c name public h))"
| register: "c \<in> set (sh_clients h) \<Longrightarrow> pid \<noteq> [] \<Longrightarrow> hub_step hash h (fst (RegisterBlePeer seat names c pid pname t h))"
| unregister: "c \<in> set (sh_clients h) \<Longrightarrow> hub_step hash h (fst (UnregisterBlePeer names c pid h))"
| marker: "hub_room_at hex h = Some r \<Longrightarrow> serve_marker uuid now c m r = (r', outs) \<Longrightarrow> hub_step hash h (on_room hex (\<lambda>_. r') h)"
| position: "hub_room_at hex h = Some r \<Longrightarrow> serve_position now c d r = (r', c') \<Longrightarrow> hub_step hash h (on_room hex (\<lambda>_. r') h)"
| voice: "hub_room_at hex h = Some r \<Longrightarrow> serve_voice names onl uuid c m (hr_voice r) = Some (v, outs) \<Longrightarrow>
    hub_step hash h (on_room hex (\<lambda>_. r\<lparr>hr_voice := v\<rparr>) h)"
| peer_voice: "hub_room_at hex h = Some r \<Longrightarrow> serve_for_peer names c m (sh_peers h) (hr_voice r) = Some (reg, v, outs) \<Longrightarrow>
    hub_step hash h ((on_room hex (\<lambda>_. r\<lparr>hr_voice := v\<rparr>) h)\<lparr>sh_peers := reg\<rparr>)"
| gone: "hub_step hash h (fst (client_gone names c h))"

inductive hub_reach :: "(string \<Rightarrow> string) \<Rightarrow> server_hub \<Rightarrow> bool" for hash where
  init: "directory_ok who \<Longrightarrow> hub_reach hash (NewHub who)"
| step: "hub_reach hash h \<Longrightarrow> hub_step hash h h' \<Longrightarrow> hub_reach hash h'"

definition peers_ok :: "string list \<Rightarrow> ble_registry \<Rightarrow> bool" where
  "peers_ok clients reg \<longleftrightarrow>
     registry_ok reg \<and>
     (\<forall>i b. js_get reg i = Some b \<longrightarrow> i \<noteq> [] \<and> bp_relay b \<in> set clients) \<and>
     (\<forall>i j b b'. js_get reg i = Some b \<longrightarrow> js_get reg j = Some b' \<longrightarrow> bp_relay b = bp_relay b' \<longrightarrow> i = j)"

definition room_ok :: "string list \<Rightarrow> hub_room \<Rightarrow> bool" where
  "room_ok clients r \<longleftrightarrow> distinct (hr_members r) \<and> set (hr_members r) \<subseteq> set clients"

definition hub_inv :: "server_hub \<Rightarrow> bool" where
  "hub_inv h \<longleftrightarrow>
     directory_ok (sh_who h) \<and> distinct (sh_clients h) \<and> distinct (map hr_hex (sh_rooms h)) \<and>
     peers_ok (sh_clients h) (sh_peers h) \<and> list_all (room_ok (sh_clients h)) (sh_rooms h)"

text \<open>Deleting and setting in the registry.\<close>

lemma get_delete_all: "js_get (fold js_delete ks m) k = (if k \<in> set ks then None else js_get m k)"
  by (induction ks arbitrary: m) auto

lemma registry_delete_all: "registry_ok reg \<Longrightarrow> registry_ok (fold js_delete ks reg)"
proof (induction ks arbitrary: reg)
  case (Cons k ks)
  have "registry_ok (js_delete k reg)" using Cons.prems by (simp add: registry_ok_def well_keyed_delete)
  then show ?case using Cons.IH by simp
qed simp

lemma relayed_by_iff: "registry_ok reg \<Longrightarrow> i \<in> set (relayed_by rl reg) \<longleftrightarrow> (\<exists>b. js_get reg i = Some b \<and> bp_relay b = rl)"
  using js_get_Some_iff [OF well_keyed_distinct, of bp_id reg]
  by (force simp: relayed_by_def registry_ok_def)

lemma peers_ok_sub:
  assumes "peers_ok clients reg" and "registry_ok reg'"
    and "\<And>i b. js_get reg' i = Some b \<Longrightarrow> \<exists>y. js_get reg i = Some y \<and> bp_relay y = bp_relay b"
    and "\<And>i b. js_get reg' i = Some b \<Longrightarrow> bp_relay b \<in> set clients'"
  shows "peers_ok clients' reg'"
  unfolding peers_ok_def
proof (intro conjI allI impI)
  fix i j b b'
  assume i: "js_get reg' i = Some b" and j: "js_get reg' j = Some b'" and same: "bp_relay b = bp_relay b'"
  obtain y where "js_get reg i = Some y" "bp_relay y = bp_relay b" using assms(3) [OF i] by blast
  moreover obtain z where "js_get reg j = Some z" "bp_relay z = bp_relay b'" using assms(3) [OF j] by blast
  ultimately show "i = j" using assms(1) same unfolding peers_ok_def by fastforce
next
  fix i b assume "js_get reg' i = Some b"
  then show "i \<noteq> []" "bp_relay b \<in> set clients'" using assms(1,3,4) unfolding peers_ok_def by blast+
qed (rule assms(2))

lemma peers_ok_register:
  assumes "peers_ok clients reg" and "c \<in> set clients" and "pid \<noteq> []" and "bp_id b = pid" and "bp_relay b = c"
  shows "peers_ok clients (js_set pid b (fold js_delete (filter (\<lambda>i. i \<noteq> pid) (relayed_by c reg)) reg))" (is "peers_ok _ ?reg")
proof -
  have ok: "registry_ok reg" using assms(1) by (simp add: peers_ok_def)
  have get: "js_get ?reg i = (if i = pid then Some b else if i \<in> set (relayed_by c reg) then None else js_get reg i)" for i
    by (simp add: get_delete_all)
  have other: "js_get reg i = Some b' \<and> bp_relay b' \<noteq> c" if "js_get ?reg i = Some b'" "i \<noteq> pid" for i b'
  proof -
    from that have "i \<notin> set (relayed_by c reg)" "js_get reg i = Some b'"
      by (simp_all add: get_delete_all split: if_splits)
    with relayed_by_iff [OF ok] show ?thesis by auto
  qed
  have "registry_ok ?reg"
    using registry_delete_all [OF ok] assms(4) unfolding registry_ok_def by (intro well_keyed_set) simp_all
  moreover have "i \<noteq> [] \<and> bp_relay b' \<in> set clients" if "js_get ?reg i = Some b'" for i b'
  proof (cases "i = pid")
    case True
    with that have "b' = b" by (simp add: get)
    with True assms(2,3,5) show ?thesis by simp
  next
    case False
    with other [OF that] assms(1) show ?thesis unfolding peers_ok_def by blast
  qed
  moreover have "i = j" if "js_get ?reg i = Some b1" "js_get ?reg j = Some b2" "bp_relay b1 = bp_relay b2" for i j b1 b2
  proof -
    have "b1 = b" if "i = pid" using \<open>js_get ?reg i = Some b1\<close> that by (simp add: get)
    moreover have "b2 = b" if "j = pid" using \<open>js_get ?reg j = Some b2\<close> that by (simp add: get)
    ultimately show ?thesis using that other [OF that(1)] other [OF that(2)] assms(1,5) unfolding peers_ok_def by metis
  qed
  ultimately show ?thesis unfolding peers_ok_def by blast
qed

text \<open>Rooms: what each step does to the members and the id of a room.\<close>

definition frame_ok :: "(hub_room \<Rightarrow> hub_room) \<Rightarrow> bool" where
  "frame_ok f \<longleftrightarrow> (\<forall>r. hr_hex (f r) = hr_hex r \<and> hr_members (f r) = hr_members r)"

lemma rooms_frame:
  assumes "list_all (room_ok cs) rs" and "distinct (map hr_hex rs)" and "frame_ok f"
  shows "list_all (room_ok cs) (map (\<lambda>r. if P r then f r else r) rs)"
    and "distinct (map hr_hex (map (\<lambda>r. if P r then f r else r) rs))"
proof -
  have "map hr_hex (map (\<lambda>r. if P r then f r else r) rs) = map hr_hex rs"
    using assms(3) by (auto simp: frame_ok_def)
  then show "distinct (map hr_hex (map (\<lambda>r. if P r then f r else r) rs))" using assms(2) by (simp del: map_map)
  show "list_all (room_ok cs) (map (\<lambda>r. if P r then f r else r) rs)"
  proof -
    have "room_ok cs (f r) = room_ok cs r" for r using assms(3) by (simp add: frame_ok_def room_ok_def)
    with assms(1) show ?thesis by (auto simp: list_all_iff)
  qed
qed

lemma on_channels_frame [simp]:
  "hr_hex (on_channels f r) = hr_hex r" "hr_members (on_channels f r) = hr_members r"
  "hr_ble (on_channels f r) = hr_ble r" "vr_channels (hr_voice (on_channels f r)) = map f (vr_channels (hr_voice r))"
  by (simp_all add: on_channels_def)

lemma promote_frame:
  "hr_hex (fst (PromoteBlePeer seat pid old rp)) = hr_hex (fst rp) \<and>
   hr_members (fst (PromoteBlePeer seat pid old rp)) = hr_members (fst rp)"
  by (cases rp) (auto simp: PromoteBlePeer_def Let_def split: option.split)

lemma promote_all_frame:
  "hr_hex (fst (fold (PromoteBlePeer seat pid) stale rp)) = hr_hex (fst rp) \<and>
   hr_members (fst (fold (PromoteBlePeer seat pid) stale rp)) = hr_members (fst rp)"
  using promote_frame by (induction stale arbitrary: rp) auto

lemma hub_frame:
  assumes "hub_inv h" and "frame_ok f" and "peers_ok (sh_clients h) reg"
  shows "hub_inv ((on_rooms_of c f h)\<lparr>sh_peers := reg\<rparr>)" and "hub_inv (on_room hex f h)"
  using assms rooms_frame [of "sh_clients h" "sh_rooms h" f]
  by (simp_all add: hub_inv_def on_rooms_of_def on_room_def)

lemma hub_replace:
  assumes "hub_inv h" and "hub_room_at hex h = Some r" and "hr_hex r' = hr_hex r" and "hr_members r' = hr_members r"
  shows "hub_inv (on_room hex (\<lambda>_. r') h)"
proof -
  have r: "r \<in> set (sh_rooms h)" "hr_hex r = hex"
    using assms(2) by (auto simp: hub_room_at_def find_Some_iff)
  have ok: "room_ok (sh_clients h) r'" using assms(1,3,4) r by (auto simp: hub_inv_def list_all_iff room_ok_def)
  have hexes: "map hr_hex (map (\<lambda>x. if hr_hex x = hex then r' else x) (sh_rooms h)) = map hr_hex (sh_rooms h)"
    using assms(3) r(2) by simp
  have "list_all (room_ok (sh_clients h)) (map (\<lambda>x. if hr_hex x = hex then r' else x) (sh_rooms h))"
    using assms(1) ok by (auto simp: hub_inv_def list_all_iff)
  with hexes assms(1) show ?thesis by (simp add: hub_inv_def on_room_def del: map_map)
qed

lemma serve_marker_frame:
  "serve_marker uuid now c m r = (r', outs) \<Longrightarrow> hr_hex r' = hr_hex r \<and> hr_members r' = hr_members r"
  by (cases m) (auto simp: serve_marker_def serve_create_marker_def serve_delete_marker_def CreateMapMarkerFromRelay_def
      CreateMapMarker_def DeleteMapMarker_def DeleteMarker_def AddMarker_def Let_def split: if_splits option.splits list.splits)

lemma serve_position_frame:
  "serve_position now c d r = (r', c') \<Longrightarrow> hr_hex r' = hr_hex r \<and> hr_members r' = hr_members r"
  by (auto simp: serve_position_def SetBleCotPosition_def SetCotPosition_def Let_def split: if_splits option.splits list.splits)

lemma serve_for_peer_registry:
  assumes "peers_ok cs reg" and "serve_for_peer names rl m reg r = Some (reg', res)"
  shows "peers_ok cs reg' \<and> vr_hex (fst res) = vr_hex r \<and> vr_members (fst res) = vr_members r"
  using assms(2)
proof (cases rule: serve_for_peer_cases)
  case (join hex cid sid sname d)
  have ok: "registry_ok reg" using assms(1) by (simp add: peers_ok_def)
  show ?thesis
  proof (cases "resolve_in reg rl sid")
    case None
    with join(3) assms(1) show ?thesis by (auto simp: JoinVoiceFromRelay_def split: if_splits)
  next
    case (Some b)
    note b = resolve_in_id [OF ok Some]
    define b' where "b' = (if sname = [] then b else b\<lparr>bp_name := sname\<rparr>)"
    have "peers_ok cs (js_set sid b' reg)"
    proof -
      have "registry_ok (js_set sid b' reg)" using ok b unfolding registry_ok_def by (intro well_keyed_set) (simp_all add: b'_def)
      moreover have rel: "js_get (js_set sid b' reg) i = Some x \<Longrightarrow> \<exists>y. js_get reg i = Some y \<and> bp_relay y = bp_relay x" for i x
        using b by (auto simp: b'_def split: if_splits)
      moreover have "bp_relay x \<in> set cs" if "js_get (js_set sid b' reg) i = Some x" for i x
      proof -
        obtain y where "js_get reg i = Some y" "bp_relay y = bp_relay x" using rel [OF \<open>_ = Some x\<close>] by blast
        with assms(1) show ?thesis unfolding peers_ok_def by metis
      qed
      ultimately show ?thesis using peers_ok_sub [OF assms(1)] by blast
    qed
    with join(3) assms(1) show ?thesis
      by (auto simp: JoinVoiceFromRelay_def Some b'_def Let_def split: if_splits)
  qed
next
  case leave
  then show ?thesis using assms(1) by (auto simp: LeaveVoiceFromRelay_def Let_def)
next
  case speak
  then show ?thesis using assms(1) by (auto simp: BroadcastVoiceSpeakingFromRelay_def Let_def)
qed

lemma inv_create:
  assumes "hub_inv h"
  shows "hub_inv (getOrCreateRoom hash uuid name h)" and "hub_inv (on_room hex (\<lambda>r. r\<lparr>hr_public := public\<rparr>) h)"
proof -
  show "hub_inv (getOrCreateRoom hash uuid name h)"
    using assms by (auto simp: getOrCreateRoom_def hub_inv_def NewRoom_def room_ok_def list_ex_iff)
  show "hub_inv (on_room hex (\<lambda>r. r\<lparr>hr_public := public\<rparr>) h)"
    using assms by (intro hub_frame(2) [where reg = "sh_peers h"]) (simp_all add: frame_ok_def hub_inv_def)
qed

lemma getOrCreate_clients [simp]: "sh_clients (getOrCreateRoom hash uuid name h) = sh_clients h"
  by (simp add: getOrCreateRoom_def)

lemma inv_enter:
  assumes "hub_inv h" and "c \<in> set (sh_clients h)"
  shows "hub_inv (on_room hex (enter_room c) h)"
proof -
  have "room_ok (sh_clients h) (enter_room c r)" if "room_ok (sh_clients h) r" for r
    using that assms(2) by (auto simp: room_ok_def enter_room_def)
  then have "list_all (room_ok (sh_clients h)) (map (\<lambda>r. if hr_hex r = hex then enter_room c r else r) (sh_rooms h))"
    using assms(1) by (auto simp: hub_inv_def list_all_iff)
  moreover have "map hr_hex (map (\<lambda>r. if hr_hex r = hex then enter_room c r else r) (sh_rooms h)) = map hr_hex (sh_rooms h)"
    by (simp add: enter_room_def)
  ultimately show ?thesis using assms(1) by (simp add: hub_inv_def on_room_def del: map_map)
qed

lemma inv_join:
  assumes "hub_inv h" and "c \<in> set (sh_clients h)"
  shows "hub_inv (fst (hub_join hash names uuid c name h))"
  using inv_create(1) [OF assms(1)] inv_enter [OF inv_create(1) [OF assms(1)]] assms(2)
  by (simp add: hub_join_def Let_def split: option.split)

lemma leave_hub_room_ok:
  assumes "room_ok cs r" and "c \<in> set (hr_members r)"
  shows "room_ok (removeAll c cs) (fst (leave_hub_room who names reg c r)) \<and>
    hr_hex (fst (leave_hub_room who names reg c r)) = hr_hex r"
  using assms
  by (auto simp: leave_hub_room_def removeFromRoom_def LeaveAllVoiceChannels_def room_ok_def Let_def distinct_removeAll)

lemma drop_ble_frame [simp]: "hr_hex (drop_ble stale r) = hr_hex r" "hr_members (drop_ble stale r) = hr_members r"
  "hr_ble (drop_ble stale r) = hr_ble r"
  by (simp_all add: drop_ble_def)

lemma inv_gone:
  assumes "hub_inv h"
  shows "hub_inv (fst (client_gone names c h))"
proof -
  define stale where "stale = relayed_by c (sh_peers h)"
  define reg where "reg = fold js_delete stale (sh_peers h)"
  define rooms1 where "rooms1 = (if stale = [] then sh_rooms h else map (drop_ble stale) (sh_rooms h))"
  let ?leave = "\<lambda>r. if c \<in> set (hr_members r) then leave_hub_room (sh_who h) names reg c r else (r, [])"
  let ?cs = "removeAll c (sh_clients h)"
  have st: "fst (client_gone names c h) = h\<lparr>sh_peers := reg, sh_rooms := map fst (map ?leave rooms1), sh_clients := ?cs\<rparr>"
    by (simp add: client_gone_def stale_def reg_def rooms1_def Let_def)
  have peers: "peers_ok (sh_clients h) (sh_peers h)" and ok: "registry_ok (sh_peers h)"
    using assms by (simp_all add: hub_inv_def peers_ok_def)
  have get: "js_get reg i = Some b \<Longrightarrow> js_get (sh_peers h) i = Some b \<and> bp_relay b \<noteq> c" for i b
    using relayed_by_iff [OF ok, of i c] by (auto simp: reg_def stale_def get_delete_all split: if_splits)
  have "peers_ok ?cs reg"
  proof (rule peers_ok_sub [OF peers])
    show "registry_ok reg" using registry_delete_all [OF ok] by (simp add: reg_def)
    show "bp_relay b \<in> set ?cs" if "js_get reg i = Some b" for i b
      using get [OF that] peers by (auto simp: peers_ok_def)
  qed (use get in blast)
  moreover have r1: "list_all (room_ok (sh_clients h)) rooms1" "map hr_hex rooms1 = map hr_hex (sh_rooms h)"
    using assms by (auto simp: rooms1_def hub_inv_def list_all_iff room_ok_def)
  have one: "room_ok ?cs (fst (?leave r)) \<and> hr_hex (fst (?leave r)) = hr_hex r" if "r \<in> set rooms1" for r
  proof -
    have "room_ok (sh_clients h) r" using r1(1) that by (simp add: list_all_iff)
    then show ?thesis using leave_hub_room_ok [of "sh_clients h" r c "sh_who h" names reg] by (auto simp: room_ok_def)
  qed
  then have "list_all (room_ok ?cs) (map fst (map ?leave rooms1))" by (simp add: list_all_iff)
  moreover have "map hr_hex (map fst (map ?leave rooms1)) = map hr_hex (sh_rooms h)"
    unfolding r1(2) [symmetric] map_map using one by (intro map_cong) auto
  ultimately show ?thesis using assms unfolding st by (simp add: hub_inv_def distinct_removeAll del: map_map)
qed

lemma inv_hub_step:
  assumes "hub_step hash h h'" and "hub_inv h"
  shows "hub_inv h'"
  using assms
proof cases
  case (connect c)
  then show ?thesis using assms(2) by (auto simp: hub_inv_def peers_ok_def list_all_iff room_ok_def)
next
  case (create c names uuid name public)
  then show ?thesis
    using inv_join [OF inv_create(2) [OF inv_create(1) [OF assms(2)]]] assms(2)
    by (simp add: hub_create_def Let_def case_prod_beta on_room_def)
next
  case (register c pid seat names pname t)
  let ?stale = "filter (\<lambda>i. i \<noteq> pid) (relayed_by c (sh_peers h))"
  let ?b = "\<lparr>bp_id = pid, bp_name = pname, bp_relay = c, bp_transport = (if t = [] then ''btle'' else t)\<rparr>"
  have frame: "frame_ok (\<lambda>r. fst (fold (PromoteBlePeer seat pid) ?stale (r, pname)))"
    using promote_all_frame by (simp add: frame_ok_def)
  have "peers_ok (sh_clients h) (js_set pid ?b (fold js_delete ?stale (sh_peers h)))"
    by (rule peers_ok_register) (use assms(2) register in \<open>simp_all add: hub_inv_def\<close>)
  from hub_frame(1) [OF assms(2) frame this, of c] register(1) show ?thesis by (simp add: RegisterBlePeer_def Let_def)
next
  case (unregister c names pid)
  have "peers_ok (sh_clients h) (js_delete pid (sh_peers h))"
    using assms(2) by (auto simp: hub_inv_def peers_ok_def registry_ok_def well_keyed_delete split: if_splits)
  moreover have "frame_ok (\<lambda>r. ClearBleCotPosition pid (on_channels (leave_ble pid) r))"
    by (simp add: frame_ok_def ClearBleCotPosition_def)
  ultimately show ?thesis using unregister assms(2) by (simp add: UnregisterBlePeer_def Let_def hub_frame(1))
next
  case (voice hex r names onl uuid c m v outs)
  then show ?thesis using hub_replace [OF assms(2) voice(2), of "r\<lparr>hr_voice := v\<rparr>"] serve_voice_tells [OF voice(3)]
    by (simp add: tells_roster_def)
next
  case (peer_voice hex r names c m reg v outs)
  have "peers_ok (sh_clients h) reg \<and> vr_hex v = vr_hex (hr_voice r) \<and> vr_members v = vr_members (hr_voice r)"
    using serve_for_peer_registry [where cs = "sh_clients h", OF _ peer_voice(3)] assms(2) by (simp add: hub_inv_def)
  with hub_replace [OF assms(2) peer_voice(2), of "r\<lparr>hr_voice := v\<rparr>"] peer_voice(1) show ?thesis
    by (simp add: hub_inv_def on_room_def)
qed (use assms(2) inv_join inv_gone hub_replace serve_marker_frame serve_position_frame in \<open>auto simp: hub_inv_def\<close>)

lemma inv_hub_reach: "hub_reach hash h \<Longrightarrow> hub_inv h"
proof (induction rule: hub_reach.induct)
  case (init who)
  then show ?case by (simp add: hub_inv_def NewHub_def peers_ok_def registry_ok_def)
qed (rule inv_hub_step)

text \<open>A hub with two clients in one room, the first with a Bluetooth peer in a voice channel and on the map.\<close>

definition everybody :: directory where
  "everybody i = NewClient i 0 ''Ann''"

definition relay_hub :: server_hub where
  "relay_hub =
     (let h0 = (NewHub everybody)\<lparr>sh_clients := [''a'', ''b'']\<rparr>;
          h1 = fst (hub_join id id ''c'' ''a'' ''ops'' h0);
          h2 = fst (hub_join id id ''c'' ''b'' ''ops'' h1)
      in fst (RegisterBlePeer id id ''a'' ''p1'' ''Tab'' ''btle'' h2))"

lemma relay_hub_reached: "hub_reach id relay_hub"
proof -
  let ?h0 = "(NewHub everybody)\<lparr>sh_clients := [''a'', ''b'']\<rparr>"
  let ?h1 = "fst (hub_join id id ''c'' ''a'' ''ops'' ?h0)"
  let ?h2 = "fst (hub_join id id ''c'' ''b'' ''ops'' ?h1)"
  have "hub_reach id (NewHub everybody)" by (rule hub_reach.init) (simp add: directory_ok_def everybody_def NewClient_def)
  then have "hub_reach id ((NewHub everybody)\<lparr>sh_clients := [] @ [''a'']\<rparr>)"
    using hub_step.connect [of "''a''" "NewHub everybody" id] by (simp add: NewHub_def) (rule hub_reach.step)
  from hub_reach.step [OF this hub_step.connect [of "''b''"]] have "hub_reach id ?h0" by (simp add: NewHub_def)
  from hub_reach.step [OF this hub_step.join [of "''a''"]] have h1: "hub_reach id ?h1" by simp
  have c1: "sh_clients ?h1 = [''a'', ''b'']"
    by (simp add: hub_join_def Let_def on_room_def split: option.split)
  from hub_reach.step [OF h1 hub_step.join [of "''b''"]] c1 have h2: "hub_reach id ?h2" by simp
  have c2: "sh_clients ?h2 = [''a'', ''b'']"
    using c1 by (simp add: hub_join_def Let_def on_room_def split: option.split)
  from hub_reach.step [OF h2 hub_step.register [of "''a''" _ "''p1''"]] c2 show ?thesis by (simp add: relay_hub_def Let_def)
qed

lemmas relay_hub_defs = relay_hub_def Let_def hub_join_def getOrCreateRoom_def NewHub_def hub_room_at_def on_room_def
  enter_room_def may_enter_def NewRoom_def RegisterBlePeer_def on_rooms_of_def relayed_by_def

lemma relay_hub_clients: "sh_clients relay_hub = [''a'', ''b'']"
  by (simp add: relay_hub_defs)

lemma relay_hub_peer:
  "js_get (sh_peers relay_hub) ''p1'' = Some \<lparr>bp_id = ''p1'', bp_name = ''Tab'', bp_relay = ''a'', bp_transport = ''btle''\<rparr>"
  by (simp add: relay_hub_defs)

lemma relay_hub_room:
  "\<exists>r. sh_rooms relay_hub = [r] \<and> hr_hex r = ''ops'' \<and> hr_dm r = None \<and> hr_members r = [''b'', ''a''] \<and> r \<in> set (rooms_of ''a'' relay_hub)"
  by (simp add: relay_hub_defs rooms_of_def List.insert_def)

text \<open>The peer as the other client shows it.\<close>

definition tab_peer :: mesh_peer where
  "tab_peer = web_peer \<lparr>gp_id = ''p1'', gp_name = ''Tab'', gp_short = ''p1'', gp_transport = ''btle'', gp_latency = 0,
     gp_state = ''connected'', gp_since = 0, gp_via = ''a''\<rparr>"



section \<open>Two peers behind one relay\<close>

lemma only_element: "distinct xs \<Longrightarrow> set xs = {x} \<Longrightarrow> xs = [x]"
  by (cases xs) (auto simp: subset_singleton_iff)

lemma promote_one:
  assumes "old \<noteq> []" and "old \<noteq> pid"
  shows "hr_hex (fst (PromoteBlePeer seat pid old (r, nm))) = hr_hex r"
    and "vr_channels (hr_voice (fst (PromoteBlePeer seat pid old (r, nm)))) = map (promote_channel old pid) (vr_channels (hr_voice r))"
    and "js_get (hr_ble (fst (PromoteBlePeer seat pid old (r, nm)))) old = None"
    and "js_get (hr_ble r) old = Some k \<Longrightarrow>
      \<exists>k'. js_get (hr_ble (fst (PromoteBlePeer seat pid old (r, nm)))) pid = Some k' \<and> bl_position k' = bl_position k"
  using assms by (auto simp: PromoteBlePeer_def Let_def split: option.split)

text \<open>
  C28. A relay cannot have two peers: whoever registers a second one makes the first its mere
  provisional name. The first peer is no longer known, and in every room of the relay its seats in the
  voice channels and its position on the map become those of the second.
\<close>

theorem second_peer_replaces_first:
  assumes "hub_reach hash h" and "js_get (sh_peers h) p1 = Some b1" and "bp_relay b1 = rl" and "p2 \<noteq> p1"
    and "RegisterBlePeer seat names rl p2 nm t h = (h', outs)" and "r \<in> set (rooms_of rl h)"
  shows "js_get (sh_peers h') p1 = None \<and> (\<exists>b2. js_get (sh_peers h') p2 = Some b2 \<and> bp_relay b2 = rl) \<and>
     (\<exists>r' \<in> set (rooms_of rl h'). hr_hex r' = hr_hex r \<and>
        (\<forall>ch \<in> set (vr_channels (hr_voice r)). \<exists>ch' \<in> set (vr_channels (hr_voice r')). gh_id ch' = gh_id ch \<and>
           p1 \<notin> set (gh_ble ch') \<and> (p1 \<in> set (gh_ble ch) \<longrightarrow> p2 \<in> set (gh_ble ch'))) \<and>
        js_get (hr_ble r') p1 = None \<and>
        (\<forall>k. js_get (hr_ble r) p1 = Some k \<longrightarrow> (\<exists>k'. js_get (hr_ble r') p2 = Some k' \<and> bl_position k' = bl_position k)))"
proof -
  have inv: "hub_inv h" using assms(1) by (rule inv_hub_reach)
  then have ok: "registry_ok (sh_peers h)" by (simp add: hub_inv_def peers_ok_def)
  have p1: "p1 \<noteq> []" using inv assms(2) unfolding hub_inv_def peers_ok_def by metis
  have "i \<in> set (relayed_by rl (sh_peers h)) \<longleftrightarrow> i = p1" for i
    using relayed_by_iff [OF ok, of i rl] assms(2,3) inv unfolding hub_inv_def peers_ok_def by blast
  moreover have "distinct (relayed_by rl (sh_peers h))"
    using ok by (auto simp: relayed_by_def registry_ok_def well_keyed_def js_keys_def distinct_map inj_on_def)
  ultimately have only: "relayed_by rl (sh_peers h) = [p1]" by (intro only_element) auto
  let ?f = "\<lambda>r. fst (PromoteBlePeer seat p2 p1 (r, nm))"
  have h': "h' = (on_rooms_of rl ?f h)\<lparr>sh_peers := js_set p2 \<lparr>bp_id = p2, bp_name = nm, bp_relay = rl,
      bp_transport = (if t = [] then ''btle'' else t)\<rparr> (js_delete p1 (sh_peers h))\<rparr>"
    using assms(4,5) by (simp add: RegisterBlePeer_def only Let_def)
  have mem: "rl \<in> set (hr_members (?f r))" using promote_frame [of seat p2 p1 "(r, nm)"] assms(6) by (simp add: rooms_of_def)
  note P = promote_one [OF p1 assms(4) [symmetric], where seat = seat and r = r and nm = nm]
  have in_h': "?f r \<in> set (rooms_of rl h')" using assms(6) mem by (auto simp: h' rooms_of_def on_rooms_of_def)
  have seats: "\<exists>ch' \<in> set (vr_channels (hr_voice (?f r))). gh_id ch' = gh_id ch \<and> p1 \<notin> set (gh_ble ch') \<and>
      (p1 \<in> set (gh_ble ch) \<longrightarrow> p2 \<in> set (gh_ble ch'))" if "ch \<in> set (vr_channels (hr_voice r))" for ch
    using that assms(4) unfolding P(2) by (intro bexI [of _ "promote_channel p1 p2 ch"]) (auto simp: promote_channel_def)
  have "js_get (sh_peers h') p1 = None" "\<exists>b2. js_get (sh_peers h') p2 = Some b2 \<and> bp_relay b2 = rl"
    using assms(4) by (simp_all add: h')
  with in_h' seats P(1,3,4) show ?thesis by blast
qed

lemma second_peer_replaces_first_witness:
  "js_get (sh_peers (fst (RegisterBlePeer id id ''a'' ''p2'' ''Watch'' ''btle'' relay_hub))) ''p1'' = None"
proof -
  obtain h' outs where res: "RegisterBlePeer id id ''a'' ''p2'' ''Watch'' ''btle'' relay_hub = (h', outs)"
    by (cases "RegisterBlePeer id id ''a'' ''p2'' ''Watch'' ''btle'' relay_hub")
  obtain r where "r \<in> set (rooms_of ''a'' relay_hub)" using relay_hub_room by blast
  from second_peer_replaces_first [OF relay_hub_reached relay_hub_peer _ _ res this] res show ?thesis by simp
qed

end
