(* ===== verification/HubScreens.thy ===== *)
theory HubScreens
  imports HubProps
begin

text \<open>
  What stays on the screens: a Bluetooth peer that is gone from the server, and the list of rooms when
  nothing is left in it.
\<close>

section \<open>Peers that are gone\<close>

text \<open>A frame that leaves a peer in the list of every room.\<close>

definition keeps_peer :: "views \<Rightarrow> mesh_peer \<Rightarrow> jsval \<Rightarrow> bool" where
  "keeps_peer V p f \<longleftrightarrow>
     (\<forall>s rid. p \<in> set (room_entries (meshPeers s) rid) \<longrightarrow> p \<in> set (room_entries (meshPeers (deliver V f s)) rid))"

lemma keeps_same: "(\<And>s. meshPeers (deliver V f s) = meshPeers s) \<Longrightarrow> keeps_peer V p f"
  by (simp add: keeps_peer_def)

lemma keeps_all: "list_all (keeps_peer V p) fs \<Longrightarrow> p \<in> set (room_entries (meshPeers s) rid) \<Longrightarrow>
    p \<in> set (room_entries (meshPeers (fold (deliver V) fs s)) rid)"
  by (induction fs arbitrary: s) (auto simp: keeps_peer_def)

lemma keeps_other_frames:
  "keeps_peer V p (go_voice_state names v)"
  "keeps_peer V p (go_cot_state who k r)"
  "keeps_peer V p (peer_update who c event r)"
  "keeps_peer V p (voice_notice ''voice_peer_left'' hex cid c [])"
  by (rule keeps_same; simp add: go_voice_state_def go_cot_state_def peer_update_def voice_notice_def deliver_frame
      ws_switch_def on_voice_state_def on_cot_state_def on_peer_update_def on_voice_peer_left_def need_str_def stored_def
      setVoiceState_def setCotContacts_def setCotMarkers_def updateRoomMembers_def update_room_def removeVoicePeer_def
      update_channel_def split: option.split)+

lemma keeps_mesh:
  assumes "reads_mesh V" and "directory_ok who" and "registry_ok reg" and "is_bridge_peer p" and "shown_peer p"
    and "peer_id p \<notin> set (hr_members r) \<union> set (js_keys reg)"
  shows "keeps_peer V p (go_mesh_state who reg r k)"
proof -
  have "peer_id p \<notin> gp_id ` set (mesh_peers_for who reg r k)"
    using told_ids [OF assms(2,3), of k r] assms(6)
      dedup_keeps_best [of "GetMeshPeers who k r @ getBlePeerMeshData reg" "hc_preferred (who k)"]
    by (simp add: mesh_peers_for_def)
  then have new: "peer_id p \<notin> peer_id ` set (map web_peer (mesh_peers_for who reg r k))" by (simp add: image_image)
  show ?thesis
    unfolding keeps_peer_def
  proof (intro allI impI)
    fix s :: chat_state and rid assume mem: "p \<in> set (room_entries (meshPeers s) rid)"
    have "p \<in> set (server_and_bridge_peers (room_entries (meshPeers s) rid) (map web_peer (mesh_peers_for who reg r k)))"
      using mem new assms(4,5) unfolding server_and_bridge_set by blast
    then show "p \<in> set (room_entries (meshPeers (deliver V (go_mesh_state who reg r k) s)) rid)"
      using mem unfolding deliver_mesh_state [OF assms(1)] by (auto simp: setMeshPeers_def)
  qed
qed

definition quiet_frames_for :: "views \<Rightarrow> mesh_peer \<Rightarrow> addressed \<Rightarrow> bool" where
  "quiet_frames_for V p outs \<longleftrightarrow> list_all (\<lambda>(c, f). keeps_peer V p f) outs"

lemma quiet_simps [simp]:
  "quiet_frames_for V p []" "quiet_frames_for V p (xs @ ys) \<longleftrightarrow> quiet_frames_for V p xs \<and> quiet_frames_for V p ys"
  "quiet_frames_for V p (concat xss) \<longleftrightarrow> list_all (quiet_frames_for V p) xss"
  "quiet_frames_for V p (map (\<lambda>c. (g c, F c)) cs) \<longleftrightarrow> list_all (\<lambda>c. keeps_peer V p (F c)) cs"
  by (auto simp: quiet_frames_for_def list_all_iff)

lemma quiet_to: "quiet_frames_for V p outs \<Longrightarrow> list_all (keeps_peer V p) (frames_to k outs)"
  by (auto simp: quiet_frames_for_def frames_to_def list_all_iff)

definition unheard :: "mesh_peer \<Rightarrow> server_hub \<Rightarrow> bool" where
  "unheard p h \<longleftrightarrow> hub_inv h \<and> peer_id p \<notin> set (sh_clients h) \<and> js_get (sh_peers h) (peer_id p) = None"

lemma unheard_mesh:
  assumes "reads_mesh V" and "is_bridge_peer p" and "shown_peer p" and "directory_ok who" and "registry_ok reg"
    and "js_get reg (peer_id p) = None" and "peer_id p \<notin> set (hr_members r)"
  shows "quiet_frames_for V p (broadcastMeshState who reg r)"
  using keeps_mesh [OF assms(1,4,5,2,3)] assms(6,7)
  by (simp add: broadcastMeshState_def list_all_iff js_get_keys)

lemma quiet_broadcasts:
  "quiet_frames_for V p (broadcastVoiceState names v)" "quiet_frames_for V p (broadcastCotState who r)"
  "quiet_frames_for V p (tell_room r (peer_update who c event r'))"
  by (simp_all add: broadcastVoiceState_def broadcastCotState_def tell_room_def list_all_iff keeps_other_frames)

lemma quiet_tick:
  assumes "reads_mesh V" and "is_bridge_peer p" and "shown_peer p" and "unheard p h"
  shows "quiet_frames_for V p (mesh_tick names h)"
proof -
  have "directory_ok (sh_who h)" "registry_ok (sh_peers h)" "js_get (sh_peers h) (peer_id p) = None"
    "\<And>r. r \<in> set (sh_rooms h) \<Longrightarrow> peer_id p \<notin> set (hr_members r)"
    using assms(4) by (auto simp: unheard_def hub_inv_def peers_ok_def list_all_iff room_ok_def)
  with unheard_mesh [OF assms(1-3)] quiet_broadcasts show ?thesis
    by (auto simp: mesh_tick_def list_all_iff)
qed

lemma quiet_unregister:
  assumes "reads_mesh V" and "is_bridge_peer p" and "shown_peer p" and "hub_inv h" and "peer_id p \<notin> set (sh_clients h)"
    and "resolveBlePeer rl (peer_id p) h \<noteq> None"
  shows "quiet_frames_for V p (snd (UnregisterBlePeer names rl (peer_id p) h)) \<and>
    unheard p (fst (UnregisterBlePeer names rl (peer_id p) h))"
proof -
  let ?reg = "js_delete (peer_id p) (sh_peers h)"
  have ok: "directory_ok (sh_who h)" "registry_ok ?reg"
    using assms(4) by (simp_all add: hub_inv_def peers_ok_def registry_ok_def well_keyed_delete)
  have peers: "peers_ok (sh_clients h) ?reg" using assms(4) ok(2)
    by (auto simp: hub_inv_def peers_ok_def split: if_splits)
  have frame: "frame_ok (\<lambda>r. ClearBleCotPosition (peer_id p) (on_channels (leave_ble (peer_id p)) r))"
    by (simp add: frame_ok_def ClearBleCotPosition_def)
  define h' where "h' = (on_rooms_of rl (\<lambda>r. ClearBleCotPosition (peer_id p) (on_channels (leave_ble (peer_id p)) r)) h)\<lparr>sh_peers := ?reg\<rparr>"
  have inv: "hub_inv h'" unfolding h'_def by (rule hub_frame(1) [OF assms(4) frame peers])
  obtain b where b: "resolveBlePeer rl (peer_id p) h = Some b" using assms(6) by auto
  have h': "fst (UnregisterBlePeer names rl (peer_id p) h) = h'" "sh_clients h' = sh_clients h" "sh_peers h' = ?reg" "sh_who h' = sh_who h"
    using b by (simp_all add: UnregisterBlePeer_def Let_def h'_def on_rooms_of_def)
  have mem: "peer_id p \<notin> set (hr_members r)" if "r \<in> set (sh_rooms h')" for r
    using inv that assms(5) h'(2) by (auto simp: hub_inv_def list_all_iff room_ok_def)
  have "snd (UnregisterBlePeer names rl (peer_id p) h) = concat (map (\<lambda>r. broadcastVoiceState names (hr_voice r) @
      broadcastCotState (sh_who h') r @ broadcastMeshState (sh_who h') ?reg r) (rooms_of rl h'))"
    using b by (simp add: UnregisterBlePeer_def Let_def h'_def)
  moreover have "quiet_frames_for V p (broadcastMeshState (sh_who h') ?reg r)" if "r \<in> set (rooms_of rl h')" for r
    by (rule unheard_mesh [OF assms(1-3)]) (use that ok mem h'(4) in \<open>auto simp: rooms_of_def\<close>)
  ultimately have "quiet_frames_for V p (snd (UnregisterBlePeer names rl (peer_id p) h))"
    using quiet_broadcasts by (simp add: list_all_iff)
  with inv h' assms(5) show ?thesis by (simp add: unheard_def)
qed

lemma quiet_gone:
  assumes "reads_mesh V" and "is_bridge_peer p" and "shown_peer p" and "hub_inv h" and "peer_id p \<notin> set (sh_clients h)"
    and "resolveBlePeer rl (peer_id p) h \<noteq> None"
  shows "quiet_frames_for V p (snd (client_gone names rl h)) \<and> unheard p (fst (client_gone names rl h))"
proof -
  define reg where "reg = fold js_delete (relayed_by rl (sh_peers h)) (sh_peers h)"
  have ok0: "registry_ok (sh_peers h)" and dir: "directory_ok (sh_who h)"
    using assms(4) by (simp_all add: hub_inv_def peers_ok_def)
  have ok: "registry_ok reg" unfolding reg_def by (rule registry_delete_all [OF ok0])
  obtain b where "js_get (sh_peers h) (peer_id p) = Some b" "bp_relay b = rl"
    using assms(6) by (auto simp: resolveBlePeer_def split: if_splits option.splits)
  then have none: "js_get reg (peer_id p) = None" using relayed_by_iff [OF ok0] by (auto simp: reg_def get_delete_all)
  have mem: "peer_id p \<notin> set (hr_members r)" if "r \<in> set (sh_rooms h)" for r
    using assms(4,5) that by (auto simp: hub_inv_def list_all_iff room_ok_def)
  have left: "quiet_frames_for V p (snd (leave_hub_room (sh_who h) names reg rl r))" if "peer_id p \<notin> set (hr_members r)" for r
  proof -
    obtain v outs where v: "removeFromRoom names rl (hr_voice r) = (v, outs)" by (cases "removeFromRoom names rl (hr_voice r)")
    have notices: "quiet_frames_for V p (concat (map (\<lambda>cid. map (\<lambda>m. (m, voice_notice ''voice_peer_left'' hex cid rl [])) (ms cid)) cids))" for hex cids and ms :: "string \<Rightarrow> string list"
      by (simp add: list_all_iff keeps_other_frames)
    have "quiet_frames_for V p (snd (removeFromRoom names rl (hr_voice r)))"
      using notices [of "vr_hex (fst (LeaveAllVoiceChannels rl (hr_voice r)))"] quiet_broadcasts(1)
      by (simp add: removeFromRoom_def Let_def case_prod_beta)
    then have "quiet_frames_for V p outs" by (simp add: v)
    moreover have "vr_members v = removeAll rl (hr_members r)"
      using v by (auto simp: removeFromRoom_def LeaveAllVoiceChannels_def Let_def)
    then have "quiet_frames_for V p (broadcastMeshState (sh_who h) reg (r\<lparr>hr_voice := v\<rparr>))"
      using that by (intro unheard_mesh [OF assms(1-3) dir ok none]) simp
    ultimately show ?thesis by (simp add: leave_hub_room_def v quiet_broadcasts Let_def)
  qed
  let ?stale = "relayed_by rl (sh_peers h)"
  define rooms1 where "rooms1 = (if ?stale = [] then sh_rooms h else map (drop_ble ?stale) (sh_rooms h))"
  define told where "told = (if ?stale = [] then []
      else concat (map (\<lambda>r. if had_ble ?stale r then broadcastVoiceState names (hr_voice (drop_ble ?stale r)) else []) (sh_rooms h)))"
  have outs: "snd (client_gone names rl h) = told @ concat (map (\<lambda>r. snd (if rl \<in> set (hr_members r)
      then leave_hub_room (sh_who h) names reg rl r else (r, []))) rooms1)"
    unfolding client_gone_def Let_def reg_def [symmetric] rooms1_def [symmetric] told_def [symmetric] by (simp add: comp_def)
  have "quiet_frames_for V p told" by (auto simp: told_def list_all_iff quiet_broadcasts)
  moreover have "peer_id p \<notin> set (hr_members r)" if "r \<in> set rooms1" for r
    using that mem by (auto simp: rooms1_def split: if_splits)
  ultimately have "quiet_frames_for V p (snd (client_gone names rl h))"
    unfolding outs by (simp add: list_all_iff left)
  moreover have "sh_peers (fst (client_gone names rl h)) = reg" "set (sh_clients (fst (client_gone names rl h))) \<subseteq> set (sh_clients h)"
    by (auto simp: client_gone_def reg_def Let_def)
  ultimately show ?thesis using inv_gone [OF assms(4)] none assms(5) by (auto simp: unheard_def)
qed

text \<open>
  C26. A Bluetooth peer that is gone stays on the screens. When its relay unregisters it, or loses its
  connection, the server forgets it and tells everybody a mesh without it; but a client that shows it
  keeps it through these frames and through every later tick of the server, since the store takes every
  Bluetooth entry for one of the native bridge, which only the bridge may remove.
\<close>

theorem gone_peer_stays_shown:
  assumes "hub_reach hash h" and "reads_mesh V" and "is_bridge_peer p" and "shown_peer p" and "peer_id p \<notin> set (sh_clients h)"
    and "resolveBlePeer rl (peer_id p) h \<noteq> None" and "p \<in> set (room_entries (meshPeers s) rid)"
    and "(h', outs) = UnregisterBlePeer names rl (peer_id p) h \<or> (h', outs) = client_gone names rl h"
  shows "js_get (sh_peers h') (peer_id p) = None \<and>
     p \<in> set (room_entries (meshPeers
           (fold (deliver V) (frames_to k (outs @ concat (replicate n (mesh_tick names' h')))) s)) rid)"
proof -
  have inv: "hub_inv h" using assms(1) by (rule inv_hub_reach)
  have "quiet_frames_for V p outs \<and> unheard p h'"
    using assms(8) quiet_unregister [OF assms(2-4) inv assms(5,6), of names] quiet_gone [OF assms(2-4) inv assms(5,6), of names]
    by (auto simp: prod_eq_iff)
  moreover from this have "quiet_frames_for V p (concat (replicate n (mesh_tick names' h')))"
    using quiet_tick [OF assms(2-4)] by (simp add: list_all_iff)
  ultimately show ?thesis
    using keeps_all [OF quiet_to [of V p "outs @ concat (replicate n (mesh_tick names' h'))" k] assms(7)]
    by (simp add: unheard_def)
qed

lemma gone_peer_stays_shown_witness:
  "\<forall>V. \<exists>h' outs. UnregisterBlePeer id ''a'' ''p1'' relay_hub = (h', outs) \<and>
     tab_peer \<in> set (room_entries (meshPeers (fold (deliver (V\<lparr>as_mesh_peer := json_peer\<rparr>))
       (frames_to ''b'' (outs @ concat (replicate 3 (mesh_tick id h')))) (setMeshPeers ''ops'' [tab_peer] init_chat))) ''ops'')"
proof
  fix V :: views
  let ?V = "V\<lparr>as_mesh_peer := json_peer\<rparr>"
  have p: "is_bridge_peer tab_peer" "shown_peer tab_peer" "peer_id tab_peer = ''p1''"
    by (simp_all add: tab_peer_def is_bridge_peer_def shown_peer_def web_peer_def js_includes.simps js_lower_def
        js_lower_char_def js_starts_with_def)
  have shown: "tab_peer \<in> set (room_entries (meshPeers (setMeshPeers ''ops'' [tab_peer] init_chat)) ''ops'')"
    using p by (simp add: setMeshPeers_entries server_and_bridge_set)
  obtain h' outs where res: "UnregisterBlePeer id ''a'' ''p1'' relay_hub = (h', outs)"
    by (cases "UnregisterBlePeer id ''a'' ''p1'' relay_hub")
  have "resolveBlePeer ''a'' ''p1'' relay_hub \<noteq> None" using relay_hub_peer by (simp add: resolveBlePeer_def)
  moreover have "''p1'' \<notin> set (sh_clients relay_hub)" using relay_hub_clients by simp
  ultimately have "tab_peer \<in> set (room_entries (meshPeers (fold (deliver ?V)
       (frames_to ''b'' (outs @ concat (replicate 3 (mesh_tick id h')))) (setMeshPeers ''ops'' [tab_peer] init_chat))) ''ops'')"
    using gone_peer_stays_shown [OF relay_hub_reached reads_mesh_ex [of V] p(1,2) _ _ shown, of "''a''" h' outs id "''b''" 3 id] p(3) res
    by simp
  with res show "\<exists>h' outs. UnregisterBlePeer id ''a'' ''p1'' relay_hub = (h', outs) \<and>
     tab_peer \<in> set (room_entries (meshPeers (fold (deliver ?V)
       (frames_to ''b'' (outs @ concat (replicate 3 (mesh_tick id h')))) (setMeshPeers ''ops'' [tab_peer] init_chat))) ''ops'')"
    by blast
qed

section \<open>The list of rooms\<close>

definition listed :: "server_hub \<Rightarrow> hub_room list" where
  "listed h = filter (\<lambda>r. hr_public r \<and> hr_dm r = None) (sh_rooms h)"

definition web_room_info :: "hub_room \<Rightarrow> room_info_data" where
  "web_room_info r =
     \<lparr> info_room_id = hr_hex r, info_name = hr_name r, info_members = real (length (hr_members r)), is_public = True \<rparr>"

definition reads_rooms :: "views \<Rightarrow> bool" where
  "reads_rooms V \<longleftrightarrow>
     (\<forall>r. as_room_info V (JObj [(''room_id'', JStr (hr_hex r)), (''name'', JStr (hr_name r)),
            (''members'', JNum (real (length (hr_members r)))), (''is_public'', JBool True)]) = web_room_info r)"

definition json_room_info :: "jsval \<Rightarrow> room_info_data" where
  "json_room_info v =
     \<lparr> info_room_id = str_or [] (js_prop v ''room_id''), info_name = str_or [] (js_prop v ''name''),
       info_members = num_or 0 (js_prop v ''members''), is_public = truthy (js_prop v ''is_public'') \<rparr>"

lemma reads_rooms_ex: "reads_rooms (V\<lparr>as_room_info := json_room_info\<rparr>)"
  by (simp add: reads_rooms_def json_room_info_def web_room_info_def)

lemma deliver_room_list:
  assumes "reads_rooms V"
  shows "deliver V (room_list_frame h) s =
     (if listed h = [] then s else setAvailableRooms (map web_room_info (listed h)) s)"
  using assms
  by (auto simp: room_list_frame_def buildRoomList_def deliver_frame ws_switch_def on_room_list_def stored_def go_slice_def
      listed_def reads_rooms_def comp_def)

lemma room_at_mem: "hub_room_at hex h = Some r \<Longrightarrow> r \<in> set (sh_rooms h) \<and> hr_hex r = hex"
  by (auto simp: hub_room_at_def find_Some_iff)

lemma room_at_exists: "hub_room_at hex h = Some r \<Longrightarrow> list_ex (\<lambda>r. hr_hex r = hex) (sh_rooms h)"
  using room_at_mem by (auto simp: list_ex_iff)

lemma room_at_update:
  assumes "hub_room_at hex h = Some r" and "\<And>r. hr_hex (f r) = hr_hex r"
  shows "hub_room_at hex (on_room hex f h) = Some (f r)"
proof -
  have "find (\<lambda>r. hr_hex r = hex) (map (\<lambda>r. if hr_hex r = hex then f r else r) rs) = Some (f r)"
    if "find (\<lambda>r. hr_hex r = hex) rs = Some r" for rs
    using that by (induction rs) (auto simp: assms(2) split: if_splits)
  with assms(1) show ?thesis by (simp add: hub_room_at_def on_room_def)
qed



end
