(* ===== verification/Primitives.thy ===== *)
theory Primitives
  imports Widgets
begin

text \<open>
  The primitives of \<open>components/ui\<close>: wrappers around Radix, vaul and plain elements, each a function
  from the class name and the other properties its caller gives to the tree of elements it renders.
  A re-export is its element; a property with a default in the parameter list is \<open>JUndefined\<close> when
  the caller does not give it; what \<open>React.forwardRef\<close> does with \<open>ref\<close> is not modelled. \<open>cn\<close>
  (clsx and tailwind-merge) and \<open>cva\<close> (class-variance-authority) are parameters; the tables given to
  \<open>cva\<close> are data. A wrapper with children of its own ignores those of its caller where it does not
  take \<open>children\<close> out of the properties.
\<close>

type_synonym attrs = "(string \<times> jsval) list"

definition default_to :: "jsval \<Rightarrow> jsval \<Rightarrow> jsval" where
  "default_to d v = (if v = JUndefined then d else v)"

section \<open>Tables of class names\<close>

record cva_config =
  cva_base :: string
  cva_variants :: "(string \<times> (string \<times> string) list) list"
  cva_defaults :: "(string \<times> string) list"

type_synonym cva = "cva_config \<Rightarrow> attrs \<Rightarrow> string"

definition button_classes :: cva_config where
  "button_classes =
     \<lparr> cva_base = ''inline-flex items-center justify-center gap-2 whitespace-nowrap rounded-md text-sm font-medium transition-colors focus-visible:outline-hidden focus-visible:ring-2 focus-visible:ring-border-focus disabled:pointer-events-none disabled:opacity-50 [&_svg]:pointer-events-none [&_svg]:size-4 [&_svg]:shrink-0'',
       cva_variants = [(''variant'',
          [(''default'', ''bg-primary text-primary-foreground hover:bg-primary/90''),
           (''destructive'', ''bg-destructive text-destructive-foreground hover:bg-destructive/90''),
           (''outline'', ''border border-border-default bg-transparent hover:bg-surface-2 hover:text-fg-primary''),
           (''secondary'', ''bg-secondary text-secondary-foreground hover:bg-secondary/80''),
           (''ghost'', ''hover:bg-surface-2 hover:text-fg-primary''),
           (''link'', ''text-primary underline-offset-4 hover:underline'')]),
         (''size'',
          [(''default'', ''h-10 px-4 py-2 min-h-touch''),
           (''sm'', ''h-9 rounded-md px-3 min-h-touch''),
           (''lg'', ''h-11 rounded-md px-8 min-h-touch''),
           (''icon'', ''h-11 w-11 min-h-touch''),
           (''xs'', ''h-7 rounded-md px-2 text-xs''),
           (''icon-xs'', ''h-7 w-7 rounded-md'')])],
       cva_defaults = [(''variant'', ''default''), (''size'', ''default'')] \<rparr>"

definition badge_classes :: cva_config where
  "badge_classes =
     \<lparr> cva_base = ''inline-flex items-center rounded-full border border-border px-2.5 py-0.5 text-xs font-semibold transition-colors focus:outline-hidden focus:ring-2 focus:ring-ring'',
       cva_variants = [(''variant'',
          [(''default'', ''border-transparent bg-primary text-primary-foreground hover:bg-primary/80''),
           (''secondary'', ''border-transparent bg-secondary text-secondary-foreground hover:bg-secondary/80''),
           (''destructive'', ''border-transparent bg-destructive text-destructive-foreground hover:bg-destructive/80''),
           (''outline'', ''text-foreground''),
           (''info'', ''border-transparent bg-status-info     text-fg-on-brand''),
           (''success'', ''border-transparent bg-status-success  text-fg-on-brand''),
           (''warning'', ''border-transparent bg-status-warning  text-fg-primary''),
           (''critical'', ''border-transparent bg-status-critical text-fg-on-brand''),
           (''count'', ''border-transparent bg-status-critical text-fg-on-brand''),
           (''cot-friendly'', ''border-transparent bg-cot-friendly    text-fg-on-brand''),
           (''cot-hostile'', ''border-transparent bg-cot-hostile     text-fg-on-brand''),
           (''cot-neutral'', ''border-transparent bg-cot-neutral     text-fg-primary''),
           (''cot-unknown'', ''border-transparent bg-cot-unknown     text-fg-primary''),
           (''transport-wifi'', ''border-transparent bg-transport-wifi    text-fg-on-brand''),
           (''transport-ble'', ''border-transparent bg-transport-ble     text-fg-on-brand''),
           (''transport-relay'', ''border-transparent bg-transport-relay   text-fg-primary''),
           (''transport-offline'', ''border-transparent bg-transport-offline text-fg-on-brand'')])],
       cva_defaults = [(''variant'', ''default'')] \<rparr>"

definition label_classes :: cva_config where
  "label_classes =
     \<lparr> cva_base = ''text-sm font-medium leading-none peer-disabled:cursor-not-allowed peer-disabled:opacity-70'',
       cva_variants = [],
       cva_defaults = [] \<rparr>"

definition sheet_classes :: cva_config where
  "sheet_classes =
     \<lparr> cva_base = ''fixed z-50 gap-4 bg-background p-6 shadow-lg transition ease-in-out data-[state=open]:animate-in data-[state=closed]:animate-out data-[state=closed]:duration-300 data-[state=open]:duration-500'',
       cva_variants = [(''side'',
          [(''top'', ''inset-x-0 top-0 border-b border-border data-[state=closed]:slide-out-to-top data-[state=open]:slide-in-from-top''),
           (''bottom'', ''inset-x-0 bottom-0 border-t border-border data-[state=closed]:slide-out-to-bottom data-[state=open]:slide-in-from-bottom''),
           (''left'', ''inset-y-0 left-0 h-full w-3/4 border-r border-border data-[state=closed]:slide-out-to-left data-[state=open]:slide-in-from-left sm:max-w-sm''),
           (''right'', ''inset-y-0 right-0 h-full w-3/4 border-l border-border data-[state=closed]:slide-out-to-right data-[state=open]:slide-in-from-right sm:max-w-sm'')])],
       cva_defaults = [(''side'', ''right'')] \<rparr>"

definition buttonVariants :: "cva \<Rightarrow> jsval \<Rightarrow> jsval \<Rightarrow> string option \<Rightarrow> string" where
  "buttonVariants cva variant sz className =
     cva button_classes
       [(''variant'', variant), (''size'', sz),
        (''className'', (case className of None \<Rightarrow> JUndefined | Some c \<Rightarrow> JStr c))]"

definition badgeVariants :: "cva \<Rightarrow> jsval \<Rightarrow> string" where
  "badgeVariants cva variant = cva badge_classes [(''variant'', variant)]"

definition labelVariants :: "cva \<Rightarrow> string" where
  "labelVariants cva = cva label_classes []"

definition sheetVariants :: "cva \<Rightarrow> jsval \<Rightarrow> string" where
  "sheetVariants cva side = cva sheet_classes [(''side'', side)]"

section \<open>Small controls\<close>

definition Button ::
  "cva \<Rightarrow> class_names \<Rightarrow> string option \<Rightarrow> jsval \<Rightarrow> jsval \<Rightarrow> bool \<Rightarrow> attrs \<Rightarrow> element list \<Rightarrow> element" where
  "Button cva cn className variant sz asChild props children =
     Element (if asChild then ''Slot'' else ''button'')
       (spread_props [(''className'', JStr (cn [Some (buttonVariants cva variant sz className)]))] props)
       children"

definition ScrollBar ::
  "class_names \<Rightarrow> string option \<Rightarrow> jsval \<Rightarrow> attrs \<Rightarrow> element list \<Rightarrow> element" where
  "ScrollBar cn className orientation props children =
     (let orientation = default_to (JStr ''vertical'') orientation
      in Element ''ScrollAreaPrimitive.ScrollAreaScrollbar''
          (spread_props
             [(''orientation'', orientation),
              (''className'',
               JStr
                 (cn
                    [Some ''flex touch-none select-none transition-colors'',
                     if orientation = JStr ''vertical'' then Some ''h-full w-2.5 border-l border-l-transparent p-px'' else None,
                     if orientation = JStr ''horizontal'' then Some ''h-2.5 flex-col border-t border-t-transparent p-px'' else None,
                     className]))]
             props)
          [Element ''ScrollAreaPrimitive.ScrollAreaThumb''
             [(''className'', JStr ''relative flex-1 rounded-full bg-border'')]
             []])"

definition ScrollArea ::
  "class_names \<Rightarrow> string option \<Rightarrow> attrs \<Rightarrow> element list \<Rightarrow> element" where
  "ScrollArea cn className props children =
     Element ''ScrollAreaPrimitive.Root''
       (spread_props [(''className'', JStr (cn [Some ''relative overflow-hidden'', className]))] props)
       [Element ''ScrollAreaPrimitive.Viewport''
          [(''className'', JStr ''h-full w-full rounded-[inherit]'')]
          children,
        ScrollBar cn None JUndefined [] [],
        Element ''ScrollAreaPrimitive.Corner'' [] []]"

definition Separator ::
  "class_names \<Rightarrow> string option \<Rightarrow> jsval \<Rightarrow> jsval \<Rightarrow> attrs \<Rightarrow> element list \<Rightarrow> element" where
  "Separator cn className orientation decorative props children =
     (let orientation = default_to (JStr ''horizontal'') orientation;
          decorative = default_to (JBool True) decorative
      in Element ''SeparatorPrimitive.Root''
          (spread_props
             [(''decorative'', decorative),
              (''orientation'', orientation),
              (''className'',
               JStr
                 (cn
                    [Some ''shrink-0 bg-border'',
                     Some (if orientation = JStr ''horizontal'' then ''h-px w-full'' else ''h-full w-px''),
                     className]))]
             props)
          children)"

definition Label ::
  "cva \<Rightarrow> class_names \<Rightarrow> string option \<Rightarrow> attrs \<Rightarrow> element list \<Rightarrow> element" where
  "Label cva cn className props children =
     Element ''LabelPrimitive.Root''
       (spread_props [(''className'', JStr (cn [Some (labelVariants cva), className]))] props)
       children"

definition Input ::
  "class_names \<Rightarrow> string option \<Rightarrow> jsval \<Rightarrow> attrs \<Rightarrow> element list \<Rightarrow> element" where
  "Input cn className type' props children =
     Element ''input''
       (spread_props
          [(''type'', type'),
           (''className'',
            JStr
              (cn
                 [Some ''flex h-10 min-h-touch w-full rounded-md border border-input bg-background px-3 py-2 text-base file:border-0 file:bg-transparent file:text-sm file:font-medium file:text-foreground placeholder:text-muted-foreground focus-visible:outline-hidden focus-visible:ring-2 focus-visible:ring-ring disabled:cursor-not-allowed disabled:opacity-50 md:text-sm'',
                  className]))]
          props)
       children"

definition Textarea ::
  "class_names \<Rightarrow> string option \<Rightarrow> attrs \<Rightarrow> element list \<Rightarrow> element" where
  "Textarea cn className props children =
     Element ''textarea''
       (spread_props
          [(''className'',
            JStr
              (cn
                 [Some ''flex min-h-[80px] w-full rounded-md border border-input bg-background px-3 py-2 text-base placeholder:text-muted-foreground focus-visible:outline-hidden focus-visible:ring-2 focus-visible:ring-ring disabled:cursor-not-allowed disabled:opacity-50 md:text-sm'',
                  className]))]
          props)
       children"

definition Skeleton ::
  "class_names \<Rightarrow> string option \<Rightarrow> attrs \<Rightarrow> element list \<Rightarrow> element" where
  "Skeleton cn className props children =
     Element ''div''
       (spread_props [(''className'', JStr (cn [Some ''animate-pulse rounded-md bg-muted'', className]))] props)
       children"

definition Switch ::
  "class_names \<Rightarrow> string option \<Rightarrow> attrs \<Rightarrow> element list \<Rightarrow> element" where
  "Switch cn className props children =
     Element ''SwitchPrimitives.Root''
       (spread_props
          [(''className'',
            JStr
              (cn
                 [Some ''peer inline-flex h-6 w-11 shrink-0 cursor-pointer items-center rounded-full border-2 border-transparent transition-colors focus-visible:outline-hidden focus-visible:ring-2 focus-visible:ring-border-focus disabled:cursor-not-allowed disabled:opacity-50 data-[state=checked]:bg-brand data-[state=unchecked]:bg-surface-3'',
                  className]))]
          props)
       [Element ''SwitchPrimitives.Thumb''
          [(''className'',
            JStr
              (cn
                 [Some ''pointer-events-none block h-5 w-5 rounded-full bg-fg-on-brand shadow-lg ring-0 transition-transform data-[state=checked]:translate-x-5 data-[state=unchecked]:translate-x-0'']))]
          []]"

definition Slider ::
  "class_names \<Rightarrow> string option \<Rightarrow> attrs \<Rightarrow> element list \<Rightarrow> element" where
  "Slider cn className props children =
     Element ''SliderPrimitive.Root''
       (spread_props
          [(''className'',
            JStr (cn [Some ''relative flex w-full touch-none select-none items-center min-h-touch'', className]))]
          props)
       [Element ''SliderPrimitive.Track''
          [(''className'', JStr ''relative h-2 w-full grow overflow-hidden rounded-full bg-secondary'')]
          [Element ''SliderPrimitive.Range'' [(''className'', JStr ''absolute h-full bg-primary'')] []],
        Element ''SliderPrimitive.Thumb''
          [(''className'',
            JStr ''block h-6 w-6 rounded-full border-2 border-primary bg-background transition-colors focus-visible:outline-hidden focus-visible:ring-2 focus-visible:ring-ring disabled:pointer-events-none disabled:opacity-50'')]
          []]"

definition RadioGroup ::
  "class_names \<Rightarrow> string option \<Rightarrow> attrs \<Rightarrow> element list \<Rightarrow> element" where
  "RadioGroup cn className props children =
     Element ''RadioGroupPrimitive.Root''
       (spread_props [(''className'', JStr (cn [Some ''grid gap-2'', className]))] props)
       children"

definition RadioGroupItem ::
  "class_names \<Rightarrow> string option \<Rightarrow> attrs \<Rightarrow> element list \<Rightarrow> element" where
  "RadioGroupItem cn className props children =
     Element ''RadioGroupPrimitive.Item''
       (spread_props
          [(''className'',
            JStr
              (cn
                 [Some ''aspect-square h-4 w-4 rounded-full border border-input text-primary focus:outline-hidden focus-visible:ring-2 focus-visible:ring-ring disabled:cursor-not-allowed disabled:opacity-50'',
                  className]))]
          props)
       [Element ''RadioGroupPrimitive.Indicator''
          [(''className'', JStr ''flex items-center justify-center'')]
          [Element ''Circle'' [(''className'', JStr ''h-2.5 w-2.5 fill-current text-current'')] []]]"

definition Tabs :: "attrs \<Rightarrow> element list \<Rightarrow> element" where
  "Tabs = Element ''TabsPrimitive.Root''"

definition TabsList ::
  "class_names \<Rightarrow> string option \<Rightarrow> attrs \<Rightarrow> element list \<Rightarrow> element" where
  "TabsList cn className props children =
     Element ''TabsPrimitive.List''
       (spread_props
          [(''className'',
            JStr
              (cn
                 [Some ''inline-flex h-10 items-center justify-center rounded-md bg-muted p-1 text-muted-foreground'',
                  className]))]
          props)
       children"

definition TabsTrigger ::
  "class_names \<Rightarrow> string option \<Rightarrow> attrs \<Rightarrow> element list \<Rightarrow> element" where
  "TabsTrigger cn className props children =
     Element ''TabsPrimitive.Trigger''
       (spread_props
          [(''className'',
            JStr
              (cn
                 [Some ''inline-flex min-h-touch items-center justify-center whitespace-nowrap rounded-sm px-3 py-1.5 text-sm font-medium transition-all focus-visible:outline-hidden focus-visible:ring-2 focus-visible:ring-ring disabled:pointer-events-none disabled:opacity-50 data-[state=active]:bg-background data-[state=active]:text-foreground data-[state=active]:shadow-xs'',
                  className]))]
          props)
       children"

definition TabsContent ::
  "class_names \<Rightarrow> string option \<Rightarrow> attrs \<Rightarrow> element list \<Rightarrow> element" where
  "TabsContent cn className props children =
     Element ''TabsPrimitive.Content''
       (spread_props
          [(''className'',
            JStr
              (cn
                 [Some ''mt-2 focus-visible:outline-hidden focus-visible:ring-2 focus-visible:ring-ring'',
                  className]))]
          props)
       children"

definition Avatar ::
  "class_names \<Rightarrow> string option \<Rightarrow> attrs \<Rightarrow> element list \<Rightarrow> element" where
  "Avatar cn className props children =
     Element ''AvatarPrimitive.Root''
       (spread_props
          [(''className'',
            JStr (cn [Some ''relative flex h-10 w-10 shrink-0 overflow-hidden rounded-full'', className]))]
          props)
       children"

definition AvatarImage ::
  "class_names \<Rightarrow> string option \<Rightarrow> attrs \<Rightarrow> element list \<Rightarrow> element" where
  "AvatarImage cn className props children =
     Element ''AvatarPrimitive.Image''
       (spread_props [(''className'', JStr (cn [Some ''aspect-square h-full w-full'', className]))] props)
       children"

definition AvatarFallback ::
  "class_names \<Rightarrow> string option \<Rightarrow> attrs \<Rightarrow> element list \<Rightarrow> element" where
  "AvatarFallback cn className props children =
     Element ''AvatarPrimitive.Fallback''
       (spread_props
          [(''className'',
            JStr (cn [Some ''flex h-full w-full items-center justify-center rounded-full bg-muted'', className]))]
          props)
       children"

definition Card ::
  "class_names \<Rightarrow> string option \<Rightarrow> attrs \<Rightarrow> element list \<Rightarrow> element" where
  "Card cn className props children =
     Element ''div''
       (spread_props
          [(''className'',
            JStr
              (cn [Some ''rounded-lg border border-border bg-card text-card-foreground shadow-xs'', className]))]
          props)
       children"

definition CardHeader ::
  "class_names \<Rightarrow> string option \<Rightarrow> attrs \<Rightarrow> element list \<Rightarrow> element" where
  "CardHeader cn className props children =
     Element ''div''
       (spread_props [(''className'', JStr (cn [Some ''flex flex-col space-y-1.5 p-6'', className]))] props)
       children"

definition CardTitle ::
  "class_names \<Rightarrow> string option \<Rightarrow> attrs \<Rightarrow> element list \<Rightarrow> element" where
  "CardTitle cn className props children =
     Element ''div''
       (spread_props
          [(''className'', JStr (cn [Some ''text-2xl font-semibold leading-none tracking-tight'', className]))]
          props)
       children"

definition CardDescription ::
  "class_names \<Rightarrow> string option \<Rightarrow> attrs \<Rightarrow> element list \<Rightarrow> element" where
  "CardDescription cn className props children =
     Element ''div''
       (spread_props [(''className'', JStr (cn [Some ''text-sm text-fg-secondary'', className]))] props)
       children"

definition CardContent ::
  "class_names \<Rightarrow> string option \<Rightarrow> attrs \<Rightarrow> element list \<Rightarrow> element" where
  "CardContent cn className props children =
     Element ''div'' (spread_props [(''className'', JStr (cn [Some ''p-6 pt-0'', className]))] props) children"

definition CardFooter ::
  "class_names \<Rightarrow> string option \<Rightarrow> attrs \<Rightarrow> element list \<Rightarrow> element" where
  "CardFooter cn className props children =
     Element ''div''
       (spread_props [(''className'', JStr (cn [Some ''flex items-center p-6 pt-0'', className]))] props)
       children"

definition Badge ::
  "cva \<Rightarrow> class_names \<Rightarrow> string option \<Rightarrow> jsval \<Rightarrow> attrs \<Rightarrow> element list \<Rightarrow> element" where
  "Badge cva cn className variant props children =
     Element ''div''
       (spread_props [(''className'', JStr (cn [Some (badgeVariants cva variant), className]))] props)
       children"

section \<open>Popovers and tooltips\<close>

definition Popover :: "attrs \<Rightarrow> element list \<Rightarrow> element" where
  "Popover = Element ''PopoverPrimitive.Root''"

definition PopoverTrigger :: "attrs \<Rightarrow> element list \<Rightarrow> element" where
  "PopoverTrigger = Element ''PopoverPrimitive.Trigger''"

definition PopoverContent ::
  "class_names \<Rightarrow> string option \<Rightarrow> jsval \<Rightarrow> jsval \<Rightarrow> attrs \<Rightarrow> element list \<Rightarrow> element" where
  "PopoverContent cn className align sideOffset props children =
     (let align = default_to (JStr ''center'') align;
          sideOffset = default_to (JNum 4) sideOffset
      in Element ''PopoverPrimitive.Portal'' []
          [Element ''PopoverPrimitive.Content''
             (spread_props
                [(''align'', align),
                 (''sideOffset'', sideOffset),
                 (''className'',
                  JStr
                    (cn
                       [Some ''z-50 w-72 rounded-md border border-border bg-popover p-4 text-popover-foreground shadow-md outline-hidden data-[state=open]:animate-in data-[state=closed]:animate-out data-[state=closed]:fade-out-0 data-[state=open]:fade-in-0 data-[state=closed]:zoom-out-95 data-[state=open]:zoom-in-95 data-[side=bottom]:slide-in-from-top-2 data-[side=left]:slide-in-from-right-2 data-[side=right]:slide-in-from-left-2 data-[side=top]:slide-in-from-bottom-2 origin-(--radix-popover-content-transform-origin)'',
                        className]))]
                props)
             children])"

definition TooltipProvider :: "attrs \<Rightarrow> element list \<Rightarrow> element" where
  "TooltipProvider = Element ''TooltipPrimitive.Provider''"

definition Tooltip :: "attrs \<Rightarrow> element list \<Rightarrow> element" where
  "Tooltip = Element ''TooltipPrimitive.Root''"

definition TooltipTrigger :: "attrs \<Rightarrow> element list \<Rightarrow> element" where
  "TooltipTrigger = Element ''TooltipPrimitive.Trigger''"

definition TooltipContent ::
  "class_names \<Rightarrow> string option \<Rightarrow> jsval \<Rightarrow> attrs \<Rightarrow> element list \<Rightarrow> element" where
  "TooltipContent cn className sideOffset props children =
     (let sideOffset = default_to (JNum 4) sideOffset
      in Element ''TooltipPrimitive.Content''
          (spread_props
             [(''sideOffset'', sideOffset),
              (''className'',
               JStr
                 (cn
                    [Some ''z-50 overflow-hidden rounded-md border border-border bg-popover px-3 py-1.5 text-sm text-popover-foreground shadow-md animate-in fade-in-0 zoom-in-95 data-[state=closed]:animate-out data-[state=closed]:fade-out-0 data-[state=closed]:zoom-out-95 data-[side=bottom]:slide-in-from-top-2 data-[side=left]:slide-in-from-right-2 data-[side=right]:slide-in-from-left-2 data-[side=top]:slide-in-from-bottom-2 origin-(--radix-tooltip-content-transform-origin)'',
                     className]))]
             props)
          children)"

section \<open>Menus\<close>

definition ContextMenu :: "attrs \<Rightarrow> element list \<Rightarrow> element" where
  "ContextMenu = Element ''ContextMenuPrimitive.Root''"

definition ContextMenuTrigger :: "attrs \<Rightarrow> element list \<Rightarrow> element" where
  "ContextMenuTrigger = Element ''ContextMenuPrimitive.Trigger''"

definition ContextMenuGroup :: "attrs \<Rightarrow> element list \<Rightarrow> element" where
  "ContextMenuGroup = Element ''ContextMenuPrimitive.Group''"

definition ContextMenuPortal :: "attrs \<Rightarrow> element list \<Rightarrow> element" where
  "ContextMenuPortal = Element ''ContextMenuPrimitive.Portal''"

definition ContextMenuSub :: "attrs \<Rightarrow> element list \<Rightarrow> element" where
  "ContextMenuSub = Element ''ContextMenuPrimitive.Sub''"

definition ContextMenuRadioGroup :: "attrs \<Rightarrow> element list \<Rightarrow> element" where
  "ContextMenuRadioGroup = Element ''ContextMenuPrimitive.RadioGroup''"

definition ContextMenuSubTrigger ::
  "class_names \<Rightarrow> string option \<Rightarrow> bool \<Rightarrow> attrs \<Rightarrow> element list \<Rightarrow> element" where
  "ContextMenuSubTrigger cn className inset props children =
     Element ''ContextMenuPrimitive.SubTrigger''
       (spread_props
          [(''className'',
            JStr
              (cn
                 [Some ''flex cursor-default select-none items-center rounded-sm px-2 py-1.5 text-sm outline-hidden focus:bg-accent focus:text-accent-foreground data-[state=open]:bg-accent data-[state=open]:text-accent-foreground'',
                  if inset then Some ''pl-8'' else None,
                  className]))]
          props)
       (children @ [Element ''ChevronRight'' [(''className'', JStr ''ml-auto h-4 w-4'')] []])"

definition ContextMenuSubContent ::
  "class_names \<Rightarrow> string option \<Rightarrow> attrs \<Rightarrow> element list \<Rightarrow> element" where
  "ContextMenuSubContent cn className props children =
     Element ''ContextMenuPrimitive.SubContent''
       (spread_props
          [(''className'',
            JStr
              (cn
                 [Some ''z-50 min-w-32 overflow-hidden rounded-md border border-border bg-popover p-1 text-popover-foreground shadow-md data-[state=open]:animate-in data-[state=closed]:animate-out data-[state=closed]:fade-out-0 data-[state=open]:fade-in-0 data-[state=closed]:zoom-out-95 data-[state=open]:zoom-in-95 data-[side=bottom]:slide-in-from-top-2 data-[side=left]:slide-in-from-right-2 data-[side=right]:slide-in-from-left-2 data-[side=top]:slide-in-from-bottom-2 origin-(--radix-context-menu-content-transform-origin)'',
                  className]))]
          props)
       children"

definition ContextMenuContent ::
  "class_names \<Rightarrow> string option \<Rightarrow> attrs \<Rightarrow> element list \<Rightarrow> element" where
  "ContextMenuContent cn className props children =
     Element ''ContextMenuPrimitive.Portal'' []
       [Element ''ContextMenuPrimitive.Content''
          (spread_props
             [(''className'',
               JStr
                 (cn
                    [Some ''z-50 max-h-(--radix-context-menu-content-available-height) min-w-32 overflow-y-auto overflow-x-hidden rounded-md border border-border bg-popover p-1 text-popover-foreground shadow-md animate-in fade-in-80 data-[state=open]:animate-in data-[state=closed]:animate-out data-[state=closed]:fade-out-0 data-[state=open]:fade-in-0 data-[state=closed]:zoom-out-95 data-[state=open]:zoom-in-95 data-[side=bottom]:slide-in-from-top-2 data-[side=left]:slide-in-from-right-2 data-[side=right]:slide-in-from-left-2 data-[side=top]:slide-in-from-bottom-2 origin-(--radix-context-menu-content-transform-origin)'',
                     className]))]
             props)
          children]"

definition ContextMenuItem ::
  "class_names \<Rightarrow> string option \<Rightarrow> bool \<Rightarrow> attrs \<Rightarrow> element list \<Rightarrow> element" where
  "ContextMenuItem cn className inset props children =
     Element ''ContextMenuPrimitive.Item''
       (spread_props
          [(''className'',
            JStr
              (cn
                 [Some ''relative flex cursor-default select-none items-center rounded-sm px-2 py-1.5 text-sm outline-hidden focus:bg-accent focus:text-accent-foreground data-disabled:pointer-events-none data-disabled:opacity-50 min-h-touch'',
                  if inset then Some ''pl-8'' else None,
                  className]))]
          props)
       children"

definition ContextMenuCheckboxItem ::
  "class_names \<Rightarrow> string option \<Rightarrow> jsval \<Rightarrow> attrs \<Rightarrow> element list \<Rightarrow> element" where
  "ContextMenuCheckboxItem cn className checked props children =
     Element ''ContextMenuPrimitive.CheckboxItem''
       (spread_props
          [(''className'',
            JStr
              (cn
                 [Some ''relative flex cursor-default select-none items-center rounded-sm py-1.5 pl-8 pr-2 text-sm outline-hidden focus:bg-accent focus:text-accent-foreground data-disabled:pointer-events-none data-disabled:opacity-50'',
                  className])),
           (''checked'', checked)]
          props)
       ([Element ''span''
           [(''className'', JStr ''absolute left-2 flex h-3.5 w-3.5 items-center justify-center'')]
           [Element ''ContextMenuPrimitive.ItemIndicator'' []
              [Element ''Check'' [(''className'', JStr ''h-4 w-4'')] []]]] @
        children)"

definition ContextMenuRadioItem ::
  "class_names \<Rightarrow> string option \<Rightarrow> attrs \<Rightarrow> element list \<Rightarrow> element" where
  "ContextMenuRadioItem cn className props children =
     Element ''ContextMenuPrimitive.RadioItem''
       (spread_props
          [(''className'',
            JStr
              (cn
                 [Some ''relative flex cursor-default select-none items-center rounded-sm py-1.5 pl-8 pr-2 text-sm outline-hidden focus:bg-accent focus:text-accent-foreground data-disabled:pointer-events-none data-disabled:opacity-50'',
                  className]))]
          props)
       ([Element ''span''
           [(''className'', JStr ''absolute left-2 flex h-3.5 w-3.5 items-center justify-center'')]
           [Element ''ContextMenuPrimitive.ItemIndicator'' []
              [Element ''Circle'' [(''className'', JStr ''h-2 w-2 fill-current'')] []]]] @
        children)"

definition ContextMenuLabel ::
  "class_names \<Rightarrow> string option \<Rightarrow> bool \<Rightarrow> attrs \<Rightarrow> element list \<Rightarrow> element" where
  "ContextMenuLabel cn className inset props children =
     Element ''ContextMenuPrimitive.Label''
       (spread_props
          [(''className'',
            JStr
              (cn
                 [Some ''px-2 py-1.5 text-sm font-semibold text-foreground'',
                  if inset then Some ''pl-8'' else None,
                  className]))]
          props)
       children"

definition ContextMenuSeparator ::
  "class_names \<Rightarrow> string option \<Rightarrow> attrs \<Rightarrow> element list \<Rightarrow> element" where
  "ContextMenuSeparator cn className props children =
     Element ''ContextMenuPrimitive.Separator''
       (spread_props [(''className'', JStr (cn [Some ''-mx-1 my-1 h-px bg-muted'', className]))] props)
       children"

definition ContextMenuShortcut ::
  "class_names \<Rightarrow> string option \<Rightarrow> attrs \<Rightarrow> element list \<Rightarrow> element" where
  "ContextMenuShortcut cn className props children =
     Element ''span''
       (spread_props
          [(''className'',
            JStr (cn [Some ''ml-auto text-xs tracking-widest text-muted-foreground'', className]))]
          props)
       children"

definition DropdownMenu :: "attrs \<Rightarrow> element list \<Rightarrow> element" where
  "DropdownMenu = Element ''DropdownMenuPrimitive.Root''"

definition DropdownMenuTrigger :: "attrs \<Rightarrow> element list \<Rightarrow> element" where
  "DropdownMenuTrigger = Element ''DropdownMenuPrimitive.Trigger''"

definition DropdownMenuGroup :: "attrs \<Rightarrow> element list \<Rightarrow> element" where
  "DropdownMenuGroup = Element ''DropdownMenuPrimitive.Group''"

definition DropdownMenuPortal :: "attrs \<Rightarrow> element list \<Rightarrow> element" where
  "DropdownMenuPortal = Element ''DropdownMenuPrimitive.Portal''"

definition DropdownMenuSub :: "attrs \<Rightarrow> element list \<Rightarrow> element" where
  "DropdownMenuSub = Element ''DropdownMenuPrimitive.Sub''"

definition DropdownMenuRadioGroup :: "attrs \<Rightarrow> element list \<Rightarrow> element" where
  "DropdownMenuRadioGroup = Element ''DropdownMenuPrimitive.RadioGroup''"

definition DropdownMenuSubTrigger ::
  "class_names \<Rightarrow> string option \<Rightarrow> bool \<Rightarrow> attrs \<Rightarrow> element list \<Rightarrow> element" where
  "DropdownMenuSubTrigger cn className inset props children =
     Element ''DropdownMenuPrimitive.SubTrigger''
       (spread_props
          [(''className'',
            JStr
              (cn
                 [Some ''flex cursor-default select-none items-center gap-2 rounded-sm px-2 py-1.5 text-sm outline-hidden focus:bg-accent focus:text-accent-foreground data-[state=open]:bg-accent data-[state=open]:text-accent-foreground [&_svg]:pointer-events-none [&_svg]:size-4 [&_svg]:shrink-0'',
                  if inset then Some ''pl-8'' else None,
                  className]))]
          props)
       (children @ [Element ''ChevronRight'' [(''className'', JStr ''ml-auto'')] []])"

definition DropdownMenuSubContent ::
  "class_names \<Rightarrow> string option \<Rightarrow> attrs \<Rightarrow> element list \<Rightarrow> element" where
  "DropdownMenuSubContent cn className props children =
     Element ''DropdownMenuPrimitive.SubContent''
       (spread_props
          [(''className'',
            JStr
              (cn
                 [Some ''z-50 min-w-32 overflow-hidden rounded-md border border-border bg-popover p-1 text-popover-foreground shadow-lg data-[state=open]:animate-in data-[state=closed]:animate-out data-[state=closed]:fade-out-0 data-[state=open]:fade-in-0 data-[state=closed]:zoom-out-95 data-[state=open]:zoom-in-95 data-[side=bottom]:slide-in-from-top-2 data-[side=left]:slide-in-from-right-2 data-[side=right]:slide-in-from-left-2 data-[side=top]:slide-in-from-bottom-2 origin-(--radix-dropdown-menu-content-transform-origin)'',
                  className]))]
          props)
       children"

definition DropdownMenuContent ::
  "class_names \<Rightarrow> string option \<Rightarrow> jsval \<Rightarrow> attrs \<Rightarrow> element list \<Rightarrow> element" where
  "DropdownMenuContent cn className sideOffset props children =
     (let sideOffset = default_to (JNum 4) sideOffset
      in Element ''DropdownMenuPrimitive.Portal'' []
          [Element ''DropdownMenuPrimitive.Content''
             (spread_props
                [(''sideOffset'', sideOffset),
                 (''className'',
                  JStr
                    (cn
                       [Some ''z-50 max-h-(--radix-dropdown-menu-content-available-height) min-w-32 overflow-y-auto overflow-x-hidden rounded-md border border-border bg-popover p-1 text-popover-foreground shadow-md data-[state=open]:animate-in data-[state=closed]:animate-out data-[state=closed]:fade-out-0 data-[state=open]:fade-in-0 data-[state=closed]:zoom-out-95 data-[state=open]:zoom-in-95 data-[side=bottom]:slide-in-from-top-2 data-[side=left]:slide-in-from-right-2 data-[side=right]:slide-in-from-left-2 data-[side=top]:slide-in-from-bottom-2 origin-(--radix-dropdown-menu-content-transform-origin)'',
                        className]))]
                props)
             children])"

definition DropdownMenuItem ::
  "class_names \<Rightarrow> string option \<Rightarrow> bool \<Rightarrow> attrs \<Rightarrow> element list \<Rightarrow> element" where
  "DropdownMenuItem cn className inset props children =
     Element ''DropdownMenuPrimitive.Item''
       (spread_props
          [(''className'',
            JStr
              (cn
                 [Some ''relative flex cursor-default select-none items-center gap-2 rounded-sm px-2 py-1.5 text-sm outline-hidden transition-colors focus:bg-accent focus:text-accent-foreground data-disabled:pointer-events-none data-disabled:opacity-50 [&_svg]:pointer-events-none [&_svg]:size-4 [&_svg]:shrink-0 min-h-touch'',
                  if inset then Some ''pl-8'' else None,
                  className]))]
          props)
       children"

definition DropdownMenuCheckboxItem ::
  "class_names \<Rightarrow> string option \<Rightarrow> jsval \<Rightarrow> attrs \<Rightarrow> element list \<Rightarrow> element" where
  "DropdownMenuCheckboxItem cn className checked props children =
     Element ''DropdownMenuPrimitive.CheckboxItem''
       (spread_props
          [(''className'',
            JStr
              (cn
                 [Some ''relative flex cursor-default select-none items-center rounded-sm py-1.5 pl-8 pr-2 text-sm outline-hidden transition-colors focus:bg-accent focus:text-accent-foreground data-disabled:pointer-events-none data-disabled:opacity-50'',
                  className])),
           (''checked'', checked)]
          props)
       ([Element ''span''
           [(''className'', JStr ''absolute left-2 flex h-3.5 w-3.5 items-center justify-center'')]
           [Element ''DropdownMenuPrimitive.ItemIndicator'' []
              [Element ''Check'' [(''className'', JStr ''h-4 w-4'')] []]]] @
        children)"

definition DropdownMenuRadioItem ::
  "class_names \<Rightarrow> string option \<Rightarrow> attrs \<Rightarrow> element list \<Rightarrow> element" where
  "DropdownMenuRadioItem cn className props children =
     Element ''DropdownMenuPrimitive.RadioItem''
       (spread_props
          [(''className'',
            JStr
              (cn
                 [Some ''relative flex cursor-default select-none items-center rounded-sm py-1.5 pl-8 pr-2 text-sm outline-hidden transition-colors focus:bg-accent focus:text-accent-foreground data-disabled:pointer-events-none data-disabled:opacity-50'',
                  className]))]
          props)
       ([Element ''span''
           [(''className'', JStr ''absolute left-2 flex h-3.5 w-3.5 items-center justify-center'')]
           [Element ''DropdownMenuPrimitive.ItemIndicator'' []
              [Element ''Circle'' [(''className'', JStr ''h-2 w-2 fill-current'')] []]]] @
        children)"

definition DropdownMenuLabel ::
  "class_names \<Rightarrow> string option \<Rightarrow> bool \<Rightarrow> attrs \<Rightarrow> element list \<Rightarrow> element" where
  "DropdownMenuLabel cn className inset props children =
     Element ''DropdownMenuPrimitive.Label''
       (spread_props
          [(''className'',
            JStr
              (cn [Some ''px-2 py-1.5 text-sm font-semibold'', if inset then Some ''pl-8'' else None, className]))]
          props)
       children"

definition DropdownMenuSeparator ::
  "class_names \<Rightarrow> string option \<Rightarrow> attrs \<Rightarrow> element list \<Rightarrow> element" where
  "DropdownMenuSeparator cn className props children =
     Element ''DropdownMenuPrimitive.Separator''
       (spread_props [(''className'', JStr (cn [Some ''-mx-1 my-1 h-px bg-muted'', className]))] props)
       children"

definition DropdownMenuShortcut ::
  "class_names \<Rightarrow> string option \<Rightarrow> attrs \<Rightarrow> element list \<Rightarrow> element" where
  "DropdownMenuShortcut cn className props children =
     Element ''span''
       (spread_props
          [(''className'', JStr (cn [Some ''ml-auto text-xs tracking-widest opacity-60'', className]))]
          props)
       children"

definition Select :: "attrs \<Rightarrow> element list \<Rightarrow> element" where
  "Select = Element ''SelectPrimitive.Root''"

definition SelectGroup :: "attrs \<Rightarrow> element list \<Rightarrow> element" where
  "SelectGroup = Element ''SelectPrimitive.Group''"

definition SelectValue :: "attrs \<Rightarrow> element list \<Rightarrow> element" where
  "SelectValue = Element ''SelectPrimitive.Value''"

definition SelectTrigger ::
  "class_names \<Rightarrow> string option \<Rightarrow> attrs \<Rightarrow> element list \<Rightarrow> element" where
  "SelectTrigger cn className props children =
     Element ''SelectPrimitive.Trigger''
       (spread_props
          [(''className'',
            JStr
              (cn
                 [Some ''flex min-h-touch w-full items-center justify-between rounded-md border border-input bg-background px-3 py-2 text-sm data-placeholder:text-muted-foreground focus:outline-hidden focus:ring-2 focus:ring-ring disabled:cursor-not-allowed disabled:opacity-50 [&>span]:line-clamp-1'',
                  className]))]
          props)
       (children @
        [Element ''SelectPrimitive.Icon''
           [(''asChild'', JBool True)]
           [Element ''ChevronDown'' [(''className'', JStr ''h-4 w-4 opacity-50'')] []]])"

definition SelectScrollUpButton ::
  "class_names \<Rightarrow> string option \<Rightarrow> attrs \<Rightarrow> element list \<Rightarrow> element" where
  "SelectScrollUpButton cn className props children =
     Element ''SelectPrimitive.ScrollUpButton''
       (spread_props
          [(''className'', JStr (cn [Some ''flex cursor-default items-center justify-center py-1'', className]))]
          props)
       [Element ''ChevronUp'' [(''className'', JStr ''h-4 w-4'')] []]"

definition SelectScrollDownButton ::
  "class_names \<Rightarrow> string option \<Rightarrow> attrs \<Rightarrow> element list \<Rightarrow> element" where
  "SelectScrollDownButton cn className props children =
     Element ''SelectPrimitive.ScrollDownButton''
       (spread_props
          [(''className'', JStr (cn [Some ''flex cursor-default items-center justify-center py-1'', className]))]
          props)
       [Element ''ChevronDown'' [(''className'', JStr ''h-4 w-4'')] []]"

definition SelectContent ::
  "class_names \<Rightarrow> string option \<Rightarrow> jsval \<Rightarrow> attrs \<Rightarrow> element list \<Rightarrow> element" where
  "SelectContent cn className position props children =
     (let position = default_to (JStr ''popper'') position
      in Element ''SelectPrimitive.Portal'' []
          [Element ''SelectPrimitive.Content''
             (spread_props
                [(''className'',
                  JStr
                    (cn
                       [Some ''relative z-50 max-h-(--radix-select-content-available-height) min-w-32 overflow-y-auto overflow-x-hidden rounded-md border border-border bg-popover text-popover-foreground shadow-md data-[state=open]:animate-in data-[state=closed]:animate-out data-[state=closed]:fade-out-0 data-[state=open]:fade-in-0 data-[state=closed]:zoom-out-95 data-[state=open]:zoom-in-95 data-[side=bottom]:slide-in-from-top-2 data-[side=left]:slide-in-from-right-2 data-[side=right]:slide-in-from-left-2 data-[side=top]:slide-in-from-bottom-2 origin-(--radix-select-content-transform-origin)'',
                        if position = JStr ''popper'' then Some ''data-[side=bottom]:translate-y-1 data-[side=left]:-translate-x-1 data-[side=right]:translate-x-1 data-[side=top]:-translate-y-1'' else None,
                        className])),
                 (''position'', position)]
                props)
             [SelectScrollUpButton cn None [] [],
              Element ''SelectPrimitive.Viewport''
                [(''className'',
                  JStr
                    (cn
                       [Some ''p-1'',
                        if position = JStr ''popper'' then Some ''h-(--radix-select-trigger-height) w-full min-w-(--radix-select-trigger-width)'' else None]))]
                children,
              SelectScrollDownButton cn None [] []]])"

definition SelectLabel ::
  "class_names \<Rightarrow> string option \<Rightarrow> attrs \<Rightarrow> element list \<Rightarrow> element" where
  "SelectLabel cn className props children =
     Element ''SelectPrimitive.Label''
       (spread_props
          [(''className'', JStr (cn [Some ''py-1.5 pl-8 pr-2 text-sm font-semibold'', className]))]
          props)
       children"

definition SelectItem ::
  "class_names \<Rightarrow> string option \<Rightarrow> attrs \<Rightarrow> element list \<Rightarrow> element" where
  "SelectItem cn className props children =
     Element ''SelectPrimitive.Item''
       (spread_props
          [(''className'',
            JStr
              (cn
                 [Some ''relative flex w-full cursor-default select-none items-center rounded-sm py-1.5 pl-8 pr-2 text-sm outline-hidden focus:bg-accent focus:text-accent-foreground data-disabled:pointer-events-none data-disabled:opacity-50'',
                  className]))]
          props)
       [Element ''span''
          [(''className'', JStr ''absolute left-2 flex h-3.5 w-3.5 items-center justify-center'')]
          [Element ''SelectPrimitive.ItemIndicator'' []
             [Element ''Check'' [(''className'', JStr ''h-4 w-4'')] []]],
        Element ''SelectPrimitive.ItemText'' [] children]"

definition SelectSeparator ::
  "class_names \<Rightarrow> string option \<Rightarrow> attrs \<Rightarrow> element list \<Rightarrow> element" where
  "SelectSeparator cn className props children =
     Element ''SelectPrimitive.Separator''
       (spread_props [(''className'', JStr (cn [Some ''-mx-1 my-1 h-px bg-muted'', className]))] props)
       children"

section \<open>Dialogs, sheets and drawers\<close>

definition Dialog :: "attrs \<Rightarrow> element list \<Rightarrow> element" where
  "Dialog = Element ''DialogPrimitive.Root''"

definition DialogTrigger :: "attrs \<Rightarrow> element list \<Rightarrow> element" where
  "DialogTrigger = Element ''DialogPrimitive.Trigger''"

definition DialogPortal :: "attrs \<Rightarrow> element list \<Rightarrow> element" where
  "DialogPortal = Element ''DialogPrimitive.Portal''"

definition DialogClose :: "attrs \<Rightarrow> element list \<Rightarrow> element" where
  "DialogClose = Element ''DialogPrimitive.Close''"

definition DialogOverlay ::
  "class_names \<Rightarrow> string option \<Rightarrow> attrs \<Rightarrow> element list \<Rightarrow> element" where
  "DialogOverlay cn className props children =
     Element ''DialogPrimitive.Overlay''
       (spread_props
          [(''className'',
            JStr
              (cn
                 [Some ''fixed inset-0 z-50 bg-black/80 data-[state=open]:animate-in data-[state=closed]:animate-out data-[state=closed]:fade-out-0 data-[state=open]:fade-in-0'',
                  className]))]
          props)
       children"

definition DialogContent ::
  "class_names \<Rightarrow> string option \<Rightarrow> attrs \<Rightarrow> element list \<Rightarrow> element" where
  "DialogContent cn className props children =
     DialogPortal []
       [DialogOverlay cn None [] [],
        Element ''DialogPrimitive.Content''
          (spread_props
             [(''className'',
               JStr
                 (cn
                    [Some ''fixed left-[50%] top-[50%] z-50 grid w-full max-w-lg translate-x-[-50%] translate-y-[-50%] gap-4 border border-border bg-background p-6 shadow-lg duration-200 data-[state=open]:animate-in data-[state=closed]:animate-out data-[state=closed]:fade-out-0 data-[state=open]:fade-in-0 data-[state=closed]:zoom-out-95 data-[state=open]:zoom-in-95 data-[state=closed]:slide-out-to-left-1/2 data-[state=closed]:slide-out-to-top-[48%] data-[state=open]:slide-in-from-left-1/2 data-[state=open]:slide-in-from-top-[48%] sm:rounded-lg'',
                     className]))]
             props)
          (children @
           [Element ''DialogPrimitive.Close''
              [(''className'',
                JStr ''absolute right-4 top-4 rounded-sm opacity-70 transition-opacity hover:opacity-100 focus:outline-hidden focus:ring-2 focus:ring-ring disabled:pointer-events-none data-[state=open]:bg-accent data-[state=open]:text-muted-foreground'')]
              [Element ''X'' [(''className'', JStr ''h-4 w-4'')] [],
               Element ''span'' [(''className'', JStr ''sr-only'')] [TextNode ''Close'']]])]"

definition DialogHeader ::
  "class_names \<Rightarrow> string option \<Rightarrow> attrs \<Rightarrow> element list \<Rightarrow> element" where
  "DialogHeader cn className props children =
     Element ''div''
       (spread_props
          [(''className'', JStr (cn [Some ''flex flex-col space-y-1.5 text-center sm:text-left'', className]))]
          props)
       children"

definition DialogFooter ::
  "class_names \<Rightarrow> string option \<Rightarrow> attrs \<Rightarrow> element list \<Rightarrow> element" where
  "DialogFooter cn className props children =
     Element ''div''
       (spread_props
          [(''className'',
            JStr (cn [Some ''flex flex-col-reverse sm:flex-row sm:justify-end sm:space-x-2'', className]))]
          props)
       children"

definition DialogTitle ::
  "class_names \<Rightarrow> string option \<Rightarrow> attrs \<Rightarrow> element list \<Rightarrow> element" where
  "DialogTitle cn className props children =
     Element ''DialogPrimitive.Title''
       (spread_props
          [(''className'', JStr (cn [Some ''text-lg font-semibold leading-none tracking-tight'', className]))]
          props)
       children"

definition DialogDescription ::
  "class_names \<Rightarrow> string option \<Rightarrow> attrs \<Rightarrow> element list \<Rightarrow> element" where
  "DialogDescription cn className props children =
     Element ''DialogPrimitive.Description''
       (spread_props [(''className'', JStr (cn [Some ''text-sm text-muted-foreground'', className]))] props)
       children"

definition Sheet :: "attrs \<Rightarrow> element list \<Rightarrow> element" where
  "Sheet = Element ''SheetPrimitive.Root''"

definition SheetTrigger :: "attrs \<Rightarrow> element list \<Rightarrow> element" where
  "SheetTrigger = Element ''SheetPrimitive.Trigger''"

definition SheetClose :: "attrs \<Rightarrow> element list \<Rightarrow> element" where
  "SheetClose = Element ''SheetPrimitive.Close''"

definition SheetPortal :: "attrs \<Rightarrow> element list \<Rightarrow> element" where
  "SheetPortal = Element ''SheetPrimitive.Portal''"

definition SheetOverlay ::
  "class_names \<Rightarrow> string option \<Rightarrow> attrs \<Rightarrow> element list \<Rightarrow> element" where
  "SheetOverlay cn className props children =
     Element ''SheetPrimitive.Overlay''
       (spread_props
          [(''className'',
            JStr
              (cn
                 [Some ''fixed inset-0 z-50 bg-black/80 data-[state=open]:animate-in data-[state=closed]:animate-out data-[state=closed]:fade-out-0 data-[state=open]:fade-in-0'',
                  className]))]
          props)
       children"

definition SheetContent ::
  "cva \<Rightarrow> class_names \<Rightarrow> jsval \<Rightarrow> string option \<Rightarrow> attrs \<Rightarrow> element list \<Rightarrow> element" where
  "SheetContent cva cn side className props children =
     (let side = default_to (JStr ''right'') side
      in SheetPortal []
          [SheetOverlay cn None [] [],
           Element ''SheetPrimitive.Content''
             (spread_props [(''className'', JStr (cn [Some (sheetVariants cva side), className]))] props)
             (children @
              [Element ''SheetPrimitive.Close''
                 [(''className'',
                   JStr ''absolute right-4 top-4 rounded-sm opacity-70 transition-opacity hover:opacity-100 focus:outline-hidden focus:ring-2 focus:ring-ring disabled:pointer-events-none data-[state=open]:bg-accent data-[state=open]:text-muted-foreground'')]
                 [Element ''X'' [(''className'', JStr ''h-4 w-4'')] [],
                  Element ''span'' [(''className'', JStr ''sr-only'')] [TextNode ''Close'']]])])"

definition SheetHeader ::
  "class_names \<Rightarrow> string option \<Rightarrow> attrs \<Rightarrow> element list \<Rightarrow> element" where
  "SheetHeader cn className props children =
     Element ''div''
       (spread_props
          [(''className'', JStr (cn [Some ''flex flex-col space-y-2 text-center sm:text-left'', className]))]
          props)
       children"

definition SheetFooter ::
  "class_names \<Rightarrow> string option \<Rightarrow> attrs \<Rightarrow> element list \<Rightarrow> element" where
  "SheetFooter cn className props children =
     Element ''div''
       (spread_props
          [(''className'',
            JStr (cn [Some ''flex flex-col-reverse sm:flex-row sm:justify-end sm:space-x-2'', className]))]
          props)
       children"

definition SheetTitle ::
  "class_names \<Rightarrow> string option \<Rightarrow> attrs \<Rightarrow> element list \<Rightarrow> element" where
  "SheetTitle cn className props children =
     Element ''SheetPrimitive.Title''
       (spread_props
          [(''className'', JStr (cn [Some ''text-lg font-semibold text-foreground'', className]))]
          props)
       children"

definition SheetDescription ::
  "class_names \<Rightarrow> string option \<Rightarrow> attrs \<Rightarrow> element list \<Rightarrow> element" where
  "SheetDescription cn className props children =
     Element ''SheetPrimitive.Description''
       (spread_props [(''className'', JStr (cn [Some ''text-sm text-muted-foreground'', className]))] props)
       children"

definition Drawer :: "attrs \<Rightarrow> element list \<Rightarrow> element" where
  "Drawer props children =
     Element ''DrawerPrimitive.Root'' (spread_props [(''data-slot'', JStr ''drawer'')] props) children"

definition DrawerTrigger :: "attrs \<Rightarrow> element list \<Rightarrow> element" where
  "DrawerTrigger props children =
     Element ''DrawerPrimitive.Trigger''
       (spread_props [(''data-slot'', JStr ''drawer-trigger'')] props)
       children"

definition DrawerPortal :: "attrs \<Rightarrow> element list \<Rightarrow> element" where
  "DrawerPortal props children =
     Element ''DrawerPrimitive.Portal'' (spread_props [(''data-slot'', JStr ''drawer-portal'')] props) children"

definition DrawerClose :: "attrs \<Rightarrow> element list \<Rightarrow> element" where
  "DrawerClose props children =
     Element ''DrawerPrimitive.Close'' (spread_props [(''data-slot'', JStr ''drawer-close'')] props) children"

definition DrawerOverlay ::
  "class_names \<Rightarrow> string option \<Rightarrow> attrs \<Rightarrow> element list \<Rightarrow> element" where
  "DrawerOverlay cn className props children =
     Element ''DrawerPrimitive.Overlay''
       (spread_props
          [(''data-slot'', JStr ''drawer-overlay''),
           (''className'',
            JStr
              (cn
                 [Some ''fixed inset-0 z-40 bg-black/40 data-[state=open]:animate-in data-[state=closed]:animate-out'',
                  className]))]
          props)
       children"

definition DrawerContent ::
  "class_names \<Rightarrow> string option \<Rightarrow> attrs \<Rightarrow> element list \<Rightarrow> element" where
  "DrawerContent cn className props children =
     DrawerPortal []
       [Element ''DrawerPrimitive.Content''
          (spread_props
             [(''data-slot'', JStr ''drawer-content''),
              (''className'',
               JStr
                 (cn
                    [Some ''fixed inset-x-0 bottom-0 z-50 flex h-full flex-col rounded-t-2xl border border-border-subtle bg-surface-1/95 backdrop-blur-md'',
                     className]))]
             props)
          ([Element ''div''
              [(''className'', JStr ''mx-auto mt-2 h-1.5 w-12 rounded-full bg-border-default'')]
              []] @
           children)]"

definition DrawerHeader ::
  "class_names \<Rightarrow> string option \<Rightarrow> attrs \<Rightarrow> element list \<Rightarrow> element" where
  "DrawerHeader cn className props children =
     Element ''div''
       (spread_props
          [(''data-slot'', JStr ''drawer-header''),
           (''className'', JStr (cn [Some ''grid gap-1 p-3'', className]))]
          props)
       children"

definition DrawerFooter ::
  "class_names \<Rightarrow> string option \<Rightarrow> attrs \<Rightarrow> element list \<Rightarrow> element" where
  "DrawerFooter cn className props children =
     Element ''div''
       (spread_props
          [(''data-slot'', JStr ''drawer-footer''),
           (''className'', JStr (cn [Some ''mt-auto flex flex-col gap-2 p-3'', className]))]
          props)
       children"

definition DrawerTitle ::
  "class_names \<Rightarrow> string option \<Rightarrow> attrs \<Rightarrow> element list \<Rightarrow> element" where
  "DrawerTitle cn className props children =
     Element ''DrawerPrimitive.Title''
       (spread_props
          [(''data-slot'', JStr ''drawer-title''),
           (''className'', JStr (cn [Some ''text-sm font-semibold text-fg-primary'', className]))]
          props)
       children"

definition DrawerDescription ::
  "class_names \<Rightarrow> string option \<Rightarrow> attrs \<Rightarrow> element list \<Rightarrow> element" where
  "DrawerDescription cn className props children =
     Element ''DrawerPrimitive.Description''
       (spread_props
          [(''data-slot'', JStr ''drawer-description''),
           (''className'', JStr (cn [Some ''text-xs text-fg-secondary'', className]))]
          props)
       children"

end
