(* ===== verification/Layers.thy ===== *)
theory Layers
  imports Primitives LayoutUi
begin

text \<open>
  What lies over what. The primitives that float (dialogs, sheets, popovers, menus, drawers) are
  stacked by a class \<open>z-n\<close>; callers may give another one, and \<open>cn\<close> keeps the last. The locale \<open>layer\<close>
  is that contract of one primitive, \<open>modal_layers\<close> that of an overlay with its panel; the side sheet
  of the context surface and the sheet of the menu are the two users of sheets.
\<close>

section \<open>Class names as lists of words\<close>

fun words_from :: "string \<Rightarrow> string \<Rightarrow> string list" where
  "words_from cur [] = (if cur = [] then [] else [cur])"
| "words_from cur (c # cs) =
     (if c = CHR '' '' then (if cur = [] then [] else [cur]) @ words_from [] cs else words_from (cur @ [c]) cs)"

definition class_words :: "string \<Rightarrow> string list" where
  "class_words s = words_from [] s"

definition is_level :: "string \<Rightarrow> bool" where
  "is_level w \<longleftrightarrow> take 2 w = ''z-''"

definition levels :: "string \<Rightarrow> string list" where
  "levels s = filter is_level (class_words s)"

definition given_levels :: "string option list \<Rightarrow> string list" where
  "given_levels cs = concat (map (\<lambda>c. case c of None \<Rightarrow> [] | Some s \<Rightarrow> levels s) cs)"

definition last_of :: "'a list \<Rightarrow> 'a list" where
  "last_of xs = (if xs = [] then [] else [last xs])"

text \<open>
  What the two libraries document. Of conflicting classes tailwind-merge keeps the last one, and
  stacking levels conflict with each other only; \<open>cva\<close> gives the base, then the class of each variant
  (the default one where the property is undefined, none where it is null), then the class name.
\<close>

definition merges_levels :: "class_names \<Rightarrow> bool" where
  "merges_levels cn \<longleftrightarrow> (\<forall>cs. levels (cn cs) = last_of (given_levels cs))"

definition chosen_variant :: "cva_config \<Rightarrow> attrs \<Rightarrow> string \<Rightarrow> string option" where
  "chosen_variant cfg ps v =
     (case js_get ps v of
        Some (JStr k) \<Rightarrow> Some k
      | Some JNull \<Rightarrow> None
      | _ \<Rightarrow> map_of (cva_defaults cfg) v)"

definition cva_words :: "cva_config \<Rightarrow> attrs \<Rightarrow> string list" where
  "cva_words cfg ps =
     class_words (cva_base cfg) @
     concat (map (\<lambda>(v, table).
       case chosen_variant cfg ps v of
         None \<Rightarrow> []
       | Some k \<Rightarrow> (case map_of table k of None \<Rightarrow> [] | Some c \<Rightarrow> class_words c)) (cva_variants cfg)) @
     (case js_get ps ''className'' of Some (JStr c) \<Rightarrow> class_words c | _ \<Rightarrow> [])"

definition text_props :: "attrs \<Rightarrow> bool" where
  "text_props ps \<longleftrightarrow> list_all (\<lambda>(k, v). case v of JStr s \<Rightarrow> True | JNull \<Rightarrow> True | JUndefined \<Rightarrow> True | _ \<Rightarrow> False) ps"

definition joins_variants :: "cva \<Rightarrow> bool" where
  "joins_variants cva \<longleftrightarrow> (\<forall>cfg ps. text_props ps \<longrightarrow> class_words (cva cfg ps) = cva_words cfg ps)"

text \<open>The level of an element, and which of two siblings is painted over the other.\<close>

definition level_number :: "string \<Rightarrow> nat" where
  "level_number w = fold (\<lambda>d n. 10 * n + (of_char d - 48)) (drop 2 w) 0"

definition element_levels :: "element \<Rightarrow> string list" where
  "element_levels e = (case attr ''className'' e of Some (JStr c) \<Rightarrow> levels c | _ \<Rightarrow> [])"

definition stack_level :: "element \<Rightarrow> nat" where
  "stack_level e = (case element_levels e of [] \<Rightarrow> 0 | ws \<Rightarrow> level_number (last ws))"

definition earlier_over :: "element \<Rightarrow> element \<Rightarrow> bool" where
  "earlier_over a b \<longleftrightarrow> stack_level b < stack_level a"

definition later_over :: "element \<Rightarrow> element \<Rightarrow> bool" where
  "later_over a b \<longleftrightarrow> stack_level a \<le> stack_level b"

lemma last_of_simps [simp]: "last_of [] = []" "last_of [x] = [x]"
  by (simp_all add: last_of_def)

lemma last_of_append: "last_of (xs @ ys) = (if ys = [] then last_of xs else [last ys])"
  by (simp add: last_of_def)

lemma given_levels_simps [simp]:
  "given_levels [] = []" "given_levels (None # cs) = given_levels cs"
  "given_levels (Some s # cs) = levels s @ given_levels cs"
  "given_levels (cs @ ds) = given_levels cs @ given_levels ds"
  by (simp_all add: given_levels_def)

section \<open>The contract of a layer\<close>

text \<open>A primitive at level \<open>own\<close>, unless the class name its caller gives has a level.\<close>

locale layer =
  fixes W :: "class_names \<Rightarrow> string option \<Rightarrow> attrs \<Rightarrow> element list \<Rightarrow> element"
    and own :: string
  assumes levels_of: "\<lbrakk>merges_levels cn; ''className'' \<notin> fst ` set ps\<rbrakk> \<Longrightarrow>
     element_levels (W cn c ps ch) = last_of (own # given_levels [c])"
begin

lemma at_own_level:
  assumes "merges_levels cn" and "''className'' \<notin> fst ` set ps" and "given_levels [c] = []"
  shows "stack_level (W cn c ps ch) = level_number own"
  using levels_of [OF assms(1,2), of c ch] assms(3) by (simp add: stack_level_def)

lemma at_level_of_caller:
  assumes "merges_levels cn" and "''className'' \<notin> fst ` set ps" and "given_levels [c] \<noteq> []"
  shows "stack_level (W cn c ps ch) = level_number (last (given_levels [c]))"
  using levels_of [OF assms(1,2), of c ch] assms(3)
  by (simp add: stack_level_def last_of_def)

end

text \<open>An overlay at its own level, and after it the panel with the class name of the caller.\<close>

locale modal_layers = overlay: layer O' lo + panel: layer W own
  for O' :: "class_names \<Rightarrow> string option \<Rightarrow> attrs \<Rightarrow> element list \<Rightarrow> element" and lo :: string
    and W :: "class_names \<Rightarrow> string option \<Rightarrow> attrs \<Rightarrow> element list \<Rightarrow> element" and own :: string +
  assumes panel_not_below: "level_number lo \<le> level_number own"
begin

lemma panel_over_overlay:
  assumes "merges_levels cn" and "''className'' \<notin> fst ` set ps"
    and "given_levels [c] = [] \<or> level_number lo \<le> level_number (last (given_levels [c]))"
  shows "later_over (O' cn None [] []) (W cn c ps ch)"
  using assms(3) overlay.at_own_level [OF assms(1), of "[]" None "[]"] panel.at_own_level [OF assms(1,2), of c ch]
    panel.at_level_of_caller [OF assms(1,2), of c ch] panel_not_below
  by (cases "given_levels [c] = []") (auto simp: later_over_def)

lemma panel_under_overlay:
  assumes "merges_levels cn" and "''className'' \<notin> fst ` set ps"
    and "given_levels [c] \<noteq> []" and "level_number (last (given_levels [c])) < level_number lo"
  shows "earlier_over (O' cn None [] []) (W cn c ps ch)"
  using assms(4) overlay.at_own_level [OF assms(1), of "[]" None "[]"] panel.at_level_of_caller [OF assms(1-3), of ch]
  by (simp add: earlier_over_def)

end

section \<open>The primitives that float\<close>

lemmas level_words = levels_def class_words_def is_level_def

lemma merged_levels: "merges_levels cn \<Longrightarrow> levels (cn cs) = last_of (given_levels cs)"
  by (simp add: merges_levels_def)

lemma levels_spread:
  "''className'' \<notin> fst ` set ps \<Longrightarrow>
     element_levels (Element t (spread_props as ps) ch) =
       (case js_get as ''className'' of Some (JStr c) \<Rightarrow> levels c | _ \<Rightarrow> [])"
  by (simp add: element_levels_def spread_keeps)

text \<open>The panel of a primitive that renders a portal is the last element in it.\<close>

definition portal_panel :: "element \<Rightarrow> element" where
  "portal_panel e = last (el_children e)"

interpretation dialog_overlay: layer DialogOverlay "''z-50''"
  by unfold_locales
    (simp add: DialogOverlay_def levels_spread merged_levels, simp add: level_words last_of_append)

interpretation drawer_overlay: layer DrawerOverlay "''z-40''"
  by unfold_locales
    (simp add: DrawerOverlay_def Let_def levels_spread merged_levels, simp add: level_words last_of_append)

interpretation sheet_overlay: layer SheetOverlay "''z-50''"
  by unfold_locales
    (simp add: SheetOverlay_def Let_def levels_spread merged_levels, simp add: level_words last_of_append)

interpretation drawer_panel: layer "\<lambda>cn c ps ch. portal_panel (DrawerContent cn c ps ch)" "''z-50''"
  by unfold_locales
    (simp add: DrawerContent_def portal_panel_def DrawerPortal_def Let_def levels_spread merged_levels, simp add: level_words last_of_append)

interpretation popover_panel: layer "\<lambda>cn c ps ch. portal_panel (PopoverContent cn c align off ps ch)" "''z-50''" for align off
  by unfold_locales
    (simp add: PopoverContent_def portal_panel_def Let_def levels_spread merged_levels, simp add: level_words last_of_append)

interpretation tooltip_panel: layer "\<lambda>cn c. TooltipContent cn c off" "''z-50''" for off
  by unfold_locales
    (simp add: TooltipContent_def Let_def levels_spread merged_levels, simp add: level_words last_of_append)

interpretation context_menu_panel: layer "\<lambda>cn c ps ch. portal_panel (ContextMenuContent cn c ps ch)" "''z-50''"
  by unfold_locales
    (simp add: ContextMenuContent_def portal_panel_def Let_def levels_spread merged_levels, simp add: level_words last_of_append)

interpretation context_submenu: layer ContextMenuSubContent "''z-50''"
  by unfold_locales
    (simp add: ContextMenuSubContent_def Let_def levels_spread merged_levels, simp add: level_words last_of_append)

interpretation dropdown_panel: layer "\<lambda>cn c ps ch. portal_panel (DropdownMenuContent cn c off ps ch)" "''z-50''" for off
  by unfold_locales
    (simp add: DropdownMenuContent_def portal_panel_def Let_def levels_spread merged_levels, simp add: level_words last_of_append)

interpretation dropdown_submenu: layer DropdownMenuSubContent "''z-50''"
  by unfold_locales
    (simp add: DropdownMenuSubContent_def Let_def levels_spread merged_levels, simp add: level_words last_of_append)

interpretation select_panel: layer "\<lambda>cn c ps ch. portal_panel (SelectContent cn c position ps ch)" "''z-50''" for position
proof
  fix cn :: class_names and ps :: attrs and c :: "string option" and ch :: "element list"
  assume *: "merges_levels cn" "''className'' \<notin> fst ` set ps"
  show "element_levels (portal_panel (SelectContent cn c position ps ch)) = last_of (''z-50'' # given_levels [c])"
  proof (cases "default_to (JStr ''popper'') position = JStr ''popper''")
    case True
    with * show ?thesis
      by (simp add: SelectContent_def portal_panel_def levels_spread merged_levels,
        simp add: level_words last_of_append)
  next
    case False
    with * show ?thesis
      by (simp add: SelectContent_def portal_panel_def levels_spread merged_levels,
        simp add: level_words last_of_append)
  qed
qed

interpretation dialog: modal_layers DialogOverlay "''z-50''"
    "\<lambda>cn c ps ch. portal_panel (DialogContent cn c ps ch)" "''z-50''"
  by unfold_locales
    (simp add: DialogContent_def portal_panel_def DialogPortal_def levels_spread merged_levels,
      simp add: level_words last_of_append, simp)

text \<open>A sheet, on each of its sides; the class names of the sides come from \<open>cva\<close>.\<close>

definition sheet_sides :: "jsval list" where
  "sheet_sides = [JUndefined, JStr ''top'', JStr ''bottom'', JStr ''left'', JStr ''right'']"

lemma sheet_words:
  "list_all (\<lambda>s. filter is_level (cva_words sheet_classes [(''side'', default_to (JStr ''right'') s)]) = [''z-50'']) sheet_sides"
  by code_simp

lemma sheet_levels:
  assumes "joins_variants cva" and "side \<in> set sheet_sides"
  shows "levels (sheetVariants cva (default_to (JStr ''right'') side)) = [''z-50'']"
proof -
  let ?ps = "[(''side'', default_to (JStr ''right'') side)]"
  have "text_props ?ps" using assms(2) by (auto simp: sheet_sides_def text_props_def default_to_def)
  then have "levels (sheetVariants cva (default_to (JStr ''right'') side)) = filter is_level (cva_words sheet_classes ?ps)"
    using assms(1) by (simp add: sheetVariants_def levels_def joins_variants_def)
  also have "\<dots> = [''z-50'']"
    using sheet_words assms(2) by (simp add: list_all_iff)
  finally show ?thesis .
qed

lemma sheet_modal:
  assumes "joins_variants cva" and "side \<in> set sheet_sides"
  shows "modal_layers SheetOverlay ''z-50'' (\<lambda>cn c ps ch. portal_panel (SheetContent cva cn side c ps ch)) ''z-50''"
  by unfold_locales
    (simp_all add: SheetContent_def portal_panel_def SheetPortal_def Let_def levels_spread merged_levels
      sheet_levels [OF assms])

lemma sheet_panel:
  assumes "joins_variants cva" and "side \<in> set sheet_sides"
  shows "layer (\<lambda>cn c ps ch. portal_panel (SheetContent cva cn side c ps ch)) ''z-50''"
  using sheet_modal [OF assms] by (rule modal_layers.axioms(2))

section \<open>Libraries that keep these laws\<close>

text \<open>A \<open>cn\<close> that only drops the levels but the last, and a \<open>cva\<close> that only joins.\<close>

definition join_words :: "string list \<Rightarrow> string" where
  "join_words ws = concat (map (\<lambda>w. w @ '' '') ws)"

definition plain_merge :: class_names where
  "plain_merge cs =
     (let ws = concat (map (\<lambda>c. case c of None \<Rightarrow> [] | Some s \<Rightarrow> class_words s) cs)
      in join_words (filter (\<lambda>w. \<not> is_level w) ws @ last_of (filter is_level ws)))"

definition plain_variants :: cva where
  "plain_variants cfg ps = join_words (cva_words cfg ps)"

definition one_word :: "string \<Rightarrow> bool" where
  "one_word w \<longleftrightarrow> w \<noteq> [] \<and> CHR '' '' \<notin> set w"

lemma words_from_ok: "CHR '' '' \<notin> set cur \<Longrightarrow> w \<in> set (words_from cur s) \<Longrightarrow> one_word w"
  by (induction cur s rule: words_from.induct) (auto simp: one_word_def split: if_splits)

lemma class_words_ok: "w \<in> set (class_words s) \<Longrightarrow> one_word w"
  using words_from_ok [of "[]" w s] by (simp add: class_words_def)

lemma words_from_word: "CHR '' '' \<notin> set w \<Longrightarrow> words_from cur (w @ s) = words_from (cur @ w) s"
  by (induction w arbitrary: cur) auto

lemma class_words_join: "(\<And>w. w \<in> set ws \<Longrightarrow> one_word w) \<Longrightarrow> class_words (join_words ws) = ws"
  unfolding class_words_def join_words_def
  by (induction ws) (simp_all add: words_from_word one_word_def)

lemma given_words: "given_levels cs = filter is_level (concat (map (\<lambda>c. case c of None \<Rightarrow> [] | Some s \<Rightarrow> class_words s) cs))"
  by (induction cs) (auto simp: given_levels_def levels_def split: option.split)

lemma plain_merge_merges: "merges_levels plain_merge"
proof -
  have "levels (plain_merge cs) = last_of (given_levels cs)" for cs
  proof -
    define ws where "ws = concat (map (\<lambda>c. case c of None \<Rightarrow> [] | Some s \<Rightarrow> class_words s) cs)"
    have ok: "one_word w" if "w \<in> set ws" for w
      using that by (auto simp: ws_def class_words_ok split: option.splits)
    have "class_words (plain_merge cs) = filter (\<lambda>w. \<not> is_level w) ws @ last_of (filter is_level ws)"
      unfolding plain_merge_def Let_def ws_def [symmetric]
      by (rule class_words_join) (use ok last_in_set [of "filter is_level ws"] in \<open>auto simp: last_of_def split: if_splits\<close>)
    moreover have "filter is_level (last_of (filter is_level ws)) = last_of (filter is_level ws)"
      using last_in_set [of "filter is_level ws"] by (auto simp: last_of_def)
    ultimately show ?thesis by (simp add: levels_def given_words ws_def [symmetric])
  qed
  then show ?thesis by (simp add: merges_levels_def)
qed

lemma plain_variants_joins: "joins_variants plain_variants"
proof -
  have "one_word w" if "w \<in> set (cva_words cfg ps)" for cfg ps w
    using that by (auto simp: cva_words_def class_words_ok split: option.splits jsval.splits)
  then show ?thesis by (simp add: joins_variants_def plain_variants_def class_words_join)
qed

end
