(* ===== verification/Shell.thy ===== *)
theory Shell
  imports Layers
begin

text \<open>
  The shell of the page as a tree of elements: the bar, the rail, the call strip, the context surface
  and the sheet of the menu of \<open>components/layout\<close>, the push-to-talk bar and the two menus of the
  composer. What they show comes from the views of \<open>LayoutUi\<close> and \<open>Widgets\<close>; their handlers are the
  functions there and are not attributes of the tree. \<open>cva\<close> and \<open>cn\<close> merge class names.
\<close>

section \<open>The bar\<close>

text \<open>The colour of a dot, and the indicator with its popover.\<close>

definition statusDot :: "class_names \<Rightarrow> row_status \<Rightarrow> string" where
  "statusDot cn st =
     cn [Some ''h-1.5 w-1.5 rounded-full shrink-0'',
         if st = RowOk then Some ''bg-brand'' else None,
         if st = RowWarn then Some ''bg-status-warning'' else None,
         if st = RowOff then Some ''bg-fg-secondary/40'' else None]"

definition dotClass :: "class_names \<Rightarrow> chat_state \<Rightarrow> string" where
  "dotClass cn s =
     cn [Some ''h-2.5 w-2.5 rounded-full transition-colors'',
         if overall s = Online then Some ''bg-brand shadow-[0_0_8px_var(--color-brand)]'' else None,
         if overall s = Limited then Some ''bg-status-warning'' else None,
         if overall s = Offline then Some ''bg-status-critical'' else None]"

definition OnlineIndicator ::
  "class_names \<Rightarrow> chat_state \<Rightarrow> element" where
  "OnlineIndicator cn s =
     Popover []
       [PopoverTrigger
          [(''asChild'', JBool True)]
          [Element ''button''
             [(''type'', JStr ''button''),
              (''aria-label'', JStr (''Network status: '' @ net_summary s)),
              (''className'',
               JStr ''flex h-7 w-7 items-center justify-center rounded-md text-fg-secondary hover:bg-surface-2 focus-visible:outline-hidden focus-visible:ring-2 focus-visible:ring-border-focus'')]
             [Element ''span'' [(''className'', JStr (dotClass cn s))] []]],
        PopoverContent cn
          (Some ''w-64 p-3'')
          (JStr ''start'')
          (JNum 6)
          []
          [Element ''div''
             [(''className'', JStr ''mb-2 flex items-center gap-2'')]
             [Element ''span'' [(''className'', JStr (dotClass cn s))] [],
              Element ''span''
                [(''className'', JStr ''text-sm font-medium text-fg-primary'')]
                [TextNode (net_summary s)]],
           Element ''ul''
             [(''className'', JStr ''space-y-1.5'')]
             (map
                (\<lambda>(label, detail, st).
                   (Element ''li''
                      [(''className'', JStr ''flex items-center gap-2'')]
                      [Element ''span'' [(''className'', JStr (statusDot cn st))] [],
                       Element ''span'' [(''className'', JStr ''text-xs text-fg-primary'')] [TextNode label],
                       Element ''span''
                         [(''className'', JStr ''ml-auto text-xs text-fg-secondary'')]
                         [TextNode detail]]))
                (transport_rows s))]]"

definition TopBar ::
  "cva \<Rightarrow> class_names \<Rightarrow> breakpoint \<Rightarrow> orientation \<Rightarrow> chat_state \<Rightarrow> element" where
  "TopBar cva cn bp o' s =
     (let b = top_bar_of bp o' s; isCompact = (bp = Tablet);
          iconBtnClass = cn [Some ''shrink-0 text-fg-secondary hover:text-fg-primary'',
                             Some (if isCompact then ''h-8 w-8'' else ''h-10 w-10'')]
      in Element ''header''
          [(''data-layout'', JStr ''topbar''),
           (''className'',
            JStr
              (cn
                 [Some ''absolute inset-x-0 top-0 z-10 flex items-center gap-2 border-b border-border-subtle bg-surface-1/85 backdrop-blur-sm px-2 text-fg-primary'',
                  Some (if isCompact then ''h-10'' else ''h-12'')]))]
          [OnlineIndicator cn s,
           Element ''div''
             [(''className'', JStr ''flex min-w-0 flex-1 flex-col leading-tight'')]
             [Element ''span''
                [(''className'', JStr ''truncate text-sm font-semibold tracking-wide'')]
                [TextNode (tb_name b)],
              Element ''span''
                [(''className'', JStr ''truncate font-mono text-[10px] text-fg-secondary'')]
                [TextNode (tb_geo b)]],
           Button cva cn
             (Some
                (cn
                   [Some iconBtnClass,
                    if tb_map_pressed b then Some ''bg-brand/15 text-brand hover:bg-brand/20 hover:text-brand'' else None]))
             (JStr ''ghost'')
             (JStr (if isCompact then ''icon-xs'' else ''icon''))
             False
             [(''aria-label'', JStr ''Focus map''), (''aria-pressed'', JBool (tb_map_pressed b))]
             [Element ''MapIcon'' [(''className'', JStr ''h-5 w-5'')] []],
           Button cva cn
             (Some
                (cn
                   [Some iconBtnClass,
                    if tb_chat_pressed b then Some ''bg-brand/15 text-brand hover:bg-brand/20 hover:text-brand'' else None]))
             (JStr ''ghost'')
             (JStr (if isCompact then ''icon-xs'' else ''icon''))
             False
             [(''aria-label'', JStr ''Focus chat''), (''aria-pressed'', JBool (tb_chat_pressed b))]
             [Element ''MessageSquare'' [(''className'', JStr ''h-5 w-5'')] []],
           Button cva cn
             (Some iconBtnClass)
             (JStr ''ghost'')
             (JStr (if isCompact then ''icon-xs'' else ''icon''))
             False
             [(''aria-label'', JStr ''Open menu'')]
             [Element ''Menu'' [(''className'', JStr ''h-5 w-5'')] []]])"

section \<open>The rail of the map and the call strip\<close>

definition MapRail ::
  "cva \<Rightarrow> class_names \<Rightarrow> breakpoint \<Rightarrow> element" where
  "MapRail cva cn bp =
     (let btnClass = cn [Some (if bp = Mobile then ''h-10 w-10'' else ''h-11 w-11''),
                         Some ''rounded-full border border-border-subtle bg-surface-1/70 backdrop-blur-sm text-fg-secondary hover:text-fg-primary shadow-md'']
      in Element ''div''
          [(''data-layout'', JStr ''map-rail''),
           (''className'',
            JStr
              (cn
                 [Some ''absolute z-10 flex flex-col gap-2'',
                  Some (if bp = Mobile then ''left-2 top-16'' else ''left-3 top-14'')]))]
          [Button cva cn
             (Some btnClass)
             (JStr ''ghost'')
             (JStr ''icon'')
             False
             [(''aria-label'', JStr ''Zoom in'')]
             [Element ''Plus'' [(''className'', JStr ''h-5 w-5'')] []],
           Button cva cn
             (Some btnClass)
             (JStr ''ghost'')
             (JStr ''icon'')
             False
             [(''aria-label'', JStr ''Zoom out'')]
             [Element ''Minus'' [(''className'', JStr ''h-5 w-5'')] []],
           Button cva cn
             (Some btnClass)
             (JStr ''ghost'')
             (JStr ''icon'')
             False
             [(''aria-label'', JStr ''Center on me'')]
             [Element ''Crosshair'' [(''className'', JStr ''h-5 w-5'')] []],
           Button cva cn
             (Some btnClass)
             (JStr ''ghost'')
             (JStr ''icon'')
             False
             [(''aria-label'', JStr ''Add pin at center'')]
             [Element ''MapPin'' [(''className'', JStr ''h-5 w-5'')] []]])"

definition ActiveCallStrip ::
  "cva \<Rightarrow> class_names \<Rightarrow> breakpoint \<Rightarrow> chat_state \<Rightarrow> element option" where
  "ActiveCallStrip cva cn bp s =
     (case call_strip_of s of
        None \<Rightarrow> None
      | Some c \<Rightarrow> Some
         (Element ''div''
            [(''data-layout'', JStr ''active-call-strip''),
             (''className'',
              JStr
                (cn
                   [Some ''absolute z-10 flex flex-col gap-1.5 rounded-md border border-status-critical/40 bg-surface-1/90 backdrop-blur-sm p-2 text-fg-primary'',
                    Some (if bp = Desktop then ''left-16 right-[340px] bottom-3''
             else if bp = Tablet then ''left-12 right-[336px] bottom-2'' else ''left-14 right-3 bottom-44'')]))]
            [Element ''div''
               [(''className'', JStr ''flex items-center gap-2 text-xs'')]
               [Element ''span''
                  [(''aria-label'', JStr (if cs_speaking c then ''Speaking'' else ''Idle'')),
                   (''className'',
                    JStr
                      (cn
                         [Some ''inline-block h-2 w-2 rounded-full shrink-0'',
                          Some (if cs_speaking c then ''bg-status-success animate-pulse'' else ''bg-fg-tertiary'')]))]
                  [],
                Element ''span''
                  [(''className'', JStr ''truncate'')]
                  ([TextNode (cs_channel c)] @
                   (case cs_room c of
                None \<Rightarrow> []
              | Some r \<Rightarrow> [Element ''span'' [(''className'', JStr ''opacity-60'')] [TextNode ('' '' @ [CHR 0xB7] @ '' ''), TextNode r]])),
                Element ''span''
                  [(''className'', JStr ''ml-1 opacity-60 shrink-0'')]
                  [TextNode ([CHR 0xB7] @ '' ''), TextNode (decimal (cs_count c))],
                Element ''div''
                  [(''className'', JStr ''ml-auto flex items-center gap-1'')]
                  [Button cva cn
                     (Some ''h-8 w-8 text-fg-secondary'')
                     (JStr ''ghost'')
                     (JStr ''icon'')
                     False
                     [(''aria-label'', JStr (if cs_muted c then ''Unmute'' else ''Mute''))]
                     [if cs_muted c then
                        (Element ''MicOff'' [(''className'', JStr ''h-4 w-4'')] [])
                        else
                        (Element ''Mic'' [(''className'', JStr ''h-4 w-4'')] [])],
                   Button cva cn
                     (Some ''h-8 w-8 text-status-critical'')
                     (JStr ''ghost'')
                     (JStr ''icon'')
                     False
                     [(''aria-label'', JStr ''Hang up'')]
                     [Element ''PhoneOff'' [(''className'', JStr ''h-4 w-4'')] []]]],
             Button cva cn
               (Some
                  (cn
                     [Some ''h-11 w-full rounded-md font-semibold text-sm select-none touch-none'',
                      if cs_speaking c then Some ''animate-pulse'' else None]))
               (JStr (if cs_speaking c then ''destructive'' else ''secondary''))
               JUndefined
               False
               [(''aria-label'', JStr ''Push to talk'')]
               [Element ''Mic'' [(''className'', JStr ''mr-2 h-4 w-4'')] [], TextNode (cs_label c)]]))"

section \<open>The context surface\<close>

text \<open>A panel on wide screens.\<close>

definition ContextPanel ::
  "element list \<Rightarrow> element" where
  "ContextPanel children =
     Element ''aside''
       [(''data-layout'', JStr ''context-panel''),
        (''className'',
         JStr ''absolute right-3 top-14 bottom-3 z-20 w-[320px] overflow-hidden rounded-lg border border-border-subtle bg-surface-1/90 backdrop-blur-sm shadow-lg'')]
       children"

text \<open>The drawer of a phone; its handlers are \<open>setActiveSnapPoint\<close>. The content is as high as the visible part.\<close>

definition ContextDrawer ::
  "class_names \<Rightarrow> (num \<Rightarrow> string) \<Rightarrow> chat_state \<Rightarrow> element list \<Rightarrow> element" where
  "ContextDrawer cn number_text s children =
     Drawer
       [(''open'', JBool True),
        (''snapPoints'', JArr (map JNum SNAP_POINTS)),
        (''activeSnapPoint'', JNum (drawerSnap s)),
        (''modal'', JBool False),
        (''dismissible'', JBool False)]
       [DrawerContent cn None []
          [Element ''div''
             [(''className'', JStr ''flex flex-col overflow-hidden''),
              (''style'',
               JObj [(''height'', JStr (''calc('' @ number_text (drawerSnap s * 100) @ ''dvh - 1rem)''))])]
             children]]"

text \<open>
  The side sheet of a phone held sideways: a strip on the right edge, and a sheet that opens from it.
  \<open>is_open\<close> is its state; a click on the strip sets it, the button of the panel and Radix clear it.
\<close>

definition side_room :: "chat_state \<Rightarrow> string option" where
  "side_room s =
     (case last (contextStack s) of
        ListRoute \<Rightarrow> None
      | ChatRoute rid \<Rightarrow> map_option room_name (js_get (rooms s) rid))"

datatype side_event = PeekClick | CollapseClick | SheetChange bool

fun side_sheet_event :: "side_event \<Rightarrow> bool \<Rightarrow> bool" where
  "side_sheet_event PeekClick is_open = True"
| "side_sheet_event CollapseClick is_open = False"
| "side_sheet_event (SheetChange b) is_open = b"

definition ContextSideSheet ::
  "cva \<Rightarrow> class_names \<Rightarrow> chat_state \<Rightarrow> bool \<Rightarrow> element list \<Rightarrow> element list" where
  "ContextSideSheet cva cn s is_open children =
     [Element ''button''
        [(''type'', JStr ''button''),
         (''data-layout'', JStr ''context-side-peek''),
         (''className'',
          JStr ''absolute right-0 top-12 bottom-2 z-20 w-11 rounded-l-lg border border-r-0 border-border-subtle bg-surface-1/85 backdrop-blur-sm text-fg-secondary hover:text-fg-primary''),
         (''aria-label'',
          JStr (''Expand '' @ (case side_room s of None \<Rightarrow> ''channels'' | Some n \<Rightarrow> n)))]
        [Element ''span''
           [(''className'',
             JStr ''flex h-full flex-col items-center justify-center gap-2 text-[10px] [writing-mode:vertical-rl]'')]
           [TextNode (case side_room s of None \<Rightarrow> ''Channels'' | Some n \<Rightarrow> n)]],
      Sheet
        [(''open'', JBool is_open)]
        [SheetContent cva cn
           (JStr ''right'')
           (Some ''z-30 w-[320px] border-l border-border-subtle bg-surface-1/95 p-0 backdrop-blur-sm'')
           []
           [Element ''div''
              [(''className'', JStr ''flex h-11 items-center gap-2 border-b border-border-subtle px-2'')]
              [Button cva cn
                 (Some ''h-11 w-11 text-fg-secondary'')
                 (JStr ''ghost'')
                 (JStr ''icon'')
                 False
                 [(''aria-label'', JStr ''Collapse panel'')]
                 [Element ''ChevronLeft'' [(''className'', JStr ''h-5 w-5'')] []]],
            Element ''div'' [(''className'', JStr ''h-[calc(100%-2.75rem)] overflow-hidden'')] children]]]"

definition ContextSurface ::
  "cva \<Rightarrow> class_names \<Rightarrow> (num \<Rightarrow> string) \<Rightarrow> breakpoint \<Rightarrow> orientation \<Rightarrow> chat_state \<Rightarrow> bool \<Rightarrow> element list \<Rightarrow> element list" where
  "ContextSurface cva cn number_text bp o' s is_open children =
     (case context_surface bp o' (contextSurfaceHidden s) of
        None \<Rightarrow> []
      | Some PanelSurface \<Rightarrow> [ContextPanel children]
      | Some SheetSurface \<Rightarrow> ContextSideSheet cva cn s is_open children
      | Some DrawerSurface \<Rightarrow> [ContextDrawer cn number_text s children])"

section \<open>The sheet of the menu\<close>

text \<open>\<open>page\<close> is the page of a route; the handlers are \<open>toggleMenu\<close>, \<open>setMenuRoute\<close> and \<open>cycleMapStyle\<close>.\<close>

definition OverlaySheets ::
  "cva \<Rightarrow> class_names \<Rightarrow> (menu_route \<Rightarrow> element) \<Rightarrow> breakpoint \<Rightarrow> string \<Rightarrow> chat_state \<Rightarrow> element" where
  "OverlaySheets cva cn page bp style s =
     Sheet
       [(''open'', JBool (menuOpen s))]
       [SheetContent cva cn (JStr (case sheetSideFor bp of SideRight \<Rightarrow> ''right'' | SideBottom \<Rightarrow> ''bottom''))
          (Some
             (cn
                [Some ''flex flex-col gap-0 bg-surface-1/95 p-0 backdrop-blur-sm'',
                 if sheetSideFor bp = SideBottom then Some ''h-[85dvh] max-h-[85dvh] rounded-t-2xl'' else None,
                 if sheetSideFor bp = SideRight then Some ''w-full max-w-sm'' else None]))
          []
          [Element ''header''
             [(''className'', JStr ''flex h-11 shrink-0 items-center gap-1 border-b border-border-subtle px-2'')]
             ((if menuRoute s \<noteq> Home then
                 [Button cva cn
                    (Some ''text-fg-secondary hover:text-fg-primary'')
                    (JStr ''ghost'')
                    (JStr ''icon-xs'')
                    False
                    [(''aria-label'', JStr ''Back to menu'')]
                    [Element ''ChevronLeft'' [(''className'', JStr ''h-4 w-4'')] []]]
                 else []) @
              [Element ''span''
                 [(''className'', JStr ''text-sm font-semibold text-fg-primary'')]
                 [TextNode (routeTitle (menuRoute s))]]),
           Element ''div''
             [(''className'', JStr ''flex-1 min-h-0 overflow-hidden'')]
             ((if menuRoute s = Home then
                 [Element ''nav''
                    [(''className'', JStr ''flex flex-col p-2'')]
                    [Button cva cn
                       (Some ''h-11 justify-start gap-3 text-fg-primary'')
                       (JStr ''ghost'')
                       JUndefined
                       False
                       []
                       [Element ''MapPinned'' [(''className'', JStr ''h-4 w-4 text-fg-secondary'')] [],
                        TextNode ''Join Room''],
                     Button cva cn
                       (Some ''h-11 justify-start gap-3 text-fg-primary'')
                       (JStr ''ghost'')
                       JUndefined
                       False
                       []
                       [Element ''SettingsIcon'' [(''className'', JStr ''h-4 w-4 text-fg-secondary'')] [],
                        TextNode ''Settings''],
                     Button cva cn
                       (Some ''h-11 justify-start gap-3 text-fg-primary'')
                       (JStr ''ghost'')
                       JUndefined
                       False
                       []
                       [Element ''Network'' [(''className'', JStr ''h-4 w-4 text-fg-secondary'')] [],
                        TextNode ''Mesh Viewer''],
                     Separator cn (Some ''my-1'') JUndefined JUndefined [] [],
                     Button cva cn
                       (Some ''h-11 justify-between text-fg-primary'')
                       (JStr ''ghost'')
                       JUndefined
                       False
                       []
                       [Element ''span'' [] [TextNode ''Map Style''],
                        Element ''span'' [(''className'', JStr ''text-xs text-fg-secondary'')] [TextNode style]]]]
                 else []) @
              (if menuRoute s = SettingsRoute then [page SettingsRoute] else []) @
              (if menuRoute s = JoinRoomRoute then [page JoinRoomRoute] else []) @
              (if menuRoute s = MeshRoute then [page MeshRoute] else []))]]"

section \<open>The shell\<close>

text \<open>\<open>viewer\<close> is the map, which gets the contacts and markers of the open room; \<open>stack\<close> the channel list or the chat.\<close>

definition MapBackground ::
  "element \<Rightarrow> element list \<Rightarrow> element" where
  "MapBackground viewer children =
     Element ''div''
       [(''className'', JStr ''relative h-dvh w-dvw overflow-hidden bg-surface-canvas'')]
       ([Element ''div'' [(''className'', JStr ''absolute inset-0 z-0'')] [viewer]] @ children)"

definition AppShell ::
  "cva \<Rightarrow> class_names \<Rightarrow> (num \<Rightarrow> string) \<Rightarrow> element \<Rightarrow> element \<Rightarrow> (menu_route \<Rightarrow> element) \<Rightarrow>
     breakpoint \<Rightarrow> orientation \<Rightarrow> string \<Rightarrow> bool \<Rightarrow> chat_state \<Rightarrow> element" where
  "AppShell cva cn number_text viewer stack page bp o' style is_open s =
     MapBackground viewer
       ([TopBar cva cn bp o' s, MapRail cva cn bp] @
        (case ActiveCallStrip cva cn bp s of None \<Rightarrow> [] | Some e \<Rightarrow> [e]) @
        ContextSurface cva cn number_text bp o' s is_open [stack] @
        [OverlaySheets cva cn page bp style s])"

section \<open>Small parts\<close>

definition PTTButton ::
  "cva \<Rightarrow> class_names \<Rightarrow> bool \<Rightarrow> element" where
  "PTTButton cva cn active_now =
     Button cva cn
       (Some
          (cn
             [Some ''h-16 w-10 shrink-0 rounded-full transition'',
              if active_now then Some ''scale-110 animate-pulse'' else None]))
       (JStr (if active_now then ''destructive'' else ''default''))
       (JStr ''lg'')
       False
       [(''title'', JStr ''Hold to talk'')]
       [Element ''Mic'' [(''className'', JStr ''h-5 w-5'')] []]"

definition PTTBar ::
  "cva \<Rightarrow> class_names \<Rightarrow> string \<Rightarrow> bool \<Rightarrow> element" where
  "PTTBar cva cn channelName active_now =
     Element ''div''
       [(''className'',
         JStr ''px-3 md:px-4 py-2 bg-surface-1 border-t border-border-subtle flex items-center gap-3 shrink-0'')]
       [Element ''div''
          [(''className'', JStr ''flex items-center gap-2 min-w-0 flex-1'')]
          [Element ''Radio'' [(''className'', JStr ''h-4 w-4 text-brand shrink-0'')] [],
           Element ''div''
             [(''className'', JStr ''min-w-0'')]
             [Element ''div''
                [(''className'', JStr ''text-xs text-fg-tertiary'')]
                [TextNode ''Transmitting on''],
              Element ''div''
                [(''className'', JStr ''text-sm font-medium text-fg-primary truncate'')]
                [TextNode channelName]]],
        PTTButton cva cn active_now]"

fun attach_icon :: "attach_kind \<Rightarrow> string" where
  "attach_icon AttachImage = ''ImageIcon''"
| "attach_icon AttachFile = ''FileText''"
| "attach_icon AttachVoice = ''Mic''"
| "attach_icon AttachLocation = ''MapPin''"

definition ComposerAttachMenu ::
  "cva \<Rightarrow> class_names \<Rightarrow> bool \<Rightarrow> bool \<Rightarrow> element" where
  "ComposerAttachMenu cva cn disabled is_open =
     DropdownMenu
       [(''open'', JBool is_open)]
       [DropdownMenuTrigger
          [(''asChild'', JBool True)]
          [Button cva cn
             (Some ''shrink-0 h-10 w-10 text-fg-secondary hover:text-fg-primary'')
             (JStr ''ghost'')
             (JStr ''icon'')
             False
             [(''type'', JStr ''button''), (''disabled'', JBool disabled), (''aria-label'', JStr ''Attach'')]
             [Element ''Plus'' [(''className'', JStr ''h-5 w-5'')] []]],
        DropdownMenuContent cn
          (Some ''w-48'')
          JUndefined
          [(''align'', JStr ''start''), (''side'', JStr ''top'')]
          (map
             (\<lambda>(kind, label).
                (DropdownMenuItem cn
                   (Some ''gap-2'')
                   False
                   []
                   [Element (attach_icon kind) [(''className'', JStr ''h-4 w-4 text-fg-secondary'')] [],
                    Element ''span'' [] [TextNode label]]))
             ATTACH_ITEMS)]"

definition ComposerEmojiPopover ::
  "cva \<Rightarrow> class_names \<Rightarrow> (nat list \<Rightarrow> string) \<Rightarrow> bool \<Rightarrow> bool \<Rightarrow> element" where
  "ComposerEmojiPopover cva cn glyph disabled is_open =
     Popover
       [(''open'', JBool is_open)]
       [PopoverTrigger
          [(''asChild'', JBool True)]
          [Button cva cn
             (Some ''shrink-0 h-9 w-9 text-fg-secondary hover:text-fg-primary'')
             (JStr ''ghost'')
             (JStr ''icon'')
             False
             [(''type'', JStr ''button''), (''disabled'', JBool disabled), (''aria-label'', JStr ''Emoji'')]
             [Element ''Smile'' [(''className'', JStr ''h-5 w-5'')] []]],
        PopoverContent cn
          (Some ''w-auto p-2'')
          (JStr ''end'')
          JUndefined
          [(''side'', JStr ''top'')]
          [Element ''div''
             [(''className'', JStr ''grid grid-cols-5 gap-1'')]
             (map
                (\<lambda>emoji.
                   (Element ''button''
                      [(''type'', JStr ''button''),
                       (''aria-label'', JStr (glyph emoji)),
                       (''className'',
                        JStr ''text-lg w-9 h-9 rounded hover:bg-surface-2 transition flex items-center justify-center'')]
                      [TextNode (glyph emoji)]))
                COMPOSER_EMOJIS)]]"


section \<open>What the trees show\<close>

fun by_label :: "string \<Rightarrow> element \<Rightarrow> element list" where
  "by_label l (Element t as es) =
     (if js_get as ''aria-label'' = Some (JStr l) then [Element t as es] else []) @ concat (map (by_label l) es)"
| "by_label l (TextNode s) = []"

fun element_texts :: "element \<Rightarrow> string list" where
  "element_texts (Element t as es) = concat (map element_texts es)"
| "element_texts (TextNode s) = [s]"

text \<open>The menu offers the four kinds, each once, whatever the state; the bar names its channel.\<close>

lemma attach_menu_texts:
  "element_texts (ComposerAttachMenu cva cn disabled is_open) = map snd ATTACH_ITEMS"
  by (simp add: ComposerAttachMenu_def DropdownMenu_def DropdownMenuTrigger_def Button_def DropdownMenuContent_def
      DropdownMenuItem_def Let_def ATTACH_ITEMS_def)

lemma ptt_bar_texts: "element_texts (PTTBar cva cn channelName active_now) = [''Transmitting on'', channelName]"
  by (simp add: PTTBar_def PTTButton_def Button_def)

lemma emoji_popover_texts:
  "element_texts (ComposerEmojiPopover cva cn glyph disabled is_open) = map glyph COMPOSER_EMOJIS"
  by (simp add: ComposerEmojiPopover_def Popover_def PopoverTrigger_def Button_def PopoverContent_def Let_def
      COMPOSER_EMOJIS_def)

text \<open>The indicator says the same on its button and in its popover, and counts every peer of the store.\<close>

lemma indicator_texts:
  "element_texts (OnlineIndicator cn s) =
     net_summary s # concat (map (\<lambda>(label, detail, st). [label, detail]) (transport_rows s))"
  by (simp add: OnlineIndicator_def Popover_def PopoverTrigger_def PopoverContent_def Let_def transport_rows_def
      peer_row_def)

text \<open>
  The two buttons of the bar: one of them is pressed, and it is the one that was clicked last,
  whatever the surface is.
\<close>

lemma attr_button:
  "k \<noteq> ''className'' \<Longrightarrow> attr k (Button cva cn c v sz ch [(k, x)] es) = Some x"
  by (simp add: Button_def spread_props_def)

lemma pressed_buttons:
  "map (attr ''aria-pressed'') (by_label ''Focus map'' (TopBar cva cn bp o' s)) = [Some (JBool (\<not> chatFocused bp o' s))] \<and>
   map (attr ''aria-pressed'') (by_label ''Focus chat'' (TopBar cva cn bp o' s)) = [Some (JBool (chatFocused bp o' s))]"
  by (simp add: TopBar_def Let_def OnlineIndicator_def Popover_def PopoverTrigger_def PopoverContent_def Button_def
      spread_props_def top_bar_of_def transport_rows_def peer_row_def)

lemma focus_shown:
  "map (attr ''aria-pressed'') (by_label ''Focus chat'' (TopBar cva cn bp o' (focusChat bp o' s))) = [Some (JBool True)]"
  "map (attr ''aria-pressed'') (by_label ''Focus map'' (TopBar cva cn bp o' (focusMap bp o' s))) = [Some (JBool True)]"
  using pressed_buttons
  by (auto simp: chatFocused_def focusChat_def focusMap_def setDrawerSnap_def setContextSurfaceHidden_def)

section \<open>The side sheet and its overlay\<close>

definition side_class :: string where
  "side_class = ''z-30 w-[320px] border-l border-border-subtle bg-surface-1/95 p-0 backdrop-blur-sm''"

lemma side_class_level: "levels side_class = [''z-30'']"
  by (simp add: side_class_def level_words)

text \<open>What \<open>OverlaySheets\<close> gives has no level: the merged class name of the sheet keeps its own.\<close>

lemma menu_class_level:
  assumes "merges_levels cn"
  shows "levels (cn [Some ''flex flex-col gap-0 bg-surface-1/95 p-0 backdrop-blur-sm'',
           if a then Some ''h-[85dvh] max-h-[85dvh] rounded-t-2xl'' else None, if b then Some ''w-full max-w-sm'' else None]) = []"
  by (cases a; cases b) (simp add: merged_levels [OF assms], simp add: level_words)+

text \<open>
  C25. The context panel of a phone held sideways lies under its own overlay: the strip on the edge opens a
  sheet whose panel has level 30 while the overlay, which covers the window, has 50. Whatever the
  caller puts into the panel, the button that closes it included, is under the overlay. The sheet of the
  menu, on every screen, lies over its overlay.
\<close>

theorem side_sheet_under_overlay:
  assumes "merges_levels cn" and "joins_variants cva"
  shows "(\<exists>peek ov panel bar close.
       ContextSurface cva cn number_text Mobile Landscape (s\<lparr>contextSurfaceHidden := False\<rparr>) is_open ch
         = [peek, Sheet [(''open'', JBool is_open)] [SheetPortal [] [ov, panel]]] \<and>
       el_tag ov = ''SheetPrimitive.Overlay'' \<and> stack_level ov = 50 \<and> stack_level panel = 30 \<and> earlier_over ov panel \<and>
       el_children panel = [bar, Element ''div'' [(''className'', JStr ''h-[calc(100%-2.75rem)] overflow-hidden'')] ch, close] \<and>
       by_label ''Collapse panel'' bar \<noteq> []) \<and>
     (\<exists>ov panel. OverlaySheets cva cn page bp style t = Sheet [(''open'', JBool (menuOpen t))] [SheetPortal [] [ov, panel]] \<and>
       el_tag ov = ''SheetPrimitive.Overlay'' \<and> later_over ov panel)"
proof
  let ?ov = "SheetOverlay cn None [] []"
  let ?C = "\<lambda>side c ch. SheetContent cva cn side c [] ch"
  have split: "?C side c es = SheetPortal [] [?ov, portal_panel (?C side c es)]" for side c es
    by (simp add: SheetContent_def SheetPortal_def portal_panel_def Let_def)
  note right = sheet_modal [OF assms(2), of "JStr ''right''"] and bottom = sheet_modal [OF assms(2), of "JStr ''bottom''"]
  have ov: "el_tag ?ov = ''SheetPrimitive.Overlay''" "stack_level ?ov = 50"
    using sheet_overlay.at_own_level [OF assms(1), of "[]" None "[]"]
    by (simp_all add: SheetOverlay_def level_number_def)
  let ?P = "portal_panel (?C (JStr ''right'') (Some side_class)
    [Element ''div'' [(''className'', JStr ''flex h-11 items-center gap-2 border-b border-border-subtle px-2'')]
       [Button cva cn (Some ''h-11 w-11 text-fg-secondary'') (JStr ''ghost'') (JStr ''icon'') False
          [(''aria-label'', JStr ''Collapse panel'')] [Element ''ChevronLeft'' [(''className'', JStr ''h-5 w-5'')] []]],
     Element ''div'' [(''className'', JStr ''h-[calc(100%-2.75rem)] overflow-hidden'')] ch])"
  have "stack_level ?P = level_number (last (given_levels [Some side_class]))"
    by (rule layer.at_level_of_caller [OF sheet_panel [OF assms(2)] assms(1)]) (simp_all add: sheet_sides_def side_class_level)
  then have level: "stack_level ?P = 30" by (simp add: side_class_level level_number_def)
  show "\<exists>peek ov panel bar close.
       ContextSurface cva cn number_text Mobile Landscape (s\<lparr>contextSurfaceHidden := False\<rparr>) is_open ch
         = [peek, Sheet [(''open'', JBool is_open)] [SheetPortal [] [ov, panel]]] \<and>
       el_tag ov = ''SheetPrimitive.Overlay'' \<and> stack_level ov = 50 \<and> stack_level panel = 30 \<and> earlier_over ov panel \<and>
       el_children panel = [bar, Element ''div'' [(''className'', JStr ''h-[calc(100%-2.75rem)] overflow-hidden'')] ch, close] \<and>
       by_label ''Collapse panel'' bar \<noteq> []"
  proof (intro exI conjI)
    show "ContextSurface cva cn number_text Mobile Landscape (s\<lparr>contextSurfaceHidden := False\<rparr>) is_open ch
        = [hd (ContextSideSheet cva cn (s\<lparr>contextSurfaceHidden := False\<rparr>) is_open ch),
           Sheet [(''open'', JBool is_open)] [SheetPortal [] [?ov, ?P]]]"
      by (subst split [symmetric]) (simp add: ContextSurface_def context_surface_def ContextSideSheet_def side_class_def)
  qed (use ov level in \<open>auto simp: earlier_over_def SheetContent_def SheetPortal_def portal_panel_def Let_def Button_def
      spread_props_def\<close>)
  let ?c = "Some (cn [Some ''flex flex-col gap-0 bg-surface-1/95 p-0 backdrop-blur-sm'',
    if sheetSideFor bp = SideBottom then Some ''h-[85dvh] max-h-[85dvh] rounded-t-2xl'' else None,
    if sheetSideFor bp = SideRight then Some ''w-full max-w-sm'' else None])"
  let ?side = "JStr (case sheetSideFor bp of SideRight \<Rightarrow> ''right'' | SideBottom \<Rightarrow> ''bottom'')"
  have over: "later_over ?ov (portal_panel (?C ?side ?c es))" for es
    by (rule modal_layers.panel_over_overlay [OF sheet_modal [OF assms(2)] assms(1)])
      (auto simp: sheet_sides_def menu_class_level [OF assms(1)] split: sheet_side.split)
  show "\<exists>ov panel. OverlaySheets cva cn page bp style t = Sheet [(''open'', JBool (menuOpen t))] [SheetPortal [] [ov, panel]] \<and>
       el_tag ov = ''SheetPrimitive.Overlay'' \<and> later_over ov panel"
  proof -
    obtain es where "OverlaySheets cva cn page bp style t = Sheet [(''open'', JBool (menuOpen t))] [?C ?side ?c es]"
      unfolding OverlaySheets_def by blast
    then have "OverlaySheets cva cn page bp style t
        = Sheet [(''open'', JBool (menuOpen t))] [SheetPortal [] [?ov, portal_panel (?C ?side ?c es)]]"
      using split [of ?side ?c es] by simp
    with over ov(1) show ?thesis by blast
  qed
qed

lemma side_sheet_under_overlay_witness:
  "\<forall>number_text ch. \<exists>peek ov panel.
     ContextSurface plain_variants plain_merge number_text Mobile Landscape (init_chat\<lparr>contextSurfaceHidden := False\<rparr>) True ch
       = [peek, Sheet [(''open'', JBool True)] [SheetPortal [] [ov, panel]]] \<and> earlier_over ov panel"
proof (intro allI)
  fix number_text :: "num \<Rightarrow> string" and ch :: "element list"
  show "\<exists>peek ov panel.
     ContextSurface plain_variants plain_merge number_text Mobile Landscape (init_chat\<lparr>contextSurfaceHidden := False\<rparr>) True ch
       = [peek, Sheet [(''open'', JBool True)] [SheetPortal [] [ov, panel]]] \<and> earlier_over ov panel"
    using side_sheet_under_overlay [OF plain_merge_merges plain_variants_joins, of number_text init_chat True ch
        "\<lambda>_. TextNode []" Mobile "[]" init_chat] by blast
qed

end
