(* ===== verification/Spec2Isabelle.thy ===== *)
theory Spec2Isabelle
  imports WsConn StoreProps VoiceProps PageProps ClientProps UiProps SettingsProps Details EndToEnd VoiceCalls Widgets ListPane
    HubScreens Shell
begin

text \<open>
  PeatLink's web client, \<open>web/src\<close>: a React and TypeScript page that talks to a chat server over
  one WebSocket, shows rooms, a tactical map and a mesh diagram, and carries voice over WebRTC with
  a relay to Bluetooth on Android. This development models the client's logic as HOL functions and
  step relations and proves what keeps it correct, and where it is not.

  The parts of the program and how they meet.
  \<^item> The store \<open>store/chatStore.ts\<close> holds rooms, messages, peers, contacts, markers, voice channels
    and navigation; every operation replaces the state at once. Theories \<open>Types\<close> (the wire types),
    \<open>ChatState\<close> (the state), \<open>RoomStore\<close>, \<open>PeerStore\<close>, \<open>VoiceStore\<close>, \<open>NavStore\<close> (an HOL function
    per operation, with the name it has in the source). \<open>store/settingsStore.ts\<close> is \<open>Settings\<close>.
  \<^item> \<open>hooks/useWebSocket.ts\<close> turns frames into store operations and calls of the voice manager
    (\<open>Dispatch\<close>: \<open>onopen\<close>, \<open>onclose\<close>, one definition per case of \<open>onmessage\<close>), and keeps one
    socket (\<open>WsConn\<close>: \<open>connect\<close>, the socket events, the reconnect timer, mounting and unmounting).
  \<^item> \<open>voice/VoiceManager.ts\<close> holds the peer connections, the audio graph and the Bluetooth relay
    (\<open>VoiceManager\<close>: every method; an \<open>async\<close> method is cut at its awaits and a suspended method
    is a value of \<open>cont\<close>), with its audio arithmetic in \<open>Pcm\<close> (sample conversion, bytes, base64,
    resampling, framing).
  \<^item> \<open>hooks/usePTT.ts\<close> (\<open>Ptt\<close>), \<open>hooks/useGeolocation.ts\<close>, \<open>useTheme.ts\<close>, \<open>useBreakpoint.ts\<close>,
    \<open>useOrientation.ts\<close> (\<open>Hooks\<close>), the helpers of \<open>lib\<close> and the marker form (\<open>Lib\<close>).
  \<^item> \<open>App.tsx\<close> makes the voice manager and hands its actions to the screens (\<open>AppModel\<close>). \<open>Page\<close> puts
    the connection, every voice manager the page makes and those actions on one state: what a
    manager sends goes through the socket that is open at that moment, a frame calls the manager
    there is. \<open>Signalling\<close> adds the server's relay of offers, answers and ICE candidates
    (\<open>server/hub.go\<close>) and runs two pages against each other. \<open>Keys\<close> runs the keyboard hook on the page
    (its effect again whenever a dependency has changed), \<open>Calls\<close> the channel list on the page.
  \<^item> The other end of the conversation: \<open>ServerRoom\<close> is the server's room (\<open>server/room.go\<close>) with the
    requests of \<open>client.go\<close> and \<open>hub.go\<close> that send, edit, delete, pin and react, and joining;
    \<open>Conversation\<close> is what every frame does to the messages of a room in the store, and
    \<open>Convergence\<close> puts the room, the send buffers, the sockets and the stores of all clients into
    one step relation, and \<open>EndToEnd\<close> joins it to the chat pane and to the connection. \<open>VoiceRoom\<close> is
    the server's voice channels, \<open>VoiceCalls\<close> what the pages and the server make of a call.
  \<^item> The rest of the server's state: \<open>ServerMap\<close> is the map of a room (positions of members,
    Bluetooth and ATAK peers, markers and the requests that change them), \<open>ServerHub\<close> the hub
    (\<open>hub.go\<close>: the rooms, the registry of Bluetooth peers and their relays, the mesh told to each
    member, making and joining a room, a client that is gone, the list of rooms, the ticker), and
    \<open>RelayVoice\<close> the voice methods for a peer behind a relay.
  \<^item> The screens: \<open>MapStyle\<close> and \<open>MapView\<close> (\<open>MapViewer.tsx\<close>), \<open>ChatUi\<close> (chat pane and composer),
    \<open>SidebarUi\<close> (channel list, voice bar), \<open>LayoutUi\<close> (shell, mesh diagram), \<open>SettingsUi\<close> and
    \<open>SettingsScreen\<close> (settings forms, microphone meter, key capture), \<open>Details\<close> (popovers, the
    marker form, the map rail, the texts of the mesh diagram), \<open>Widgets\<close> (form primitives, the dialog
    that joins a room, the composer's menus, the contexts), \<open>ListPane\<close> (the channel list under clicks
    and keys while the store changes). A screen is its \<open>useState\<close> as a
    record, its handlers as functions that also give the frames sent, its effects with their
    dependencies, and what it shows as a value.

  \<^item> The elements: \<open>Primitives\<close> has every wrapper of \<open>components/ui\<close> as the tree it renders, with the
    tables of class names; \<open>Layers\<close> says at which level the floating ones are stacked, as the locales
    \<open>layer\<close> and \<open>modal_layers\<close>; \<open>Shell\<close> has the trees of \<open>components/layout\<close>, the push-to-talk bar and
    the menus of the composer.

  The shared theories: \<open>Prelude\<close> has JavaScript values, truthiness, strings and insertion-ordered
  maps (\<open>js_get\<close>, \<open>js_set\<close>, \<open>js_delete\<close> on association lists) with the hints the components use;
  \<open>Keyed\<close> has the idiom of merging lists through a \<open>Map\<close>, as the locales \<open>keyed_collection\<close> and
  \<open>idempotent_collection\<close>, interpreted for messages, contacts, voice members and voice channels.
  Further locales are the contract of an operation on one room and of a patch of one message
  (\<open>room_operation\<close>, \<open>message_patch\<close>, interpreted for every operation of the store), of an
  operation on one voice channel (\<open>channel_operation\<close>), and of the microphone switch that
  push-to-talk relies on (\<open>mic_switch\<close>, interpreted for the voice manager).

  What the lemmas show. \<open>ChatInv\<close>: one invariant of the store, kept by every operation and every
  frame. \<open>WsConn\<close>: the invariant of the connection by rule induction. \<open>VmSteps\<close>: the
  well-formedness of the manager under every operation, event and resumption in any order;
  \<open>VmRuns\<close> and \<open>Segments\<close>: whole runs of its methods. \<open>Page\<close>: a run of the page is a run of the
  connection, and every manager stays well formed. The properties proper stand in \<open>StoreProps\<close>
  (messages refine a map from ids to messages, redelivery and order of arrival do not matter,
  unread counters, the two writers of the mesh table, voice state from the server),
  \<open>VoiceProps\<close> (silence while muted, joining, leaving, push-to-talk, the noise gate, ICE order, the
  audio relay and its round trip), \<open>PageProps\<close> (the whole page, the keyboard, a click on a
  channel, a peer's leaving, a call set up between two pages), \<open>ClientProps\<close> (hooks and helpers), \<open>UiProps\<close> (the screens), \<open>SettingsProps\<close>
  (the settings screens), \<open>ServerProps\<close> (clients
  that miss no frame show what the server has; what a request may change), \<open>EndToEnd\<close> (what is sent
  is shown), \<open>VoiceRoom\<close> and \<open>VoiceCalls\<close> (who is listed in which voice channel, a call that is joined), \<open>ListPane\<close> (what the channel list sends),
  \<open>MapProps\<close> (markers and positions on the server and on the maps), \<open>RelayVoice\<close>, \<open>HubProps\<close> and
  \<open>HubScreens\<close> (the registry, and what the screens make of the mesh and of the list of rooms), \<open>Shell\<close>
  (what lies over what), and here (the connection, and what a lost connection does to a call).
  Some of them state faults of the code: the model does what the code does.

  Bounds and fuel. \<open>settle\<close> runs a suspended method at most \<open>n\<close> segments; joining needs the
  number of members plus 2 (context, microphone, one offer each), an answer the number of
  queued candidates plus 2, an offer plus 3, and the theorems give a finished run for any such
  \<open>n\<close>. \<open>page_settle\<close> is the same on the page. The resampling loop is a
  \<open>partial_function (option)\<close>, because it does not end at a rate of 0; \<open>resampler_no_drift\<close> says it
  returns at every positive rate. All other loops are structural or have a measure.

  Conventions. A number of the wire is an exact real, a counter of the client a \<open>nat\<close>, a 16-bit
  sample an \<open>int\<close> in range, a byte an \<open>8 word\<close>, a 32-bit hash an \<open>int\<close> reduced as \<open>x | 0\<close> does. A string is a list
  of characters below 256; where the source prints a dash, an ellipsis or an emoji beyond that, the
  model has an ASCII text or a parameter. A plain object is an association list in insertion order;
  that JavaScript moves integer-like keys to the front is not modelled (ids are not such keys). The
  record \<open>views\<close> is the unchecked casts of \<open>onmessage\<close>; the record \<open>platform\<close> is what the browser
  and the Android bridge answer (which functions exist, \<open>JSON.parse\<close>, the clock); promises are
  answered by the argument of \<open>resume\<close>. WebRTC, Web Audio, MapLibre, zod, Radix and the form
  library are not under \<open>src\<close>: they appear as such parameters and events only. On the server a request
  and its broadcast are one step (the code releases the lock between them), its JSON decoder takes
  property names as they are (Go's also ignores case), and \<open>reads_server\<close> says that the casts of
  \<open>onmessage\<close> read what \<open>encoding/json\<close> writes; a client that misses a frame because its buffer of
  256 is full, or leaves, is \<open>Broken\<close> and nothing is claimed of it. The predicates \<open>reads_map\<close>, \<open>reads_mesh\<close> and
  \<open>reads_rooms\<close> say the same of the frames of the map, the mesh and the list of rooms. Go's maps have
  no order; where the code ranges over one the model goes through an association list, and the
  theorems speak of sets or of single keys. The hash of a room's name, new ids, the clock and the
  names that voice frames show are arguments.

  Not modelled: the markup of the screens beyond the shell and the primitives, what CSS makes of class
  names other than stacking levels, icons; what MapLibre draws; the persist middleware of the settings
  beyond migration; the error boundary of the channel list; the formatting of dates; the
  server's HTTP set-up, identity keys and TAK bridge (\<open>main.go\<close>, \<open>identity.go\<close>,
  \<open>cot_bridge.go\<close>, \<open>tak_proto.go\<close>), the Rust crates and the Android and iOS apps, which are in
  other languages and on the other side of the frames and of the bridge; tests and build files.
\<close>

section \<open>The connection\<close>

text \<open>
  C1. In every state the page can reach, with any frames, failures, reconnections and user actions
  in any order: at most one socket is open or opening and it is the current one; while mounted
  there is either a current socket or a pending reconnection, never both and never neither; after
  unmounting there is no socket and no timer; and the store is well formed.
\<close>

theorem connection_invariant:
  assumes "ws_reachable V c"
  shows "(\<forall>k. status (socket_of c k) = Open \<or> status (socket_of c k) = Connecting \<longrightarrow> ws_ref c = Some k) \<and>
         (mounted c \<longrightarrow> (ws_ref c = None) = reconnect c) \<and>
         (\<not> mounted c \<longrightarrow> ws_ref c = None \<and> \<not> reconnect c) \<and>
         chat_wf (chat c)"
  using ws_invD(2,4-7) [OF ws_reachable_inv [OF assms]] by blast

lemma connection_invariant_witness:
  "\<exists>V c. ws_reachable V c \<and> mounted c \<and> status (socket_of c 0) = Connecting \<and> ws_ref c = Some 0 \<and>
     chat_wf (chat c)"
proof -
  let ?c = "ws_mount init_ws"
  have r: "ws_reachable V ?c" for V
    by (rule ws_reachable.step [OF ws_reachable.start mount]) (simp add: init_ws_def)
  have m: "mounted ?c" "status (socket_of ?c 0) = Connecting"
    by (simp_all add: ws_mount_def ws_connect_def detach_current_def init_ws_def Let_def)
  with r connection_invariant [OF r] show ?thesis by blast
qed

text \<open>A connection that is lost, the timer, and the new connection that opens.\<close>

definition reconnected :: "string \<Rightarrow> nat \<Rightarrow> ws_sys \<Rightarrow> ws_sys" where
  "reconnected pref k c =
     (let d = ws_timer (ws_closed k c) in ws_opened pref (next_socket c) d)"

lemma reconnected_fields:
  assumes "ws_inv c" and "ws_ref c = Some k" and "has_onclose (socket_of c k)"
  shows "ws_ref (reconnected pref k c) = Some (next_socket c)"
    and "status (socket_of (reconnected pref k c) (next_socket c)) = Open"
    and "chat (reconnected pref k c) = fst (ws_onopen pref (ws_onclose (chat c)))"
    and "sent (reconnected pref k c)
           = sent c @ map (Pair (next_socket c)) (snd (ws_onopen pref (ws_onclose (chat c))))"
  using assms
  by (simp_all add: reconnected_def ws_timer_def ws_connect_def detach_current_def ws_closed_def
      ws_opened_def Let_def case_prod_beta)

text \<open>
  C17. A lost connection is taken up again without loss of the conversation: after the close, the
  timer and the next open (a reachable state), the rooms with their messages, the open room and the
  navigation are as before, every room of the store is asked for on the new socket, once and in
  order, and whatever is tied to the old session (mesh, contacts, markers, voice) has been cleared.
\<close>

theorem reconnect_resumes:
  assumes "ws_reachable V c" and "ws_ref c = Some k" and "status (socket_of c k) = Open"
  shows "let d = reconnected pref k c in
     ws_reachable V d \<and> ws_ref d = Some (next_socket c) \<and> status (socket_of d (next_socket c)) = Open \<and>
     connected (chat d) \<and> rooms (chat d) = rooms (chat c) \<and> activeRoomId (chat d) = activeRoomId (chat c) \<and>
     contextStack (chat d) = contextStack (chat c) \<and>
     filter (\<lambda>m. snd m \<in> join_frame ` set (js_values (rooms (chat c)))) (drop (length (sent c)) (sent d))
       = map (\<lambda>r. (next_socket c, join_frame r)) (js_values (rooms (chat c))) \<and>
     activeVoice (chat d) = None \<and> meshPeers (chat d) = [] \<and> cotContacts (chat d) = [] \<and>
     voiceState (chat d) = []"
proof -
  have inv: "ws_inv c" using assms(1) by (rule ws_reachable_inv)
  have oc: "has_onclose (socket_of c k)" using inv assms(3) by (simp add: ws_inv_def)
  note f = reconnected_fields [OF inv assms(2) oc, of pref]
  have "ws_reachable V (ws_closed k c)"
    using assms by (blast intro: ws_reachable.step closed)
  moreover have "reconnect (ws_closed k c)" using oc by (simp add: ws_closed_def Let_def)
  ultimately have t: "ws_reachable V (ws_timer (ws_closed k c))" by (blast intro: ws_reachable.step timer)
  have "status (socket_of (ws_timer (ws_closed k c)) (next_socket c)) = Connecting"
    using oc by (simp add: ws_timer_def ws_connect_def detach_current_def ws_closed_def Let_def)
  with t have r: "ws_reachable V (reconnected pref k c)"
    unfolding reconnected_def Let_def by (blast intro: ws_reachable.step opened)
  have j: "filter (\<lambda>m. m \<in> join_frame ` set (js_values (rooms (chat c)))) (snd (ws_onopen pref (ws_onclose (chat c))))
      = map join_frame (js_values (rooms (chat c)))"
    using ws_onopen_rejoins [of "ws_onclose (chat c)"] by (simp add: ws_onclose_def setConnected_def)
  then have "filter (\<lambda>m. snd m \<in> join_frame ` set (js_values (rooms (chat c)))) (drop (length (sent c)) (sent (reconnected pref k c)))
       = map (\<lambda>r. (next_socket c, join_frame r)) (js_values (rooms (chat c)))"
    by (simp add: f filter_map comp_def)
  with r show ?thesis
    by (simp add: Let_def f ws_onopen_def ws_onclose_def setConnected_def)
qed

lemma reconnect_resumes_witness:
  "\<exists>c. ws_ref (reconnected [] 0 c) = Some 1 \<and> connected (chat (reconnected [] 0 c))"
proof -
  let ?c = "ws_opened [] 0 (ws_mount init_ws)"
  have m: "ws_reachable V (ws_mount init_ws)" for V
    by (rule ws_reachable.step [OF ws_reachable.start mount]) (simp add: init_ws_def)
  have "status (socket_of (ws_mount init_ws) 0) = Connecting"
    by (simp add: ws_mount_def ws_connect_def detach_current_def init_ws_def Let_def)
  with m have "ws_reachable V ?c" for V by (blast intro: ws_reachable.step opened)
  moreover have "ws_ref ?c = Some 0" "status (socket_of ?c 0) = Open" "next_socket ?c = 1"
    by (simp_all add: ws_opened_def ws_mount_def ws_connect_def detach_current_def init_ws_def Let_def
        case_prod_beta)
  ultimately show ?thesis
    using reconnect_resumes [of _ ?c 0 "[]"] by (auto simp: Let_def)
qed

section \<open>A call and the connection\<close>

text \<open>
  C24. A call does not survive a lost connection, and does not end with it either. After the close,
  the timer and the next open (a reachable state of the page) the voice manager is what it was:
  active, its microphone and its connections to the others as before. The store has forgotten the
  channel, so there is no call strip, and the talk button does nothing; and nothing that is sent on
  the new socket joins the channel again or leaves it.
\<close>

theorem call_outlives_connection:
  assumes "page_reachable V p" and "vm_ref p = Some i" and "active (manager_of p i)"
    and "ws_ref (net p) = Some k" and "status (socket_of (net p) k) = Open"
  shows "let q = p\<lparr>net := reconnected pref k (net p)\<rparr> in
     page_reachable V q \<and> connected (chat (net q)) \<and> activeVoice (chat (net q)) = None \<and>
     call_strip_of (chat (net q)) = None \<and> on_app (handlePTTStart P) q = q \<and>
     vm_ref q = Some i \<and> active (manager_of q i) \<and> gainNode (manager_of q i) = gainNode (manager_of p i) \<and>
     peers (manager_of q i) = peers (manager_of p i) \<and>
     (\<forall>m x. m \<in> set (drop (length (sent (net p))) (sent (net q))) \<longrightarrow>
        snd m \<noteq> Out ''join_voice'' x \<and> snd m \<noteq> Out ''leave_voice'' x)"
proof -
  have inv: "ws_inv (net p)"
    using page_reachable_ok [OF assms(1)] by (auto simp: page_ok_def intro: ws_reachable_inv)
  then have oc: "has_onclose (socket_of (net p) k)" using assms(5) by (simp add: ws_inv_def)
  note f = reconnected_fields [OF inv assms(4) oc, of pref]
  let ?p1 = "p\<lparr>net := ws_closed k (net p)\<rparr>" and ?p2 = "p\<lparr>net := ws_timer (ws_closed k (net p))\<rparr>"
  have "page_reachable V ?p1" using assms(5) by (blast intro: page_reachable.p_next [OF assms(1) p_closed])
  moreover have "reconnect (net ?p1)" using oc by (simp add: ws_closed_def Let_def)
  ultimately have "page_reachable V ?p2" using page_reachable.p_next [OF _ p_timer [of ?p1]] by simp
  moreover have "status (socket_of (net ?p2) (next_socket (net p))) = Connecting"
    using oc by (simp add: ws_timer_def ws_connect_def detach_current_def ws_closed_def Let_def)
  ultimately have r: "page_reachable V (p\<lparr>net := reconnected pref k (net p)\<rparr>)"
    using page_reachable.p_next [OF _ p_opened [of ?p2]] by (simp add: reconnected_def Let_def)
  have quiet: "snd m \<noteq> Out ''join_voice'' x \<and> snd m \<noteq> Out ''leave_voice'' x"
    if "m \<in> set (drop (length (sent (net p))) (sent (reconnected pref k (net p))))" for m x
    using that by (auto simp: f ws_onopen_def join_frame_def Let_def split: if_splits)
  let ?c = "reconnected pref k (net p)" and ?q = "p\<lparr>net := reconnected pref k (net p)\<rparr>"
  have none: "connected (chat ?c)" "activeVoice (chat ?c) = None"
    by (simp_all add: f ws_onopen_def ws_onclose_def setConnected_def)
  then have "call_strip_of (chat ?c) = None" "on_app (handlePTTStart P) ?q = ?q"
    using assms(2) by (simp_all add: call_strip_of_def on_app_def app_view_def handlePTTStart_def
        put_app_def new_frames_def)
  with r none assms(2,3) show ?thesis unfolding Let_def by (intro conjI) (simp_all add: quiet)
qed

lemma call_outlives_connection_witness:
  "\<forall>V. page_reachable V (called_page\<lparr>net := reconnected [] 0 (net called_page)\<rparr>)"
proof
  fix V
  have "status (socket_of (net joined_page) 0) = Connecting"
    by (simp add: joined_page_def page_join_def page_mount_def init_page_def joinVoice_def joinVoice_step_def
      app_view_def joinChannel_def desktop_def put_app_def await_on_def new_voice_manager_def
      ws_mount_def ws_connect_def detach_current_def init_ws_def Let_def)
  then have "page_reachable V called_page"
    unfolding called_page_def by (rule page_reachable.p_next [OF joined_page_facts(1) p_opened])
  moreover have "vm_ref called_page = Some 0" "active (manager_of called_page 0)"
    "ws_ref (net called_page) = Some 0" "status (socket_of (net called_page) 0) = Open"
    using joined_page_facts joined_manager by (simp_all add: called_page_def ws_opened_def case_prod_beta)
  ultimately show "page_reachable V (called_page\<lparr>net := reconnected [] 0 (net called_page)\<rparr>)"
    using call_outlives_connection [of V called_page 0 0 "[]" desktop] by (simp add: Let_def)
qed

section \<open>The push-to-talk button and the connection\<close>

text \<open>
  The button does not survive a lost connection: when the socket closes while it is held, the
  store forgets the voice channel, and releasing the button does nothing any more. The microphone
  stays open on the connections to the other members, the burst is never closed, and the strip with
  the button is gone.
\<close>

lemma ptt_button_stuck_open:
  assumes "app_vm a = Some st" and "active st" and "activeVoice (app_chat a) = Some (rid, cid)"
  shows "let a' = ptt_button P shown MouseUp (on_chat ws_onclose (ptt_button P False MouseDown a)) in
     (\<exists>st'. app_vm a' = Some st' \<and> active st' \<and> \<not> localMicMuted st' \<and> peers st' = peers st \<and>
        (gainNode st \<noteq> None \<longrightarrow> gainNode st' = Some (localInputVolume st))) \<and>
     app_out a' = app_out a @ [Out ''voice_speaking'' (speaking_msg rid cid True)] \<and>
     call_strip_of (app_chat a') = None"
  using assms
  by (auto simp: ptt_button_def handlePTTStart_def handlePTTEnd_def vm_is_active_def ws_onclose_def
      setConnected_def setMuted_def setLocalSpeaking_def call_strip_of_def Let_def split: option.splits)

end
